(* ===== verification/Prelude.thy ===== *)
theory Prelude
  imports Main "HOL-Library.Word" "HOL-Library.Char_ord" "HOL-Library.List_Lexorder"
    "HOL-Library.Signed_Division"
begin

text \<open>
  What the components share.  A Go \<open>string\<close> and the contents of a \<open>[]byte\<close> are a HOL
  \<open>string\<close>: a HOL \<open>char\<close> is exactly one byte.  A slice that may be nil is an
  \<open>option\<close> over a list (\<open>None\<close> is nil, \<open>Some []\<close> the empty, non-nil slice), and so is a
  pointer.  Fixed-width integers are words; Go's \<open>int\<close> is the 64-bit two's complement
  word where its width matters and \<open>nat\<close> where it is the length of an object in memory.
  A Go panic is a value of \<open>panic_value\<close>, carrying the name that
  \<open>reflect.TypeOf(rec).Name()\<close> reports for it.
\<close>

section \<open>Types\<close>

type_synonym u8 = "8 word"
type_synonym u16 = "16 word"
type_synonym u32 = "32 word"
type_synonym u64 = "64 word"
type_synonym i64 = "64 word"
type_synonym bytes = string
type_synonym 'a slice = "'a list option"
type_synonym byte_slice = "char slice"

named_theorems go_defs \<open>definitions of small helpers, unfolded by the component proofs\<close>

section \<open>Slices\<close>

definition elems :: "'a slice \<Rightarrow> 'a list" where
  "elems s = (case s of None \<Rightarrow> [] | Some xs \<Rightarrow> xs)"

definition slice_len :: "'a slice \<Rightarrow> nat" where
  "slice_len s = length (elems s)"

lemma elems_simps [simp]: "elems None = []" "elems (Some xs) = xs"
  by (simp_all add: elems_def)

lemma slice_len_simps [simp]: "slice_len None = 0" "slice_len (Some xs) = length xs"
  by (simp_all add: slice_len_def)

lemma slice_len_0_iff: "slice_len s = 0 \<longleftrightarrow> s = None \<or> s = Some []"
  by (cases s) auto

section \<open>Panics\<close>

datatype panic_value = PanicValue (panic_type: string) (panic_text: string)

datatype 'a go = Return 'a | Panics panic_value

definition nil_deref :: panic_value where
  "nil_deref = PanicValue ''errorString'' ''invalid memory address or nil pointer dereference''"

definition panic_string :: "string \<Rightarrow> panic_value" where
  "panic_string s = PanicValue ''string'' s"

fun go_bind :: "'a go \<Rightarrow> ('a \<Rightarrow> 'b go) \<Rightarrow> 'b go" where
  "go_bind (Return x) f = f x"
| "go_bind (Panics p) f = Panics p"

lemma go_bind_assoc [simp]: "go_bind (go_bind m f) g = go_bind m (\<lambda>x. go_bind (f x) g)"
  by (cases m) simp_all

lemma go_bind_Return_iff:
  "go_bind m f = Return y \<longleftrightarrow> (\<exists>x. m = Return x \<and> f x = Return y)"
  by (cases m) simp_all

section \<open>Bytes\<close>

abbreviation ord :: "char \<Rightarrow> nat" where
  "ord c \<equiv> of_char c"

abbreviation byte_of :: "nat \<Rightarrow> char" where
  "byte_of n \<equiv> char_of n"

lemma ord_byte_of: "n < 256 \<Longrightarrow> ord (byte_of n) = n"
  by simp

section \<open>Lists\<close>

lemma sum_list_replicate_nat: "(\<Sum>x\<leftarrow>xs. (c::nat)) = c * length xs"
  by (induction xs) simp_all

lemma length_concat_map: "length (concat (map f xs)) = (\<Sum>x\<leftarrow>xs. length (f x))"
  by (simp add: length_concat comp_def)

lemma sum_list_0_iff: "(\<Sum>x\<leftarrow>xs. (f x :: nat)) = 0 \<longleftrightarrow> (\<forall>x\<in>set xs. f x = 0)"
  by (induction xs) auto

section \<open>Words\<close>

lemma unat_div_less: "0 < w \<Longrightarrow> unat (w div 10) < unat (w :: 64 word)"
  by (simp add: unat_div_distrib word_greater_zero_iff unat_gt_0)

lemma unat_less_64: "unat (w :: 64 word) < 2 ^ 64"
proof -
  have "unat w < 2 ^ LENGTH(64)" by (rule unsigned_less)
  then show ?thesis by simp
qed

lemma unat_of_nat_64: "n < 2 ^ 64 \<Longrightarrow> unat (of_nat n :: 64 word) = n"
  by (simp add: unsigned_of_nat take_bit_nat_eq_self)

lemma of_nat_64_eq_0: "n < 2 ^ 64 \<Longrightarrow> (of_nat n :: 64 word) = 0 \<longleftrightarrow> n = 0"
  using unat_of_nat_64 [of n] by auto

lemma sint_ucast_32:
  assumes "unat (w :: 64 word) < 2 ^ 31"
  shows "sint (ucast w :: 32 word) = int (unat w)"
proof -
  have "uint w < 2 ^ 31" using assms by (simp flip: of_nat_less_iff [where 'a = int])
  then have "uint (ucast w :: 32 word) = uint w"
    by (simp add: unsigned_ucast_eq take_bit_int_eq_self)
  moreover have "0 \<le> uint w" by simp
  then have "signed_take_bit 31 (uint w) = uint w"
    using \<open>uint w < 2 ^ 31\<close> by (intro signed_take_bit_int_eq_self) linarith+
  ultimately show ?thesis by (simp add: sint_uint)
qed

text \<open>Go's signed division truncates towards zero and wraps at the most negative value.\<close>

definition go_sdiv :: "i64 \<Rightarrow> i64 \<Rightarrow> i64" where
  "go_sdiv a b = word_of_int (sint a sdiv sint b)"

end
