(* ===== verification/GoStd.thy ===== *)
theory GoStd
  imports Prelude
begin

text \<open>
  The parts of Go's standard library that the source computes with: decoding a string into
  runes (\<open>unicode/utf8\<close>, \<open>for range\<close> over a string), decimal integers (\<open>strconv\<close>), hex
  (\<open>encoding/hex\<close>) and base64 (\<open>encoding/base64\<close>, standard alphabet with padding), with the
  round trips the components rely on.
\<close>

section \<open>UTF-8\<close>

definition RuneError :: nat where
  "RuneError = 0xFFFD"

definition is_cont :: "char \<Rightarrow> bool" where
  "is_cont c \<longleftrightarrow> 0x80 \<le> ord c \<and> ord c \<le> 0xBF"

text \<open>
  \<open>utf8.DecodeRuneInString\<close> on a non-empty string: the rune and its width in bytes.  A byte
  that starts no valid encoding is \<open>RuneError\<close> of width 1.
\<close>

definition decode2 :: "nat \<Rightarrow> string \<Rightarrow> (nat \<times> nat) option" where
  "decode2 b0 cs = (case cs of
     c1 # _ \<Rightarrow> if is_cont c1 then Some ((b0 - 0xC0) * 64 + (ord c1 - 0x80), 2) else None
   | [] \<Rightarrow> None)"

definition decode3 :: "nat \<Rightarrow> nat \<Rightarrow> nat \<Rightarrow> string \<Rightarrow> (nat \<times> nat) option" where
  "decode3 lo hi b0 cs = (case cs of
     c1 # c2 # _ \<Rightarrow>
       if lo \<le> ord c1 \<and> ord c1 \<le> hi \<and> is_cont c2
       then Some ((b0 - 0xE0) * 4096 + (ord c1 - 0x80) * 64 + (ord c2 - 0x80), 3) else None
   | _ \<Rightarrow> None)"

definition decode4 :: "nat \<Rightarrow> nat \<Rightarrow> nat \<Rightarrow> string \<Rightarrow> (nat \<times> nat) option" where
  "decode4 lo hi b0 cs = (case cs of
     c1 # c2 # c3 # _ \<Rightarrow>
       if lo \<le> ord c1 \<and> ord c1 \<le> hi \<and> is_cont c2 \<and> is_cont c3
       then Some ((b0 - 0xF0) * 262144 + (ord c1 - 0x80) * 4096 + (ord c2 - 0x80) * 64
                  + (ord c3 - 0x80), 4) else None
   | _ \<Rightarrow> None)"

definition decode_multi :: "nat \<Rightarrow> string \<Rightarrow> (nat \<times> nat) option" where
  "decode_multi b0 cs =
     (if b0 < 0xC2 then None
      else if b0 \<le> 0xDF then decode2 b0 cs
      else if b0 = 0xE0 then decode3 0xA0 0xBF b0 cs
      else if b0 = 0xED then decode3 0x80 0x9F b0 cs
      else if b0 \<le> 0xEF then decode3 0x80 0xBF b0 cs
      else if b0 = 0xF0 then decode4 0x90 0xBF b0 cs
      else if b0 \<le> 0xF3 then decode4 0x80 0xBF b0 cs
      else if b0 = 0xF4 then decode4 0x80 0x8F b0 cs
      else None)"

definition decode_rune :: "char \<Rightarrow> string \<Rightarrow> nat \<times> nat" where
  "decode_rune c cs =
     (if ord c < 0x80 then (ord c, 1)
      else case decode_multi (ord c) cs of Some rw \<Rightarrow> rw | None \<Rightarrow> (RuneError, 1))"

text \<open>Ranging over a string: each rune with the bytes it was decoded from.\<close>

fun runes :: "string \<Rightarrow> (nat \<times> string) list" where
  "runes [] = []"
| "runes (c # cs) =
     (case decode_rune c cs of (r, w) \<Rightarrow> (r, take w (c # cs)) # runes (drop (w - 1) cs))"

declare runes.simps(2) [simp del]

lemma decode_multi_bounds:
  "decode_multi b0 cs = Some (r, w) \<Longrightarrow> 2 \<le> w \<and> w \<le> Suc (length cs) \<and> 0x80 \<le> r"
  by (auto simp: decode_multi_def decode2_def decode3_def decode4_def is_cont_def
      split: if_splits list.splits)

lemma decode_rune_bounds:
  "decode_rune c cs = (r, w) \<Longrightarrow> 1 \<le> w \<and> w \<le> Suc (length cs)"
  by (auto simp: decode_rune_def dest: decode_multi_bounds split: if_splits option.splits)

lemma decode_rune_ascii [simp]: "ord c < 0x80 \<Longrightarrow> decode_rune c cs = (ord c, 1)"
  by (simp add: decode_rune_def)

lemma decode_rune_non_ascii:
  "\<not> ord c < 0x80 \<Longrightarrow> decode_rune c cs = (r, w) \<Longrightarrow> 0x80 \<le> r"
  by (auto simp: decode_rune_def RuneError_def dest: decode_multi_bounds split: option.splits)

lemma runes_ascii_Cons [simp]: "ord c < 0x80 \<Longrightarrow> runes (c # cs) = (ord c, [c]) # runes cs"
  by (simp add: runes.simps(2))

lemma concat_runes: "concat (map snd (runes s)) = s"
proof (induction s rule: runes.induct)
  case 1
  show ?case by simp
next
  case (2 c cs)
  obtain r w where rw: "decode_rune c cs = (r, w)" by fastforce
  with decode_rune_bounds have w: "1 \<le> w" by blast
  with rw 2 have "concat (map snd (runes (drop (w - 1) cs))) = drop (w - 1) cs" by simp
  with rw w show ?case
    by (cases w) (simp_all add: runes.simps(2))
qed

definition ascii :: "string \<Rightarrow> bool" where
  "ascii s \<longleftrightarrow> list_all (\<lambda>c. ord c < 0x80) s"

lemma ascii_simps [simp]:
  "ascii []" "ascii (c # s) \<longleftrightarrow> ord c < 0x80 \<and> ascii s" "ascii (s @ t) \<longleftrightarrow> ascii s \<and> ascii t"
  by (auto simp: ascii_def)

lemma runes_ascii: "ascii s \<Longrightarrow> runes s = map (\<lambda>c. (ord c, [c])) s"
  by (induction s) simp_all

section \<open>Decimal integers\<close>

definition digit :: "nat \<Rightarrow> char" where
  "digit n = byte_of (48 + n)"

definition is_digit :: "char \<Rightarrow> bool" where
  "is_digit c \<longleftrightarrow> 48 \<le> ord c \<and> ord c \<le> 57"

text \<open>\<open>strconv.FormatUint(n, 10)\<close>.\<close>

fun dec :: "nat \<Rightarrow> string" where
  "dec n = (if n < 10 then [digit n] else dec (n div 10) @ [digit (n mod 10)])"

declare dec.simps [simp del]

text \<open>\<open>strconv.FormatInt(i, 10)\<close>.\<close>

definition dec_int :: "int \<Rightarrow> string" where
  "dec_int i = (if i < 0 then CHR ''-'' # dec (nat (- i)) else dec (nat i))"

definition digits_value :: "string \<Rightarrow> nat" where
  "digits_value s = foldl (\<lambda>a c. a * 10 + (ord c - 48)) 0 s"

text \<open>
  \<open>strconv.ParseUint(s, 10, 64)\<close>: only digits, at least one, and the value fits.
  \<open>strconv.ParseInt(s, 10, 64)\<close>: an optional sign in front.
\<close>

definition parse_uint :: "nat \<Rightarrow> string \<Rightarrow> nat option" where
  "parse_uint bits s =
     (if s \<noteq> [] \<and> list_all is_digit s \<and> digits_value s < 2 ^ bits
      then Some (digits_value s) else None)"

definition parse_int64 :: "string \<Rightarrow> int option" where
  "parse_int64 s =
     (let neg = (s \<noteq> [] \<and> hd s = CHR ''-'');
          ds = (if s \<noteq> [] \<and> (hd s = CHR ''-'' \<or> hd s = CHR ''+'') then tl s else s)
      in if ds \<noteq> [] \<and> list_all is_digit ds
            \<and> (if neg then digits_value ds \<le> 2 ^ 63 else digits_value ds < 2 ^ 63)
         then Some (if neg then - int (digits_value ds) else int (digits_value ds)) else None)"

lemma ord_digit: "n < 10 \<Longrightarrow> ord (digit n) = 48 + n"
  by (simp add: digit_def)

lemma digit_lits:
  "digit 0 = CHR ''0''" "digit 1 = CHR ''1''" "digit 2 = CHR ''2''" "digit 3 = CHR ''3''" "digit 4 = CHR ''4''"
  "digit 5 = CHR ''5''" "digit 6 = CHR ''6''" "digit 7 = CHR ''7''" "digit 8 = CHR ''8''" "digit 9 = CHR ''9''"
  by code_simp+

lemma is_digit_digit: "n < 10 \<Longrightarrow> is_digit (digit n)"
  by (simp add: is_digit_def ord_digit)

lemma dec_nonempty [simp]: "dec n \<noteq> []"
  by (subst dec.simps) simp

lemma dec_digits: "list_all is_digit (dec n)"
proof (induction n rule: dec.induct)
  case (1 n)
  then show ?case
    by (cases "n < 10") (simp_all add: dec.simps [of n] is_digit_digit)
qed

lemma dec_ascii [simp]: "ascii (dec n)"
  using dec_digits [of n] by (auto simp: ascii_def list_all_iff is_digit_def)

lemma digits_value_append: "digits_value (s @ [c]) = digits_value s * 10 + (ord c - 48)"
  by (simp add: digits_value_def)

lemma digits_value_dec [simp]: "digits_value (dec n) = n"
proof (induction n rule: dec.induct)
  case (1 n)
  show ?case
  proof (cases "n < 10")
    case True
    then show ?thesis by (simp add: dec.simps [of n] digits_value_def ord_digit)
  next
    case False
    with 1 show ?thesis
      by (simp add: dec.simps [of n] digits_value_append ord_digit)
  qed
qed

lemma parse_uint_dec: "n < 2 ^ bits \<Longrightarrow> parse_uint bits (dec n) = Some n"
  by (simp add: parse_uint_def dec_digits)

lemma dec_hd_digit: "is_digit (hd (dec n))"
  using dec_digits [of n] dec_nonempty [of n] by (cases "dec n") auto

lemma parse_int64_dec_int:
  assumes "- (2 ^ 63) \<le> i" "i < 2 ^ 63"
  shows "parse_int64 (dec_int i) = Some i"
proof (cases "i < 0")
  case True
  with assms show ?thesis
    by (simp add: parse_int64_def dec_int_def dec_digits Let_def)
next
  case False
  have "hd (dec (nat i)) \<noteq> CHR ''-''" "hd (dec (nat i)) \<noteq> CHR ''+''"
    using dec_hd_digit [of "nat i"] by (auto simp: is_digit_def)
  with False assms show ?thesis
    by (simp add: parse_int64_def dec_int_def dec_digits Let_def)
qed

text \<open>The number of decimal digits of \<open>n\<close>.\<close>

lemma length_dec_small: "n < 10 \<Longrightarrow> length (dec n) = 1"
  by (simp add: dec.simps)

lemma length_dec_step: "\<not> n < 10 \<Longrightarrow> length (dec n) = Suc (length (dec (n div 10)))"
  by (subst dec.simps) simp

section \<open>Hex\<close>

datatype hex_error = InvalidByte char | ErrLength

definition hex_digit :: "nat \<Rightarrow> char" where
  "hex_digit n = (if n < 10 then byte_of (48 + n) else byte_of (87 + n))"

definition unhex :: "char \<Rightarrow> nat option" where
  "unhex c =
     (let n = ord c in
      if 48 \<le> n \<and> n \<le> 57 then Some (n - 48)
      else if 97 \<le> n \<and> n \<le> 102 then Some (n - 87)
      else if 65 \<le> n \<and> n \<le> 70 then Some (n - 55)
      else None)"

text \<open>\<open>hex.EncodeToString\<close> and \<open>hex.DecodeString\<close>.\<close>

definition hex_encode :: "string \<Rightarrow> string" where
  "hex_encode s = concat (map (\<lambda>c. [hex_digit (ord c div 16), hex_digit (ord c mod 16)]) s)"

text \<open>The verb \<open>%X\<close> of bytes and strings, \<open>hex::encode_upper\<close> in Rust.\<close>

definition hex_upper :: "string \<Rightarrow> string" where
  "hex_upper s = map (\<lambda>c. if 97 \<le> ord c then byte_of (ord c - 32) else c) (hex_encode s)"

fun hex_decode :: "string \<Rightarrow> hex_error + string" where
  "hex_decode [] = Inr []"
| "hex_decode [c] = (if unhex c = None then Inl (InvalidByte c) else Inl ErrLength)"
| "hex_decode (a # b # s) =
     (case unhex a of
        None \<Rightarrow> Inl (InvalidByte a)
      | Some x \<Rightarrow> (case unhex b of
          None \<Rightarrow> Inl (InvalidByte b)
        | Some y \<Rightarrow> (case hex_decode s of
            Inl e \<Rightarrow> Inl e
          | Inr t \<Rightarrow> Inr (byte_of (16 * x + y) # t))))"

lemma unhex_hex_digit [simp]: "n < 16 \<Longrightarrow> unhex (hex_digit n) = Some n"
  by (simp add: unhex_def hex_digit_def Let_def)

lemma unhex_less: "unhex c = Some n \<Longrightarrow> n < 16"
  by (auto simp: unhex_def Let_def split: if_splits)

lemma ord_div_16 [simp]: "ord c div 16 < 16"
  by (rule less_mult_imp_div_less) simp

lemma char_of_split_16 [simp]: "byte_of (16 * (ord c div 16) + ord c mod 16) = c"
  by simp

lemma hex_decode_encode: "hex_decode (hex_encode s) = Inr s"
  by (induction s) (simp_all add: hex_encode_def)

lemma length_hex_encode: "length (hex_encode s) = 2 * length s"
  by (induction s) (simp_all add: hex_encode_def)

lemma length_hex_decode: "hex_decode s = Inr t \<Longrightarrow> length s = 2 * length t"
proof (induction s arbitrary: t rule: hex_decode.induct)
  case (3 a b s)
  then show ?case by (fastforce split: option.splits sum.splits)
qed (auto split: if_splits)

lemma ascii_hex_encode [simp]: "ascii (hex_encode s)"
proof (induction s)
  case (Cons c s)
  have "ord (hex_digit n) < 0x80" if "n < 16" for n
    using that by (simp add: hex_digit_def)
  with Cons show ?case by (simp add: hex_encode_def)
qed (simp add: hex_encode_def)

section \<open>Base64\<close>

definition b64_char :: "nat \<Rightarrow> char" where
  "b64_char n =
     (if n < 26 then byte_of (65 + n)
      else if n < 52 then byte_of (71 + n)
      else if n < 62 then byte_of (n - 4)
      else if n = 62 then CHR ''+'' else CHR ''/'')"

definition unb64 :: "char \<Rightarrow> nat option" where
  "unb64 c =
     (let n = ord c in
      if 65 \<le> n \<and> n \<le> 90 then Some (n - 65)
      else if 97 \<le> n \<and> n \<le> 122 then Some (n - 71)
      else if 48 \<le> n \<and> n \<le> 57 then Some (n + 4)
      else if n = 43 then Some 62
      else if n = 47 then Some 63 else None)"

text \<open>
  \<open>base64.StdEncoding\<close>: \<open>EncodeToString\<close>, and \<open>DecodeString\<close>, which drops carriage returns
  and newlines and is not strict about the unused low bits of the last group.
\<close>

fun base64 :: "string \<Rightarrow> string" where
  "base64 [] = []"
| "base64 [a] = [b64_char (ord a div 4), b64_char (ord a mod 4 * 16), CHR ''='', CHR ''='']"
| "base64 [a, b] = [b64_char (ord a div 4), b64_char (ord a mod 4 * 16 + ord b div 16),
                    b64_char (ord b mod 16 * 4), CHR ''='']"
| "base64 (a # b # c # s) =
     b64_char (ord a div 4) # b64_char (ord a mod 4 * 16 + ord b div 16) #
     b64_char (ord b mod 16 * 4 + ord c div 64) # b64_char (ord c mod 64) # base64 s"

fun b64_groups :: "string \<Rightarrow> string option" where
  "b64_groups [] = Some []"
| "b64_groups (a # b # c # d # s) =
     (case (unb64 a, unb64 b) of
        (Some w, Some x) \<Rightarrow>
          (if c = CHR ''='' then
             (if d = CHR ''='' \<and> s = [] then Some [byte_of (w * 4 + x div 16)] else None)
           else (case unb64 c of
               None \<Rightarrow> None
             | Some y \<Rightarrow>
                 (if d = CHR ''='' then
                    (if s = [] then Some [byte_of (w * 4 + x div 16), byte_of (x mod 16 * 16 + y div 4)]
                     else None)
                  else (case (unb64 d, b64_groups s) of
                      (Some z, Some t) \<Rightarrow>
                        Some (byte_of (w * 4 + x div 16) # byte_of (x mod 16 * 16 + y div 4) #
                              byte_of (y mod 4 * 64 + z) # t)
                    | _ \<Rightarrow> None))))
      | _ \<Rightarrow> None)"
| "b64_groups _ = None"

definition base64_decode :: "string \<Rightarrow> string option" where
  "base64_decode s = b64_groups (filter (\<lambda>c. c \<noteq> CHR 0x0A \<and> c \<noteq> CHR 0x0D) s)"

definition b64_safe :: "char \<Rightarrow> bool" where
  "b64_safe c \<longleftrightarrow> 43 \<le> ord c \<and> ord c \<le> 122 \<and> ord c \<noteq> 60 \<and> ord c \<noteq> 62 \<and> ord c \<noteq> 92"

lemma ord_b64_char:
  assumes "n < 64"
  shows "b64_safe (b64_char n)" "ord (b64_char n) \<noteq> 61"
proof -
  consider "n < 26" | "26 \<le> n" "n < 52" | "52 \<le> n" "n < 62" | "n = 62" | "n = 63"
    using assms by linarith
  then have "b64_safe (b64_char n) \<and> ord (b64_char n) \<noteq> 61"
    by cases (auto simp: b64_char_def b64_safe_def)
  then show "b64_safe (b64_char n)" "ord (b64_char n) \<noteq> 61" by simp_all
qed

lemma unb64_b64_char [simp]:
  assumes "n < 64"
  shows "unb64 (b64_char n) = Some n"
proof -
  consider "n < 26" | "26 \<le> n" "n < 52" | "52 \<le> n" "n < 62" | "n = 62" | "n = 63"
    using assms by linarith
  then show ?thesis
    by cases (auto simp: unb64_def b64_char_def Let_def)
qed

lemma b64_char_not_pad [simp]: "n < 64 \<Longrightarrow> b64_char n \<noteq> CHR ''=''"
  using ord_b64_char(2) [of n] by auto

lemma b64_char_not_newline [simp]:
  "n < 64 \<Longrightarrow> b64_char n \<noteq> CHR 0x0A" "n < 64 \<Longrightarrow> b64_char n \<noteq> CHR 0x0D"
  using ord_b64_char(1) [of n] by (auto simp: b64_safe_def)

lemma b64_digits [simp]:
  "ord a div 4 < 64" "ord a mod 4 * 16 < 64" "ord a mod 4 * 16 + ord b div 16 < 64"
  "ord b mod 16 * 4 < 64" "ord b mod 16 * 4 + ord c div 64 < 64" "ord c mod 64 < 64"
proof -
  have "ord b div 16 < 16" "ord c div 64 < 4" by (rule less_mult_imp_div_less, simp)+
  moreover have "ord a mod 4 \<le> 3" "ord b mod 16 \<le> 15" by simp_all
  ultimately show "ord a mod 4 * 16 < 64" "ord a mod 4 * 16 + ord b div 16 < 64"
    "ord b mod 16 * 4 < 64" "ord b mod 16 * 4 + ord c div 64 < 64" by linarith+
  show "ord a div 4 < 64" by (rule less_mult_imp_div_less) simp
  show "ord c mod 64 < 64" by simp
qed

lemma b64_join_first: "byte_of (ord a div 4 * 4 + (ord a mod 4 * 16 + ord b div 16) div 16) = a"
proof -
  have "ord b div 16 < 16" by (rule less_mult_imp_div_less) simp
  then have "(ord a mod 4 * 16 + ord b div 16) div 16 = ord a mod 4" by simp
  then show ?thesis by simp
qed

lemma b64_join_second:
  "byte_of ((ord a mod 4 * 16 + ord b div 16) mod 16 * 16 + (ord b mod 16 * 4 + ord c div 64) div 4) = b"
proof -
  have "ord b div 16 < 16" "ord c div 64 < 4" by (rule less_mult_imp_div_less, simp)+
  then have "(ord a mod 4 * 16 + ord b div 16) mod 16 = ord b div 16"
    "(ord b mod 16 * 4 + ord c div 64) div 4 = ord b mod 16" by simp_all
  then show ?thesis by simp
qed

lemma b64_join_third: "byte_of ((ord b mod 16 * 4 + ord c div 64) mod 4 * 64 + ord c mod 64) = c"
proof -
  have "ord c div 64 < 4" by (rule less_mult_imp_div_less) simp
  then have "(ord b mod 16 * 4 + ord c div 64) mod 4 = ord c div 64" by simp
  then show ?thesis by simp
qed

lemma b64_join_single: "byte_of (ord a div 4 * 4 + ord a mod 4 * 16 div 16) = a"
  by simp

lemma b64_join_pair:
  "byte_of ((ord a mod 4 * 16 + ord b div 16) mod 16 * 16 + ord b mod 16 * 4 div 4) = b"
proof -
  have "ord b div 16 < 16" by (rule less_mult_imp_div_less) simp
  then have "(ord a mod 4 * 16 + ord b div 16) mod 16 = ord b div 16" by simp
  then show ?thesis by simp
qed

lemmas b64_joins = b64_join_first b64_join_second b64_join_third b64_join_single b64_join_pair

lemma b64_groups_base64: "b64_groups (base64 s) = Some s"
  by (induction s rule: base64.induct)
    (simp_all only: base64.simps b64_groups.simps unb64_b64_char b64_digits b64_char_not_pad
      b64_joins prod.case option.case if_True if_False simp_thms HOL.refl)

lemma base64_no_newline: "filter (\<lambda>c. c \<noteq> CHR 0x0A \<and> c \<noteq> CHR 0x0D) (base64 s) = base64 s"
  by (induction s rule: base64.induct) simp_all

lemma base64_decode_base64 [simp]: "base64_decode (base64 s) = Some s"
  by (simp add: base64_decode_def base64_no_newline b64_groups_base64)

lemma length_base64: "length (base64 s) = 4 * ((length s + 2) div 3)"
proof (induction s rule: base64.induct)
  case (4 a b c s)
  have "(length (a # b # c # s) + 2) div 3 = (length s + 2) div 3 + 1" by simp
  with 4 show ?case by simp
qed simp_all

lemma base64_safe: "list_all b64_safe (base64 s)"
  by (induction s rule: base64.induct) (simp_all add: ord_b64_char, simp_all add: b64_safe_def)

lemma ascii_base64 [simp]: "ascii (base64 s)"
  using base64_safe [of s] by (auto simp: ascii_def list_all_iff b64_safe_def)

end
