(* ===== verification/GoJson.thy ===== *)
theory GoJson
  imports GoStd
begin

text \<open>
  JSON as \<open>encoding/json\<close> writes it.  A document is a value of \<open>json\<close>: a number is kept as its
  literal, an object as its members in order.  \<open>json_print\<close> is the text \<open>json.Marshal\<close>
  produces (no white space, HTML escaping on); the records of the other theories are turned
  into \<open>json\<close> by one encoder each, built from \<open>fld\<close> and \<open>fld_omit\<close> in the order of the struct's
  fields and tags.
\<close>

section \<open>Documents\<close>

datatype json =
    JNull
  | JBool bool
  | JNum string
  | JStr string
  | JArr "json list"
  | JObj "(string \<times> json) list"

section \<open>Strings\<close>

text \<open>
  \<open>appendString\<close> of \<open>encoding/json\<close> with HTML escaping.  Bytes that are no valid UTF-8 become
  the escape of the replacement character; U+2028 and U+2029 are escaped.
\<close>

definition esc_ascii :: "nat \<Rightarrow> string \<Rightarrow> string" where
  "esc_ascii r bs =
     (if r = 0x22 \<or> r = 0x5C then [CHR 0x5C, byte_of r]
      else if r = 0x08 then [CHR 0x5C, CHR ''b'']
      else if r = 0x0C then [CHR 0x5C, CHR ''f'']
      else if r = 0x0A then [CHR 0x5C, CHR ''n'']
      else if r = 0x0D then [CHR 0x5C, CHR ''r'']
      else if r = 0x09 then [CHR 0x5C, CHR ''t'']
      else if r < 0x20 \<or> r = 0x3C \<or> r = 0x3E \<or> r = 0x26
        then CHR 0x5C # ''u00'' @ [hex_digit (r div 16), hex_digit (r mod 16)]
      else bs)"

fun esc_rune :: "nat \<times> string \<Rightarrow> string" where
  "esc_rune (r, bs) =
     (if r < 0x80 then esc_ascii r bs
      else if r = RuneError \<and> length bs = 1 then CHR 0x5C # ''ufffd''
      else if r = 0x2028 \<or> r = 0x2029 then CHR 0x5C # ''u202'' @ [hex_digit (r mod 16)]
      else bs)"

definition json_quote :: "string \<Rightarrow> string" where
  "json_quote s = CHR 0x22 # concat (map esc_rune (runes s)) @ [CHR 0x22]"

section \<open>Documents as text\<close>

fun commas :: "string list \<Rightarrow> string" where
  "commas [] = []"
| "commas [x] = x"
| "commas (x # y # ys) = x @ CHR '','' # commas (y # ys)"

fun json_print :: "json \<Rightarrow> string" where
  "json_print JNull = ''null''"
| "json_print (JBool b) = (if b then ''true'' else ''false'')"
| "json_print (JNum s) = s"
| "json_print (JStr s) = json_quote s"
| "json_print (JArr xs) = CHR ''['' # commas (map json_print xs) @ [CHR '']'']"
| "json_print (JObj kvs) =
     CHR 0x7B # commas (map (\<lambda>(k, v). json_quote k @ CHR '':'' # json_print v) kvs) @ [CHR 0x7D]"

text \<open>\<open>json.Marshal\<close>.  It cannot fail on the types the source passes to it.\<close>

definition json_Marshal :: "json \<Rightarrow> string + string" where
  "json_Marshal j = Inr (json_print j)"

section \<open>Encoding Go values\<close>

definition fld :: "string \<Rightarrow> json \<Rightarrow> (string \<times> json) list" where
  "fld k v = [(k, v)]"

text \<open>A field with the \<open>omitempty\<close> option, given whether the value is empty.\<close>

definition fld_omit :: "string \<Rightarrow> bool \<Rightarrow> json \<Rightarrow> (string \<times> json) list" where
  "fld_omit k is_empty v = (if is_empty then [] else [(k, v)])"

definition json_uint :: "nat \<Rightarrow> json" where
  "json_uint n = JNum (dec n)"

definition json_u64 :: "u64 \<Rightarrow> json" where
  "json_u64 w = json_uint (unat w)"

definition json_u32 :: "u32 \<Rightarrow> json" where
  "json_u32 w = json_uint (unat w)"

definition json_u16 :: "u16 \<Rightarrow> json" where
  "json_u16 w = json_uint (unat w)"

text \<open>A field with the \<open>string\<close> option: the number in quotes.\<close>

definition json_u64_quoted :: "u64 \<Rightarrow> json" where
  "json_u64_quoted w = JStr (dec (unat w))"

text \<open>A \<open>[]byte\<close>: base64 in quotes, or null for nil.\<close>

definition json_bytes :: "byte_slice \<Rightarrow> json" where
  "json_bytes b = (case b of None \<Rightarrow> JNull | Some s \<Rightarrow> JStr (base64 s))"

text \<open>A pointer without a custom marshaller, and a plain slice: null for nil.\<close>

definition json_ptr :: "('a \<Rightarrow> json) \<Rightarrow> 'a option \<Rightarrow> json" where
  "json_ptr f p = (case p of None \<Rightarrow> JNull | Some x \<Rightarrow> f x)"

definition json_slice :: "('a \<Rightarrow> json) \<Rightarrow> 'a slice \<Rightarrow> json" where
  "json_slice f s = (case s of None \<Rightarrow> JNull | Some xs \<Rightarrow> JArr (map f xs))"

section \<open>Lengths\<close>

lemma length_commas: "length (commas xs) = (\<Sum>x\<leftarrow>xs. length x) + (length xs - 1)"
  by (induction xs rule: commas.induct) simp_all

lemma commas_Cons: "xs \<noteq> [] \<Longrightarrow> commas (x # xs) = x @ CHR '','' # commas xs"
  by (cases xs) simp_all

lemma length_json_quote: "length (json_quote s) = 2 + (\<Sum>rb\<leftarrow>runes s. length (esc_rune rb))"
  by (simp add: json_quote_def length_concat_map)

end
