(* ===== verification/JsonParse.thy ===== *)
theory JsonParse
  imports GoJson
begin

text \<open>
  JSON text as \<open>encoding/json\<close> reads it: \<open>json_parse\<close> is the scanner and the string decoder of
  \<open>json.Unmarshal\<close> up to the document.  Escapes are decoded, a lone surrogate and a byte that is
  no valid UTF-8 become the replacement character, and nesting deeper than \<open>maxNestingDepth\<close> is an
  error.  The recursion is bounded by fuel; \<open>parse_fuel\<close> shows that the fuel \<open>json_parse\<close>
  gives is always enough.
\<close>

section \<open>White space, numbers, literals\<close>

definition is_ws :: "char \<Rightarrow> bool" where
  "is_ws c \<longleftrightarrow> c = CHR 0x20 \<or> c = CHR 0x09 \<or> c = CHR 0x0A \<or> c = CHR 0x0D"

definition skip_ws :: "string \<Rightarrow> string" where
  "skip_ws s = dropWhile is_ws s"

fun match_lit :: "string \<Rightarrow> string \<Rightarrow> string option" where
  "match_lit [] s = Some s"
| "match_lit (x # xs) [] = None"
| "match_lit (x # xs) (y # ys) = (if x = y then match_lit xs ys else None)"

definition num_int :: "string \<Rightarrow> (string \<times> string) option" where
  "num_int s = (case s of
     [] \<Rightarrow> None
   | c # r \<Rightarrow>
       if c = CHR ''0'' then Some ([c], r)
       else if is_digit c then Some (takeWhile is_digit s, dropWhile is_digit s)
       else None)"

definition num_frac :: "string \<Rightarrow> (string \<times> string) option" where
  "num_frac s = (case s of
     [] \<Rightarrow> Some ([], [])
   | c # r \<Rightarrow>
       if c = CHR ''.'' then
         (if takeWhile is_digit r = [] then None
          else Some (c # takeWhile is_digit r, dropWhile is_digit r))
       else Some ([], s))"

definition num_exp :: "string \<Rightarrow> (string \<times> string) option" where
  "num_exp s = (case s of
     [] \<Rightarrow> Some ([], [])
   | c # r \<Rightarrow>
       if c = CHR ''e'' \<or> c = CHR ''E'' then
         (let sgn = (if r \<noteq> [] \<and> (hd r = CHR ''+'' \<or> hd r = CHR ''-'') then [hd r] else []);
              ds = drop (length sgn) r
          in if takeWhile is_digit ds = [] then None
             else Some (c # sgn @ takeWhile is_digit ds, dropWhile is_digit ds))
       else Some ([], s))"

definition parse_number :: "string \<Rightarrow> (string \<times> string) option" where
  "parse_number s =
     (let neg = (if s \<noteq> [] \<and> hd s = CHR ''-'' then [CHR ''-''] else []) in
      case num_int (drop (length neg) s) of
        None \<Rightarrow> None
      | Some (i, r) \<Rightarrow> (case num_frac r of
          None \<Rightarrow> None
        | Some (f, r') \<Rightarrow> (case num_exp r' of
            None \<Rightarrow> None
          | Some (e, r'') \<Rightarrow> Some (neg @ i @ f @ e, r''))))"

section \<open>Strings\<close>

text \<open>\<open>utf8.AppendRune\<close> for a rune in range.\<close>

definition encode_rune :: "nat \<Rightarrow> string" where
  "encode_rune r =
     (if r < 0x80 then [byte_of r]
      else if r < 0x800 then [byte_of (0xC0 + r div 64), byte_of (0x80 + r mod 64)]
      else if r < 0x10000 then
        [byte_of (0xE0 + r div 4096), byte_of (0x80 + r div 64 mod 64), byte_of (0x80 + r mod 64)]
      else
        [byte_of (0xF0 + r div 262144), byte_of (0x80 + r div 4096 mod 64),
         byte_of (0x80 + r div 64 mod 64), byte_of (0x80 + r mod 64)])"

text \<open>\<open>getu4\<close> after the backslash and the \<open>u\<close>: four hex digits.\<close>

definition hex4 :: "string \<Rightarrow> (nat \<times> string) option" where
  "hex4 s = (case s of
     a # b # c # d # r \<Rightarrow>
       (case (unhex a, unhex b, unhex c, unhex d) of
          (Some w, Some x, Some y, Some z) \<Rightarrow> Some (((w * 16 + x) * 16 + y) * 16 + z, r)
        | _ \<Rightarrow> None)
   | _ \<Rightarrow> None)"

definition is_high_surrogate :: "nat \<Rightarrow> bool" where
  "is_high_surrogate r \<longleftrightarrow> 0xD800 \<le> r \<and> r < 0xDC00"

definition is_low_surrogate :: "nat \<Rightarrow> bool" where
  "is_low_surrogate r \<longleftrightarrow> 0xDC00 \<le> r \<and> r < 0xE000"

text \<open>The second half of a surrogate pair, if the text goes on with one.\<close>

definition low_half :: "string \<Rightarrow> (nat \<times> string) option" where
  "low_half s = (case s of
     b # u # r \<Rightarrow>
       if b = CHR 0x5C \<and> u = CHR ''u'' then
         (case hex4 r of
            Some (v, r') \<Rightarrow> if is_low_surrogate v then Some (v, r') else None
          | None \<Rightarrow> None)
       else None
   | _ \<Rightarrow> None)"

definition unescape_u :: "string \<Rightarrow> (string \<times> string) option" where
  "unescape_u s = (case hex4 s of
     None \<Rightarrow> None
   | Some (v, r) \<Rightarrow>
       if is_high_surrogate v then
         (case low_half r of
            Some (v2, r') \<Rightarrow>
              Some (encode_rune (0x10000 + (v - 0xD800) * 0x400 + (v2 - 0xDC00)), r')
          | None \<Rightarrow> Some (encode_rune RuneError, r))
       else if is_low_surrogate v then Some (encode_rune RuneError, r)
       else Some (encode_rune v, r))"

definition unescape :: "string \<Rightarrow> (string \<times> string) option" where
  "unescape s = (case s of
     [] \<Rightarrow> None
   | e # r \<Rightarrow>
       if e = CHR 0x22 \<or> e = CHR 0x5C \<or> e = CHR ''/'' then Some ([e], r)
       else if e = CHR ''b'' then Some ([CHR 0x08], r)
       else if e = CHR ''f'' then Some ([CHR 0x0C], r)
       else if e = CHR ''n'' then Some ([CHR 0x0A], r)
       else if e = CHR ''r'' then Some ([CHR 0x0D], r)
       else if e = CHR ''t'' then Some ([CHR 0x09], r)
       else if e = CHR ''u'' then unescape_u r
       else None)"

text \<open>One character, escape or rune of a string body: the bytes it stands for and the rest.\<close>

definition string_item :: "char \<Rightarrow> string \<Rightarrow> (string \<times> string) option" where
  "string_item c cs =
     (if c = CHR 0x5C then unescape cs
      else if ord c < 0x20 then None
      else case decode_rune c cs of (r, w) \<Rightarrow>
        if r = RuneError \<and> w = 1 then Some (encode_rune RuneError, cs)
        else Some (take w (c # cs), drop (w - 1) cs))"

lemma hex4_length: "hex4 s = Some (v, r) \<Longrightarrow> length r < length s"
  by (auto simp: hex4_def split: list.splits option.splits)

lemma low_half_length: "low_half s = Some (v, r) \<Longrightarrow> length r < length s"
  by (auto simp: low_half_def dest: hex4_length split: list.splits option.splits if_splits)

lemma unescape_length: "unescape s = Some (t, r) \<Longrightarrow> length r < length s"
  by (fastforce simp: unescape_def unescape_u_def dest: hex4_length low_half_length
      split: list.splits option.splits if_splits)

lemma string_item_length: "string_item c cs = Some (t, r) \<Longrightarrow> length r \<le> length cs"
  by (fastforce simp: string_item_def dest: unescape_length split: if_splits prod.splits)

function parse_str :: "string \<Rightarrow> (string \<times> string) option" where
  "parse_str [] = None"
| "parse_str (c # cs) =
     (if c = CHR 0x22 then Some ([], cs)
      else case string_item c cs of
          None \<Rightarrow> None
        | Some (t, r) \<Rightarrow> (case parse_str r of
            None \<Rightarrow> None
          | Some (s, r') \<Rightarrow> Some (t @ s, r')))"
  by pat_completeness auto
termination
  by (relation "measure length") (auto dest: string_item_length)

declare parse_str.simps(2) [simp del]

section \<open>Values\<close>

definition maxNestingDepth :: nat where
  "maxNestingDepth = 10000"

text \<open>The key of a member with its colon.\<close>

definition parse_key :: "string \<Rightarrow> (string \<times> string) option" where
  "parse_key s = (case skip_ws s of
     [] \<Rightarrow> None
   | q # r \<Rightarrow>
       if q \<noteq> CHR 0x22 then None
       else (case parse_str r of
         None \<Rightarrow> None
       | Some (k, r') \<Rightarrow> map_option (Pair k) (match_lit '':'' (skip_ws r'))))"

text \<open>
  \<open>parse_value\<close>, the elements of an array and the members of an object.  The first argument is
  fuel, the second how much deeper the text may nest.
\<close>

fun parse_value :: "nat \<Rightarrow> nat \<Rightarrow> string \<Rightarrow> (json \<times> string) option"
  and parse_elems :: "nat \<Rightarrow> nat \<Rightarrow> string \<Rightarrow> (json list \<times> string) option"
  and parse_members :: "nat \<Rightarrow> nat \<Rightarrow> string \<Rightarrow> ((string \<times> json) list \<times> string) option" where
  "parse_value 0 d s = None"
| "parse_value (Suc n) d s = (case skip_ws s of
     [] \<Rightarrow> None
   | c # r \<Rightarrow>
       if c = CHR 0x22 then map_option (map_prod JStr id) (parse_str r)
       else if c = CHR ''['' then
         (if d = 0 then None
          else if match_lit '']'' (skip_ws r) \<noteq> None
            then map_option (Pair (JArr [])) (match_lit '']'' (skip_ws r))
          else map_option (map_prod JArr id) (parse_elems n (d - 1) r))
       else if c = CHR 0x7B then
         (if d = 0 then None
          else if match_lit [CHR 0x7D] (skip_ws r) \<noteq> None
            then map_option (Pair (JObj [])) (match_lit [CHR 0x7D] (skip_ws r))
          else map_option (map_prod JObj id) (parse_members n (d - 1) r))
       else if c = CHR ''t'' then map_option (Pair (JBool True)) (match_lit ''rue'' r)
       else if c = CHR ''f'' then map_option (Pair (JBool False)) (match_lit ''alse'' r)
       else if c = CHR ''n'' then map_option (Pair JNull) (match_lit ''ull'' r)
       else map_option (map_prod JNum id) (parse_number (c # r)))"
| "parse_elems 0 d s = None"
| "parse_elems (Suc n) d s = (case parse_value n d s of
     None \<Rightarrow> None
   | Some (v, r) \<Rightarrow> (case skip_ws r of
       [] \<Rightarrow> None
     | c # r' \<Rightarrow>
         if c = CHR '','' then map_option (map_prod ((#) v) id) (parse_elems n d r')
         else if c = CHR '']'' then Some ([v], r')
         else None))"
| "parse_members 0 d s = None"
| "parse_members (Suc n) d s = (case parse_key s of
     None \<Rightarrow> None
   | Some (k, r0) \<Rightarrow> (case parse_value n d r0 of
       None \<Rightarrow> None
     | Some (v, r) \<Rightarrow> (case skip_ws r of
         [] \<Rightarrow> None
       | c # r' \<Rightarrow>
           if c = CHR '','' then map_option (map_prod ((#) (k, v)) id) (parse_members n d r')
           else if c = CHR 0x7D then Some ([(k, v)], r')
           else None)))"

definition json_parse :: "string \<Rightarrow> json option" where
  "json_parse s = (case parse_value (2 * length s + 2) maxNestingDepth s of
     None \<Rightarrow> None
   | Some (j, r) \<Rightarrow> if skip_ws r = [] then Some j else None)"

section \<open>Lengths and fuel\<close>

lemma skip_ws_length: "length (skip_ws s) \<le> length s"
  by (simp add: skip_ws_def length_dropWhile_le)

lemma skip_ws_Cons: "skip_ws s = c # r \<Longrightarrow> length r < length s"
  using skip_ws_length [of s] by simp

lemma match_lit_length: "match_lit l s = Some r \<Longrightarrow> length r + length l = length s"
  by (induction l s rule: match_lit.induct) (auto split: if_splits)

lemma parse_str_length: "parse_str s = Some (t, r) \<Longrightarrow> length r < length s"
proof (induction s arbitrary: t r rule: parse_str.induct)
  case (2 c cs)
  then show ?case
    by (fastforce simp: parse_str.simps(2) dest: string_item_length split: if_splits option.splits)
qed simp

lemma num_int_length: "num_int s = Some (i, r) \<Longrightarrow> length r < length s"
  using length_dropWhile_le [of is_digit]
  by (auto simp: num_int_def le_imp_less_Suc split: list.splits if_splits)

lemma num_frac_length: "num_frac s = Some (i, r) \<Longrightarrow> length r \<le> length s"
  using length_dropWhile_le [of is_digit]
  by (auto simp: num_frac_def le_Suc_eq split: list.splits if_splits)

lemma num_exp_length: 
  assumes "num_exp s = Some (i, r)" shows "length r \<le> length s"
proof -
  have "length (dropWhile is_digit (drop n x)) \<le> length x" for n x
    using length_dropWhile_le [of is_digit "drop n x"] by simp
  with assms show ?thesis
    by (auto simp: num_exp_def Let_def le_SucI length_dropWhile_le split: list.splits if_splits)
qed

lemma parse_number_length: "parse_number s = Some (i, r) \<Longrightarrow> length r < length s"
  by (fastforce simp: parse_number_def Let_def dest: num_int_length num_frac_length num_exp_length
      split: if_splits option.splits)

lemma parse_key_length:
  assumes "parse_key s = Some (k, r)"
  shows "length r < length s"
proof -
  from assms obtain r0 r1 where "skip_ws s = CHR 0x22 # r0" "parse_str r0 = Some (k, r1)"
    "match_lit '':'' (skip_ws r1) = Some r"
    by (auto simp: parse_key_def split: list.splits if_splits option.splits)
  then show ?thesis
    using skip_ws_Cons [of s] parse_str_length [of r0 k r1] match_lit_length [of "'':''" "skip_ws r1" r]
      skip_ws_length [of r1] by fastforce
qed

lemma parse_lengths:
  "parse_value n d s = Some (v, r) \<Longrightarrow> length r < length s"
  "parse_elems n d s = Some (vs, r) \<Longrightarrow> length r < length s"
  "parse_members n d s = Some (kvs, r) \<Longrightarrow> length r < length s"
proof (induction n d s and n d s and n d s arbitrary: v r and vs r and kvs r
    rule: parse_value_parse_elems_parse_members.induct)
  case (2 n d s)
  show ?case
  proof (cases "skip_ws s")
    case Nil
    with "2.prems" show ?thesis by simp
  next
    case (Cons c r')
    note len = skip_ws_Cons [OF Cons]
    note sk = skip_ws_length [of r']
    have arr: "length r < length r'"
      if "c = CHR ''[''" "0 < d" "match_lit '']'' (skip_ws r') = None"
        "parse_elems n (d - Suc 0) r' = Some (a, r)" for a
      using "2.IH"(1) [OF Cons] that by simp
    have obj: "length r < length r'"
      if "c = CHR 0x7B" "0 < d" "match_lit [CHR 0x7D] (skip_ws r') = None"
        "parse_members n (d - Suc 0) r' = Some (a, r)" for a
      using "2.IH"(2) [OF Cons] that by simp
    have "(\<exists>t. parse_str r' = Some (t, r)) \<or> (\<exists>l. match_lit l (skip_ws r') = Some r)
        \<or> (\<exists>l. match_lit l r' = Some r) \<or> (\<exists>t. parse_number (c # r') = Some (t, r))
        \<or> length r < length r'"
      using "2.prems" Cons arr obj by (simp split: if_splits) blast+
    then show ?thesis
      using len sk
      by (auto dest!: parse_str_length match_lit_length parse_number_length)
  qed
next
  case (4 n d s)
  then show ?case
    by (fastforce dest: skip_ws_Cons split: option.splits list.splits if_splits)
next
  case (6 n d s)
  then show ?case
    by (fastforce dest!: parse_key_length dest: skip_ws_Cons split: option.splits list.splits if_splits)
qed simp_all

lemma parse_fuel:
  "2 * length s < n \<Longrightarrow> 2 * length s < m \<Longrightarrow> parse_value n d s = parse_value m d s"
  "2 * length s + 1 < n \<Longrightarrow> 2 * length s + 1 < m \<Longrightarrow> parse_elems n d s = parse_elems m d s"
  "2 * length s + 1 < n \<Longrightarrow> 2 * length s + 1 < m \<Longrightarrow> parse_members n d s = parse_members m d s"
proof (induction n d s and n d s and n d s arbitrary: m and m and m
    rule: parse_value_parse_elems_parse_members.induct)
  case (2 n d s)
  from "2.prems" obtain m' where m: "m = Suc m'" by (cases m) auto
  show ?case
  proof (cases "skip_ws s")
    case (Cons c r)
    note len = skip_ws_Cons [OF Cons]
    have "parse_elems n (d - 1) r = parse_elems m' (d - 1) r"
      if "c = CHR ''[''" "d \<noteq> 0" "match_lit '']'' (skip_ws r) = None"
      using "2.IH"(1) [OF Cons] that "2.prems" len m by simp
    moreover have "parse_members n (d - 1) r = parse_members m' (d - 1) r"
      if "c = CHR 0x7B" "d \<noteq> 0" "match_lit [CHR 0x7D] (skip_ws r) = None"
      using "2.IH"(2) [OF Cons] that "2.prems" len m by simp
    ultimately show ?thesis using Cons m by simp
  qed (simp add: m)
next
  case (4 n d s)
  from "4.prems" obtain m' where m: "m = Suc m'" by (cases m) auto
  have v: "parse_value n d s = parse_value m' d s" using "4.IH"(1) [of m'] "4.prems" m by simp
  have e: "parse_elems n d r' = parse_elems m' d r'"
    if "parse_value n d s = Some (x, r)" "skip_ws r = CHR '','' # r'" for x r r'
    using "4.IH"(2) [OF that(1) HOL.refl that(2) HOL.refl, of m'] "4.prems" m
      parse_lengths(1) [OF that(1)] skip_ws_Cons [OF that(2)] by simp
  show ?case
    using v by (auto simp: m e split: option.split list.split)
next
  case (6 n d s)
  from "6.prems" obtain m' where m: "m = Suc m'" by (cases m) auto
  have v: "parse_value n d r0 = parse_value m' d r0" if "parse_key s = Some (k, r0)" for k r0
    using "6.IH"(1) [OF that HOL.refl, of m'] "6.prems" m parse_key_length [OF that] by simp
  have e: "parse_members n d r' = parse_members m' d r'"
    if "parse_key s = Some (k, r0)" "parse_value n d r0 = Some (x, r)" "skip_ws r = CHR '','' # r'" for k r0 x r r'
    using "6.IH"(2) [OF that(1) HOL.refl that(2) HOL.refl that(3) HOL.refl, of m'] "6.prems" m
      parse_key_length [OF that(1)] parse_lengths(1) [OF that(2)] skip_ws_Cons [OF that(3)] by simp
  show ?case
  proof (cases "parse_key s")
    case (Some kr)
    obtain k r0 where kr: "kr = (k, r0)" by fastforce
    show ?thesis using v [OF Some [unfolded kr]] e [OF Some [unfolded kr]]
      by (auto simp: m Some kr split: option.split list.split)
  qed (simp add: m)
qed simp_all

section \<open>Strings read back\<close>

definition rune_valid :: "nat \<times> string \<Rightarrow> bool" where
  "rune_valid rb \<longleftrightarrow> \<not> (fst rb = RuneError \<and> length (snd rb) = 1)"

definition utf8_valid :: "string \<Rightarrow> bool" where
  "utf8_valid s \<longleftrightarrow> list_all rune_valid (runes s)"

lemma decode_multi_stable:
  "decode_multi b0 cs = Some (r, w) \<Longrightarrow> decode_multi b0 (take (w - 1) cs @ t) = Some (r, w)"
  by (auto simp: decode_multi_def decode2_def decode3_def decode4_def
      split: if_splits list.splits)

definition rune_chunk :: "nat \<times> string \<Rightarrow> bool" where
  "rune_chunk rb \<longleftrightarrow>
     (\<exists>c cs. snd rb = c # cs \<and> (\<forall>t. decode_rune c (cs @ t) = (fst rb, length (snd rb))))"

lemma runes_chunk: "rb \<in> set (runes s) \<Longrightarrow> rune_valid rb \<Longrightarrow> rune_chunk rb"
proof (induction s rule: runes.induct)
  case (2 c cs)
  obtain r w where rw: "decode_rune c cs = (r, w)" by fastforce
  have w: "1 \<le> w" "w \<le> Suc (length cs)" using decode_rune_bounds [OF rw] by auto
  then obtain w' where w': "w = Suc w'" "w' \<le> length cs" by (cases w) auto
  have "rune_chunk (r, take w (c # cs))" if v: "rune_valid (r, take w (c # cs))"
  proof (cases "ord c < 0x80")
    case True
    with rw show ?thesis by (auto simp: rune_chunk_def)
  next
    case False
    with rw v w have "decode_multi (ord c) cs = Some (r, w)"
      by (auto simp: decode_rune_def rune_valid_def split: option.splits)
    from decode_multi_stable [OF this] False w' show ?thesis
      by (auto simp: rune_chunk_def decode_rune_def)
  qed
  with 2 rw show ?case by (auto simp: runes.simps(2))
qed simp

lemma decode_line_separator:
  assumes "decode_rune c cs = (r, w)" "r = 0x2028 \<or> r = 0x2029"
  shows "take w (c # cs) = encode_rune r"
proof -
  from assms have "\<not> ord c < 0x80" by (auto simp: decode_rune_def)
  with assms have "decode_multi (ord c) cs = Some (r, w)"
    by (auto simp: decode_rune_def RuneError_def split: option.splits)
  then obtain c1 c2 ds where
    cs: "cs = c1 # c2 # ds" "w = 3" "0x80 \<le> ord c1" "is_cont c1" "is_cont c2" "0xE0 \<le> ord c" and
    r: "r = (ord c - 0xE0) * 4096 + (ord c1 - 0x80) * 64 + (ord c2 - 0x80)"
    using assms(2)
    by (auto simp: decode_multi_def decode2_def decode3_def decode4_def is_cont_def
        split: if_splits list.splits)
  then have b: "ord c1 \<le> 0xBF" "0x80 \<le> ord c2" "ord c2 \<le> 0xBF" by (auto simp: is_cont_def)
  from r b cs have c: "ord c = 0xE2" using assms(2) by auto
  from r b cs have c1: "ord c1 = 0x80" using assms(2) unfolding c by auto
  from r b cs have "ord c2 = 0x80 + r mod 64" using assms(2) unfolding c c1 by auto
  with c c1 have "c = byte_of 0xE2" "c1 = byte_of 0x80" "c2 = byte_of (0x80 + r mod 64)"
    by (metis char_of_char)+
  then show ?thesis using cs assms(2) by (auto simp: encode_rune_def)
qed

lemma hex_digit_lits: "CHR ''0'' = hex_digit 0" "CHR ''2'' = hex_digit 2"
  by code_simp+

lemma hex4_digits:
  "w < 16 \<Longrightarrow> x < 16 \<Longrightarrow> y < 16 \<Longrightarrow> z < 16 \<Longrightarrow>
   hex4 (hex_digit w # hex_digit x # hex_digit y # hex_digit z # t) = Some (((w * 16 + x) * 16 + y) * 16 + z, t)"
  by (simp add: hex4_def)

lemma unescape_u00:
  assumes "r < 0x80"
  shows "unescape (CHR ''u'' # CHR ''0'' # CHR ''0'' # hex_digit (r div 16) # hex_digit (r mod 16) # t)
    = Some ([byte_of r], t)"
proof -
  have "hex4 (hex_digit 0 # hex_digit 0 # hex_digit (r div 16) # hex_digit (r mod 16) # t) = Some (r, t)"
    using assms by (subst hex4_digits) simp_all
  then have "hex4 (CHR ''0'' # CHR ''0'' # hex_digit (r div 16) # hex_digit (r mod 16) # t) = Some (r, t)"
    by (simp only: hex_digit_lits)
  with assms show ?thesis
    by (simp add: unescape_def unescape_u_def is_high_surrogate_def is_low_surrogate_def encode_rune_def)
qed

lemma unescape_u202:
  assumes "r = 0x2028 \<or> r = 0x2029"
  shows "unescape (CHR ''u'' # CHR ''2'' # CHR ''0'' # CHR ''2'' # hex_digit (r mod 16) # t)
    = Some (encode_rune r, t)"
proof -
  have "hex4 (hex_digit 2 # hex_digit 0 # hex_digit 2 # hex_digit (r mod 16) # t) = Some (r, t)"
    using assms by (subst hex4_digits) auto
  then have "hex4 (CHR ''2'' # CHR ''0'' # CHR ''2'' # hex_digit (r mod 16) # t) = Some (r, t)"
    by (simp only: hex_digit_lits)
  with assms show ?thesis
    by (auto simp: unescape_def unescape_u_def is_high_surrogate_def is_low_surrogate_def)
qed

lemma byte_mem:
  "ord c \<in> {0x22, 0x5C, 0x08, 0x0C, 0x0A, 0x0D, 0x09}
    \<Longrightarrow> c \<in> {CHR 0x22, CHR 0x5C, CHR 0x08, CHR 0x0C, CHR 0x0A, CHR 0x0D, CHR 0x09}"
proof -
  have img: "{0x22, 0x5C, 0x08, 0x0C, 0x0A, 0x0D, 0x09}
      = ord ` {CHR 0x22, CHR 0x5C, CHR 0x08, CHR 0x0C, CHR 0x0A, CHR 0x0D, CHR 0x09}"
    by simp
  assume "ord c \<in> {0x22, 0x5C, 0x08, 0x0C, 0x0A, 0x0D, 0x09}"
  then show ?thesis
    unfolding img by (simp only: inj_image_mem_iff [OF inj_of_char])
qed

lemma esc_simple:
  assumes "c \<in> {CHR 0x22, CHR 0x5C, CHR 0x08, CHR 0x0C, CHR 0x0A, CHR 0x0D, CHR 0x09}"
  shows "\<exists>e. esc_ascii (ord c) bs = [CHR 0x5C, e] \<and> unescape (e # t) = Some ([c], t)"
proof -
  have "byte_of (ord c) = c" by simp
  with assms show ?thesis
    by (elim insertE) (simp_all add: esc_ascii_def unescape_def)
qed

lemma esc_u00:
  assumes "r < 0x20 \<or> r = 0x3C \<or> r = 0x3E \<or> r = 0x26" "r \<notin> {0x08, 0x0C, 0x0A, 0x0D, 0x09}"
  shows "esc_ascii r bs = CHR 0x5C # ''u00'' @ [hex_digit (r div 16), hex_digit (r mod 16)]"
proof -
  from assms(1) have "r \<noteq> 0x22" "r \<noteq> 0x5C" by auto
  with assms show ?thesis unfolding esc_ascii_def by (simp only: insert_iff de_Morgan_disj if_True if_False simp_thms)
qed

text \<open>One rune, as it is written and read: of ASCII and beyond.\<close>

lemma string_item_ascii:
  assumes "ord c < 0x80"
  shows "\<exists>h e. esc_rune (ord c, [c]) = h # e \<and> h \<noteq> CHR 0x22 \<and> string_item h (e @ t) = Some ([c], t)"
proof -
  consider "ord c \<in> {0x22, 0x5C, 0x08, 0x0C, 0x0A, 0x0D, 0x09}"
    | "ord c < 0x20 \<or> ord c = 0x3C \<or> ord c = 0x3E \<or> ord c = 0x26" "ord c \<notin> {0x08, 0x0C, 0x0A, 0x0D, 0x09}"
    | "\<not> ord c < 0x20" "ord c \<notin> {0x22, 0x5C, 0x3C, 0x3E, 0x26}" by blast
  then show ?thesis
  proof cases
    case 1
    from esc_simple [OF byte_mem [OF this], of "[c]" t] obtain e where
      "esc_ascii (ord c) [c] = [CHR 0x5C, e]" "unescape (e # t) = Some ([c], t)" by blast
    with assms show ?thesis by (simp add: string_item_def)
  next
    case 2
    then have "esc_rune (ord c, [c]) = CHR 0x5C # ''u00'' @ [hex_digit (ord c div 16), hex_digit (ord c mod 16)]"
      using assms esc_u00 by simp
    with unescape_u00 [OF assms, of t] show ?thesis by (simp add: string_item_def)
  next
    case 3
    then have "esc_rune (ord c, [c]) = [c]" using assms by (simp add: esc_ascii_def)
    moreover have "c \<noteq> CHR 0x22" "string_item c t = Some ([c], t)"
      using 3 assms by (auto simp: string_item_def RuneError_def)
    ultimately show ?thesis by simp
  qed
qed

lemma string_item_multi:
  assumes dec: "\<And>t. decode_rune c (cs @ t) = (r, Suc (length cs))" and "\<not> r < 0x80" "rune_valid (r, c # cs)"
  shows "\<exists>h e. esc_rune (r, c # cs) = h # e \<and> h \<noteq> CHR 0x22 \<and> string_item h (e @ t) = Some (c # cs, t)"
proof (cases "r = 0x2028 \<or> r = 0x2029")
  case True
  have "take (Suc (length cs)) (c # cs @ t) = encode_rune r"
    by (rule decode_line_separator [OF dec True])
  then have "string_item (CHR 0x5C) ((''u202'' @ [hex_digit (r mod 16)]) @ t) = Some (c # cs, t)"
    using unescape_u202 [OF True, of t] by (simp add: string_item_def)
  moreover have "esc_rune (r, c # cs) = CHR 0x5C # ''u202'' @ [hex_digit (r mod 16)]"
    using True by (elim disjE) (simp_all add: RuneError_def)
  ultimately show ?thesis by blast
next
  case False
  have big: "\<not> ord c < 0x80" using dec [of t] assms(2) by auto
  have "esc_rune (r, c # cs) = c # cs" using False assms(2,3) by (auto simp: rune_valid_def)
  moreover have "string_item c (cs @ t) = Some (c # cs, t)"
    using big dec [of t] assms(3) by (auto simp: string_item_def rune_valid_def)
  moreover have "c \<noteq> CHR 0x22" using big by auto
  ultimately show ?thesis by blast
qed

lemma string_item_esc:
  assumes "rune_chunk (r, bs)" "rune_valid (r, bs)"
  shows "\<exists>c e. esc_rune (r, bs) = c # e \<and> c \<noteq> CHR 0x22 \<and> string_item c (e @ t) = Some (bs, t)"
proof -
  from assms(1) obtain c cs where bs: "bs = c # cs"
    and dec: "\<And>t. decode_rune c (cs @ t) = (r, Suc (length cs))"
    by (auto simp: rune_chunk_def)
  show ?thesis
  proof (cases "r < 0x80")
    case True
    then have "ord c < 0x80" using decode_rune_non_ascii [OF _ dec [of t]] by fastforce
    with string_item_ascii [OF this, of t] show ?thesis using dec [of t] bs by auto
  next
    case False
    from string_item_multi [OF dec False assms(2) [unfolded bs]] show ?thesis unfolding bs .
  qed
qed

lemma parse_str_esc:
  "list_all (\<lambda>rb. rune_chunk rb \<and> rune_valid rb) rbs \<Longrightarrow>
   parse_str (concat (map esc_rune rbs) @ CHR 0x22 # t) = Some (concat (map snd rbs), t)"
proof (induction rbs)
  case Nil
  show ?case by (simp add: parse_str.simps(2))
next
  case (Cons rb rbs)
  obtain r bs where rb: "rb = (r, bs)" by fastforce
  from Cons.prems rb obtain c e where
    "esc_rune (r, bs) = c # e" "c \<noteq> CHR 0x22"
    "string_item c (e @ concat (map esc_rune rbs) @ CHR 0x22 # t)
       = Some (bs, concat (map esc_rune rbs) @ CHR 0x22 # t)"
    using string_item_esc by fastforce
  with Cons rb show ?case by (simp add: parse_str.simps(2) del: esc_rune.simps)
qed

lemma parse_str_quote:
  assumes "utf8_valid s"
  shows "parse_str (tl (json_quote s) @ t) = Some (s, t)"
proof -
  have "list_all (\<lambda>rb. rune_chunk rb \<and> rune_valid rb) (runes s)"
    using assms by (auto simp: utf8_valid_def list_all_iff runes_chunk)
  from parse_str_esc [OF this, of t] show ?thesis
    by (simp add: json_quote_def concat_runes)
qed

section \<open>Numbers read back\<close>

definition delim :: "string \<Rightarrow> bool" where
  "delim t \<longleftrightarrow> t = [] \<or> hd t \<in> {CHR '','', CHR '']'', CHR 0x7D}"

definition num_lit :: "string \<Rightarrow> bool" where
  "num_lit s \<longleftrightarrow> parse_number s = Some (s, [])"

fun wf_json :: "json \<Rightarrow> bool" where
  "wf_json JNull = True"
| "wf_json (JBool b) = True"
| "wf_json (JNum s) = num_lit s"
| "wf_json (JStr s) = utf8_valid s"
| "wf_json (JArr js) = list_all wf_json js"
| "wf_json (JObj kvs) = list_all (\<lambda>kv. utf8_valid (fst kv) \<and> wf_json (snd kv)) kvs"

fun json_depth :: "json \<Rightarrow> nat" where
  "json_depth (JArr js) = Suc (fold max (map json_depth js) 0)"
| "json_depth (JObj kvs) = Suc (fold max (map (\<lambda>kv. json_depth (snd kv)) kvs) 0)"
| "json_depth _ = 0"

lemma fold_max_le: "fold max xs (a::nat) \<le> d \<longleftrightarrow> a \<le> d \<and> (\<forall>x\<in>set xs. x \<le> d)"
  by (induction xs arbitrary: a) auto

lemma delim_not_num:
  assumes "delim t" "t = c # r"
  shows "\<not> is_digit c" "c \<noteq> CHR ''.''" "c \<noteq> CHR ''e''" "c \<noteq> CHR ''E''"
  using assms by (auto simp: delim_def is_digit_def)

lemma takeWhile_delim: "delim t \<Longrightarrow> takeWhile is_digit (s @ t) = takeWhile is_digit s"
  by (induction s) (cases t, auto dest: delim_not_num)

lemma dropWhile_delim: "delim t \<Longrightarrow> dropWhile is_digit (s @ t) = dropWhile is_digit s @ t"
  by (induction s) (cases t, auto dest: delim_not_num)

lemma num_int_delim: "delim t \<Longrightarrow> num_int s = Some (i, r) \<Longrightarrow> num_int (s @ t) = Some (i, r @ t)"
  by (auto simp: num_int_def takeWhile_delim dropWhile_delim split: list.splits if_splits)

lemma num_frac_delim: "delim t \<Longrightarrow> num_frac s = Some (i, r) \<Longrightarrow> num_frac (s @ t) = Some (i, r @ t)"
  by (cases t) (auto simp: num_frac_def takeWhile_delim dropWhile_delim delim_not_num
      split: list.splits if_splits)

lemma num_exp_delim:
  assumes "delim t" "num_exp s = Some (i, r)"
  shows "num_exp (s @ t) = Some (i, r @ t)"
proof (cases s)
  case Nil
  with assms show ?thesis by (cases t) (auto simp: num_exp_def delim_not_num)
next
  case (Cons c s')
  show ?thesis
  proof (cases "c = CHR ''e'' \<or> c = CHR ''E''")
    case True
    with assms(2) Cons have "s' \<noteq> []" by (auto simp: num_exp_def split: if_splits)
    then obtain x y where "s' = x # y" by (cases s') auto
    with True assms Cons show ?thesis
      by (auto simp: num_exp_def Let_def takeWhile_delim dropWhile_delim split: if_splits)
  next
    case False
    with assms(2) Cons show ?thesis by (auto simp: num_exp_def)
  qed
qed

lemma num_int_ne: "num_int s = Some r \<Longrightarrow> s \<noteq> []"
  by (auto simp: num_int_def)

lemma parse_number_delim:
  assumes "delim t" "parse_number s = Some (i, r)"
  shows "parse_number (s @ t) = Some (i, r @ t)"
proof -
  define neg where "neg = (if s \<noteq> [] \<and> hd s = CHR ''-'' then [CHR ''-''] else [])"
  from assms(2) obtain a ra f rf e where
    p: "num_int (drop (length neg) s) = Some (a, ra)" "num_frac ra = Some (f, rf)"
      "num_exp rf = Some (e, r)" "i = neg @ a @ f @ e"
    unfolding parse_number_def neg_def [symmetric] Let_def by (auto split: option.splits)
  from num_int_ne [OF p(1)] have ne: "s \<noteq> []" "drop (length neg) (s @ t) = drop (length neg) s @ t"
    by auto
  then have "neg = (if s @ t \<noteq> [] \<and> hd (s @ t) = CHR ''-'' then [CHR ''-''] else [])"
    by (simp add: neg_def)
  with ne p show ?thesis
    using num_int_delim [OF assms(1) p(1)] num_frac_delim [OF assms(1) p(2)]
      num_exp_delim [OF assms(1) p(3)]
    unfolding parse_number_def Let_def by simp
qed

lemma num_lit_hd:
  assumes "num_lit s"
  obtains c r where "s = c # r" "c = CHR ''-'' \<or> is_digit c"
proof -
  from assms obtain x where "num_int (drop (if s \<noteq> [] \<and> hd s = CHR ''-'' then 1 else 0) s) = Some x"
    by (fastforce simp: num_lit_def parse_number_def Let_def split: option.splits if_splits)
  then have "s \<noteq> []" "hd s = CHR ''-'' \<or> is_digit (hd s)"
    by (auto simp: num_int_def hd_append is_digit_def split: if_splits list.splits)
  with that show ?thesis by (cases s) auto
qed

lemma skip_ws_delim: "delim t \<Longrightarrow> skip_ws t = t"
  by (cases t) (auto simp: delim_def skip_ws_def is_ws_def)

lemma match_lit_append [simp]: "match_lit l (l @ t) = Some t"
  by (induction l) simp_all

section \<open>Documents read back\<close>

definition prints_back :: "json \<Rightarrow> bool" where
  "prints_back j \<longleftrightarrow> (\<forall>n d t. json_depth j \<le> d \<longrightarrow> delim t \<longrightarrow> 2 * length (json_print j @ t) < n \<longrightarrow>
      parse_value n d (json_print j @ t) = Some (j, t))"

lemma prints_backD:
  "prints_back j \<Longrightarrow> json_depth j \<le> d \<Longrightarrow> delim t \<Longrightarrow> 2 * length (json_print j @ t) < n
    \<Longrightarrow> parse_value n d (json_print j @ t) = Some (j, t)"
  by (simp add: prints_back_def)

lemma delim_simps [simp]: "delim []" "delim (CHR '','' # t)" "delim (CHR '']'' # t)" "delim (CHR 0x7D # t)"
  by (simp_all add: delim_def)

lemma parse_elems_print:
  assumes "js \<noteq> []" "\<forall>j\<in>set js. prints_back j \<and> json_depth j \<le> d"
    "2 * length (commas (map json_print js) @ CHR '']'' # t) + 1 < n"
  shows "parse_elems n d (commas (map json_print js) @ CHR '']'' # t) = Some (js, t)"
  using assms
proof (induction js arbitrary: n rule: list_nonempty_induct)
  case (single j)
  then obtain m where n: "n = Suc m" by (cases n) auto
  with single have "parse_value m d (json_print j @ CHR '']'' # t) = Some (j, CHR '']'' # t)"
    by (intro prints_backD) auto
  then show ?case by (simp add: n skip_ws_delim)
next
  case (cons j js)
  then obtain m where n: "n = Suc m" by (cases n) auto
  let ?t = "CHR '','' # commas (map json_print js) @ CHR '']'' # t"
  from cons n have "parse_value m d (json_print j @ ?t) = Some (j, ?t)"
    by (intro prints_backD) (auto simp: commas_Cons)
  moreover from cons n
  have "parse_elems m d (commas (map json_print js) @ CHR '']'' # t) = Some (js, t)"
    by (intro cons.IH) (auto simp: commas_Cons)
  ultimately show ?case using cons.hyps by (simp add: n commas_Cons skip_ws_delim)
qed

abbreviation print_member :: "string \<times> json \<Rightarrow> string" where
  "print_member \<equiv> \<lambda>(k, v). json_quote k @ CHR '':'' # json_print v"

lemma json_quote_Cons: "json_quote k = CHR 0x22 # tl (json_quote k)"
  by (simp add: json_quote_def)

lemma skip_ws_id: "\<not> is_ws c \<Longrightarrow> skip_ws (c # s) = c # s"
  by (simp add: skip_ws_def)

lemma is_ws_lits [simp]: "\<not> is_ws (CHR 0x22)" "\<not> is_ws (CHR '':'')" "\<not> is_ws (CHR ''['')"
  "\<not> is_ws (CHR 0x7B)" "\<not> is_ws (CHR '']'')" "\<not> is_ws (CHR 0x7D)" "\<not> is_ws (CHR ''t'')"
  "\<not> is_ws (CHR ''f'')" "\<not> is_ws (CHR ''n'')" "\<not> is_ws (CHR ''-'')"
  by (simp_all add: is_ws_def)

text \<open>One member, with the text behind it.\<close>

lemma parse_member_step:
  assumes "utf8_valid k" "prints_back v" "json_depth v \<le> d" "delim (c # t)"
    "2 * length (print_member (k, v) @ c # t) + 1 < Suc m"
  shows "parse_members (Suc m) d (print_member (k, v) @ c # t) =
    (if c = CHR '','' then map_option (map_prod ((#) (k, v)) id) (parse_members m d t)
     else if c = CHR 0x7D then Some ([(k, v)], t) else None)"
proof -
  have key: "parse_key (json_quote k @ CHR '':'' # s) = Some (k, s)" for s
    using assms(1) by (subst json_quote_Cons) (simp add: parse_key_def skip_ws_id parse_str_quote)
  have v: "parse_value m d (json_print v @ c # t) = Some (v, c # t)"
    using assms by (intro prints_backD) auto
  show ?thesis
    using assms(4) v by (simp add: key skip_ws_delim del: parse_value.simps)
qed

lemma parse_members_print:
  assumes "kvs \<noteq> []" "\<forall>kv\<in>set kvs. utf8_valid (fst kv) \<and> prints_back (snd kv) \<and> json_depth (snd kv) \<le> d"
    "2 * length (commas (map print_member kvs) @ CHR 0x7D # t) + 1 < n"
  shows "parse_members n d (commas (map print_member kvs) @ CHR 0x7D # t) = Some (kvs, t)"
  using assms
proof (induction kvs arbitrary: n rule: list_nonempty_induct)
  case (single kv)
  obtain k v where kv: "kv = (k, v)" by fastforce
  from single obtain m where n: "n = Suc m" by (cases n) auto
  have "parse_members (Suc m) d (print_member (k, v) @ CHR 0x7D # t) = Some ([(k, v)], t)"
    by (subst parse_member_step) (use single kv n in auto)
  then show ?case by (simp add: kv n del: parse_members.simps)
next
  case (cons kv kvs)
  obtain k v where kv: "kv = (k, v)" by fastforce
  from cons obtain m where n: "n = Suc m" by (cases n) auto
  let ?t = "commas (map print_member kvs) @ CHR 0x7D # t"
  from cons kv n have "2 * length (print_member (k, v) @ CHR '','' # ?t) + 1 < Suc m"
    by (simp add: commas_Cons)
  then have "parse_members (Suc m) d (print_member (k, v) @ CHR '','' # ?t)
      = map_option (map_prod ((#) (k, v)) id) (parse_members m d ?t)"
    by (subst parse_member_step) (use cons kv n in auto)
  moreover from cons n have "parse_members m d ?t = Some (kvs, t)"
    by (intro cons.IH) (auto simp: commas_Cons)
  ultimately show ?case using cons.hyps by (simp add: kv n commas_Cons del: parse_members.simps)
qed

lemma match_close:
  assumes "wf_json j" shows "match_lit '']'' (skip_ws (json_print j @ t)) = None"
proof (cases j)
  case (JNum s)
  with assms obtain c r where "s = c # r" "c = CHR ''-'' \<or> is_digit c"
    using num_lit_hd by auto
  then have "\<not> is_ws c" "c \<noteq> CHR '']''" by (auto simp: is_ws_def is_digit_def)
  with JNum \<open>s = c # r\<close> show ?thesis by (simp add: skip_ws_id)
qed (simp_all add: skip_ws_id json_quote_def)

lemma commas_prefix: "\<exists>u. commas (x # xs) @ t = x @ u"
  by (cases xs) simp_all

lemma prints_backI:
  assumes "\<And>m d t. json_depth j \<le> d \<Longrightarrow> delim t \<Longrightarrow> 2 * length (json_print j @ t) < Suc m \<Longrightarrow>
    parse_value (Suc m) d (json_print j @ t) = Some (j, t)"
  shows "prints_back j"
  unfolding prints_back_def using assms by (metis less_imp_Suc_add)

lemma prints_back_num: "num_lit s \<Longrightarrow> prints_back (JNum s)"
proof (rule prints_backI)
  fix m d t assume num: "num_lit s" and t: "delim t"
  from num obtain c r where s: "s = c # r" "c = CHR ''-'' \<or> is_digit c" using num_lit_hd by auto
  then have c: "\<not> is_ws c" "c \<notin> {CHR 0x22, CHR ''['', CHR 0x7B, CHR ''t'', CHR ''f'', CHR ''n''}"
    by (auto simp: is_ws_def is_digit_def)
  from num parse_number_delim [OF t] have "parse_number (s @ t) = Some (s, t)" by (fastforce simp: num_lit_def)
  with c s show "parse_value (Suc m) d (json_print (JNum s) @ t) = Some (JNum s, t)" by (simp add: skip_ws_id)
qed

lemma prints_back_str: "utf8_valid s \<Longrightarrow> prints_back (JStr s)"
proof (rule prints_backI)
  fix m d t assume s: "utf8_valid s"
  have "json_print (JStr s) @ t = CHR 0x22 # (tl (json_quote s) @ t)" by (simp add: json_quote_def)
  then show "parse_value (Suc m) d (json_print (JStr s) @ t) = Some (JStr s, t)"
    using s by (simp only:) (simp add: skip_ws_id parse_str_quote)
qed

lemma prints_back_arr:
  assumes "\<forall>j\<in>set js. wf_json j \<and> prints_back j"
  shows "prints_back (JArr js)"
proof (rule prints_backI)
  fix m d t assume a: "json_depth (JArr js) \<le> d" "2 * length (json_print (JArr js) @ t) < Suc m"
  then obtain e where d: "d = Suc e" by (cases d) auto
  show "parse_value (Suc m) d (json_print (JArr js) @ t) = Some (JArr js, t)"
  proof (cases js)
    case (Cons j js')
    with assms match_close [of j] commas_prefix [of "json_print j" "map json_print js'" "CHR '']'' # t"]
    have "match_lit '']'' (skip_ws (commas (map json_print js) @ CHR '']'' # t)) = None" by auto
    moreover have "parse_elems m e (commas (map json_print js) @ CHR '']'' # t) = Some (js, t)"
      using assms Cons a d by (intro parse_elems_print) (auto simp: fold_max_le)
    ultimately show ?thesis by (simp add: d skip_ws_id)
  qed (simp add: d skip_ws_id)
qed

lemma prints_back_obj:
  assumes "\<forall>kv\<in>set kvs. utf8_valid (fst kv) \<and> prints_back (snd kv)"
  shows "prints_back (JObj kvs)"
proof (rule prints_backI)
  fix m d t assume a: "json_depth (JObj kvs) \<le> d" "2 * length (json_print (JObj kvs) @ t) < Suc m"
  then obtain e where d: "d = Suc e" by (cases d) auto
  show "parse_value (Suc m) d (json_print (JObj kvs) @ t) = Some (JObj kvs, t)"
  proof (cases kvs)
    case (Cons kv kvs')
    obtain u where "commas (map print_member kvs) @ CHR 0x7D # t = print_member kv @ u"
      using commas_prefix Cons by fastforce
    then have "match_lit [CHR 0x7D] (skip_ws (commas (map print_member kvs) @ CHR 0x7D # t)) = None"
      by (cases kv) (simp add: json_quote_def skip_ws_id)
    moreover have "parse_members m e (commas (map print_member kvs) @ CHR 0x7D # t) = Some (kvs, t)"
      using assms Cons a d by (intro parse_members_print) (auto simp: fold_max_le)
    ultimately show ?thesis by (simp add: d skip_ws_id)
  qed (simp add: d skip_ws_id)
qed

lemma print_prints_back: "wf_json j \<Longrightarrow> prints_back j"
proof (induction j)
  case (JObj kvs)
  then show ?case by (intro prints_back_obj) (auto simp: list_all_iff snds.simps)
qed (auto simp: list_all_iff skip_ws_id intro: prints_back_num prints_back_str prints_back_arr prints_backI)

lemma json_parse_print:
  assumes "wf_json j" "json_depth j \<le> maxNestingDepth"
  shows "json_parse (json_print j) = Some j"
proof -
  have "parse_value (2 * length (json_print j) + 2) maxNestingDepth (json_print j @ []) = Some (j, [])"
    using assms by (intro prints_backD print_prints_back) auto
  then show ?thesis by (simp add: json_parse_def skip_ws_def)
qed

lemma hd_dec: "n \<noteq> 0 \<Longrightarrow> hd (dec n) \<noteq> CHR ''0''"
proof (induction n rule: dec.induct)
  case (1 n)
  have "digit k = CHR ''0'' \<Longrightarrow> k < 10 \<Longrightarrow> k = 0" for k
    using ord_digit [of k] by auto
  with 1 show ?case by (cases "n < 10") (auto simp: dec.simps [of n] hd_append)
qed

lemma num_lit_dec [simp]: "num_lit (dec n)"
proof -
  obtain c r where d: "dec n = c # r" by (cases "dec n") auto
  with dec_digits [of n] have dig: "is_digit c" "list_all is_digit r" by auto
  then have neg: "c \<noteq> CHR ''-''" by (auto simp: is_digit_def)
  have tw: "takeWhile is_digit r = r" "dropWhile is_digit r = []"
    using dig by (auto simp: list_all_iff takeWhile_eq_all_conv dropWhile_eq_Nil_conv)
  have "num_int (c # r) = Some (c # r, [])"
  proof (cases "n = 0")
    case True
    then have "c # r = [digit 0]" using d by (simp add: dec.simps [of 0])
    then show ?thesis by (simp add: num_int_def digit_def is_digit_def)
  next
    case False
    with hd_dec [of n] d have "c \<noteq> CHR ''0''" by simp
    with dig tw show ?thesis by (simp add: num_int_def)
  qed
  then show ?thesis
    by (simp add: num_lit_def parse_number_def d neg num_frac_def num_exp_def)
qed

lemma ascii_utf8_valid [simp]: "ascii s \<Longrightarrow> utf8_valid s"
proof (induction s rule: runes.induct)
  case (2 c cs)
  then show ?case by (auto simp: utf8_valid_def ascii_def runes.simps(2) rune_valid_def RuneError_def)
qed (simp add: utf8_valid_def)

end
