(* ===== verification/GoUnmarshal.thy ===== *)
theory GoUnmarshal
  imports JsonParse
begin

text \<open>
  \<open>json.Unmarshal\<close> of \<open>encoding/json\<close>: a decoder takes a document and the value that is already
  there and returns the new value.  As in the library a type mismatch is saved (the first one wins)
  and decoding goes on, while an error of an \<open>UnmarshalJSON\<close> method stops it; \<open>null\<close> sets pointers
  and slices to nil and leaves everything else alone; an object key selects a field by its exact
  name, else by its case-folded name, and is skipped when there is none.
\<close>

section \<open>Results\<close>

datatype json_error =
    SyntaxError
  | UnmarshalTypeError string
  | CorruptInputError
  | InvalidStringTag
  | HexError hex_error
  | UnmarshalerError string

datatype 'a dres = Dec 'a "json_error option" | Abort json_error | DecPanics panic_value

definition first_error :: "json_error option \<Rightarrow> json_error option \<Rightarrow> json_error option" where
  "first_error e e' = (if e = None then e' else e)"

lemma first_error_simps [simp]: "first_error None e = e" "first_error (Some x) e = Some x"
  by (simp_all add: first_error_def)

fun dec_bind :: "'a dres \<Rightarrow> ('a \<Rightarrow> 'b dres) \<Rightarrow> 'b dres" where
  "dec_bind (Dec x e) f = (case f x of Dec y e' \<Rightarrow> Dec y (first_error e e') | r \<Rightarrow> r)"
| "dec_bind (Abort e) f = Abort e"
| "dec_bind (DecPanics p) f = DecPanics p"

fun dec_map :: "('a \<Rightarrow> 'b) \<Rightarrow> 'a dres \<Rightarrow> 'b dres" where
  "dec_map f (Dec x e) = Dec (f x) e"
| "dec_map f (Abort e) = Abort e"
| "dec_map f (DecPanics p) = DecPanics p"

lemma dec_bind_ok [simp]: "dec_bind (Dec x None) f = f x"
  by (cases "f x") simp_all

declare dec_bind.simps(1) [simp del]

type_synonym 'a decoder = "json \<Rightarrow> 'a \<Rightarrow> 'a dres"

text \<open>The name an \<open>UnmarshalTypeError\<close> gives to what it found.\<close>

fun kind_of :: "json \<Rightarrow> string" where
  "kind_of JNull = ''null''"
| "kind_of (JBool b) = ''bool''"
| "kind_of (JNum s) = ''number''"
| "kind_of (JStr s) = ''string''"
| "kind_of (JArr js) = ''array''"
| "kind_of (JObj kvs) = ''object''"

definition mismatch :: "'a decoder" where
  "mismatch j old = Dec old (if j = JNull then None else Some (UnmarshalTypeError (kind_of j)))"

section \<open>Basic types\<close>

fun dec_string :: "string decoder" where
  "dec_string (JStr s) old = Dec s None"
| "dec_string j old = mismatch j old"

fun dec_bool :: "bool decoder" where
  "dec_bool (JBool b) old = Dec b None"
| "dec_bool j old = mismatch j old"

fun dec_uint :: "('w::len) word decoder" where
  "dec_uint (JNum s) old = (case parse_uint LENGTH('w) s of
     Some n \<Rightarrow> Dec (of_nat n) None
   | None \<Rightarrow> Dec old (Some (UnmarshalTypeError (''number '' @ s))))"
| "dec_uint j old = mismatch j old"

text \<open>A field with the \<open>string\<close> option: the literal inside the quotes.\<close>

fun dec_quoted_u64 :: "u64 decoder" where
  "dec_quoted_u64 JNull old = Dec old None"
| "dec_quoted_u64 (JStr s) old =
     (if s = [] then Dec old (Some InvalidStringTag)
      else if s = ''null'' then Dec old None
      else if hd s = CHR ''n'' \<or> hd s = CHR ''t'' \<or> hd s = CHR ''f''
        then Dec old (Some InvalidStringTag)
      else if hd s = CHR 0x22 then
        (case parse_str (tl s) of
           Some (t, []) \<Rightarrow> Dec old (Some (UnmarshalTypeError ''string''))
         | _ \<Rightarrow> Abort InvalidStringTag)
      else if hd s \<noteq> CHR ''-'' \<and> \<not> is_digit (hd s) then Abort InvalidStringTag
      else case parse_uint 64 s of
          Some n \<Rightarrow> Dec (of_nat n) None
        | None \<Rightarrow> Dec old (Some (UnmarshalTypeError (''number '' @ s))))"
| "dec_quoted_u64 j old = Dec old (Some InvalidStringTag)"

section \<open>Pointers, slices, raw messages\<close>

definition dec_ptr :: "'a \<Rightarrow> 'a decoder \<Rightarrow> 'a option decoder" where
  "dec_ptr z d j old =
     (if j = JNull then Dec None None
      else dec_map Some (d j (case old of None \<Rightarrow> z | Some x \<Rightarrow> x)))"

fun dec_elems :: "'a \<Rightarrow> 'a decoder \<Rightarrow> json list \<Rightarrow> 'a list \<Rightarrow> 'a list dres" where
  "dec_elems z d [] olds = Dec [] None"
| "dec_elems z d (j # js) olds =
     dec_bind (d j (case olds of [] \<Rightarrow> z | x # xs \<Rightarrow> x))
       (\<lambda>y. dec_map ((#) y) (dec_elems z d js (tl olds)))"

fun dec_slice :: "'a \<Rightarrow> 'a decoder \<Rightarrow> 'a slice decoder" where
  "dec_slice z d JNull old = Dec None None"
| "dec_slice z d (JArr js) old = dec_map Some (dec_elems z d js (elems old))"
| "dec_slice z d j old = mismatch j old"

definition byte_word :: "8 word \<Rightarrow> char" where
  "byte_word w = byte_of (unat w)"

fun dec_bytes :: "byte_slice decoder" where
  "dec_bytes (JStr s) old = (case base64_decode s of
     Some b \<Rightarrow> Dec (Some b) None
   | None \<Rightarrow> Dec old (Some CorruptInputError))"
| "dec_bytes (JArr js) old =
     dec_map (\<lambda>ws. Some (map byte_word ws))
       (dec_elems (0 :: 8 word) dec_uint js (map (\<lambda>c. of_nat (ord c)) (elems old)))"
| "dec_bytes JNull old = Dec None None"
| "dec_bytes j old = mismatch j old"

text \<open>\<open>json.RawMessage\<close>, represented by the document it holds.\<close>

definition dec_raw :: "json option decoder" where
  "dec_raw j old = Dec (Some j) None"

definition json_raw :: "json option \<Rightarrow> json" where
  "json_raw r = (case r of None \<Rightarrow> JNull | Some j \<Rightarrow> j)"

section \<open>Structs\<close>

text \<open>\<open>foldName\<close>, as far as it decides equality with an ASCII field name.\<close>

definition fold_rune :: "nat \<times> string \<Rightarrow> string" where
  "fold_rune rb =
     (if fst rb < 0x80
      then [if 97 \<le> fst rb \<and> fst rb \<le> 122 then byte_of (fst rb - 32) else byte_of (fst rb)]
      else if fst rb = 0x017F then ''S''
      else if fst rb = 0x212A then ''K''
      else snd rb)"

definition fold_name :: "string \<Rightarrow> string" where
  "fold_name s = concat (map fold_rune (runes s))"

type_synonym 'r fields = "(string \<times> 'r decoder) list"

definition dec_field :: "string \<Rightarrow> 'a decoder \<Rightarrow> ('r \<Rightarrow> 'a) \<Rightarrow> (('a \<Rightarrow> 'a) \<Rightarrow> 'r \<Rightarrow> 'r) \<Rightarrow> 'r fields" where
  "dec_field k d get upd = [(k, \<lambda>j r. dec_map (\<lambda>v. upd (\<lambda>_. v) r) (d j (get r)))]"

definition find_field :: "'r fields \<Rightarrow> string \<Rightarrow> 'r decoder option" where
  "find_field fs k = (case map_of fs k of
     Some d \<Rightarrow> Some d
   | None \<Rightarrow> map_of (map (\<lambda>(n, d). (fold_name n, d)) fs) (fold_name k))"

fun dec_members :: "'r fields \<Rightarrow> (string \<times> json) list \<Rightarrow> 'r \<Rightarrow> 'r dres" where
  "dec_members fs [] r = Dec r None"
| "dec_members fs ((k, j) # kvs) r = (case find_field fs k of
     None \<Rightarrow> dec_members fs kvs r
   | Some d \<Rightarrow> dec_bind (d j r) (dec_members fs kvs))"

fun dec_struct :: "'r fields \<Rightarrow> 'r decoder" where
  "dec_struct fs (JObj kvs) r = dec_members fs kvs r"
| "dec_struct fs j r = mismatch j r"

section \<open>Unmarshal\<close>

text \<open>\<open>d.unmarshal\<close> on a document: the value, or the error that stopped or that was saved.\<close>

definition run_decoder :: "'a decoder \<Rightarrow> json \<Rightarrow> 'a \<Rightarrow> (json_error + 'a) go" where
  "run_decoder d j old = (case d j old of
     Dec x None \<Rightarrow> Return (Inr x)
   | Dec x (Some e) \<Rightarrow> Return (Inl e)
   | Abort e \<Rightarrow> Return (Inl e)
   | DecPanics p \<Rightarrow> Panics p)"

definition json_Unmarshal :: "'a decoder \<Rightarrow> string \<Rightarrow> 'a \<Rightarrow> (json_error + 'a) go" where
  "json_Unmarshal d s old = (case json_parse s of
     None \<Rightarrow> Return (Inl SyntaxError)
   | Some j \<Rightarrow> run_decoder d j old)"

text \<open>
  A type with an \<open>UnmarshalJSON\<close> method.  The method gets the document and the old value; what it
  returns as an error stops the decoding.
\<close>

definition dec_unmarshaler :: "(json \<Rightarrow> 'a \<Rightarrow> (json_error + 'a) go) \<Rightarrow> 'a decoder" where
  "dec_unmarshaler m j old = (case m j old of
     Return (Inr x) \<Rightarrow> Dec x None
   | Return (Inl e) \<Rightarrow> Abort e
   | Panics p \<Rightarrow> DecPanics p)"

section \<open>Reading back what was written\<close>

lemma parse_uint_unat [simp]:
  "parse_uint 64 (dec (unat (a :: 64 word))) = Some (unat a)"
  "parse_uint 32 (dec (unat (b :: 32 word))) = Some (unat b)"
  "parse_uint 16 (dec (unat (c :: 16 word))) = Some (unat c)"
proof -
  have "unat a < 2 ^ LENGTH(64)" "unat b < 2 ^ LENGTH(32)" "unat c < 2 ^ LENGTH(16)"
    by (rule unsigned_less)+
  then show "parse_uint 64 (dec (unat (a :: 64 word))) = Some (unat a)"
    "parse_uint 32 (dec (unat (b :: 32 word))) = Some (unat b)"
    "parse_uint 16 (dec (unat (c :: 16 word))) = Some (unat c)"
    by (simp_all add: parse_uint_dec)
qed

declare option.pred_True [simp] list.pred_True [simp] option.map_ident [simp]

lemma dec_uint_json_u64 [simp]: "dec_uint (json_u64 w) old = Dec w None"
  by (simp add: json_u64_def json_uint_def)

lemma dec_uint_json_u32 [simp]: "dec_uint (json_u32 w) old = Dec w None"
  by (simp add: json_u32_def json_uint_def)

lemma dec_uint_json_u16 [simp]: "dec_uint (json_u16 w) old = Dec w None"
  by (simp add: json_u16_def json_uint_def)

lemma dec_quoted [simp]: "dec_quoted_u64 (json_u64_quoted w) old = Dec w None"
proof -
  obtain c r where d: "dec (unat w) = c # r" by (cases "dec (unat w)") auto
  with dec_hd_digit [of "unat w"] have "is_digit c" by simp
  moreover from this have "c \<noteq> CHR ''n''" "c \<noteq> CHR ''t''" "c \<noteq> CHR ''f''" "c \<noteq> CHR 0x22"
    by (auto simp: is_digit_def)
  ultimately show ?thesis
    using parse_uint_unat(1) [of w] by (simp add: json_u64_quoted_def d)
qed

lemma dec_bytes_json [simp]: "dec_bytes (json_bytes b) old = Dec b None"
  by (cases b) (simp_all add: json_bytes_def)

lemmas codec_simps = dec_field_def find_field_def

lemma dec_raw_json [simp]: "r \<noteq> None \<Longrightarrow> dec_raw (json_raw r) old = Dec r None"
  by (cases r) (simp_all add: dec_raw_def json_raw_def)

text \<open>What \<open>omitempty\<close> does to a slice.\<close>

definition omit_slice :: "'a slice \<Rightarrow> 'a slice" where
  "omit_slice s = (if slice_len s = 0 then None else s)"

lemma dec_members_fld:
  assumes "find_field fs k = Some d" "d v r = Dec r' None" "dec_members fs kvs r' = y"
  shows "dec_members fs (fld k v @ kvs) r = y"
  using assms by (simp add: fld_def)

lemma dec_members_omit:
  assumes "find_field fs k = Some d" "\<not> e \<Longrightarrow> d v r = Dec r' None" "e \<Longrightarrow> r = r'"
    "dec_members fs kvs r' = y"
  shows "dec_members fs (fld_omit k e v @ kvs) r = y"
  using assms by (cases e) (simp_all add: fld_omit_def)

lemma dec_members_fld_last:
  assumes "find_field fs k = Some d" "d v r = Dec r' None"
  shows "dec_members fs (fld k v) r = Dec r' None"
  using dec_members_fld [OF assms, where kvs = "[]"] by simp

lemma dec_members_omit_last:
  assumes "find_field fs k = Some d" "\<not> e \<Longrightarrow> d v r = Dec r' None" "e \<Longrightarrow> r = r'"
  shows "dec_members fs (fld_omit k e v) r = Dec r' None"
  using dec_members_omit [OF assms, where kvs = "[]"] by simp

text \<open>
  Everything a decoder makes of what the encoder wrote.  \<open>norm\<close> is what the trip does to a value: an
  empty slice that is omitted comes back nil, a nil \<open>Array\<close> comes back empty.
\<close>

lemma dec_members_omit_bytes:
  assumes "find_field fs k = Some (\<lambda>j r. dec_map (\<lambda>v. upd (\<lambda>_. v) r) (dec_bytes j (get r)))"
    "upd (\<lambda>_. None) r = r" "dec_members fs kvs (upd (\<lambda>_. omit_slice b) r) = y"
  shows "dec_members fs (fld_omit k (slice_len b = 0) (json_bytes b) @ kvs) r = y"
  by (rule dec_members_omit [OF assms(1) _ _ assms(3)]) (simp_all add: omit_slice_def assms(2))

lemma dec_members_omit_bytes_last:
  assumes "find_field fs k = Some (\<lambda>j r. dec_map (\<lambda>v. upd (\<lambda>_. v) r) (dec_bytes j (get r)))"
    "upd (\<lambda>_. None) r = r"
  shows "dec_members fs (fld_omit k (slice_len b = 0) (json_bytes b)) r
    = Dec (upd (\<lambda>_. omit_slice b) r) None"
  using dec_members_omit_bytes [OF assms, where kvs = "[]"] by simp

locale json_codec =
  fixes to_json :: "'a \<Rightarrow> json" and decode :: "'a decoder" and zero :: 'a
    and norm :: "'a \<Rightarrow> 'a" and valid :: "'a \<Rightarrow> bool"
  assumes to_json_not_null [simp]: "to_json x \<noteq> JNull"
    and decode_to_json [simp]: "valid x \<Longrightarrow> decode (to_json x) zero = Dec (norm x) None"
begin

lemma decode_ptr [simp]:
  "pred_option valid p \<Longrightarrow>
     dec_ptr zero decode (json_ptr to_json p) None = Dec (map_option norm p) None"
  by (cases p) (simp_all add: dec_ptr_def json_ptr_def)

lemma decode_elems:
  "list_all valid xs \<Longrightarrow> dec_elems zero decode (map to_json xs) [] = Dec (map norm xs) None"
  by (induction xs) simp_all

lemma decode_slice [simp]:
  "pred_option (list_all valid) s \<Longrightarrow>
     dec_slice zero decode (json_slice to_json s) None = Dec (map_option (map norm) s) None"
  by (cases s) (simp_all add: json_slice_def decode_elems)

lemma unmarshal_print:
  assumes "valid x" "wf_json (to_json x)" "json_depth (to_json x) \<le> maxNestingDepth"
  shows "json_Unmarshal decode (json_print (to_json x)) zero = Return (Inr (norm x))"
  using assms by (simp add: json_Unmarshal_def json_parse_print run_decoder_def)

end

end
