(* ===== verification/TypesGo.thy ===== *)
theory TypesGo
  imports GoUnmarshal
begin

text \<open>
  The plain data of package \<open>types\<close>: \<open>types.go\<close>, \<open>env.go\<close>, \<open>config.go\<close>, \<open>fraction.go\<close> and
  \<open>checksum.go\<close>.  A struct is a record of the same name whose fields carry the struct's name as a
  prefix; \<open>T_to_json\<close> is what \<open>json.Marshal\<close> makes of a value of type \<open>T\<close>.
\<close>

section \<open>Numbers that travel as strings, and Array\<close>

definition Uint64_MarshalJSON :: "u64 \<Rightarrow> json" where
  "Uint64_MarshalJSON u = JStr (dec (unat u))"

definition Int64_MarshalJSON :: "i64 \<Rightarrow> json" where
  "Int64_MarshalJSON i = JStr (dec_int (sint i))"

text \<open>\<open>Array[C]\<close> is a slice that is written as \<open>[]\<close> when it is nil.\<close>

definition Array_MarshalJSON :: "('a \<Rightarrow> json) \<Rightarrow> 'a slice \<Rightarrow> json" where
  "Array_MarshalJSON f a = (if slice_len a = 0 then JArr [] else json_slice f a)"

text \<open>The \<open>UnmarshalJSON\<close> methods of these types.\<close>

definition Uint64_UnmarshalJSON :: "json \<Rightarrow> u64 \<Rightarrow> (json_error + u64) go" where
  "Uint64_UnmarshalJSON data u = (case run_decoder dec_string data [] of
     Panics p \<Rightarrow> Panics p
   | Return (Inl err) \<Rightarrow> Return (Inl (UnmarshalerError
       (''cannot unmarshal '' @ json_print data @ '' into Uint64, expected string-encoded integer'')))
   | Return (Inr s) \<Rightarrow> (case parse_uint 64 s of
       None \<Rightarrow> Return (Inl (UnmarshalerError
         (''cannot unmarshal '' @ json_print data @ '' into Uint64, failed to parse integer'')))
     | Some v \<Rightarrow> Return (Inr (of_nat v))))"

definition Int64_UnmarshalJSON :: "json \<Rightarrow> i64 \<Rightarrow> (json_error + i64) go" where
  "Int64_UnmarshalJSON data i = (case run_decoder dec_string data [] of
     Panics p \<Rightarrow> Panics p
   | Return (Inl err) \<Rightarrow> Return (Inl (UnmarshalerError
       (''cannot unmarshal '' @ json_print data @ '' into Int64, expected string-encoded integer'')))
   | Return (Inr s) \<Rightarrow> (case parse_int64 s of
       None \<Rightarrow> Return (Inl (UnmarshalerError
         (''cannot unmarshal '' @ json_print data @ '' into Int64, failed to parse integer'')))
     | Some v \<Rightarrow> Return (Inr (of_int v))))"

definition Array_UnmarshalJSON :: "'a \<Rightarrow> 'a decoder \<Rightarrow> json \<Rightarrow> 'a slice \<Rightarrow> (json_error + 'a slice) go" where
  "Array_UnmarshalJSON z d data a = (case run_decoder (dec_slice z d) data None of
     Panics p \<Rightarrow> Panics p
   | Return (Inl err) \<Rightarrow> Return (Inl err)
   | Return (Inr raw) \<Rightarrow> Return (Inr (if slice_len raw = 0 then Some [] else raw)))"

context json_codec
begin

lemma decode_array [simp]:
  assumes "pred_option (list_all valid) a"
  shows "dec_unmarshaler (Array_UnmarshalJSON zero decode) (Array_MarshalJSON to_json a) None
    = Dec (Some (map norm (elems a))) None"
  using assms decode_elems [of "elems a"]
  by (cases a) (auto simp: dec_unmarshaler_def Array_UnmarshalJSON_def Array_MarshalJSON_def
      json_slice_def run_decoder_def)

end

interpretation string_codec: json_codec JStr dec_string "[]" "\<lambda>x. x" "\<lambda>_. True"
  by unfold_locales simp_all

interpretation u64_codec: json_codec json_u64 dec_uint 0 "\<lambda>x. x" "\<lambda>_. True"
  by unfold_locales (simp_all, simp add: json_u64_def json_uint_def)

interpretation Uint64_codec: json_codec Uint64_MarshalJSON "dec_unmarshaler Uint64_UnmarshalJSON"
    0 "\<lambda>x. x" "\<lambda>_. True"
  by unfold_locales (simp_all add: Uint64_MarshalJSON_def Uint64_UnmarshalJSON_def
      dec_unmarshaler_def run_decoder_def)

interpretation Int64_codec: json_codec Int64_MarshalJSON "dec_unmarshaler Int64_UnmarshalJSON"
    0 "\<lambda>x. x" "\<lambda>_. True"
proof unfold_locales
  show "Int64_MarshalJSON x \<noteq> JNull" for x by (simp add: Int64_MarshalJSON_def)
  show "dec_unmarshaler Int64_UnmarshalJSON (Int64_MarshalJSON x) 0 = Dec x None" for x
    using sint_ge [of x] sint_lt [of x]
    by (simp add: Int64_MarshalJSON_def Int64_UnmarshalJSON_def dec_unmarshaler_def run_decoder_def
        parse_int64_dec_int)
qed

section \<open>types.go\<close>

record Coin =
  Coin_Denom :: string
  Coin_Amount :: string

definition Coin_zero :: Coin where
  "Coin_zero = \<lparr>Coin_Denom = [],
     Coin_Amount = []\<rparr>"

definition Coin_to_json :: "Coin \<Rightarrow> json" where
  "Coin_to_json x = JObj (
     fld ''denom'' (JStr (Coin_Denom x)) @
     fld ''amount'' (JStr (Coin_Amount x)))"

definition Coin_decode :: "Coin decoder" where
  "Coin_decode = dec_struct (
     dec_field ''denom'' dec_string Coin_Denom Coin_Denom_update @
     dec_field ''amount'' dec_string Coin_Amount Coin_Amount_update)"

interpretation Coin_codec: json_codec Coin_to_json Coin_decode Coin_zero "\<lambda>x. x" "\<lambda>_. True"
  by (unfold_locales, simp add: Coin_to_json_def,
    unfold Coin_decode_def Coin_to_json_def Coin_zero_def dec_struct.simps, rule trans,
    ((rule dec_members_fld_last dec_members_fld, simp add: codec_simps, simp)
     | (rule dec_members_omit_last dec_members_omit, simp add: codec_simps, simp del: not_None_eq, simp))+,
    simp)

definition NewCoin :: "u64 \<Rightarrow> string \<Rightarrow> Coin" where
  "NewCoin amount denom = \<lparr>Coin_Denom = denom, Coin_Amount = dec (unat amount)\<rparr>"

record DenomUnit =
  DenomUnit_Denom :: string
  DenomUnit_Exponent :: u32
  DenomUnit_Aliases :: "string slice"

definition DenomUnit_to_json :: "DenomUnit \<Rightarrow> json" where
  "DenomUnit_to_json x = JObj (
     fld ''denom'' (JStr (DenomUnit_Denom x)) @
     fld ''exponent'' (json_u32 (DenomUnit_Exponent x)) @
     fld ''aliases'' (json_slice JStr (DenomUnit_Aliases x)))"

record DenomMetadata =
  DenomMetadata_Description :: string
  DenomMetadata_DenomUnits :: "DenomUnit slice"
  DenomMetadata_Base :: string
  DenomMetadata_Display :: string
  DenomMetadata_Name :: string
  DenomMetadata_Symbol :: string
  DenomMetadata_URI :: string
  DenomMetadata_URIHash :: string

definition DenomMetadata_to_json :: "DenomMetadata \<Rightarrow> json" where
  "DenomMetadata_to_json x = JObj (
     fld ''description'' (JStr (DenomMetadata_Description x)) @
     fld ''denom_units'' (json_slice DenomUnit_to_json (DenomMetadata_DenomUnits x)) @
     fld ''base'' (JStr (DenomMetadata_Base x)) @
     fld ''display'' (JStr (DenomMetadata_Display x)) @
     fld ''name'' (JStr (DenomMetadata_Name x)) @
     fld ''symbol'' (JStr (DenomMetadata_Symbol x)) @
     fld ''uri'' (JStr (DenomMetadata_URI x)) @
     fld ''uri_hash'' (JStr (DenomMetadata_URIHash x)))"

record DecCoin =
  DecCoin_Amount :: string
  DecCoin_Denom :: string

definition DecCoin_to_json :: "DecCoin \<Rightarrow> json" where
  "DecCoin_to_json x = JObj (
     fld ''amount'' (JStr (DecCoin_Amount x)) @
     fld ''denom'' (JStr (DecCoin_Denom x)))"

record PageRequest =
  PageRequest_Key :: byte_slice
  PageRequest_Limit :: u32
  PageRequest_Reverse :: bool

definition PageRequest_zero :: PageRequest where
  "PageRequest_zero = \<lparr>PageRequest_Key = None,
     PageRequest_Limit = 0,
     PageRequest_Reverse = False\<rparr>"

definition PageRequest_to_json :: "PageRequest \<Rightarrow> json" where
  "PageRequest_to_json x = JObj (
     fld ''key'' (json_bytes (PageRequest_Key x)) @
     fld ''limit'' (json_u32 (PageRequest_Limit x)) @
     fld ''reverse'' (JBool (PageRequest_Reverse x)))"

definition PageRequest_decode :: "PageRequest decoder" where
  "PageRequest_decode = dec_struct (
     dec_field ''key'' dec_bytes PageRequest_Key PageRequest_Key_update @
     dec_field ''limit'' dec_uint PageRequest_Limit PageRequest_Limit_update @
     dec_field ''reverse'' dec_bool PageRequest_Reverse PageRequest_Reverse_update)"

interpretation PageRequest_codec: json_codec PageRequest_to_json PageRequest_decode PageRequest_zero "\<lambda>x. x" "\<lambda>_. True"
  by (unfold_locales, simp add: PageRequest_to_json_def,
    unfold PageRequest_decode_def PageRequest_to_json_def PageRequest_zero_def dec_struct.simps, rule trans,
    ((rule dec_members_fld_last dec_members_fld, simp add: codec_simps, simp)
     | (rule dec_members_omit_last dec_members_omit, simp add: codec_simps, simp del: not_None_eq, simp))+,
    simp)

record GasReport =
  GasReport_Limit :: u64
  GasReport_Remaining :: u64
  GasReport_UsedExternally :: u64
  GasReport_UsedInternally :: u64

definition EmptyGasReport :: "u64 \<Rightarrow> GasReport" where
  "EmptyGasReport limit =
     \<lparr>GasReport_Limit = limit, GasReport_Remaining = limit, GasReport_UsedExternally = 0,
      GasReport_UsedInternally = 0\<rparr>"

record AnalysisReport =
  AnalysisReport_HasIBCEntryPoints :: bool
  AnalysisReport_RequiredCapabilities :: string
  AnalysisReport_Entrypoints :: "string slice"
  AnalysisReport_ContractMigrateVersion :: "u64 option"

record Metrics =
  Metrics_HitsPinnedMemoryCache :: u32
  Metrics_HitsMemoryCache :: u32
  Metrics_HitsFsCache :: u32
  Metrics_Misses :: u32
  Metrics_ElementsPinnedMemoryCache :: u64
  Metrics_ElementsMemoryCache :: u64
  Metrics_SizePinnedMemoryCache :: u64
  Metrics_SizeMemoryCache :: u64

record PerModuleMetrics =
  PerModuleMetrics_Hits :: u32
  PerModuleMetrics_Size :: u64

record PerModuleEntry =
  PerModuleEntry_Checksum :: byte_slice
  PerModuleEntry_Metrics :: PerModuleMetrics

record PinnedMetrics =
  PinnedMetrics_PerModule :: "PerModuleEntry slice"

record MigrateInfo =
  MigrateInfo_Sender :: string
  MigrateInfo_OldMigrateVersion :: "u64 option"

definition MigrateInfo_to_json :: "MigrateInfo \<Rightarrow> json" where
  "MigrateInfo_to_json x = JObj (
     fld ''sender'' (JStr (MigrateInfo_Sender x)) @
     fld ''old_migrate_version'' (json_ptr json_u64 (MigrateInfo_OldMigrateVersion x)))"

section \<open>env.go\<close>

record BlockInfo =
  BlockInfo_Height :: u64
  BlockInfo_Time :: u64
  BlockInfo_ChainID :: string

definition BlockInfo_to_json :: "BlockInfo \<Rightarrow> json" where
  "BlockInfo_to_json x = JObj (
     fld ''height'' (json_u64 (BlockInfo_Height x)) @
     fld ''time'' (Uint64_MarshalJSON (BlockInfo_Time x)) @
     fld ''chain_id'' (JStr (BlockInfo_ChainID x)))"

record TransactionInfo =
  TransactionInfo_Index :: u32
  TransactionInfo_Hash :: byte_slice

definition TransactionInfo_to_json :: "TransactionInfo \<Rightarrow> json" where
  "TransactionInfo_to_json x = JObj (
     fld ''index'' (json_u32 (TransactionInfo_Index x)) @
     fld_omit ''hash'' (slice_len (TransactionInfo_Hash x) = 0) (json_bytes (TransactionInfo_Hash x)))"

record ContractInfo =
  ContractInfo_Address :: string

definition ContractInfo_to_json :: "ContractInfo \<Rightarrow> json" where
  "ContractInfo_to_json x = JObj (
     fld ''address'' (JStr (ContractInfo_Address x)))"

record Env =
  Env_Block :: BlockInfo
  Env_Transaction :: "TransactionInfo option"
  Env_Contract :: ContractInfo

definition Env_to_json :: "Env \<Rightarrow> json" where
  "Env_to_json x = JObj (
     fld ''block'' (BlockInfo_to_json (Env_Block x)) @
     fld ''transaction'' (json_ptr TransactionInfo_to_json (Env_Transaction x)) @
     fld ''contract'' (ContractInfo_to_json (Env_Contract x)))"

record MessageInfo =
  MessageInfo_Sender :: string
  MessageInfo_Funds :: "Coin slice"

definition MessageInfo_to_json :: "MessageInfo \<Rightarrow> json" where
  "MessageInfo_to_json x = JObj (
     fld ''sender'' (JStr (MessageInfo_Sender x)) @
     fld ''funds'' (Array_MarshalJSON Coin_to_json (MessageInfo_Funds x)))"

section \<open>config.go\<close>

text \<open>\<open>Size\<close> wraps a \<open>uint32\<close>; the constructors multiply with wrap-around.\<close>

definition Size_MarshalJSON :: "u32 \<Rightarrow> json" where
  "Size_MarshalJSON s = json_u32 s"

definition NewSize :: "u32 \<Rightarrow> u32" where
  "NewSize v = v"

definition NewSizeKilo :: "u32 \<Rightarrow> u32" where
  "NewSizeKilo v = v * 1000"

definition NewSizeKibi :: "u32 \<Rightarrow> u32" where
  "NewSizeKibi v = v * 1024"

definition NewSizeMega :: "u32 \<Rightarrow> u32" where
  "NewSizeMega v = v * 1000 * 1000"

definition NewSizeMebi :: "u32 \<Rightarrow> u32" where
  "NewSizeMebi v = v * 1024 * 1024"

definition NewSizeGiga :: "u32 \<Rightarrow> u32" where
  "NewSizeGiga v = v * 1000 * 1000 * 1000"

definition NewSizeGibi :: "u32 \<Rightarrow> u32" where
  "NewSizeGibi v = v * 1024 * 1024 * 1024"

record WasmLimits =
  WasmLimits_InitialMemoryLimitPages :: "u32 option"
  WasmLimits_TableSizeLimitElements :: "u32 option"
  WasmLimits_MaxImports :: "u32 option"
  WasmLimits_MaxFunctions :: "u32 option"
  WasmLimits_MaxFunctionParams :: "u32 option"
  WasmLimits_MaxTotalFunctionParams :: "u32 option"
  WasmLimits_MaxFunctionResults :: "u32 option"
  WasmLimits_MaxFunctionLocals :: "u32 option"
  WasmLimits_MaxTotalFunctionLocals :: "u32 option"

definition WasmLimits_zero :: WasmLimits where
  "WasmLimits_zero = \<lparr>WasmLimits_InitialMemoryLimitPages = None,
     WasmLimits_TableSizeLimitElements = None,
     WasmLimits_MaxImports = None,
     WasmLimits_MaxFunctions = None,
     WasmLimits_MaxFunctionParams = None,
     WasmLimits_MaxTotalFunctionParams = None,
     WasmLimits_MaxFunctionResults = None,
     WasmLimits_MaxFunctionLocals = None,
     WasmLimits_MaxTotalFunctionLocals = None\<rparr>"

definition WasmLimits_to_json :: "WasmLimits \<Rightarrow> json" where
  "WasmLimits_to_json x = JObj (
     fld_omit ''initial_memory_limit_pages'' (WasmLimits_InitialMemoryLimitPages x = None) (json_ptr json_u32 (WasmLimits_InitialMemoryLimitPages x)) @
     fld_omit ''table_size_limit_elements'' (WasmLimits_TableSizeLimitElements x = None) (json_ptr json_u32 (WasmLimits_TableSizeLimitElements x)) @
     fld_omit ''max_imports'' (WasmLimits_MaxImports x = None) (json_ptr json_u32 (WasmLimits_MaxImports x)) @
     fld_omit ''max_functions'' (WasmLimits_MaxFunctions x = None) (json_ptr json_u32 (WasmLimits_MaxFunctions x)) @
     fld_omit ''max_function_params'' (WasmLimits_MaxFunctionParams x = None) (json_ptr json_u32 (WasmLimits_MaxFunctionParams x)) @
     fld_omit ''max_total_function_params'' (WasmLimits_MaxTotalFunctionParams x = None) (json_ptr json_u32 (WasmLimits_MaxTotalFunctionParams x)) @
     fld_omit ''max_function_results'' (WasmLimits_MaxFunctionResults x = None) (json_ptr json_u32 (WasmLimits_MaxFunctionResults x)) @
     fld_omit ''max_function_locals'' (WasmLimits_MaxFunctionLocals x = None) (json_ptr json_u32 (WasmLimits_MaxFunctionLocals x)) @
     fld_omit ''max_total_function_locals'' (WasmLimits_MaxTotalFunctionLocals x = None) (json_ptr json_u32 (WasmLimits_MaxTotalFunctionLocals x)))"

record CacheOptions =
  CacheOptions_BaseDir :: string
  CacheOptions_AvailableCapabilities :: "string slice"
  CacheOptions_MemoryCacheSizeBytes :: u32
  CacheOptions_InstanceMemoryLimitBytes :: u32

definition CacheOptions_to_json :: "CacheOptions \<Rightarrow> json" where
  "CacheOptions_to_json x = JObj (
     fld ''base_dir'' (JStr (CacheOptions_BaseDir x)) @
     fld ''available_capabilities'' (json_slice JStr (CacheOptions_AvailableCapabilities x)) @
     fld ''memory_cache_size_bytes'' (Size_MarshalJSON (CacheOptions_MemoryCacheSizeBytes x)) @
     fld ''instance_memory_limit_bytes'' (Size_MarshalJSON (CacheOptions_InstanceMemoryLimitBytes x)))"

record VMConfig =
  VMConfig_WasmLimits :: WasmLimits
  VMConfig_Cache :: CacheOptions

definition VMConfig_to_json :: "VMConfig \<Rightarrow> json" where
  "VMConfig_to_json x = JObj (
     fld ''wasm_limits'' (WasmLimits_to_json (VMConfig_WasmLimits x)) @
     fld ''cache'' (CacheOptions_to_json (VMConfig_Cache x)))"

section \<open>fraction.go\<close>

text \<open>
  Multiplication wraps around at 64 bits; division by a zero denominator panics.
\<close>

definition divide_panic :: panic_value where
  "divide_panic = PanicValue ''errorString'' ''integer divide by zero''"

record Fraction =
  Fraction_Numerator :: i64
  Fraction_Denominator :: i64

definition Fraction_Mul :: "Fraction \<Rightarrow> i64 \<Rightarrow> Fraction" where
  "Fraction_Mul f m = \<lparr>Fraction_Numerator = Fraction_Numerator f * m,
     Fraction_Denominator = Fraction_Denominator f\<rparr>"

definition Fraction_Floor :: "Fraction \<Rightarrow> i64 go" where
  "Fraction_Floor f =
     (if Fraction_Denominator f = 0 then Panics divide_panic
      else Return (go_sdiv (Fraction_Numerator f) (Fraction_Denominator f)))"

record UFraction =
  UFraction_Numerator :: u64
  UFraction_Denominator :: u64

definition UFraction_Mul :: "UFraction \<Rightarrow> u64 \<Rightarrow> UFraction" where
  "UFraction_Mul f m = \<lparr>UFraction_Numerator = UFraction_Numerator f * m,
     UFraction_Denominator = UFraction_Denominator f\<rparr>"

definition UFraction_Floor :: "UFraction \<Rightarrow> u64 go" where
  "UFraction_Floor f =
     (if UFraction_Denominator f = 0 then Panics divide_panic
      else Return (UFraction_Numerator f div UFraction_Denominator f))"

section \<open>checksum.go\<close>

definition ChecksumLen :: nat where
  "ChecksumLen = 32"

definition Checksum_String :: "byte_slice \<Rightarrow> string" where
  "Checksum_String cs = hex_encode (elems cs)"

definition Checksum_MarshalJSON :: "byte_slice \<Rightarrow> json" where
  "Checksum_MarshalJSON cs = JStr (hex_encode (elems cs))"

definition Checksum_UnmarshalJSON :: "json \<Rightarrow> byte_slice \<Rightarrow> (json_error + byte_slice) go" where
  "Checksum_UnmarshalJSON input cs = (case run_decoder dec_string input [] of
     Panics p \<Rightarrow> Panics p
   | Return (Inl err) \<Rightarrow> Return (Inl err)
   | Return (Inr hexString) \<Rightarrow> (case hex_decode hexString of
       Inl err \<Rightarrow> Return (Inl (HexError err))
     | Inr data \<Rightarrow>
         (if length data \<noteq> ChecksumLen
          then Return (Inl (UnmarshalerError ''got wrong number of bytes for checksum''))
          else Return (Inr (Some data)))))"

definition Checksum_valid :: "byte_slice \<Rightarrow> bool" where
  "Checksum_valid cs \<longleftrightarrow> cs \<noteq> None \<and> slice_len cs = ChecksumLen"

interpretation Checksum_codec: json_codec Checksum_MarshalJSON "dec_unmarshaler Checksum_UnmarshalJSON"
    None "\<lambda>x. x" Checksum_valid
  by unfold_locales (auto simp: Checksum_MarshalJSON_def Checksum_UnmarshalJSON_def Checksum_valid_def
      dec_unmarshaler_def run_decoder_def hex_decode_encode)

definition ForceNewChecksum :: "string \<Rightarrow> byte_slice go" where
  "ForceNewChecksum input =
     (case hex_decode input of
        Inl err \<Rightarrow> Panics (panic_string ''could not decode hex bytes'')
      | Inr data \<Rightarrow>
          (if length data \<noteq> ChecksumLen then Panics (panic_string ''got wrong number of bytes'')
           else Return (Some data)))"

end
