(* ===== verification/Ibc.thy ===== *)
theory Ibc
  imports TypesGo
begin

text \<open>
  The messages of \<open>ibc.go\<close> and \<open>ibc2.go\<close> that the host passes to a contract's IBC entry points,
  their JSON, and the accessors of the enum-like messages.  An enum of the Rust side is a struct
  with one pointer per variant; exactly one should be set, and an accessor dereferences the last
  candidate without a check, so a message with no variant set panics.
\<close>

section \<open>Channels\<close>

definition Unordered :: string where
  "Unordered = ''ORDER_UNORDERED''"

definition Ordered :: string where
  "Ordered = ''ORDER_ORDERED''"

record IBCEndpoint =
  IBCEndpoint_PortID :: string
  IBCEndpoint_ChannelID :: string

definition IBCEndpoint_to_json :: "IBCEndpoint \<Rightarrow> json" where
  "IBCEndpoint_to_json x = JObj (
     fld ''port_id'' (JStr (IBCEndpoint_PortID x)) @
     fld ''channel_id'' (JStr (IBCEndpoint_ChannelID x)))"

record IBCChannel =
  IBCChannel_Endpoint :: IBCEndpoint
  IBCChannel_CounterpartyEndpoint :: IBCEndpoint
  IBCChannel_Order :: string
  IBCChannel_Version :: string
  IBCChannel_ConnectionID :: string

definition IBCChannel_to_json :: "IBCChannel \<Rightarrow> json" where
  "IBCChannel_to_json x = JObj (
     fld ''endpoint'' (IBCEndpoint_to_json (IBCChannel_Endpoint x)) @
     fld ''counterparty_endpoint'' (IBCEndpoint_to_json (IBCChannel_CounterpartyEndpoint x)) @
     fld ''order'' (JStr (IBCChannel_Order x)) @
     fld ''version'' (JStr (IBCChannel_Version x)) @
     fld ''connection_id'' (JStr (IBCChannel_ConnectionID x)))"

record IBCOpenInit =
  IBCOpenInit_Channel :: IBCChannel

definition IBCOpenInit_to_json :: "IBCOpenInit \<Rightarrow> json" where
  "IBCOpenInit_to_json x = JObj (
     fld ''channel'' (IBCChannel_to_json (IBCOpenInit_Channel x)))"

record IBCOpenTry =
  IBCOpenTry_Channel :: IBCChannel
  IBCOpenTry_CounterpartyVersion :: string

definition IBCOpenTry_to_json :: "IBCOpenTry \<Rightarrow> json" where
  "IBCOpenTry_to_json x = JObj (
     fld ''channel'' (IBCChannel_to_json (IBCOpenTry_Channel x)) @
     fld ''counterparty_version'' (JStr (IBCOpenTry_CounterpartyVersion x)))"

record IBCChannelOpenMsg =
  IBCChannelOpenMsg_OpenInit :: "IBCOpenInit option"
  IBCChannelOpenMsg_OpenTry :: "IBCOpenTry option"

definition IBCChannelOpenMsg_to_json :: "IBCChannelOpenMsg \<Rightarrow> json" where
  "IBCChannelOpenMsg_to_json x = JObj (
     fld_omit ''open_init'' (IBCChannelOpenMsg_OpenInit x = None) (json_ptr IBCOpenInit_to_json (IBCChannelOpenMsg_OpenInit x)) @
     fld_omit ''open_try'' (IBCChannelOpenMsg_OpenTry x = None) (json_ptr IBCOpenTry_to_json (IBCChannelOpenMsg_OpenTry x)))"

definition IBCChannelOpenMsg_GetChannel :: "IBCChannelOpenMsg \<Rightarrow> IBCChannel go" where
  "IBCChannelOpenMsg_GetChannel msg =
     (case IBCChannelOpenMsg_OpenInit msg of
        Some m \<Rightarrow> Return (IBCOpenInit_Channel m)
      | None \<Rightarrow> (case IBCChannelOpenMsg_OpenTry msg of
          Some m \<Rightarrow> Return (IBCOpenTry_Channel m)
        | None \<Rightarrow> Panics nil_deref))"

definition IBCChannelOpenMsg_GetCounterVersion :: "IBCChannelOpenMsg \<Rightarrow> string \<times> bool" where
  "IBCChannelOpenMsg_GetCounterVersion msg =
     (case IBCChannelOpenMsg_OpenTry msg of
        Some m \<Rightarrow> (IBCOpenTry_CounterpartyVersion m, True)
      | None \<Rightarrow> ([], False))"

definition IBCOpenInit_ToMsg :: "IBCOpenInit \<Rightarrow> IBCChannelOpenMsg" where
  "IBCOpenInit_ToMsg m = \<lparr>IBCChannelOpenMsg_OpenInit = Some m, IBCChannelOpenMsg_OpenTry = None\<rparr>"

definition IBCOpenTry_ToMsg :: "IBCOpenTry \<Rightarrow> IBCChannelOpenMsg" where
  "IBCOpenTry_ToMsg m = \<lparr>IBCChannelOpenMsg_OpenInit = None, IBCChannelOpenMsg_OpenTry = Some m\<rparr>"

record IBCOpenAck =
  IBCOpenAck_Channel :: IBCChannel
  IBCOpenAck_CounterpartyVersion :: string

definition IBCOpenAck_to_json :: "IBCOpenAck \<Rightarrow> json" where
  "IBCOpenAck_to_json x = JObj (
     fld ''channel'' (IBCChannel_to_json (IBCOpenAck_Channel x)) @
     fld ''counterparty_version'' (JStr (IBCOpenAck_CounterpartyVersion x)))"

record IBCOpenConfirm =
  IBCOpenConfirm_Channel :: IBCChannel

definition IBCOpenConfirm_to_json :: "IBCOpenConfirm \<Rightarrow> json" where
  "IBCOpenConfirm_to_json x = JObj (
     fld ''channel'' (IBCChannel_to_json (IBCOpenConfirm_Channel x)))"

record IBCChannelConnectMsg =
  IBCChannelConnectMsg_OpenAck :: "IBCOpenAck option"
  IBCChannelConnectMsg_OpenConfirm :: "IBCOpenConfirm option"

definition IBCChannelConnectMsg_to_json :: "IBCChannelConnectMsg \<Rightarrow> json" where
  "IBCChannelConnectMsg_to_json x = JObj (
     fld_omit ''open_ack'' (IBCChannelConnectMsg_OpenAck x = None) (json_ptr IBCOpenAck_to_json (IBCChannelConnectMsg_OpenAck x)) @
     fld_omit ''open_confirm'' (IBCChannelConnectMsg_OpenConfirm x = None) (json_ptr IBCOpenConfirm_to_json (IBCChannelConnectMsg_OpenConfirm x)))"

definition IBCChannelConnectMsg_GetChannel :: "IBCChannelConnectMsg \<Rightarrow> IBCChannel go" where
  "IBCChannelConnectMsg_GetChannel msg =
     (case IBCChannelConnectMsg_OpenAck msg of
        Some m \<Rightarrow> Return (IBCOpenAck_Channel m)
      | None \<Rightarrow> (case IBCChannelConnectMsg_OpenConfirm msg of
          Some m \<Rightarrow> Return (IBCOpenConfirm_Channel m)
        | None \<Rightarrow> Panics nil_deref))"

definition IBCChannelConnectMsg_GetCounterVersion :: "IBCChannelConnectMsg \<Rightarrow> string \<times> bool" where
  "IBCChannelConnectMsg_GetCounterVersion msg =
     (case IBCChannelConnectMsg_OpenAck msg of
        Some m \<Rightarrow> (IBCOpenAck_CounterpartyVersion m, True)
      | None \<Rightarrow> ([], False))"

definition IBCOpenAck_ToMsg :: "IBCOpenAck \<Rightarrow> IBCChannelConnectMsg" where
  "IBCOpenAck_ToMsg m = \<lparr>IBCChannelConnectMsg_OpenAck = Some m, IBCChannelConnectMsg_OpenConfirm = None\<rparr>"

definition IBCOpenConfirm_ToMsg :: "IBCOpenConfirm \<Rightarrow> IBCChannelConnectMsg" where
  "IBCOpenConfirm_ToMsg m = \<lparr>IBCChannelConnectMsg_OpenAck = None, IBCChannelConnectMsg_OpenConfirm = Some m\<rparr>"

record IBCCloseInit =
  IBCCloseInit_Channel :: IBCChannel

definition IBCCloseInit_to_json :: "IBCCloseInit \<Rightarrow> json" where
  "IBCCloseInit_to_json x = JObj (
     fld ''channel'' (IBCChannel_to_json (IBCCloseInit_Channel x)))"

record IBCCloseConfirm =
  IBCCloseConfirm_Channel :: IBCChannel

definition IBCCloseConfirm_to_json :: "IBCCloseConfirm \<Rightarrow> json" where
  "IBCCloseConfirm_to_json x = JObj (
     fld ''channel'' (IBCChannel_to_json (IBCCloseConfirm_Channel x)))"

record IBCChannelCloseMsg =
  IBCChannelCloseMsg_CloseInit :: "IBCCloseInit option"
  IBCChannelCloseMsg_CloseConfirm :: "IBCCloseConfirm option"

definition IBCChannelCloseMsg_to_json :: "IBCChannelCloseMsg \<Rightarrow> json" where
  "IBCChannelCloseMsg_to_json x = JObj (
     fld_omit ''close_init'' (IBCChannelCloseMsg_CloseInit x = None) (json_ptr IBCCloseInit_to_json (IBCChannelCloseMsg_CloseInit x)) @
     fld_omit ''close_confirm'' (IBCChannelCloseMsg_CloseConfirm x = None) (json_ptr IBCCloseConfirm_to_json (IBCChannelCloseMsg_CloseConfirm x)))"

definition IBCChannelCloseMsg_GetChannel :: "IBCChannelCloseMsg \<Rightarrow> IBCChannel go" where
  "IBCChannelCloseMsg_GetChannel msg =
     (case IBCChannelCloseMsg_CloseInit msg of
        Some m \<Rightarrow> Return (IBCCloseInit_Channel m)
      | None \<Rightarrow> (case IBCChannelCloseMsg_CloseConfirm msg of
          Some m \<Rightarrow> Return (IBCCloseConfirm_Channel m)
        | None \<Rightarrow> Panics nil_deref))"

definition IBCCloseInit_ToMsg :: "IBCCloseInit \<Rightarrow> IBCChannelCloseMsg" where
  "IBCCloseInit_ToMsg m = \<lparr>IBCChannelCloseMsg_CloseInit = Some m, IBCChannelCloseMsg_CloseConfirm = None\<rparr>"

definition IBCCloseConfirm_ToMsg :: "IBCCloseConfirm \<Rightarrow> IBCChannelCloseMsg" where
  "IBCCloseConfirm_ToMsg m = \<lparr>IBCChannelCloseMsg_CloseInit = None, IBCChannelCloseMsg_CloseConfirm = Some m\<rparr>"

section \<open>Packets\<close>

record IBCTimeoutBlock =
  IBCTimeoutBlock_Revision :: u64
  IBCTimeoutBlock_Height :: u64

definition IBCTimeoutBlock_zero :: IBCTimeoutBlock where
  "IBCTimeoutBlock_zero = \<lparr>IBCTimeoutBlock_Revision = 0,
     IBCTimeoutBlock_Height = 0\<rparr>"

definition IBCTimeoutBlock_to_json :: "IBCTimeoutBlock \<Rightarrow> json" where
  "IBCTimeoutBlock_to_json x = JObj (
     fld ''revision'' (json_u64 (IBCTimeoutBlock_Revision x)) @
     fld ''height'' (json_u64 (IBCTimeoutBlock_Height x)))"

definition IBCTimeoutBlock_decode :: "IBCTimeoutBlock decoder" where
  "IBCTimeoutBlock_decode = dec_struct (
     dec_field ''revision'' dec_uint IBCTimeoutBlock_Revision IBCTimeoutBlock_Revision_update @
     dec_field ''height'' dec_uint IBCTimeoutBlock_Height IBCTimeoutBlock_Height_update)"

interpretation IBCTimeoutBlock_codec: json_codec IBCTimeoutBlock_to_json IBCTimeoutBlock_decode IBCTimeoutBlock_zero "\<lambda>x. x" "\<lambda>_. True"
  by (unfold_locales, simp add: IBCTimeoutBlock_to_json_def,
    unfold IBCTimeoutBlock_decode_def IBCTimeoutBlock_to_json_def IBCTimeoutBlock_zero_def dec_struct.simps, rule trans,
    ((rule dec_members_fld_last dec_members_fld, simp add: codec_simps, simp)
     | (rule dec_members_omit_last dec_members_omit, simp add: codec_simps, simp del: not_None_eq, simp))+,
    simp)

definition IBCTimeoutBlock_IsZero :: "IBCTimeoutBlock \<Rightarrow> bool" where
  "IBCTimeoutBlock_IsZero t \<longleftrightarrow> IBCTimeoutBlock_Revision t = 0 \<and> IBCTimeoutBlock_Height t = 0"

record IBCTimeout =
  IBCTimeout_Block :: "IBCTimeoutBlock option"
  IBCTimeout_Timestamp :: u64

definition IBCTimeout_zero :: IBCTimeout where
  "IBCTimeout_zero = \<lparr>IBCTimeout_Block = None,
     IBCTimeout_Timestamp = 0\<rparr>"

definition IBCTimeout_to_json :: "IBCTimeout \<Rightarrow> json" where
  "IBCTimeout_to_json x = JObj (
     fld ''block'' (json_ptr IBCTimeoutBlock_to_json (IBCTimeout_Block x)) @
     fld_omit ''timestamp'' (IBCTimeout_Timestamp x = 0) (json_u64_quoted (IBCTimeout_Timestamp x)))"

record IBCAcknowledgement =
  IBCAcknowledgement_Data :: byte_slice

definition IBCAcknowledgement_zero :: IBCAcknowledgement where
  "IBCAcknowledgement_zero = \<lparr>IBCAcknowledgement_Data = None\<rparr>"

definition IBCAcknowledgement_to_json :: "IBCAcknowledgement \<Rightarrow> json" where
  "IBCAcknowledgement_to_json x = JObj (
     fld ''data'' (json_bytes (IBCAcknowledgement_Data x)))"

record IBCPacket =
  IBCPacket_Data :: byte_slice
  IBCPacket_Src :: IBCEndpoint
  IBCPacket_Dest :: IBCEndpoint
  IBCPacket_Sequence :: u64
  IBCPacket_Timeout :: IBCTimeout

definition IBCPacket_to_json :: "IBCPacket \<Rightarrow> json" where
  "IBCPacket_to_json x = JObj (
     fld ''data'' (json_bytes (IBCPacket_Data x)) @
     fld ''src'' (IBCEndpoint_to_json (IBCPacket_Src x)) @
     fld ''dest'' (IBCEndpoint_to_json (IBCPacket_Dest x)) @
     fld ''sequence'' (json_u64 (IBCPacket_Sequence x)) @
     fld ''timeout'' (IBCTimeout_to_json (IBCPacket_Timeout x)))"

record IBCPacketReceiveMsg =
  IBCPacketReceiveMsg_Packet :: IBCPacket
  IBCPacketReceiveMsg_Relayer :: string

definition IBCPacketReceiveMsg_to_json :: "IBCPacketReceiveMsg \<Rightarrow> json" where
  "IBCPacketReceiveMsg_to_json x = JObj (
     fld ''packet'' (IBCPacket_to_json (IBCPacketReceiveMsg_Packet x)) @
     fld ''relayer'' (JStr (IBCPacketReceiveMsg_Relayer x)))"

record IBCPacketAckMsg =
  IBCPacketAckMsg_Acknowledgement :: IBCAcknowledgement
  IBCPacketAckMsg_OriginalPacket :: IBCPacket
  IBCPacketAckMsg_Relayer :: string

definition IBCPacketAckMsg_to_json :: "IBCPacketAckMsg \<Rightarrow> json" where
  "IBCPacketAckMsg_to_json x = JObj (
     fld ''acknowledgement'' (IBCAcknowledgement_to_json (IBCPacketAckMsg_Acknowledgement x)) @
     fld ''original_packet'' (IBCPacket_to_json (IBCPacketAckMsg_OriginalPacket x)) @
     fld ''relayer'' (JStr (IBCPacketAckMsg_Relayer x)))"

record IBCPacketTimeoutMsg =
  IBCPacketTimeoutMsg_Packet :: IBCPacket
  IBCPacketTimeoutMsg_Relayer :: string

definition IBCPacketTimeoutMsg_to_json :: "IBCPacketTimeoutMsg \<Rightarrow> json" where
  "IBCPacketTimeoutMsg_to_json x = JObj (
     fld ''packet'' (IBCPacket_to_json (IBCPacketTimeoutMsg_Packet x)) @
     fld ''relayer'' (JStr (IBCPacketTimeoutMsg_Relayer x)))"

definition IBCTimeout_decode :: "IBCTimeout decoder" where
  "IBCTimeout_decode = dec_struct (
     dec_field ''block'' (dec_ptr IBCTimeoutBlock_zero IBCTimeoutBlock_decode) IBCTimeout_Block IBCTimeout_Block_update @
     dec_field ''timestamp'' dec_quoted_u64 IBCTimeout_Timestamp IBCTimeout_Timestamp_update)"

interpretation IBCTimeout_codec: json_codec IBCTimeout_to_json IBCTimeout_decode IBCTimeout_zero "\<lambda>x. x" "\<lambda>_. True"
  by (unfold_locales, simp add: IBCTimeout_to_json_def,
    unfold IBCTimeout_decode_def IBCTimeout_to_json_def IBCTimeout_zero_def dec_struct.simps, rule trans,
    ((rule dec_members_fld_last dec_members_fld, simp add: codec_simps, simp)
     | (rule dec_members_omit_last dec_members_omit, simp add: codec_simps, simp del: not_None_eq, simp))+,
    simp)

definition IBCAcknowledgement_decode :: "IBCAcknowledgement decoder" where
  "IBCAcknowledgement_decode = dec_struct (
     dec_field ''data'' dec_bytes IBCAcknowledgement_Data IBCAcknowledgement_Data_update)"

interpretation IBCAcknowledgement_codec: json_codec IBCAcknowledgement_to_json IBCAcknowledgement_decode IBCAcknowledgement_zero "\<lambda>x. x" "\<lambda>_. True"
  by (unfold_locales, simp add: IBCAcknowledgement_to_json_def,
    unfold IBCAcknowledgement_decode_def IBCAcknowledgement_to_json_def IBCAcknowledgement_zero_def dec_struct.simps, rule trans,
    ((rule dec_members_fld_last dec_members_fld, simp add: codec_simps, simp)
     | (rule dec_members_omit_last dec_members_omit, simp add: codec_simps, simp del: not_None_eq, simp))+,
    simp)

section \<open>Callbacks\<close>

record IBCAckCallbackMsg =
  IBCAckCallbackMsg_Acknowledgement :: IBCAcknowledgement
  IBCAckCallbackMsg_OriginalPacket :: IBCPacket
  IBCAckCallbackMsg_Relayer :: string

definition IBCAckCallbackMsg_to_json :: "IBCAckCallbackMsg \<Rightarrow> json" where
  "IBCAckCallbackMsg_to_json x = JObj (
     fld ''acknowledgement'' (IBCAcknowledgement_to_json (IBCAckCallbackMsg_Acknowledgement x)) @
     fld ''original_packet'' (IBCPacket_to_json (IBCAckCallbackMsg_OriginalPacket x)) @
     fld ''relayer'' (JStr (IBCAckCallbackMsg_Relayer x)))"

record IBCTimeoutCallbackMsg =
  IBCTimeoutCallbackMsg_Packet :: IBCPacket
  IBCTimeoutCallbackMsg_Relayer :: string

definition IBCTimeoutCallbackMsg_to_json :: "IBCTimeoutCallbackMsg \<Rightarrow> json" where
  "IBCTimeoutCallbackMsg_to_json x = JObj (
     fld ''packet'' (IBCPacket_to_json (IBCTimeoutCallbackMsg_Packet x)) @
     fld ''relayer'' (JStr (IBCTimeoutCallbackMsg_Relayer x)))"

record IBCSourceCallbackMsg =
  IBCSourceCallbackMsg_Acknowledgement :: "IBCAckCallbackMsg option"
  IBCSourceCallbackMsg_Timeout :: "IBCTimeoutCallbackMsg option"

definition IBCSourceCallbackMsg_to_json :: "IBCSourceCallbackMsg \<Rightarrow> json" where
  "IBCSourceCallbackMsg_to_json x = JObj (
     fld_omit ''acknowledgement'' (IBCSourceCallbackMsg_Acknowledgement x = None) (json_ptr IBCAckCallbackMsg_to_json (IBCSourceCallbackMsg_Acknowledgement x)) @
     fld_omit ''timeout'' (IBCSourceCallbackMsg_Timeout x = None) (json_ptr IBCTimeoutCallbackMsg_to_json (IBCSourceCallbackMsg_Timeout x)))"

record IBCTransferCallback =
  IBCTransferCallback_Funds :: "Coin slice"
  IBCTransferCallback_Receiver :: string
  IBCTransferCallback_Sender :: string

definition IBCTransferCallback_to_json :: "IBCTransferCallback \<Rightarrow> json" where
  "IBCTransferCallback_to_json x = JObj (
     fld ''funds'' (Array_MarshalJSON Coin_to_json (IBCTransferCallback_Funds x)) @
     fld ''receiver'' (JStr (IBCTransferCallback_Receiver x)) @
     fld ''sender'' (JStr (IBCTransferCallback_Sender x)))"

record IBCDestinationCallbackMsg =
  IBCDestinationCallbackMsg_Ack :: IBCAcknowledgement
  IBCDestinationCallbackMsg_Packet :: IBCPacket
  IBCDestinationCallbackMsg_Transfer :: "IBCTransferCallback option"

definition IBCDestinationCallbackMsg_to_json :: "IBCDestinationCallbackMsg \<Rightarrow> json" where
  "IBCDestinationCallbackMsg_to_json x = JObj (
     fld ''ack'' (IBCAcknowledgement_to_json (IBCDestinationCallbackMsg_Ack x)) @
     fld ''packet'' (IBCPacket_to_json (IBCDestinationCallbackMsg_Packet x)) @
     fld_omit ''transfer'' (IBCDestinationCallbackMsg_Transfer x = None) (json_ptr IBCTransferCallback_to_json (IBCDestinationCallbackMsg_Transfer x)))"

section \<open>ibc2.go\<close>

record IBC2Payload =
  IBC2Payload_SourcePort :: string
  IBC2Payload_DestinationPort :: string
  IBC2Payload_Version :: string
  IBC2Payload_Encoding :: string
  IBC2Payload_Value :: byte_slice

definition IBC2Payload_zero :: IBC2Payload where
  "IBC2Payload_zero = \<lparr>IBC2Payload_SourcePort = [],
     IBC2Payload_DestinationPort = [],
     IBC2Payload_Version = [],
     IBC2Payload_Encoding = [],
     IBC2Payload_Value = None\<rparr>"

definition IBC2Payload_to_json :: "IBC2Payload \<Rightarrow> json" where
  "IBC2Payload_to_json x = JObj (
     fld ''source_port'' (JStr (IBC2Payload_SourcePort x)) @
     fld ''destination_port'' (JStr (IBC2Payload_DestinationPort x)) @
     fld ''version'' (JStr (IBC2Payload_Version x)) @
     fld ''encoding'' (JStr (IBC2Payload_Encoding x)) @
     fld ''value'' (json_bytes (IBC2Payload_Value x)))"

record IBC2PacketReceiveMsg =
  IBC2PacketReceiveMsg_Payload :: IBC2Payload
  IBC2PacketReceiveMsg_Relayer :: string
  IBC2PacketReceiveMsg_SourceClient :: string
  IBC2PacketReceiveMsg_DestinationClient :: string
  IBC2PacketReceiveMsg_PacketSequence :: u64

definition IBC2PacketReceiveMsg_to_json :: "IBC2PacketReceiveMsg \<Rightarrow> json" where
  "IBC2PacketReceiveMsg_to_json x = JObj (
     fld ''payload'' (IBC2Payload_to_json (IBC2PacketReceiveMsg_Payload x)) @
     fld ''relayer'' (JStr (IBC2PacketReceiveMsg_Relayer x)) @
     fld ''source_client'' (JStr (IBC2PacketReceiveMsg_SourceClient x)) @
     fld ''destination_client'' (JStr (IBC2PacketReceiveMsg_DestinationClient x)) @
     fld ''packet_sequence'' (json_u64 (IBC2PacketReceiveMsg_PacketSequence x)))"

record IBC2PacketTimeoutMsg =
  IBC2PacketTimeoutMsg_Payload :: IBC2Payload
  IBC2PacketTimeoutMsg_SourceClient :: string
  IBC2PacketTimeoutMsg_DestinationClient :: string
  IBC2PacketTimeoutMsg_PacketSequence :: u64
  IBC2PacketTimeoutMsg_Relayer :: string

definition IBC2PacketTimeoutMsg_to_json :: "IBC2PacketTimeoutMsg \<Rightarrow> json" where
  "IBC2PacketTimeoutMsg_to_json x = JObj (
     fld ''payload'' (IBC2Payload_to_json (IBC2PacketTimeoutMsg_Payload x)) @
     fld ''source_client'' (JStr (IBC2PacketTimeoutMsg_SourceClient x)) @
     fld ''destination_client'' (JStr (IBC2PacketTimeoutMsg_DestinationClient x)) @
     fld ''packet_sequence'' (json_u64 (IBC2PacketTimeoutMsg_PacketSequence x)) @
     fld ''relayer'' (JStr (IBC2PacketTimeoutMsg_Relayer x)))"

record IBC2AcknowledgeMsg =
  IBC2AcknowledgeMsg_SourceClient :: string
  IBC2AcknowledgeMsg_DestinationClient :: string
  IBC2AcknowledgeMsg_Data :: IBC2Payload
  IBC2AcknowledgeMsg_Acknowledgement :: byte_slice
  IBC2AcknowledgeMsg_Relayer :: string

definition IBC2AcknowledgeMsg_to_json :: "IBC2AcknowledgeMsg \<Rightarrow> json" where
  "IBC2AcknowledgeMsg_to_json x = JObj (
     fld ''source_client'' (JStr (IBC2AcknowledgeMsg_SourceClient x)) @
     fld ''destination_client'' (JStr (IBC2AcknowledgeMsg_DestinationClient x)) @
     fld ''data'' (IBC2Payload_to_json (IBC2AcknowledgeMsg_Data x)) @
     fld ''acknowledgement'' (json_bytes (IBC2AcknowledgeMsg_Acknowledgement x)) @
     fld ''relayer'' (JStr (IBC2AcknowledgeMsg_Relayer x)))"

record IBC2PacketSendMsg =
  IBC2PacketSendMsg_Payload :: IBC2Payload
  IBC2PacketSendMsg_SourceClient :: string
  IBC2PacketSendMsg_DestinationClient :: string
  IBC2PacketSendMsg_PacketSequence :: u64
  IBC2PacketSendMsg_Signer :: string

definition IBC2PacketSendMsg_to_json :: "IBC2PacketSendMsg \<Rightarrow> json" where
  "IBC2PacketSendMsg_to_json x = JObj (
     fld ''payload'' (IBC2Payload_to_json (IBC2PacketSendMsg_Payload x)) @
     fld ''source_client'' (JStr (IBC2PacketSendMsg_SourceClient x)) @
     fld ''destination_client'' (JStr (IBC2PacketSendMsg_DestinationClient x)) @
     fld ''packet_sequence'' (json_u64 (IBC2PacketSendMsg_PacketSequence x)) @
     fld ''signer'' (JStr (IBC2PacketSendMsg_Signer x)))"

definition IBC2Payload_decode :: "IBC2Payload decoder" where
  "IBC2Payload_decode = dec_struct (
     dec_field ''source_port'' dec_string IBC2Payload_SourcePort IBC2Payload_SourcePort_update @
     dec_field ''destination_port'' dec_string IBC2Payload_DestinationPort IBC2Payload_DestinationPort_update @
     dec_field ''version'' dec_string IBC2Payload_Version IBC2Payload_Version_update @
     dec_field ''encoding'' dec_string IBC2Payload_Encoding IBC2Payload_Encoding_update @
     dec_field ''value'' dec_bytes IBC2Payload_Value IBC2Payload_Value_update)"

interpretation IBC2Payload_codec: json_codec IBC2Payload_to_json IBC2Payload_decode IBC2Payload_zero "\<lambda>x. x" "\<lambda>_. True"
  by (unfold_locales, simp add: IBC2Payload_to_json_def,
    unfold IBC2Payload_decode_def IBC2Payload_to_json_def IBC2Payload_zero_def dec_struct.simps, rule trans,
    ((rule dec_members_fld_last dec_members_fld, simp add: codec_simps, simp)
     | (rule dec_members_omit_last dec_members_omit, simp add: codec_simps, simp del: not_None_eq, simp))+,
    simp)

end
