(* ===== verification/JsonSize.thy ===== *)
theory JsonSize
  imports Ibc
begin

text \<open>
  \<open>json_size.go\<close>: predicting the number of bytes \<open>json.Marshal\<close> writes.  The source calls its
  result a best guess.  Here it is compared with the text itself: \<open>json_size\<close> is the prediction
  computed on a document, \<open>json_excess\<close> the bytes the encoder adds for strings that are no valid
  UTF-8 or hold U+2028 or U+2029, and their sum is the length of the text.  The Go interface
  \<open>ExpectedJSONSize\<close> is the locale \<open>expected_json_size\<close>, interpreted for every type that
  implements it.
\<close>

section \<open>Scalars\<close>

definition brackets :: nat where "brackets = 2"
definition quotes :: nat where "quotes = 2"
definition comma :: nat where "comma = 1"
definition colon :: nat where "colon = 1"
definition null_size :: nat where "null_size = 4"

lemmas json_size_consts [simp] = brackets_def quotes_def comma_def colon_def null_size_def

definition rune_overhead :: "nat \<Rightarrow> nat" where
  "rune_overhead r =
     (if r = 0x22 \<or> r = 0x5C then 1
      else if r = 0x08 \<or> r = 0x0C \<or> r = 0x0A \<or> r = 0x0D \<or> r = 0x09 then 1
      else if r \<le> 0x1F then 5
      else if r = 0x3C \<or> r = 0x3E \<or> r = 0x26 then 5
      else 0)"

definition ExpectedJSONSizeString :: "string \<Rightarrow> nat" where
  "ExpectedJSONSizeString s =
     foldl (\<lambda>out rb. out + rune_overhead (fst rb)) (quotes + length s) (runes s)"

definition ExpectedJSONSizeBinary :: "byte_slice \<Rightarrow> nat" where
  "ExpectedJSONSizeBinary b =
     (case b of
        None \<Rightarrow> null_size
      | Some s \<Rightarrow>
          (let b64Len = and ((4 * int (length s)) div 3 + 3) (not 3) in nat b64Len + quotes))"

function json_size_int_loop :: "i64 \<Rightarrow> nat \<Rightarrow> nat" where
  "json_size_int_loop i out =
     (if 0 < sint i then json_size_int_loop (go_sdiv i 10) (out + 1) else out)"
  by pat_completeness auto

lemma sint_go_sdiv_10:
  assumes "0 < sint (i :: i64)"
  shows "sint (go_sdiv i 10) = sint i div 10"
proof -
  have "sint i < 2 ^ 63" using sint_lt [of i] by simp
  then have "signed_take_bit 63 (sint i div 10) = sint i div 10"
    using assms by (intro signed_take_bit_int_eq_self) auto
  moreover have "sint i sdiv 10 = sint i div 10"
    using assms by (simp add: signed_divide_int_def)
  ultimately show ?thesis by (simp add: go_sdiv_def sint_sbintrunc' signed_of_int)
qed

termination json_size_int_loop
  by (relation "measure (\<lambda>(i, out). nat (sint i))") (simp_all add: sint_go_sdiv_10)

declare json_size_int_loop.simps [simp del]

definition ExpectedJSONSizeInt :: "i64 \<Rightarrow> nat" where
  "ExpectedJSONSizeInt i =
     (if sint i \<le> 0 then json_size_int_loop (- i) (0 + 1) else json_size_int_loop i 0)"

function json_size_uint_loop :: "u64 \<Rightarrow> nat \<Rightarrow> nat" where
  "json_size_uint_loop i out = (if 0 < i then json_size_uint_loop (i div 10) (out + 1) else out)"
  by pat_completeness auto

termination json_size_uint_loop
  by (relation "measure (\<lambda>(i, out). unat i)") (simp_all add: unat_div_less)

declare json_size_uint_loop.simps [simp del]

definition ExpectedJSONSizeUint64 :: "u64 \<Rightarrow> nat" where
  "ExpectedJSONSizeUint64 i = (if i = 0 then 1 else json_size_uint_loop i 0)"

definition ExpectedJSONSizeBool :: "bool \<Rightarrow> nat" where
  "ExpectedJSONSizeBool b = (if b then 4 else 5)"

definition ExpectedJSONSizeArray :: "('a \<Rightarrow> nat) \<Rightarrow> 'a slice \<Rightarrow> nat" where
  "ExpectedJSONSizeArray size_of a =
     foldl (\<lambda>out iv. (if fst iv > 0 then out + comma else out) + size_of (snd iv))
       brackets (enumerate 0 (elems a))"

section \<open>Structs\<close>

definition Coin_ExpectedJSONSize :: "Coin \<Rightarrow> nat" where
  "Coin_ExpectedJSONSize c =
     brackets +
     7 + colon + ExpectedJSONSizeString (Coin_Denom c) + comma +
     8 + colon + ExpectedJSONSizeString (Coin_Amount c)"

definition IBCEndpoint_ExpectedJSONSize :: "IBCEndpoint \<Rightarrow> nat" where
  "IBCEndpoint_ExpectedJSONSize t =
     brackets +
     9 + colon + ExpectedJSONSizeString (IBCEndpoint_PortID t) + comma +
     12 + colon + ExpectedJSONSizeString (IBCEndpoint_ChannelID t)"

definition IBCChannel_ExpectedJSONSize :: "IBCChannel \<Rightarrow> nat" where
  "IBCChannel_ExpectedJSONSize t =
     brackets +
     10 + colon + IBCEndpoint_ExpectedJSONSize (IBCChannel_Endpoint t) + comma +
     23 + colon + IBCEndpoint_ExpectedJSONSize (IBCChannel_CounterpartyEndpoint t) + comma +
     7 + colon + ExpectedJSONSizeString (IBCChannel_Order t) + comma +
     9 + colon + ExpectedJSONSizeString (IBCChannel_Version t) + comma +
     15 + colon + ExpectedJSONSizeString (IBCChannel_ConnectionID t)"

definition IBCOpenInit_ExpectedJSONSize :: "IBCOpenInit \<Rightarrow> nat" where
  "IBCOpenInit_ExpectedJSONSize t =
     brackets + 9 + colon + IBCChannel_ExpectedJSONSize (IBCOpenInit_Channel t)"

definition IBCOpenTry_ExpectedJSONSize :: "IBCOpenTry \<Rightarrow> nat" where
  "IBCOpenTry_ExpectedJSONSize t =
     brackets +
     9 + colon + IBCChannel_ExpectedJSONSize (IBCOpenTry_Channel t) + comma +
     22 + colon + ExpectedJSONSizeString (IBCOpenTry_CounterpartyVersion t)"

definition IBCChannelOpenMsg_ExpectedJSONSize :: "IBCChannelOpenMsg \<Rightarrow> nat" where
  "IBCChannelOpenMsg_ExpectedJSONSize t =
     (let out = brackets;
          out = (case IBCChannelOpenMsg_OpenInit t of
             None \<Rightarrow> out
           | Some m \<Rightarrow> out + 11 + colon + IBCOpenInit_ExpectedJSONSize m);
          out = (if IBCChannelOpenMsg_OpenInit t \<noteq> None \<and> IBCChannelOpenMsg_OpenTry t \<noteq> None
             then out + comma
             else out);
          out = (case IBCChannelOpenMsg_OpenTry t of
             None \<Rightarrow> out
           | Some m \<Rightarrow> out + 10 + colon + IBCOpenTry_ExpectedJSONSize m)
      in out)"

definition IBCOpenAck_ExpectedJSONSize :: "IBCOpenAck \<Rightarrow> nat" where
  "IBCOpenAck_ExpectedJSONSize t =
     brackets +
     9 + colon + IBCChannel_ExpectedJSONSize (IBCOpenAck_Channel t) + comma +
     22 + colon + ExpectedJSONSizeString (IBCOpenAck_CounterpartyVersion t)"

definition IBCOpenConfirm_ExpectedJSONSize :: "IBCOpenConfirm \<Rightarrow> nat" where
  "IBCOpenConfirm_ExpectedJSONSize t =
     brackets + 9 + colon + IBCChannel_ExpectedJSONSize (IBCOpenConfirm_Channel t)"

definition IBCChannelConnectMsg_ExpectedJSONSize :: "IBCChannelConnectMsg \<Rightarrow> nat" where
  "IBCChannelConnectMsg_ExpectedJSONSize t =
     (let out = brackets;
          out = (case IBCChannelConnectMsg_OpenAck t of
             None \<Rightarrow> out
           | Some m \<Rightarrow> out + 10 + colon + IBCOpenAck_ExpectedJSONSize m);
          out = (if IBCChannelConnectMsg_OpenAck t \<noteq> None \<and> IBCChannelConnectMsg_OpenConfirm t \<noteq> None
             then out + comma
             else out);
          out = (case IBCChannelConnectMsg_OpenConfirm t of
             None \<Rightarrow> out
           | Some m \<Rightarrow> out + 14 + colon + IBCOpenConfirm_ExpectedJSONSize m)
      in out)"

definition IBCCloseInit_ExpectedJSONSize :: "IBCCloseInit \<Rightarrow> nat" where
  "IBCCloseInit_ExpectedJSONSize t =
     brackets + 9 + colon + IBCChannel_ExpectedJSONSize (IBCCloseInit_Channel t)"

definition IBCCloseConfirm_ExpectedJSONSize :: "IBCCloseConfirm \<Rightarrow> nat" where
  "IBCCloseConfirm_ExpectedJSONSize t =
     brackets + 9 + colon + IBCChannel_ExpectedJSONSize (IBCCloseConfirm_Channel t)"

definition IBCChannelCloseMsg_ExpectedJSONSize :: "IBCChannelCloseMsg \<Rightarrow> nat" where
  "IBCChannelCloseMsg_ExpectedJSONSize t =
     (let out = brackets;
          out = (case IBCChannelCloseMsg_CloseInit t of
             None \<Rightarrow> out
           | Some m \<Rightarrow> out + 12 + colon + IBCCloseInit_ExpectedJSONSize m);
          out = (if IBCChannelCloseMsg_CloseInit t \<noteq> None \<and> IBCChannelCloseMsg_CloseConfirm t \<noteq> None
             then out + comma
             else out);
          out = (case IBCChannelCloseMsg_CloseConfirm t of
             None \<Rightarrow> out
           | Some m \<Rightarrow> out + 15 + colon + IBCCloseConfirm_ExpectedJSONSize m)
      in out)"

definition IBCTimeoutBlock_ExpectedJSONSize :: "IBCTimeoutBlock \<Rightarrow> nat" where
  "IBCTimeoutBlock_ExpectedJSONSize t =
     brackets +
     10 + colon + ExpectedJSONSizeUint64 (IBCTimeoutBlock_Revision t) + comma +
     8 + colon + ExpectedJSONSizeUint64 (IBCTimeoutBlock_Height t)"

definition IBCTimeout_ExpectedJSONSize :: "IBCTimeout \<Rightarrow> nat" where
  "IBCTimeout_ExpectedJSONSize t =
     (let out = brackets;
          out = (case IBCTimeout_Block t of
             None \<Rightarrow> out + 7 + colon + null_size
           | Some m \<Rightarrow> out + 7 + colon + IBCTimeoutBlock_ExpectedJSONSize m);
          out = (if IBCTimeout_Timestamp t \<noteq> 0
             then out + comma + 11 + colon + ExpectedJSONSizeUint64 (IBCTimeout_Timestamp t) + quotes
             else out)
      in out)"

definition IBCPacket_ExpectedJSONSize :: "IBCPacket \<Rightarrow> nat" where
  "IBCPacket_ExpectedJSONSize t =
     brackets +
     6 + colon + ExpectedJSONSizeBinary (IBCPacket_Data t) + comma +
     5 + colon + IBCEndpoint_ExpectedJSONSize (IBCPacket_Src t) + comma +
     6 + colon + IBCEndpoint_ExpectedJSONSize (IBCPacket_Dest t) + comma +
     10 + colon + ExpectedJSONSizeUint64 (IBCPacket_Sequence t) + comma +
     9 + colon + IBCTimeout_ExpectedJSONSize (IBCPacket_Timeout t)"

definition IBCAcknowledgement_ExpectedJSONSize :: "IBCAcknowledgement \<Rightarrow> nat" where
  "IBCAcknowledgement_ExpectedJSONSize t =
     brackets +
     6 + colon + ExpectedJSONSizeBinary (IBCAcknowledgement_Data t)"

definition IBCPacketReceiveMsg_ExpectedJSONSize :: "IBCPacketReceiveMsg \<Rightarrow> nat" where
  "IBCPacketReceiveMsg_ExpectedJSONSize t =
     brackets +
     8 + colon + IBCPacket_ExpectedJSONSize (IBCPacketReceiveMsg_Packet t) + comma +
     9 + colon + ExpectedJSONSizeString (IBCPacketReceiveMsg_Relayer t)"

definition IBCPacketAckMsg_ExpectedJSONSize :: "IBCPacketAckMsg \<Rightarrow> nat" where
  "IBCPacketAckMsg_ExpectedJSONSize t =
     brackets +
     17 + colon + IBCAcknowledgement_ExpectedJSONSize (IBCPacketAckMsg_Acknowledgement t) + comma +
     17 + colon + IBCPacket_ExpectedJSONSize (IBCPacketAckMsg_OriginalPacket t) + comma +
     9 + colon + ExpectedJSONSizeString (IBCPacketAckMsg_Relayer t)"

definition IBCPacketTimeoutMsg_ExpectedJSONSize :: "IBCPacketTimeoutMsg \<Rightarrow> nat" where
  "IBCPacketTimeoutMsg_ExpectedJSONSize t =
     brackets +
     8 + colon + IBCPacket_ExpectedJSONSize (IBCPacketTimeoutMsg_Packet t) + comma +
     9 + colon + ExpectedJSONSizeString (IBCPacketTimeoutMsg_Relayer t)"

definition IBCAckCallbackMsg_ExpectedJSONSize :: "IBCAckCallbackMsg \<Rightarrow> nat" where
  "IBCAckCallbackMsg_ExpectedJSONSize t =
     brackets +
     17 + colon + IBCAcknowledgement_ExpectedJSONSize (IBCAckCallbackMsg_Acknowledgement t) + comma +
     17 + colon + IBCPacket_ExpectedJSONSize (IBCAckCallbackMsg_OriginalPacket t) + comma +
     9 + colon + ExpectedJSONSizeString (IBCAckCallbackMsg_Relayer t)"

definition IBCTimeoutCallbackMsg_ExpectedJSONSize :: "IBCTimeoutCallbackMsg \<Rightarrow> nat" where
  "IBCTimeoutCallbackMsg_ExpectedJSONSize t =
     brackets +
     8 + colon + IBCPacket_ExpectedJSONSize (IBCTimeoutCallbackMsg_Packet t) + comma +
     9 + colon + ExpectedJSONSizeString (IBCTimeoutCallbackMsg_Relayer t)"

definition IBCSourceCallbackMsg_ExpectedJSONSize :: "IBCSourceCallbackMsg \<Rightarrow> nat" where
  "IBCSourceCallbackMsg_ExpectedJSONSize t =
     (let out = brackets;
          out = (case IBCSourceCallbackMsg_Acknowledgement t of
             None \<Rightarrow> out
           | Some m \<Rightarrow> out + 17 + colon + IBCAckCallbackMsg_ExpectedJSONSize m);
          out = (if IBCSourceCallbackMsg_Acknowledgement t \<noteq> None \<and> IBCSourceCallbackMsg_Timeout t \<noteq> None
             then out + comma
             else out);
          out = (case IBCSourceCallbackMsg_Timeout t of
             None \<Rightarrow> out
           | Some m \<Rightarrow> out + 9 + colon + IBCTimeoutCallbackMsg_ExpectedJSONSize m)
      in out)"

definition IBCTransferCallback_ExpectedJSONSize :: "IBCTransferCallback \<Rightarrow> nat" where
  "IBCTransferCallback_ExpectedJSONSize t =
     brackets +
     7 + colon + ExpectedJSONSizeArray Coin_ExpectedJSONSize (IBCTransferCallback_Funds t) + comma +
     10 + colon + ExpectedJSONSizeString (IBCTransferCallback_Receiver t) + comma +
     8 + colon + ExpectedJSONSizeString (IBCTransferCallback_Sender t)"

definition IBCDestinationCallbackMsg_ExpectedJSONSize :: "IBCDestinationCallbackMsg \<Rightarrow> nat" where
  "IBCDestinationCallbackMsg_ExpectedJSONSize t =
     (let out = brackets +
          5 + colon + IBCAcknowledgement_ExpectedJSONSize (IBCDestinationCallbackMsg_Ack t) + comma +
          8 + colon + IBCPacket_ExpectedJSONSize (IBCDestinationCallbackMsg_Packet t);
          out = (case IBCDestinationCallbackMsg_Transfer t of
             None \<Rightarrow> out
           | Some m \<Rightarrow> out + comma + 10 + colon + IBCTransferCallback_ExpectedJSONSize m)
      in out)"

section \<open>The prediction on a document\<close>

fun json_size :: "json \<Rightarrow> nat" where
  "json_size JNull = null_size"
| "json_size (JBool b) = ExpectedJSONSizeBool b"
| "json_size (JNum s) = length s"
| "json_size (JStr s) = ExpectedJSONSizeString s"
| "json_size (JArr xs) = brackets + (\<Sum>x\<leftarrow>xs. json_size x) + (length xs - 1)"
| "json_size (JObj kvs) =
     brackets + (\<Sum>(k, v)\<leftarrow>kvs. ExpectedJSONSizeString k + colon + json_size v) + (length kvs - 1)"

fun rune_excess :: "nat \<times> string \<Rightarrow> nat" where
  "rune_excess (r, bs) =
     (if r = RuneError \<and> length bs = 1 then 5
      else if r = 0x2028 \<or> r = 0x2029 then 3 else 0)"

definition string_excess :: "string \<Rightarrow> nat" where
  "string_excess s = (\<Sum>rb\<leftarrow>runes s. rune_excess rb)"

fun json_excess :: "json \<Rightarrow> nat" where
  "json_excess (JStr s) = string_excess s"
| "json_excess (JArr xs) = (\<Sum>x\<leftarrow>xs. json_excess x)"
| "json_excess (JObj kvs) = (\<Sum>(k, v)\<leftarrow>kvs. string_excess k + json_excess v)"
| "json_excess _ = 0"

section \<open>The prediction is the length of the text\<close>

lemma foldl_add: "foldl (\<lambda>out x. out + f x) (a::nat) xs = a + (\<Sum>x\<leftarrow>xs. f x)"
  by (induction xs arbitrary: a) simp_all

lemma ExpectedJSONSizeString_sum:
  "ExpectedJSONSizeString s = 2 + length s + (\<Sum>rb\<leftarrow>runes s. rune_overhead (fst rb))"
  by (simp add: ExpectedJSONSizeString_def foldl_add)

lemma length_runes_sum: "(\<Sum>rb\<leftarrow>runes s. length (snd rb)) = length s"
proof -
  have "(\<Sum>rb\<leftarrow>runes s. length (snd rb)) = length (concat (map snd (runes s)))"
    by (simp add: length_concat comp_def)
  then show ?thesis by (simp add: concat_runes)
qed

definition rune_ok :: "nat \<times> string \<Rightarrow> bool" where
  "rune_ok rb \<longleftrightarrow> (fst rb < 0x80 \<longrightarrow> length (snd rb) = 1) \<and>
     (fst rb = 0x2028 \<or> fst rb = 0x2029 \<longrightarrow> length (snd rb) = 3)"

lemma runes_ok: "rb \<in> set (runes s) \<Longrightarrow> rune_ok rb"
proof (induction s rule: runes.induct)
  case (2 c cs)
  obtain r w where rw: "decode_rune c cs = (r, w)" by fastforce
  have w: "w \<le> Suc (length cs)" using decode_rune_bounds rw by blast
  have head: "rune_ok (r, take w (c # cs))"
  proof (cases "ord c < 0x80")
    case True
    with rw show ?thesis by (simp add: rune_ok_def)
  next
    case False
    then have "r \<ge> 0x80" using decode_rune_non_ascii rw by blast
    moreover have "w = 3" if "r = 0x2028 \<or> r = 0x2029"
      using rw False that
      by (auto simp: decode_rune_def decode_multi_def decode2_def decode3_def decode4_def
          is_cont_def RuneError_def split: if_splits option.splits list.splits)
    ultimately show ?thesis using w by (auto simp: rune_ok_def)
  qed
  from 2 rw head show ?case by (auto simp: runes.simps(2))
qed simp

lemma length_esc_rune:
  "rune_ok rb \<Longrightarrow> length (esc_rune rb) = length (snd rb) + rune_overhead (fst rb) + rune_excess rb"
  by (cases rb) (auto simp: rune_ok_def rune_overhead_def esc_ascii_def RuneError_def)

lemma length_json_quote_eq: "length (json_quote s) = ExpectedJSONSizeString s + string_excess s"
proof -
  have "(\<Sum>rb\<leftarrow>runes s. length (esc_rune rb)) =
      (\<Sum>rb\<leftarrow>runes s. length (snd rb) + rune_overhead (fst rb) + rune_excess rb)"
    by (intro arg_cong [where f = sum_list] map_cong) (simp_all add: length_esc_rune runes_ok)
  then show ?thesis
    by (simp add: length_json_quote ExpectedJSONSizeString_sum string_excess_def sum_list_addf
        length_runes_sum)
qed

lemma length_json_print: "length (json_print j) = json_size j + json_excess j"
proof (induction j rule: json_print.induct)
  case (5 xs)
  then have "(\<Sum>x\<leftarrow>xs. length (json_print x)) = (\<Sum>x\<leftarrow>xs. json_size x + json_excess x)"
    by (intro arg_cong [where f = sum_list] map_cong) simp_all
  then show ?case by (simp add: length_commas comp_def sum_list_addf)
next
  case (6 kvs)
  then have "(\<Sum>(k, v)\<leftarrow>kvs. length (json_quote k) + Suc (length (json_print v))) =
      (\<Sum>(k, v)\<leftarrow>kvs. (ExpectedJSONSizeString k + colon + json_size v) + (string_excess k + json_excess v))"
    by (intro arg_cong [where f = sum_list] map_cong) (auto simp: length_json_quote_eq)
  then show ?case
    by (simp add: length_commas comp_def sum_list_addf sum_list_Suc case_prod_unfold)
qed (simp_all add: ExpectedJSONSizeBool_def length_json_quote_eq)

lemma string_excess_ascii: "ascii s \<Longrightarrow> string_excess s = 0"
  by (auto simp: string_excess_def runes_ascii comp_def ascii_def list_all_iff sum_list_0_iff RuneError_def)

lemma and_minus_4: "and (x::int) (- 4) = 4 * (x div 4)"
proof -
  have "and x (- 4) = and x (not (mask 2))" by (simp add: mask_eq_exp_minus_1)
  also have "\<dots> = push_bit 2 (drop_bit 2 x)"
  proof (rule bit_eqI)
    fix n
    show "bit (and x (not (mask 2))) n \<longleftrightarrow> bit (push_bit 2 (drop_bit 2 x)) n"
      by (cases "n < 2") (auto simp: bit_simps simp flip: add_2_eq_Suc)
  qed
  finally show ?thesis by (simp add: push_bit_eq_mult drop_bit_eq_div)
qed

lemma base64_groups_arith: "(4 * n div 3 + 3) div 4 = (n + 2) div (3::int)"
proof -
  define k where "k = n div 3"
  have "n = 3 * k \<or> n = 3 * k + 1 \<or> n = 3 * k + 2" unfolding k_def by linarith
  then show ?thesis
  proof (elim disjE)
    assume n: "n = 3 * k + 1"
    then have "4 * n div 3 = 4 * k + 1" using int_div_pos_eq [of "4 * n" 3 "4 * k + 1" 1] by simp
    with n show ?thesis by simp
  next
    assume n: "n = 3 * k + 2"
    then have "4 * n div 3 = 4 * k + 2" using int_div_pos_eq [of "4 * n" 3 "4 * k + 2" 2] by simp
    with n show ?thesis by simp
  qed simp
qed

lemma ExpectedJSONSizeBinary_Some:
  "ExpectedJSONSizeBinary (Some s) = 2 + length (base64 s)"
  by (simp add: ExpectedJSONSizeBinary_def length_base64 and_minus_4 base64_groups_arith
      nat_mult_distrib nat_div_distrib)

lemma json_size_uint_loop_eq:
  "json_size_uint_loop i out = out + (if i = 0 then 0 else length (dec (unat i)))"
proof (induction i out rule: json_size_uint_loop.induct)
  case (1 i out)
  show ?case
  proof (cases "i = 0")
    case True
    then show ?thesis by (simp add: json_size_uint_loop.simps)
  next
    case False
    then have pos: "0 < i" by (simp add: word_gt_0)
    have div: "unat (i div 10) = unat i div 10" by (simp add: unat_div_distrib)
    have z: "i div 10 = 0 \<longleftrightarrow> unat i < 10"
      using div by (metis div_eq_0_iff unat_eq_zero zero_neq_numeral)
    show ?thesis
      using 1 pos False z div length_dec_small [of "unat i"] length_dec_step [of "unat i"]
      by (cases "unat i < 10") (simp_all add: json_size_uint_loop.simps [of i])
  qed
qed

lemma ExpectedJSONSizeUint64_eq: "ExpectedJSONSizeUint64 i = length (dec (unat i))"
  by (simp add: ExpectedJSONSizeUint64_def json_size_uint_loop_eq length_dec_small)

lemma json_size_int_loop_eq:
  "json_size_int_loop i out = out + (if sint i \<le> 0 then 0 else length (dec (nat (sint i))))"
proof (induction i out rule: json_size_int_loop.induct)
  case (1 i out)
  show ?case
  proof (cases "0 < sint i")
    case False
    then show ?thesis by (simp add: json_size_int_loop.simps)
  next
    case True
    then have div: "sint (go_sdiv i 10) = sint i div 10" by (rule sint_go_sdiv_10)
    have nat_div: "nat (sint i div 10) = nat (sint i) div 10" using True by (simp add: nat_div_distrib)
    have z: "sint i div 10 \<le> 0 \<longleftrightarrow> nat (sint i) < 10" using True by linarith
    show ?thesis
      using 1 True div nat_div z length_dec_small [of "nat (sint i)"] length_dec_step [of "nat (sint i)"]
      by (cases "nat (sint i) < 10") (simp_all add: json_size_int_loop.simps [of i])
  qed
qed

lemma sint_uminus_i64:
  "sint (- i :: i64) = (if sint i = - (2 ^ 63) then - (2 ^ 63) else - sint i)"
proof -
  have b: "- (2 ^ 63) \<le> sint i" "sint i < 2 ^ 63"
    using sint_ge [of i] sint_lt [of i] by simp_all
  have "sint (- i) = signed_take_bit 63 (- sint i)"
    by (simp add: sint_word_ariths)
  moreover have "signed_take_bit 63 (- sint i) = - sint i" if "sint i \<noteq> - (2 ^ 63)"
    using b that by (intro signed_take_bit_int_eq_self) auto
  ultimately show ?thesis by (auto simp: signed_take_bit_eq_if_negative)
qed

lemma ExpectedJSONSizeInt_eq:
  "ExpectedJSONSizeInt i =
     (if sint i = - (2 ^ 63) then 1 else length (dec_int (sint i)))"
  by (auto simp: ExpectedJSONSizeInt_def json_size_int_loop_eq sint_uminus_i64 dec_int_def
      length_dec_small)

lemma foldl_enumerate_sum:
  "foldl (\<lambda>out iv. (if fst iv > 0 then out + comma else out) + f (snd iv)) a (enumerate (Suc n) xs)
    = a + (\<Sum>x\<leftarrow>xs. f x) + length xs"
  by (induction xs arbitrary: a n) simp_all

lemma ExpectedJSONSizeArray_eq:
  "ExpectedJSONSizeArray f a = 2 + (\<Sum>x\<leftarrow>elems a. f x) + (slice_len a - 1)"
  by (cases "elems a") (simp_all add: ExpectedJSONSizeArray_def foldl_enumerate_sum slice_len_def)

definition json_plain :: "string \<Rightarrow> bool" where
  "json_plain s \<longleftrightarrow> list_all (\<lambda>c. 0x20 \<le> ord c \<and> ord c < 0x80 \<and> rune_overhead (ord c) = 0) s"

lemma ascii_json_plain: "json_plain s \<Longrightarrow> ascii s"
  by (auto simp: json_plain_def ascii_def list_all_iff)

lemma ExpectedJSONSizeString_plain: "json_plain s \<Longrightarrow> ExpectedJSONSizeString s = 2 + length s"
  using ascii_json_plain [of s]
  by (auto simp: ExpectedJSONSizeString_sum runes_ascii comp_def json_plain_def list_all_iff sum_list_0_iff)

lemma json_plain_code [simp]:
  "json_plain []"
  "json_plain (c # s) \<longleftrightarrow> 0x20 \<le> ord c \<and> ord c < 0x80 \<and> rune_overhead (ord c) = 0 \<and> json_plain s"
  by (simp_all add: json_plain_def)

lemma json_plain_dec [simp]: "json_plain (dec n)"
  using dec_digits [of n] by (auto simp: json_plain_def list_all_iff is_digit_def rune_overhead_def)

lemma json_plain_base64 [simp]: "json_plain (base64 s)"
  using base64_safe [of s] by (auto simp: json_plain_def list_all_iff b64_safe_def rune_overhead_def)

lemma ExpectedJSONSizeBinary_None: "ExpectedJSONSizeBinary None = 4"
  by (simp add: ExpectedJSONSizeBinary_def)

lemma json_size_scalars [simp]:
  "json_size (json_u64 w) = ExpectedJSONSizeUint64 w"
  "json_size (json_u64_quoted w) = ExpectedJSONSizeUint64 w + quotes"
  "json_size (json_bytes b) = ExpectedJSONSizeBinary b"
  by (simp_all add: json_u64_def json_uint_def json_u64_quoted_def json_bytes_def
      ExpectedJSONSizeUint64_eq ExpectedJSONSizeString_plain ExpectedJSONSizeBinary_Some
      ExpectedJSONSizeBinary_None split: option.split)

lemmas json_size_unfold = ExpectedJSONSizeString_plain rune_overhead_def fld_def fld_omit_def json_ptr_def

locale expected_json_size =
  fixes to_json :: "'a \<Rightarrow> json" and ExpectedJSONSize :: "'a \<Rightarrow> nat"
  assumes json_size_to_json [simp]: "json_size (to_json x) = ExpectedJSONSize x"
begin

lemma marshal_length:
  "length (json_print (to_json x)) = ExpectedJSONSize x + json_excess (to_json x)"
  by (simp add: length_json_print)

lemma array_size [simp]: "json_size (Array_MarshalJSON to_json a) = ExpectedJSONSizeArray ExpectedJSONSize a"
  by (cases a) (auto simp: Array_MarshalJSON_def json_slice_def ExpectedJSONSizeArray_eq comp_def)

end

interpretation Coin_size: expected_json_size Coin_to_json Coin_ExpectedJSONSize
  by unfold_locales (simp add: Coin_to_json_def Coin_ExpectedJSONSize_def json_size_unfold
      split: option.split)

interpretation IBCEndpoint_size: expected_json_size IBCEndpoint_to_json IBCEndpoint_ExpectedJSONSize
  by unfold_locales (simp add: IBCEndpoint_to_json_def IBCEndpoint_ExpectedJSONSize_def json_size_unfold
      split: option.split)

interpretation IBCChannel_size: expected_json_size IBCChannel_to_json IBCChannel_ExpectedJSONSize
  by unfold_locales (simp add: IBCChannel_to_json_def IBCChannel_ExpectedJSONSize_def json_size_unfold
      split: option.split)

interpretation IBCOpenInit_size: expected_json_size IBCOpenInit_to_json IBCOpenInit_ExpectedJSONSize
  by unfold_locales (simp add: IBCOpenInit_to_json_def IBCOpenInit_ExpectedJSONSize_def json_size_unfold
      split: option.split)

interpretation IBCOpenTry_size: expected_json_size IBCOpenTry_to_json IBCOpenTry_ExpectedJSONSize
  by unfold_locales (simp add: IBCOpenTry_to_json_def IBCOpenTry_ExpectedJSONSize_def json_size_unfold
      split: option.split)

interpretation IBCChannelOpenMsg_size: expected_json_size IBCChannelOpenMsg_to_json IBCChannelOpenMsg_ExpectedJSONSize
  by unfold_locales (simp add: IBCChannelOpenMsg_to_json_def IBCChannelOpenMsg_ExpectedJSONSize_def json_size_unfold
      split: option.split)

interpretation IBCOpenAck_size: expected_json_size IBCOpenAck_to_json IBCOpenAck_ExpectedJSONSize
  by unfold_locales (simp add: IBCOpenAck_to_json_def IBCOpenAck_ExpectedJSONSize_def json_size_unfold
      split: option.split)

interpretation IBCOpenConfirm_size: expected_json_size IBCOpenConfirm_to_json IBCOpenConfirm_ExpectedJSONSize
  by unfold_locales (simp add: IBCOpenConfirm_to_json_def IBCOpenConfirm_ExpectedJSONSize_def json_size_unfold
      split: option.split)

interpretation IBCChannelConnectMsg_size: expected_json_size IBCChannelConnectMsg_to_json IBCChannelConnectMsg_ExpectedJSONSize
  by unfold_locales (simp add: IBCChannelConnectMsg_to_json_def IBCChannelConnectMsg_ExpectedJSONSize_def json_size_unfold
      split: option.split)

interpretation IBCCloseInit_size: expected_json_size IBCCloseInit_to_json IBCCloseInit_ExpectedJSONSize
  by unfold_locales (simp add: IBCCloseInit_to_json_def IBCCloseInit_ExpectedJSONSize_def json_size_unfold
      split: option.split)

interpretation IBCCloseConfirm_size: expected_json_size IBCCloseConfirm_to_json IBCCloseConfirm_ExpectedJSONSize
  by unfold_locales (simp add: IBCCloseConfirm_to_json_def IBCCloseConfirm_ExpectedJSONSize_def json_size_unfold
      split: option.split)

interpretation IBCChannelCloseMsg_size: expected_json_size IBCChannelCloseMsg_to_json IBCChannelCloseMsg_ExpectedJSONSize
  by unfold_locales (simp add: IBCChannelCloseMsg_to_json_def IBCChannelCloseMsg_ExpectedJSONSize_def json_size_unfold
      split: option.split)

interpretation IBCTimeoutBlock_size: expected_json_size IBCTimeoutBlock_to_json IBCTimeoutBlock_ExpectedJSONSize
  by unfold_locales (simp add: IBCTimeoutBlock_to_json_def IBCTimeoutBlock_ExpectedJSONSize_def json_size_unfold
      split: option.split)

interpretation IBCTimeout_size: expected_json_size IBCTimeout_to_json IBCTimeout_ExpectedJSONSize
  by unfold_locales (simp add: IBCTimeout_to_json_def IBCTimeout_ExpectedJSONSize_def json_size_unfold
      split: option.split)

interpretation IBCPacket_size: expected_json_size IBCPacket_to_json IBCPacket_ExpectedJSONSize
  by unfold_locales (simp add: IBCPacket_to_json_def IBCPacket_ExpectedJSONSize_def json_size_unfold
      split: option.split)

interpretation IBCAcknowledgement_size: expected_json_size IBCAcknowledgement_to_json IBCAcknowledgement_ExpectedJSONSize
  by unfold_locales (simp add: IBCAcknowledgement_to_json_def IBCAcknowledgement_ExpectedJSONSize_def json_size_unfold
      split: option.split)

interpretation IBCPacketReceiveMsg_size: expected_json_size IBCPacketReceiveMsg_to_json IBCPacketReceiveMsg_ExpectedJSONSize
  by unfold_locales (simp add: IBCPacketReceiveMsg_to_json_def IBCPacketReceiveMsg_ExpectedJSONSize_def json_size_unfold
      split: option.split)

interpretation IBCPacketAckMsg_size: expected_json_size IBCPacketAckMsg_to_json IBCPacketAckMsg_ExpectedJSONSize
  by unfold_locales (simp add: IBCPacketAckMsg_to_json_def IBCPacketAckMsg_ExpectedJSONSize_def json_size_unfold
      split: option.split)

interpretation IBCPacketTimeoutMsg_size: expected_json_size IBCPacketTimeoutMsg_to_json IBCPacketTimeoutMsg_ExpectedJSONSize
  by unfold_locales (simp add: IBCPacketTimeoutMsg_to_json_def IBCPacketTimeoutMsg_ExpectedJSONSize_def json_size_unfold
      split: option.split)

interpretation IBCAckCallbackMsg_size: expected_json_size IBCAckCallbackMsg_to_json IBCAckCallbackMsg_ExpectedJSONSize
  by unfold_locales (simp add: IBCAckCallbackMsg_to_json_def IBCAckCallbackMsg_ExpectedJSONSize_def json_size_unfold
      split: option.split)

interpretation IBCTimeoutCallbackMsg_size: expected_json_size IBCTimeoutCallbackMsg_to_json IBCTimeoutCallbackMsg_ExpectedJSONSize
  by unfold_locales (simp add: IBCTimeoutCallbackMsg_to_json_def IBCTimeoutCallbackMsg_ExpectedJSONSize_def json_size_unfold
      split: option.split)

interpretation IBCSourceCallbackMsg_size: expected_json_size IBCSourceCallbackMsg_to_json IBCSourceCallbackMsg_ExpectedJSONSize
  by unfold_locales (simp add: IBCSourceCallbackMsg_to_json_def IBCSourceCallbackMsg_ExpectedJSONSize_def json_size_unfold
      split: option.split)

interpretation IBCTransferCallback_size: expected_json_size IBCTransferCallback_to_json IBCTransferCallback_ExpectedJSONSize
  by unfold_locales (simp add: IBCTransferCallback_to_json_def IBCTransferCallback_ExpectedJSONSize_def json_size_unfold
      split: option.split)

interpretation IBCDestinationCallbackMsg_size: expected_json_size IBCDestinationCallbackMsg_to_json IBCDestinationCallbackMsg_ExpectedJSONSize
  by unfold_locales (simp add: IBCDestinationCallbackMsg_to_json_def IBCDestinationCallbackMsg_ExpectedJSONSize_def json_size_unfold
      split: option.split)

section \<open>Properties\<close>

text \<open>
  C29: for each of the eight IBC messages the chain sends to a contract, \<open>ExpectedJSONSize()\<close> is the
  length of the text \<open>json.Marshal\<close> writes, less what escaping invalid UTF-8 and the two Unicode
  line separators adds.
\<close>

theorem ibc_messages_marshal_length:
  "length (json_print (IBCChannelOpenMsg_to_json a)) =
     IBCChannelOpenMsg_ExpectedJSONSize a + json_excess (IBCChannelOpenMsg_to_json a) \<and>
   length (json_print (IBCChannelConnectMsg_to_json b)) =
     IBCChannelConnectMsg_ExpectedJSONSize b + json_excess (IBCChannelConnectMsg_to_json b) \<and>
   length (json_print (IBCChannelCloseMsg_to_json c)) =
     IBCChannelCloseMsg_ExpectedJSONSize c + json_excess (IBCChannelCloseMsg_to_json c) \<and>
   length (json_print (IBCPacketReceiveMsg_to_json d)) =
     IBCPacketReceiveMsg_ExpectedJSONSize d + json_excess (IBCPacketReceiveMsg_to_json d) \<and>
   length (json_print (IBCPacketAckMsg_to_json e)) =
     IBCPacketAckMsg_ExpectedJSONSize e + json_excess (IBCPacketAckMsg_to_json e) \<and>
   length (json_print (IBCPacketTimeoutMsg_to_json f)) =
     IBCPacketTimeoutMsg_ExpectedJSONSize f + json_excess (IBCPacketTimeoutMsg_to_json f) \<and>
   length (json_print (IBCSourceCallbackMsg_to_json g)) =
     IBCSourceCallbackMsg_ExpectedJSONSize g + json_excess (IBCSourceCallbackMsg_to_json g) \<and>
   length (json_print (IBCDestinationCallbackMsg_to_json h)) =
     IBCDestinationCallbackMsg_ExpectedJSONSize h + json_excess (IBCDestinationCallbackMsg_to_json h)"
  by (intro conjI IBCChannelOpenMsg_size.marshal_length IBCChannelConnectMsg_size.marshal_length
      IBCChannelCloseMsg_size.marshal_length IBCPacketReceiveMsg_size.marshal_length
      IBCPacketAckMsg_size.marshal_length IBCPacketTimeoutMsg_size.marshal_length
      IBCSourceCallbackMsg_size.marshal_length IBCDestinationCallbackMsg_size.marshal_length)

text \<open>
  C30: \<open>ExpectedJSONSizeString\<close> against \<open>json.Marshal\<close> on every string.  It falls short by five for
  every byte that is no valid UTF-8 and by three for every U+2028 and U+2029, and is exact otherwise.
\<close>

theorem ExpectedJSONSizeString_exact:
  "length (json_quote s) =
     ExpectedJSONSizeString s
     + 5 * length [rb \<leftarrow> runes s. fst rb = RuneError \<and> length (snd rb) = 1]
     + 3 * length [rb \<leftarrow> runes s. fst rb = 0x2028 \<or> fst rb = 0x2029]"
proof -
  have "(\<Sum>rb\<leftarrow>rbs. rune_excess rb) =
      5 * length [rb \<leftarrow> rbs. fst rb = RuneError \<and> length (snd rb) = 1]
      + 3 * length [rb \<leftarrow> rbs. fst rb = 0x2028 \<or> fst rb = 0x2029]" for rbs
    by (induction rbs) (auto simp: RuneError_def)
  then show ?thesis by (simp add: length_json_quote_eq string_excess_def)
qed

text \<open>
  C31: the numeric and binary predictions: \<open>ExpectedJSONSizeUint64\<close> and \<open>ExpectedJSONSizeInt\<close> count
  the characters of the decimal form, except that \<open>ExpectedJSONSizeInt\<close> answers 1 at the most
  negative integer, and \<open>ExpectedJSONSizeBinary\<close> is the length of the base64 text with its quotes,
  or of null.
\<close>

theorem ExpectedJSONSize_scalars:
  "ExpectedJSONSizeUint64 i = length (dec (unat i)) \<and>
   ExpectedJSONSizeInt k = (if sint k = - (2 ^ 63) then 1 else length (dec_int (sint k))) \<and>
   ExpectedJSONSizeBinary b = length (json_print (json_bytes b))"
proof (intro conjI)
  show "ExpectedJSONSizeBinary b = length (json_print (json_bytes b))"
    by (cases b) (simp_all add: json_bytes_def ExpectedJSONSizeBinary_Some ExpectedJSONSizeBinary_None
        length_json_quote_eq ExpectedJSONSizeString_plain string_excess_ascii ascii_json_plain)
qed (simp_all only: ExpectedJSONSizeUint64_eq ExpectedJSONSizeInt_eq)

end
