(* ===== verification/MsgTypes.thy ===== *)
theory MsgTypes
  imports Ibc
begin

text \<open>
  The messages a contract can emit, from \<open>msg.go\<close>: bank, IBC, governance, staking, distribution,
  any, wasm and IBC2 messages, with \<open>json.Marshal\<close> (\<open>T_to_json\<close>) and \<open>json.Unmarshal\<close> (\<open>T_decode\<close>)
  of each.  Every type is an instance of \<open>json_codec\<close>: what \<open>T_to_json\<close> writes \<open>T_decode\<close> reads
  back, up to \<open>T_norm\<close>.
\<close>

section \<open>Events\<close>

record EventAttribute =
  EventAttribute_Key :: string
  EventAttribute_Value :: string

definition EventAttribute_zero :: EventAttribute where
  "EventAttribute_zero = \<lparr>EventAttribute_Key = [],
     EventAttribute_Value = []\<rparr>"

definition EventAttribute_to_json :: "EventAttribute \<Rightarrow> json" where
  "EventAttribute_to_json x = JObj (
     fld ''key'' (JStr (EventAttribute_Key x)) @
     fld ''value'' (JStr (EventAttribute_Value x)))"

definition EventAttribute_decode :: "EventAttribute decoder" where
  "EventAttribute_decode = dec_struct (
     dec_field ''key'' dec_string EventAttribute_Key EventAttribute_Key_update @
     dec_field ''value'' dec_string EventAttribute_Value EventAttribute_Value_update)"

interpretation EventAttribute_codec: json_codec EventAttribute_to_json EventAttribute_decode EventAttribute_zero "\<lambda>x. x" "\<lambda>_. True"
  by (unfold_locales, simp add: EventAttribute_to_json_def,
    unfold EventAttribute_decode_def EventAttribute_to_json_def EventAttribute_zero_def dec_struct.simps, rule trans,
    ((rule dec_members_fld_last dec_members_fld, simp add: codec_simps, simp)
     | (rule dec_members_omit_last dec_members_omit, simp add: codec_simps, simp del: not_None_eq, simp))+,
    simp)

record Event =
  Event_Type :: string
  Event_Attributes :: "EventAttribute slice"

definition Event_zero :: Event where
  "Event_zero = \<lparr>Event_Type = [],
     Event_Attributes = None\<rparr>"

definition Event_to_json :: "Event \<Rightarrow> json" where
  "Event_to_json x = JObj (
     fld ''type'' (JStr (Event_Type x)) @
     fld ''attributes'' (Array_MarshalJSON EventAttribute_to_json (Event_Attributes x)))"

definition Event_decode :: "Event decoder" where
  "Event_decode = dec_struct (
     dec_field ''type'' dec_string Event_Type Event_Type_update @
     dec_field ''attributes'' (dec_unmarshaler (Array_UnmarshalJSON EventAttribute_zero EventAttribute_decode)) Event_Attributes Event_Attributes_update)"

definition Event_norm :: "Event \<Rightarrow> Event" where
  "Event_norm x = x\<lparr>Event_Attributes := Some (elems (Event_Attributes x))\<rparr>"

interpretation Event_codec: json_codec Event_to_json Event_decode Event_zero Event_norm "\<lambda>_. True"
  by (unfold_locales, simp add: Event_to_json_def,
    unfold Event_decode_def Event_to_json_def Event_zero_def dec_struct.simps, rule trans,
    ((rule dec_members_fld_last dec_members_fld, simp add: codec_simps, simp)
     | (rule dec_members_omit_last dec_members_omit, simp add: codec_simps, simp del: not_None_eq, simp))+,
    simp add: Event_norm_def)

section \<open>Bank\<close>

record SendMsg =
  SendMsg_ToAddress :: string
  SendMsg_Amount :: "Coin slice"

definition SendMsg_zero :: SendMsg where
  "SendMsg_zero = \<lparr>SendMsg_ToAddress = [],
     SendMsg_Amount = None\<rparr>"

definition SendMsg_to_json :: "SendMsg \<Rightarrow> json" where
  "SendMsg_to_json x = JObj (
     fld ''to_address'' (JStr (SendMsg_ToAddress x)) @
     fld ''amount'' (Array_MarshalJSON Coin_to_json (SendMsg_Amount x)))"

definition SendMsg_decode :: "SendMsg decoder" where
  "SendMsg_decode = dec_struct (
     dec_field ''to_address'' dec_string SendMsg_ToAddress SendMsg_ToAddress_update @
     dec_field ''amount'' (dec_unmarshaler (Array_UnmarshalJSON Coin_zero Coin_decode)) SendMsg_Amount SendMsg_Amount_update)"

definition SendMsg_norm :: "SendMsg \<Rightarrow> SendMsg" where
  "SendMsg_norm x = x\<lparr>SendMsg_Amount := Some (elems (SendMsg_Amount x))\<rparr>"

interpretation SendMsg_codec: json_codec SendMsg_to_json SendMsg_decode SendMsg_zero SendMsg_norm "\<lambda>_. True"
  by (unfold_locales, simp add: SendMsg_to_json_def,
    unfold SendMsg_decode_def SendMsg_to_json_def SendMsg_zero_def dec_struct.simps, rule trans,
    ((rule dec_members_fld_last dec_members_fld, simp add: codec_simps, simp)
     | (rule dec_members_omit_last dec_members_omit, simp add: codec_simps, simp del: not_None_eq, simp))+,
    simp add: SendMsg_norm_def)

record BurnMsg =
  BurnMsg_Amount :: "Coin slice"

definition BurnMsg_zero :: BurnMsg where
  "BurnMsg_zero = \<lparr>BurnMsg_Amount = None\<rparr>"

definition BurnMsg_to_json :: "BurnMsg \<Rightarrow> json" where
  "BurnMsg_to_json x = JObj (
     fld ''amount'' (Array_MarshalJSON Coin_to_json (BurnMsg_Amount x)))"

definition BurnMsg_decode :: "BurnMsg decoder" where
  "BurnMsg_decode = dec_struct (
     dec_field ''amount'' (dec_unmarshaler (Array_UnmarshalJSON Coin_zero Coin_decode)) BurnMsg_Amount BurnMsg_Amount_update)"

definition BurnMsg_norm :: "BurnMsg \<Rightarrow> BurnMsg" where
  "BurnMsg_norm x = x\<lparr>BurnMsg_Amount := Some (elems (BurnMsg_Amount x))\<rparr>"

interpretation BurnMsg_codec: json_codec BurnMsg_to_json BurnMsg_decode BurnMsg_zero BurnMsg_norm "\<lambda>_. True"
  by (unfold_locales, simp add: BurnMsg_to_json_def,
    unfold BurnMsg_decode_def BurnMsg_to_json_def BurnMsg_zero_def dec_struct.simps, rule trans,
    ((rule dec_members_fld_last dec_members_fld, simp add: codec_simps, simp)
     | (rule dec_members_omit_last dec_members_omit, simp add: codec_simps, simp del: not_None_eq, simp))+,
    simp add: BurnMsg_norm_def)

record BankMsg =
  BankMsg_Send :: "SendMsg option"
  BankMsg_Burn :: "BurnMsg option"

definition BankMsg_zero :: BankMsg where
  "BankMsg_zero = \<lparr>BankMsg_Send = None,
     BankMsg_Burn = None\<rparr>"

definition BankMsg_to_json :: "BankMsg \<Rightarrow> json" where
  "BankMsg_to_json x = JObj (
     fld_omit ''send'' (BankMsg_Send x = None) (json_ptr SendMsg_to_json (BankMsg_Send x)) @
     fld_omit ''burn'' (BankMsg_Burn x = None) (json_ptr BurnMsg_to_json (BankMsg_Burn x)))"

definition BankMsg_decode :: "BankMsg decoder" where
  "BankMsg_decode = dec_struct (
     dec_field ''send'' (dec_ptr SendMsg_zero SendMsg_decode) BankMsg_Send BankMsg_Send_update @
     dec_field ''burn'' (dec_ptr BurnMsg_zero BurnMsg_decode) BankMsg_Burn BankMsg_Burn_update)"

definition BankMsg_norm :: "BankMsg \<Rightarrow> BankMsg" where
  "BankMsg_norm x = x\<lparr>BankMsg_Send := map_option SendMsg_norm (BankMsg_Send x),
     BankMsg_Burn := map_option BurnMsg_norm (BankMsg_Burn x)\<rparr>"

interpretation BankMsg_codec: json_codec BankMsg_to_json BankMsg_decode BankMsg_zero BankMsg_norm "\<lambda>_. True"
  by (unfold_locales, simp add: BankMsg_to_json_def,
    unfold BankMsg_decode_def BankMsg_to_json_def BankMsg_zero_def dec_struct.simps, rule trans,
    ((rule dec_members_fld_last dec_members_fld, simp add: codec_simps, simp)
     | (rule dec_members_omit_last dec_members_omit, simp add: codec_simps, simp del: not_None_eq, simp))+,
    simp add: BankMsg_norm_def)

section \<open>IBC\<close>

record TransferMsg =
  TransferMsg_ChannelID :: string
  TransferMsg_ToAddress :: string
  TransferMsg_Amount :: Coin
  TransferMsg_Timeout :: IBCTimeout
  TransferMsg_Memo :: string

definition TransferMsg_zero :: TransferMsg where
  "TransferMsg_zero = \<lparr>TransferMsg_ChannelID = [],
     TransferMsg_ToAddress = [],
     TransferMsg_Amount = Coin_zero,
     TransferMsg_Timeout = IBCTimeout_zero,
     TransferMsg_Memo = []\<rparr>"

definition TransferMsg_to_json :: "TransferMsg \<Rightarrow> json" where
  "TransferMsg_to_json x = JObj (
     fld ''channel_id'' (JStr (TransferMsg_ChannelID x)) @
     fld ''to_address'' (JStr (TransferMsg_ToAddress x)) @
     fld ''amount'' (Coin_to_json (TransferMsg_Amount x)) @
     fld ''timeout'' (IBCTimeout_to_json (TransferMsg_Timeout x)) @
     fld_omit ''memo'' (TransferMsg_Memo x = []) (JStr (TransferMsg_Memo x)))"

definition TransferMsg_decode :: "TransferMsg decoder" where
  "TransferMsg_decode = dec_struct (
     dec_field ''channel_id'' dec_string TransferMsg_ChannelID TransferMsg_ChannelID_update @
     dec_field ''to_address'' dec_string TransferMsg_ToAddress TransferMsg_ToAddress_update @
     dec_field ''amount'' Coin_decode TransferMsg_Amount TransferMsg_Amount_update @
     dec_field ''timeout'' IBCTimeout_decode TransferMsg_Timeout TransferMsg_Timeout_update @
     dec_field ''memo'' dec_string TransferMsg_Memo TransferMsg_Memo_update)"

interpretation TransferMsg_codec: json_codec TransferMsg_to_json TransferMsg_decode TransferMsg_zero "\<lambda>x. x" "\<lambda>_. True"
  by (unfold_locales, simp add: TransferMsg_to_json_def,
    unfold TransferMsg_decode_def TransferMsg_to_json_def TransferMsg_zero_def dec_struct.simps, rule trans,
    ((rule dec_members_fld_last dec_members_fld, simp add: codec_simps, simp)
     | (rule dec_members_omit_last dec_members_omit, simp add: codec_simps, simp del: not_None_eq, simp))+,
    simp)

record SendPacketMsg =
  SendPacketMsg_ChannelID :: string
  SendPacketMsg_Data :: byte_slice
  SendPacketMsg_Timeout :: IBCTimeout

definition SendPacketMsg_zero :: SendPacketMsg where
  "SendPacketMsg_zero = \<lparr>SendPacketMsg_ChannelID = [],
     SendPacketMsg_Data = None,
     SendPacketMsg_Timeout = IBCTimeout_zero\<rparr>"

definition SendPacketMsg_to_json :: "SendPacketMsg \<Rightarrow> json" where
  "SendPacketMsg_to_json x = JObj (
     fld ''channel_id'' (JStr (SendPacketMsg_ChannelID x)) @
     fld ''data'' (json_bytes (SendPacketMsg_Data x)) @
     fld ''timeout'' (IBCTimeout_to_json (SendPacketMsg_Timeout x)))"

definition SendPacketMsg_decode :: "SendPacketMsg decoder" where
  "SendPacketMsg_decode = dec_struct (
     dec_field ''channel_id'' dec_string SendPacketMsg_ChannelID SendPacketMsg_ChannelID_update @
     dec_field ''data'' dec_bytes SendPacketMsg_Data SendPacketMsg_Data_update @
     dec_field ''timeout'' IBCTimeout_decode SendPacketMsg_Timeout SendPacketMsg_Timeout_update)"

interpretation SendPacketMsg_codec: json_codec SendPacketMsg_to_json SendPacketMsg_decode SendPacketMsg_zero "\<lambda>x. x" "\<lambda>_. True"
  by (unfold_locales, simp add: SendPacketMsg_to_json_def,
    unfold SendPacketMsg_decode_def SendPacketMsg_to_json_def SendPacketMsg_zero_def dec_struct.simps, rule trans,
    ((rule dec_members_fld_last dec_members_fld, simp add: codec_simps, simp)
     | (rule dec_members_omit_last dec_members_omit, simp add: codec_simps, simp del: not_None_eq, simp))+,
    simp)

record WriteAcknowledgementMsg =
  WriteAcknowledgementMsg_Ack :: IBCAcknowledgement
  WriteAcknowledgementMsg_ChannelID :: string
  WriteAcknowledgementMsg_PacketSequence :: u64

definition WriteAcknowledgementMsg_zero :: WriteAcknowledgementMsg where
  "WriteAcknowledgementMsg_zero = \<lparr>WriteAcknowledgementMsg_Ack = IBCAcknowledgement_zero,
     WriteAcknowledgementMsg_ChannelID = [],
     WriteAcknowledgementMsg_PacketSequence = 0\<rparr>"

definition WriteAcknowledgementMsg_to_json :: "WriteAcknowledgementMsg \<Rightarrow> json" where
  "WriteAcknowledgementMsg_to_json x = JObj (
     fld ''ack'' (IBCAcknowledgement_to_json (WriteAcknowledgementMsg_Ack x)) @
     fld ''channel_id'' (JStr (WriteAcknowledgementMsg_ChannelID x)) @
     fld ''packet_sequence'' (json_u64 (WriteAcknowledgementMsg_PacketSequence x)))"

definition WriteAcknowledgementMsg_decode :: "WriteAcknowledgementMsg decoder" where
  "WriteAcknowledgementMsg_decode = dec_struct (
     dec_field ''ack'' IBCAcknowledgement_decode WriteAcknowledgementMsg_Ack WriteAcknowledgementMsg_Ack_update @
     dec_field ''channel_id'' dec_string WriteAcknowledgementMsg_ChannelID WriteAcknowledgementMsg_ChannelID_update @
     dec_field ''packet_sequence'' dec_uint WriteAcknowledgementMsg_PacketSequence WriteAcknowledgementMsg_PacketSequence_update)"

interpretation WriteAcknowledgementMsg_codec: json_codec WriteAcknowledgementMsg_to_json WriteAcknowledgementMsg_decode WriteAcknowledgementMsg_zero "\<lambda>x. x" "\<lambda>_. True"
  by (unfold_locales, simp add: WriteAcknowledgementMsg_to_json_def,
    unfold WriteAcknowledgementMsg_decode_def WriteAcknowledgementMsg_to_json_def WriteAcknowledgementMsg_zero_def dec_struct.simps, rule trans,
    ((rule dec_members_fld_last dec_members_fld, simp add: codec_simps, simp)
     | (rule dec_members_omit_last dec_members_omit, simp add: codec_simps, simp del: not_None_eq, simp))+,
    simp)

record CloseChannelMsg =
  CloseChannelMsg_ChannelID :: string

definition CloseChannelMsg_zero :: CloseChannelMsg where
  "CloseChannelMsg_zero = \<lparr>CloseChannelMsg_ChannelID = []\<rparr>"

definition CloseChannelMsg_to_json :: "CloseChannelMsg \<Rightarrow> json" where
  "CloseChannelMsg_to_json x = JObj (
     fld ''channel_id'' (JStr (CloseChannelMsg_ChannelID x)))"

definition CloseChannelMsg_decode :: "CloseChannelMsg decoder" where
  "CloseChannelMsg_decode = dec_struct (
     dec_field ''channel_id'' dec_string CloseChannelMsg_ChannelID CloseChannelMsg_ChannelID_update)"

interpretation CloseChannelMsg_codec: json_codec CloseChannelMsg_to_json CloseChannelMsg_decode CloseChannelMsg_zero "\<lambda>x. x" "\<lambda>_. True"
  by (unfold_locales, simp add: CloseChannelMsg_to_json_def,
    unfold CloseChannelMsg_decode_def CloseChannelMsg_to_json_def CloseChannelMsg_zero_def dec_struct.simps, rule trans,
    ((rule dec_members_fld_last dec_members_fld, simp add: codec_simps, simp)
     | (rule dec_members_omit_last dec_members_omit, simp add: codec_simps, simp del: not_None_eq, simp))+,
    simp)

record IBCFee =
  IBCFee_AckFee :: "Coin slice"
  IBCFee_ReceiveFee :: "Coin slice"
  IBCFee_TimeoutFee :: "Coin slice"

definition IBCFee_zero :: IBCFee where
  "IBCFee_zero = \<lparr>IBCFee_AckFee = None,
     IBCFee_ReceiveFee = None,
     IBCFee_TimeoutFee = None\<rparr>"

definition IBCFee_to_json :: "IBCFee \<Rightarrow> json" where
  "IBCFee_to_json x = JObj (
     fld ''ack_fee'' (Array_MarshalJSON Coin_to_json (IBCFee_AckFee x)) @
     fld ''receive_fee'' (Array_MarshalJSON Coin_to_json (IBCFee_ReceiveFee x)) @
     fld ''timeout_fee'' (Array_MarshalJSON Coin_to_json (IBCFee_TimeoutFee x)))"

definition IBCFee_decode :: "IBCFee decoder" where
  "IBCFee_decode = dec_struct (
     dec_field ''ack_fee'' (dec_unmarshaler (Array_UnmarshalJSON Coin_zero Coin_decode)) IBCFee_AckFee IBCFee_AckFee_update @
     dec_field ''receive_fee'' (dec_unmarshaler (Array_UnmarshalJSON Coin_zero Coin_decode)) IBCFee_ReceiveFee IBCFee_ReceiveFee_update @
     dec_field ''timeout_fee'' (dec_unmarshaler (Array_UnmarshalJSON Coin_zero Coin_decode)) IBCFee_TimeoutFee IBCFee_TimeoutFee_update)"

definition IBCFee_norm :: "IBCFee \<Rightarrow> IBCFee" where
  "IBCFee_norm x = x\<lparr>IBCFee_AckFee := Some (elems (IBCFee_AckFee x)),
     IBCFee_ReceiveFee := Some (elems (IBCFee_ReceiveFee x)),
     IBCFee_TimeoutFee := Some (elems (IBCFee_TimeoutFee x))\<rparr>"

interpretation IBCFee_codec: json_codec IBCFee_to_json IBCFee_decode IBCFee_zero IBCFee_norm "\<lambda>_. True"
  by (unfold_locales, simp add: IBCFee_to_json_def,
    unfold IBCFee_decode_def IBCFee_to_json_def IBCFee_zero_def dec_struct.simps, rule trans,
    ((rule dec_members_fld_last dec_members_fld, simp add: codec_simps, simp)
     | (rule dec_members_omit_last dec_members_omit, simp add: codec_simps, simp del: not_None_eq, simp))+,
    simp add: IBCFee_norm_def)

record PayPacketFeeMsg =
  PayPacketFeeMsg_ChannelID :: string
  PayPacketFeeMsg_Fee :: IBCFee
  PayPacketFeeMsg_PortID :: string
  PayPacketFeeMsg_Relayers :: "string slice"

definition PayPacketFeeMsg_zero :: PayPacketFeeMsg where
  "PayPacketFeeMsg_zero = \<lparr>PayPacketFeeMsg_ChannelID = [],
     PayPacketFeeMsg_Fee = IBCFee_zero,
     PayPacketFeeMsg_PortID = [],
     PayPacketFeeMsg_Relayers = None\<rparr>"

definition PayPacketFeeMsg_to_json :: "PayPacketFeeMsg \<Rightarrow> json" where
  "PayPacketFeeMsg_to_json x = JObj (
     fld ''channel_id'' (JStr (PayPacketFeeMsg_ChannelID x)) @
     fld ''fee'' (IBCFee_to_json (PayPacketFeeMsg_Fee x)) @
     fld ''port_id'' (JStr (PayPacketFeeMsg_PortID x)) @
     fld ''relayers'' (Array_MarshalJSON JStr (PayPacketFeeMsg_Relayers x)))"

definition PayPacketFeeMsg_decode :: "PayPacketFeeMsg decoder" where
  "PayPacketFeeMsg_decode = dec_struct (
     dec_field ''channel_id'' dec_string PayPacketFeeMsg_ChannelID PayPacketFeeMsg_ChannelID_update @
     dec_field ''fee'' IBCFee_decode PayPacketFeeMsg_Fee PayPacketFeeMsg_Fee_update @
     dec_field ''port_id'' dec_string PayPacketFeeMsg_PortID PayPacketFeeMsg_PortID_update @
     dec_field ''relayers'' (dec_unmarshaler (Array_UnmarshalJSON [] dec_string)) PayPacketFeeMsg_Relayers PayPacketFeeMsg_Relayers_update)"

definition PayPacketFeeMsg_norm :: "PayPacketFeeMsg \<Rightarrow> PayPacketFeeMsg" where
  "PayPacketFeeMsg_norm x = x\<lparr>PayPacketFeeMsg_Fee := IBCFee_norm (PayPacketFeeMsg_Fee x),
     PayPacketFeeMsg_Relayers := Some (elems (PayPacketFeeMsg_Relayers x))\<rparr>"

interpretation PayPacketFeeMsg_codec: json_codec PayPacketFeeMsg_to_json PayPacketFeeMsg_decode PayPacketFeeMsg_zero PayPacketFeeMsg_norm "\<lambda>_. True"
  by (unfold_locales, simp add: PayPacketFeeMsg_to_json_def,
    unfold PayPacketFeeMsg_decode_def PayPacketFeeMsg_to_json_def PayPacketFeeMsg_zero_def dec_struct.simps, rule trans,
    ((rule dec_members_fld_last dec_members_fld, simp add: codec_simps, simp)
     | (rule dec_members_omit_last dec_members_omit, simp add: codec_simps, simp del: not_None_eq, simp))+,
    simp add: PayPacketFeeMsg_norm_def)

record PayPacketFeeAsyncMsg =
  PayPacketFeeAsyncMsg_ChannelID :: string
  PayPacketFeeAsyncMsg_Fee :: IBCFee
  PayPacketFeeAsyncMsg_PortID :: string
  PayPacketFeeAsyncMsg_Relayers :: "string slice"
  PayPacketFeeAsyncMsg_Sequence :: u64

definition PayPacketFeeAsyncMsg_zero :: PayPacketFeeAsyncMsg where
  "PayPacketFeeAsyncMsg_zero = \<lparr>PayPacketFeeAsyncMsg_ChannelID = [],
     PayPacketFeeAsyncMsg_Fee = IBCFee_zero,
     PayPacketFeeAsyncMsg_PortID = [],
     PayPacketFeeAsyncMsg_Relayers = None,
     PayPacketFeeAsyncMsg_Sequence = 0\<rparr>"

definition PayPacketFeeAsyncMsg_to_json :: "PayPacketFeeAsyncMsg \<Rightarrow> json" where
  "PayPacketFeeAsyncMsg_to_json x = JObj (
     fld ''channel_id'' (JStr (PayPacketFeeAsyncMsg_ChannelID x)) @
     fld ''fee'' (IBCFee_to_json (PayPacketFeeAsyncMsg_Fee x)) @
     fld ''port_id'' (JStr (PayPacketFeeAsyncMsg_PortID x)) @
     fld ''relayers'' (Array_MarshalJSON JStr (PayPacketFeeAsyncMsg_Relayers x)) @
     fld ''sequence'' (json_u64 (PayPacketFeeAsyncMsg_Sequence x)))"

definition PayPacketFeeAsyncMsg_decode :: "PayPacketFeeAsyncMsg decoder" where
  "PayPacketFeeAsyncMsg_decode = dec_struct (
     dec_field ''channel_id'' dec_string PayPacketFeeAsyncMsg_ChannelID PayPacketFeeAsyncMsg_ChannelID_update @
     dec_field ''fee'' IBCFee_decode PayPacketFeeAsyncMsg_Fee PayPacketFeeAsyncMsg_Fee_update @
     dec_field ''port_id'' dec_string PayPacketFeeAsyncMsg_PortID PayPacketFeeAsyncMsg_PortID_update @
     dec_field ''relayers'' (dec_unmarshaler (Array_UnmarshalJSON [] dec_string)) PayPacketFeeAsyncMsg_Relayers PayPacketFeeAsyncMsg_Relayers_update @
     dec_field ''sequence'' dec_uint PayPacketFeeAsyncMsg_Sequence PayPacketFeeAsyncMsg_Sequence_update)"

definition PayPacketFeeAsyncMsg_norm :: "PayPacketFeeAsyncMsg \<Rightarrow> PayPacketFeeAsyncMsg" where
  "PayPacketFeeAsyncMsg_norm x = x\<lparr>PayPacketFeeAsyncMsg_Fee := IBCFee_norm (PayPacketFeeAsyncMsg_Fee x),
     PayPacketFeeAsyncMsg_Relayers := Some (elems (PayPacketFeeAsyncMsg_Relayers x))\<rparr>"

interpretation PayPacketFeeAsyncMsg_codec: json_codec PayPacketFeeAsyncMsg_to_json PayPacketFeeAsyncMsg_decode PayPacketFeeAsyncMsg_zero PayPacketFeeAsyncMsg_norm "\<lambda>_. True"
  by (unfold_locales, simp add: PayPacketFeeAsyncMsg_to_json_def,
    unfold PayPacketFeeAsyncMsg_decode_def PayPacketFeeAsyncMsg_to_json_def PayPacketFeeAsyncMsg_zero_def dec_struct.simps, rule trans,
    ((rule dec_members_fld_last dec_members_fld, simp add: codec_simps, simp)
     | (rule dec_members_omit_last dec_members_omit, simp add: codec_simps, simp del: not_None_eq, simp))+,
    simp add: PayPacketFeeAsyncMsg_norm_def)

record IBCMsg =
  IBCMsg_Transfer :: "TransferMsg option"
  IBCMsg_SendPacket :: "SendPacketMsg option"
  IBCMsg_WriteAcknowledgement :: "WriteAcknowledgementMsg option"
  IBCMsg_CloseChannel :: "CloseChannelMsg option"
  IBCMsg_PayPacketFee :: "PayPacketFeeMsg option"
  IBCMsg_PayPacketFeeAsync :: "PayPacketFeeAsyncMsg option"

definition IBCMsg_zero :: IBCMsg where
  "IBCMsg_zero = \<lparr>IBCMsg_Transfer = None,
     IBCMsg_SendPacket = None,
     IBCMsg_WriteAcknowledgement = None,
     IBCMsg_CloseChannel = None,
     IBCMsg_PayPacketFee = None,
     IBCMsg_PayPacketFeeAsync = None\<rparr>"

definition IBCMsg_to_json :: "IBCMsg \<Rightarrow> json" where
  "IBCMsg_to_json x = JObj (
     fld_omit ''transfer'' (IBCMsg_Transfer x = None) (json_ptr TransferMsg_to_json (IBCMsg_Transfer x)) @
     fld_omit ''send_packet'' (IBCMsg_SendPacket x = None) (json_ptr SendPacketMsg_to_json (IBCMsg_SendPacket x)) @
     fld_omit ''write_acknowledgement'' (IBCMsg_WriteAcknowledgement x = None) (json_ptr WriteAcknowledgementMsg_to_json (IBCMsg_WriteAcknowledgement x)) @
     fld_omit ''close_channel'' (IBCMsg_CloseChannel x = None) (json_ptr CloseChannelMsg_to_json (IBCMsg_CloseChannel x)) @
     fld_omit ''pay_packet_fee'' (IBCMsg_PayPacketFee x = None) (json_ptr PayPacketFeeMsg_to_json (IBCMsg_PayPacketFee x)) @
     fld_omit ''pay_packet_fee_async'' (IBCMsg_PayPacketFeeAsync x = None) (json_ptr PayPacketFeeAsyncMsg_to_json (IBCMsg_PayPacketFeeAsync x)))"

definition IBCMsg_decode :: "IBCMsg decoder" where
  "IBCMsg_decode = dec_struct (
     dec_field ''transfer'' (dec_ptr TransferMsg_zero TransferMsg_decode) IBCMsg_Transfer IBCMsg_Transfer_update @
     dec_field ''send_packet'' (dec_ptr SendPacketMsg_zero SendPacketMsg_decode) IBCMsg_SendPacket IBCMsg_SendPacket_update @
     dec_field ''write_acknowledgement'' (dec_ptr WriteAcknowledgementMsg_zero WriteAcknowledgementMsg_decode) IBCMsg_WriteAcknowledgement IBCMsg_WriteAcknowledgement_update @
     dec_field ''close_channel'' (dec_ptr CloseChannelMsg_zero CloseChannelMsg_decode) IBCMsg_CloseChannel IBCMsg_CloseChannel_update @
     dec_field ''pay_packet_fee'' (dec_ptr PayPacketFeeMsg_zero PayPacketFeeMsg_decode) IBCMsg_PayPacketFee IBCMsg_PayPacketFee_update @
     dec_field ''pay_packet_fee_async'' (dec_ptr PayPacketFeeAsyncMsg_zero PayPacketFeeAsyncMsg_decode) IBCMsg_PayPacketFeeAsync IBCMsg_PayPacketFeeAsync_update)"

definition IBCMsg_norm :: "IBCMsg \<Rightarrow> IBCMsg" where
  "IBCMsg_norm x = x\<lparr>IBCMsg_PayPacketFee := map_option PayPacketFeeMsg_norm (IBCMsg_PayPacketFee x),
     IBCMsg_PayPacketFeeAsync := map_option PayPacketFeeAsyncMsg_norm (IBCMsg_PayPacketFeeAsync x)\<rparr>"

interpretation IBCMsg_codec: json_codec IBCMsg_to_json IBCMsg_decode IBCMsg_zero IBCMsg_norm "\<lambda>_. True"
  by (unfold_locales, simp add: IBCMsg_to_json_def,
    unfold IBCMsg_decode_def IBCMsg_to_json_def IBCMsg_zero_def dec_struct.simps, rule trans,
    ((rule dec_members_fld_last dec_members_fld, simp add: codec_simps, simp)
     | (rule dec_members_omit_last dec_members_omit, simp add: codec_simps, simp del: not_None_eq, simp))+,
    simp add: IBCMsg_norm_def)

section \<open>Governance\<close>

datatype voteOption = UnsetVoteOption | Yes | No | Abstain | NoWithVeto

definition fromVoteOption :: "voteOption \<rightharpoonup> string" where
  "fromVoteOption v = (case v of
     UnsetVoteOption \<Rightarrow> None
   | Yes \<Rightarrow> Some ''yes''
   | No \<Rightarrow> Some ''no''
   | Abstain \<Rightarrow> Some ''abstain''
   | NoWithVeto \<Rightarrow> Some ''no_with_veto'')"

definition toVoteOption :: "string \<rightharpoonup> voteOption" where
  "toVoteOption = map_of [(''yes'', Yes), (''no'', No), (''abstain'', Abstain),
     (''no_with_veto'', NoWithVeto)]"

definition voteOption_String :: "voteOption \<Rightarrow> string" where
  "voteOption_String v = (case fromVoteOption v of None \<Rightarrow> [] | Some s \<Rightarrow> s)"

definition voteOption_MarshalJSON :: "voteOption \<Rightarrow> json" where
  "voteOption_MarshalJSON v = JStr (voteOption_String v)"

definition voteOption_UnmarshalJSON :: "json \<Rightarrow> voteOption \<Rightarrow> (json_error + voteOption) go" where
  "voteOption_UnmarshalJSON b s = (case run_decoder dec_string b [] of
     Panics p \<Rightarrow> Panics p
   | Return (Inl err) \<Rightarrow> Return (Inl err)
   | Return (Inr j) \<Rightarrow> (case toVoteOption j of
       None \<Rightarrow> Return (Inl (UnmarshalerError (''invalid vote option '' @ [CHR 0x27] @ j @ [CHR 0x27])))
     | Some v \<Rightarrow> Return (Inr v)))"

definition voteOption_valid :: "voteOption \<Rightarrow> bool" where
  "voteOption_valid v \<longleftrightarrow> v \<noteq> UnsetVoteOption"

interpretation voteOption_codec: json_codec voteOption_MarshalJSON
    "dec_unmarshaler voteOption_UnmarshalJSON" UnsetVoteOption "\<lambda>x. x" voteOption_valid
proof unfold_locales
  show "voteOption_MarshalJSON x \<noteq> JNull" for x by (simp add: voteOption_MarshalJSON_def)
  show "dec_unmarshaler voteOption_UnmarshalJSON (voteOption_MarshalJSON x) UnsetVoteOption = Dec x None"
    if "voteOption_valid x" for x
    using that
    by (cases x) (simp_all add: voteOption_valid_def voteOption_MarshalJSON_def voteOption_String_def
        voteOption_UnmarshalJSON_def fromVoteOption_def toVoteOption_def dec_unmarshaler_def run_decoder_def)
qed

record VoteMsg =
  VoteMsg_ProposalId :: u64
  VoteMsg_Option :: voteOption

definition VoteMsg_zero :: VoteMsg where
  "VoteMsg_zero = \<lparr>VoteMsg_ProposalId = 0,
     VoteMsg_Option = UnsetVoteOption\<rparr>"

definition VoteMsg_to_json :: "VoteMsg \<Rightarrow> json" where
  "VoteMsg_to_json x = JObj (
     fld ''proposal_id'' (json_u64 (VoteMsg_ProposalId x)) @
     fld ''option'' (voteOption_MarshalJSON (VoteMsg_Option x)))"

record InternalVoteMsg =
  InternalVoteMsg_ProposalId :: u64
  InternalVoteMsg_Option :: "voteOption option"
  InternalVoteMsg_Vote :: "voteOption option"

definition InternalVoteMsg_zero :: InternalVoteMsg where
  "InternalVoteMsg_zero = \<lparr>InternalVoteMsg_ProposalId = 0,
     InternalVoteMsg_Option = None,
     InternalVoteMsg_Vote = None\<rparr>"

definition InternalVoteMsg_decode :: "InternalVoteMsg decoder" where
  "InternalVoteMsg_decode = dec_struct (
     dec_field ''proposal_id'' dec_uint InternalVoteMsg_ProposalId InternalVoteMsg_ProposalId_update @
     dec_field ''option'' (dec_ptr UnsetVoteOption (dec_unmarshaler voteOption_UnmarshalJSON)) InternalVoteMsg_Option InternalVoteMsg_Option_update @
     dec_field ''vote'' (dec_ptr UnsetVoteOption (dec_unmarshaler voteOption_UnmarshalJSON)) InternalVoteMsg_Vote InternalVoteMsg_Vote_update)"

definition VoteMsg_UnmarshalJSON :: "json \<Rightarrow> VoteMsg \<Rightarrow> (json_error + VoteMsg) go" where
  "VoteMsg_UnmarshalJSON data m = (case run_decoder InternalVoteMsg_decode data InternalVoteMsg_zero of
     Panics p \<Rightarrow> Panics p
   | Return (Inl err) \<Rightarrow> Return (Inl err)
   | Return (Inr tmp) \<Rightarrow>
       if InternalVoteMsg_Option tmp \<noteq> None \<and> InternalVoteMsg_Vote tmp \<noteq> None
       then Return (Inl (UnmarshalerError
         (''invalid VoteMsg: both '' @ [CHR 0x27] @ ''option'' @ [CHR 0x27] @ '' and '' @
          [CHR 0x27] @ ''vote'' @ [CHR 0x27] @ '' fields are set'')))
       else (let tmp = (if InternalVoteMsg_Option tmp = None \<and> InternalVoteMsg_Vote tmp \<noteq> None
                        then tmp\<lparr>InternalVoteMsg_Option := InternalVoteMsg_Vote tmp\<rparr> else tmp) in
             case InternalVoteMsg_Option tmp of
               None \<Rightarrow> Panics nil_deref
             | Some opt \<Rightarrow> Return (Inr
                 \<lparr>VoteMsg_ProposalId = InternalVoteMsg_ProposalId tmp, VoteMsg_Option = opt\<rparr>)))"

definition VoteMsg_valid :: "VoteMsg \<Rightarrow> bool" where
  "VoteMsg_valid x \<longleftrightarrow> voteOption_valid (VoteMsg_Option x)"

text \<open>The decoder of \<open>InternalVoteMsg\<close> on what \<open>VoteMsg\<close> is written as.\<close>

lemma InternalVoteMsg_decode_VoteMsg:
  assumes "VoteMsg_valid x"
  shows "InternalVoteMsg_decode (VoteMsg_to_json x) InternalVoteMsg_zero =
    Dec \<lparr>InternalVoteMsg_ProposalId = VoteMsg_ProposalId x,
       InternalVoteMsg_Option = Some (VoteMsg_Option x), InternalVoteMsg_Vote = None\<rparr> None"
proof -
  have "dec_ptr UnsetVoteOption (dec_unmarshaler voteOption_UnmarshalJSON)
      (voteOption_MarshalJSON (VoteMsg_Option x)) None = Dec (Some (VoteMsg_Option x)) None"
    using assms voteOption_codec.decode_ptr [of "Some (VoteMsg_Option x)"]
    by (simp add: VoteMsg_valid_def json_ptr_def)
  then show ?thesis
    unfolding InternalVoteMsg_decode_def VoteMsg_to_json_def InternalVoteMsg_zero_def dec_struct.simps
    by (simp add: codec_simps fld_def)
qed

interpretation VoteMsg_codec: json_codec VoteMsg_to_json "dec_unmarshaler VoteMsg_UnmarshalJSON"
    VoteMsg_zero "\<lambda>x. x" VoteMsg_valid
  by unfold_locales (simp_all add: VoteMsg_to_json_def [THEN arg_cong [where f = "\<lambda>j. j = JNull"]]
      InternalVoteMsg_decode_VoteMsg dec_unmarshaler_def VoteMsg_UnmarshalJSON_def run_decoder_def)

record WeightedVoteOption =
  WeightedVoteOption_Option :: voteOption
  WeightedVoteOption_Weight :: string

definition WeightedVoteOption_zero :: WeightedVoteOption where
  "WeightedVoteOption_zero = \<lparr>WeightedVoteOption_Option = UnsetVoteOption,
     WeightedVoteOption_Weight = []\<rparr>"

definition WeightedVoteOption_to_json :: "WeightedVoteOption \<Rightarrow> json" where
  "WeightedVoteOption_to_json x = JObj (
     fld ''option'' (voteOption_MarshalJSON (WeightedVoteOption_Option x)) @
     fld ''weight'' (JStr (WeightedVoteOption_Weight x)))"

definition WeightedVoteOption_decode :: "WeightedVoteOption decoder" where
  "WeightedVoteOption_decode = dec_struct (
     dec_field ''option'' (dec_unmarshaler voteOption_UnmarshalJSON) WeightedVoteOption_Option WeightedVoteOption_Option_update @
     dec_field ''weight'' dec_string WeightedVoteOption_Weight WeightedVoteOption_Weight_update)"

definition WeightedVoteOption_valid :: "WeightedVoteOption \<Rightarrow> bool" where
  "WeightedVoteOption_valid x \<longleftrightarrow> voteOption_valid (WeightedVoteOption_Option x)"

interpretation WeightedVoteOption_codec: json_codec WeightedVoteOption_to_json WeightedVoteOption_decode WeightedVoteOption_zero "\<lambda>x. x" WeightedVoteOption_valid
  by (unfold_locales, simp add: WeightedVoteOption_to_json_def,
    unfold WeightedVoteOption_decode_def WeightedVoteOption_to_json_def WeightedVoteOption_zero_def dec_struct.simps, rule trans,
    ((rule dec_members_fld_last dec_members_fld, simp add: codec_simps, simp add: WeightedVoteOption_valid_def)
     | (rule dec_members_omit_last dec_members_omit, simp add: codec_simps, simp add: WeightedVoteOption_valid_def del: not_None_eq, simp))+,
    simp)

record VoteWeightedMsg =
  VoteWeightedMsg_ProposalId :: u64
  VoteWeightedMsg_Options :: "WeightedVoteOption slice"

definition VoteWeightedMsg_zero :: VoteWeightedMsg where
  "VoteWeightedMsg_zero = \<lparr>VoteWeightedMsg_ProposalId = 0,
     VoteWeightedMsg_Options = None\<rparr>"

definition VoteWeightedMsg_to_json :: "VoteWeightedMsg \<Rightarrow> json" where
  "VoteWeightedMsg_to_json x = JObj (
     fld ''proposal_id'' (json_u64 (VoteWeightedMsg_ProposalId x)) @
     fld ''options'' (json_slice WeightedVoteOption_to_json (VoteWeightedMsg_Options x)))"

definition VoteWeightedMsg_decode :: "VoteWeightedMsg decoder" where
  "VoteWeightedMsg_decode = dec_struct (
     dec_field ''proposal_id'' dec_uint VoteWeightedMsg_ProposalId VoteWeightedMsg_ProposalId_update @
     dec_field ''options'' (dec_slice WeightedVoteOption_zero WeightedVoteOption_decode) VoteWeightedMsg_Options VoteWeightedMsg_Options_update)"

definition VoteWeightedMsg_valid :: "VoteWeightedMsg \<Rightarrow> bool" where
  "VoteWeightedMsg_valid x \<longleftrightarrow> pred_option (list_all WeightedVoteOption_valid) (VoteWeightedMsg_Options x)"

interpretation VoteWeightedMsg_codec: json_codec VoteWeightedMsg_to_json VoteWeightedMsg_decode VoteWeightedMsg_zero "\<lambda>x. x" VoteWeightedMsg_valid
  by (unfold_locales, simp add: VoteWeightedMsg_to_json_def,
    unfold VoteWeightedMsg_decode_def VoteWeightedMsg_to_json_def VoteWeightedMsg_zero_def dec_struct.simps, rule trans,
    ((rule dec_members_fld_last dec_members_fld, simp add: codec_simps, simp add: VoteWeightedMsg_valid_def)
     | (rule dec_members_omit_last dec_members_omit, simp add: codec_simps, simp add: VoteWeightedMsg_valid_def del: not_None_eq, simp))+,
    simp)

record GovMsg =
  GovMsg_Vote :: "VoteMsg option"
  GovMsg_VoteWeighted :: "VoteWeightedMsg option"

definition GovMsg_zero :: GovMsg where
  "GovMsg_zero = \<lparr>GovMsg_Vote = None,
     GovMsg_VoteWeighted = None\<rparr>"

definition GovMsg_to_json :: "GovMsg \<Rightarrow> json" where
  "GovMsg_to_json x = JObj (
     fld_omit ''vote'' (GovMsg_Vote x = None) (json_ptr VoteMsg_to_json (GovMsg_Vote x)) @
     fld_omit ''vote_weighted'' (GovMsg_VoteWeighted x = None) (json_ptr VoteWeightedMsg_to_json (GovMsg_VoteWeighted x)))"

definition GovMsg_decode :: "GovMsg decoder" where
  "GovMsg_decode = dec_struct (
     dec_field ''vote'' (dec_ptr VoteMsg_zero (dec_unmarshaler VoteMsg_UnmarshalJSON)) GovMsg_Vote GovMsg_Vote_update @
     dec_field ''vote_weighted'' (dec_ptr VoteWeightedMsg_zero VoteWeightedMsg_decode) GovMsg_VoteWeighted GovMsg_VoteWeighted_update)"

definition GovMsg_valid :: "GovMsg \<Rightarrow> bool" where
  "GovMsg_valid x \<longleftrightarrow> pred_option VoteMsg_valid (GovMsg_Vote x) \<and>
     pred_option VoteWeightedMsg_valid (GovMsg_VoteWeighted x)"

interpretation GovMsg_codec: json_codec GovMsg_to_json GovMsg_decode GovMsg_zero "\<lambda>x. x" GovMsg_valid
  by (unfold_locales, simp add: GovMsg_to_json_def,
    unfold GovMsg_decode_def GovMsg_to_json_def GovMsg_zero_def dec_struct.simps, rule trans,
    ((rule dec_members_fld_last dec_members_fld, simp add: codec_simps, simp add: GovMsg_valid_def)
     | (rule dec_members_omit_last dec_members_omit, simp add: codec_simps, simp add: GovMsg_valid_def del: not_None_eq, simp))+,
    simp)

section \<open>Staking\<close>

record DelegateMsg =
  DelegateMsg_Validator :: string
  DelegateMsg_Amount :: Coin

definition DelegateMsg_zero :: DelegateMsg where
  "DelegateMsg_zero = \<lparr>DelegateMsg_Validator = [],
     DelegateMsg_Amount = Coin_zero\<rparr>"

definition DelegateMsg_to_json :: "DelegateMsg \<Rightarrow> json" where
  "DelegateMsg_to_json x = JObj (
     fld ''validator'' (JStr (DelegateMsg_Validator x)) @
     fld ''amount'' (Coin_to_json (DelegateMsg_Amount x)))"

definition DelegateMsg_decode :: "DelegateMsg decoder" where
  "DelegateMsg_decode = dec_struct (
     dec_field ''validator'' dec_string DelegateMsg_Validator DelegateMsg_Validator_update @
     dec_field ''amount'' Coin_decode DelegateMsg_Amount DelegateMsg_Amount_update)"

interpretation DelegateMsg_codec: json_codec DelegateMsg_to_json DelegateMsg_decode DelegateMsg_zero "\<lambda>x. x" "\<lambda>_. True"
  by (unfold_locales, simp add: DelegateMsg_to_json_def,
    unfold DelegateMsg_decode_def DelegateMsg_to_json_def DelegateMsg_zero_def dec_struct.simps, rule trans,
    ((rule dec_members_fld_last dec_members_fld, simp add: codec_simps, simp)
     | (rule dec_members_omit_last dec_members_omit, simp add: codec_simps, simp del: not_None_eq, simp))+,
    simp)

record UndelegateMsg =
  UndelegateMsg_Validator :: string
  UndelegateMsg_Amount :: Coin

definition UndelegateMsg_zero :: UndelegateMsg where
  "UndelegateMsg_zero = \<lparr>UndelegateMsg_Validator = [],
     UndelegateMsg_Amount = Coin_zero\<rparr>"

definition UndelegateMsg_to_json :: "UndelegateMsg \<Rightarrow> json" where
  "UndelegateMsg_to_json x = JObj (
     fld ''validator'' (JStr (UndelegateMsg_Validator x)) @
     fld ''amount'' (Coin_to_json (UndelegateMsg_Amount x)))"

definition UndelegateMsg_decode :: "UndelegateMsg decoder" where
  "UndelegateMsg_decode = dec_struct (
     dec_field ''validator'' dec_string UndelegateMsg_Validator UndelegateMsg_Validator_update @
     dec_field ''amount'' Coin_decode UndelegateMsg_Amount UndelegateMsg_Amount_update)"

interpretation UndelegateMsg_codec: json_codec UndelegateMsg_to_json UndelegateMsg_decode UndelegateMsg_zero "\<lambda>x. x" "\<lambda>_. True"
  by (unfold_locales, simp add: UndelegateMsg_to_json_def,
    unfold UndelegateMsg_decode_def UndelegateMsg_to_json_def UndelegateMsg_zero_def dec_struct.simps, rule trans,
    ((rule dec_members_fld_last dec_members_fld, simp add: codec_simps, simp)
     | (rule dec_members_omit_last dec_members_omit, simp add: codec_simps, simp del: not_None_eq, simp))+,
    simp)

record RedelegateMsg =
  RedelegateMsg_SrcValidator :: string
  RedelegateMsg_DstValidator :: string
  RedelegateMsg_Amount :: Coin

definition RedelegateMsg_zero :: RedelegateMsg where
  "RedelegateMsg_zero = \<lparr>RedelegateMsg_SrcValidator = [],
     RedelegateMsg_DstValidator = [],
     RedelegateMsg_Amount = Coin_zero\<rparr>"

definition RedelegateMsg_to_json :: "RedelegateMsg \<Rightarrow> json" where
  "RedelegateMsg_to_json x = JObj (
     fld ''src_validator'' (JStr (RedelegateMsg_SrcValidator x)) @
     fld ''dst_validator'' (JStr (RedelegateMsg_DstValidator x)) @
     fld ''amount'' (Coin_to_json (RedelegateMsg_Amount x)))"

definition RedelegateMsg_decode :: "RedelegateMsg decoder" where
  "RedelegateMsg_decode = dec_struct (
     dec_field ''src_validator'' dec_string RedelegateMsg_SrcValidator RedelegateMsg_SrcValidator_update @
     dec_field ''dst_validator'' dec_string RedelegateMsg_DstValidator RedelegateMsg_DstValidator_update @
     dec_field ''amount'' Coin_decode RedelegateMsg_Amount RedelegateMsg_Amount_update)"

interpretation RedelegateMsg_codec: json_codec RedelegateMsg_to_json RedelegateMsg_decode RedelegateMsg_zero "\<lambda>x. x" "\<lambda>_. True"
  by (unfold_locales, simp add: RedelegateMsg_to_json_def,
    unfold RedelegateMsg_decode_def RedelegateMsg_to_json_def RedelegateMsg_zero_def dec_struct.simps, rule trans,
    ((rule dec_members_fld_last dec_members_fld, simp add: codec_simps, simp)
     | (rule dec_members_omit_last dec_members_omit, simp add: codec_simps, simp del: not_None_eq, simp))+,
    simp)

record StakingMsg =
  StakingMsg_Delegate :: "DelegateMsg option"
  StakingMsg_Undelegate :: "UndelegateMsg option"
  StakingMsg_Redelegate :: "RedelegateMsg option"

definition StakingMsg_zero :: StakingMsg where
  "StakingMsg_zero = \<lparr>StakingMsg_Delegate = None,
     StakingMsg_Undelegate = None,
     StakingMsg_Redelegate = None\<rparr>"

definition StakingMsg_to_json :: "StakingMsg \<Rightarrow> json" where
  "StakingMsg_to_json x = JObj (
     fld_omit ''delegate'' (StakingMsg_Delegate x = None) (json_ptr DelegateMsg_to_json (StakingMsg_Delegate x)) @
     fld_omit ''undelegate'' (StakingMsg_Undelegate x = None) (json_ptr UndelegateMsg_to_json (StakingMsg_Undelegate x)) @
     fld_omit ''redelegate'' (StakingMsg_Redelegate x = None) (json_ptr RedelegateMsg_to_json (StakingMsg_Redelegate x)))"

definition StakingMsg_decode :: "StakingMsg decoder" where
  "StakingMsg_decode = dec_struct (
     dec_field ''delegate'' (dec_ptr DelegateMsg_zero DelegateMsg_decode) StakingMsg_Delegate StakingMsg_Delegate_update @
     dec_field ''undelegate'' (dec_ptr UndelegateMsg_zero UndelegateMsg_decode) StakingMsg_Undelegate StakingMsg_Undelegate_update @
     dec_field ''redelegate'' (dec_ptr RedelegateMsg_zero RedelegateMsg_decode) StakingMsg_Redelegate StakingMsg_Redelegate_update)"

interpretation StakingMsg_codec: json_codec StakingMsg_to_json StakingMsg_decode StakingMsg_zero "\<lambda>x. x" "\<lambda>_. True"
  by (unfold_locales, simp add: StakingMsg_to_json_def,
    unfold StakingMsg_decode_def StakingMsg_to_json_def StakingMsg_zero_def dec_struct.simps, rule trans,
    ((rule dec_members_fld_last dec_members_fld, simp add: codec_simps, simp)
     | (rule dec_members_omit_last dec_members_omit, simp add: codec_simps, simp del: not_None_eq, simp))+,
    simp)

section \<open>Distribution\<close>

record SetWithdrawAddressMsg =
  SetWithdrawAddressMsg_Address :: string

definition SetWithdrawAddressMsg_zero :: SetWithdrawAddressMsg where
  "SetWithdrawAddressMsg_zero = \<lparr>SetWithdrawAddressMsg_Address = []\<rparr>"

definition SetWithdrawAddressMsg_to_json :: "SetWithdrawAddressMsg \<Rightarrow> json" where
  "SetWithdrawAddressMsg_to_json x = JObj (
     fld ''address'' (JStr (SetWithdrawAddressMsg_Address x)))"

definition SetWithdrawAddressMsg_decode :: "SetWithdrawAddressMsg decoder" where
  "SetWithdrawAddressMsg_decode = dec_struct (
     dec_field ''address'' dec_string SetWithdrawAddressMsg_Address SetWithdrawAddressMsg_Address_update)"

interpretation SetWithdrawAddressMsg_codec: json_codec SetWithdrawAddressMsg_to_json SetWithdrawAddressMsg_decode SetWithdrawAddressMsg_zero "\<lambda>x. x" "\<lambda>_. True"
  by (unfold_locales, simp add: SetWithdrawAddressMsg_to_json_def,
    unfold SetWithdrawAddressMsg_decode_def SetWithdrawAddressMsg_to_json_def SetWithdrawAddressMsg_zero_def dec_struct.simps, rule trans,
    ((rule dec_members_fld_last dec_members_fld, simp add: codec_simps, simp)
     | (rule dec_members_omit_last dec_members_omit, simp add: codec_simps, simp del: not_None_eq, simp))+,
    simp)

record WithdrawDelegatorRewardMsg =
  WithdrawDelegatorRewardMsg_Validator :: string

definition WithdrawDelegatorRewardMsg_zero :: WithdrawDelegatorRewardMsg where
  "WithdrawDelegatorRewardMsg_zero = \<lparr>WithdrawDelegatorRewardMsg_Validator = []\<rparr>"

definition WithdrawDelegatorRewardMsg_to_json :: "WithdrawDelegatorRewardMsg \<Rightarrow> json" where
  "WithdrawDelegatorRewardMsg_to_json x = JObj (
     fld ''validator'' (JStr (WithdrawDelegatorRewardMsg_Validator x)))"

definition WithdrawDelegatorRewardMsg_decode :: "WithdrawDelegatorRewardMsg decoder" where
  "WithdrawDelegatorRewardMsg_decode = dec_struct (
     dec_field ''validator'' dec_string WithdrawDelegatorRewardMsg_Validator WithdrawDelegatorRewardMsg_Validator_update)"

interpretation WithdrawDelegatorRewardMsg_codec: json_codec WithdrawDelegatorRewardMsg_to_json WithdrawDelegatorRewardMsg_decode WithdrawDelegatorRewardMsg_zero "\<lambda>x. x" "\<lambda>_. True"
  by (unfold_locales, simp add: WithdrawDelegatorRewardMsg_to_json_def,
    unfold WithdrawDelegatorRewardMsg_decode_def WithdrawDelegatorRewardMsg_to_json_def WithdrawDelegatorRewardMsg_zero_def dec_struct.simps, rule trans,
    ((rule dec_members_fld_last dec_members_fld, simp add: codec_simps, simp)
     | (rule dec_members_omit_last dec_members_omit, simp add: codec_simps, simp del: not_None_eq, simp))+,
    simp)

record FundCommunityPoolMsg =
  FundCommunityPoolMsg_Amount :: "Coin slice"

definition FundCommunityPoolMsg_zero :: FundCommunityPoolMsg where
  "FundCommunityPoolMsg_zero = \<lparr>FundCommunityPoolMsg_Amount = None\<rparr>"

definition FundCommunityPoolMsg_to_json :: "FundCommunityPoolMsg \<Rightarrow> json" where
  "FundCommunityPoolMsg_to_json x = JObj (
     fld ''amount'' (Array_MarshalJSON Coin_to_json (FundCommunityPoolMsg_Amount x)))"

definition FundCommunityPoolMsg_decode :: "FundCommunityPoolMsg decoder" where
  "FundCommunityPoolMsg_decode = dec_struct (
     dec_field ''amount'' (dec_unmarshaler (Array_UnmarshalJSON Coin_zero Coin_decode)) FundCommunityPoolMsg_Amount FundCommunityPoolMsg_Amount_update)"

definition FundCommunityPoolMsg_norm :: "FundCommunityPoolMsg \<Rightarrow> FundCommunityPoolMsg" where
  "FundCommunityPoolMsg_norm x = x\<lparr>FundCommunityPoolMsg_Amount := Some (elems (FundCommunityPoolMsg_Amount x))\<rparr>"

interpretation FundCommunityPoolMsg_codec: json_codec FundCommunityPoolMsg_to_json FundCommunityPoolMsg_decode FundCommunityPoolMsg_zero FundCommunityPoolMsg_norm "\<lambda>_. True"
  by (unfold_locales, simp add: FundCommunityPoolMsg_to_json_def,
    unfold FundCommunityPoolMsg_decode_def FundCommunityPoolMsg_to_json_def FundCommunityPoolMsg_zero_def dec_struct.simps, rule trans,
    ((rule dec_members_fld_last dec_members_fld, simp add: codec_simps, simp)
     | (rule dec_members_omit_last dec_members_omit, simp add: codec_simps, simp del: not_None_eq, simp))+,
    simp add: FundCommunityPoolMsg_norm_def)

record DistributionMsg =
  DistributionMsg_SetWithdrawAddress :: "SetWithdrawAddressMsg option"
  DistributionMsg_WithdrawDelegatorReward :: "WithdrawDelegatorRewardMsg option"
  DistributionMsg_FundCommunityPool :: "FundCommunityPoolMsg option"

definition DistributionMsg_zero :: DistributionMsg where
  "DistributionMsg_zero = \<lparr>DistributionMsg_SetWithdrawAddress = None,
     DistributionMsg_WithdrawDelegatorReward = None,
     DistributionMsg_FundCommunityPool = None\<rparr>"

definition DistributionMsg_to_json :: "DistributionMsg \<Rightarrow> json" where
  "DistributionMsg_to_json x = JObj (
     fld_omit ''set_withdraw_address'' (DistributionMsg_SetWithdrawAddress x = None) (json_ptr SetWithdrawAddressMsg_to_json (DistributionMsg_SetWithdrawAddress x)) @
     fld_omit ''withdraw_delegator_reward'' (DistributionMsg_WithdrawDelegatorReward x = None) (json_ptr WithdrawDelegatorRewardMsg_to_json (DistributionMsg_WithdrawDelegatorReward x)) @
     fld_omit ''fund_community_pool'' (DistributionMsg_FundCommunityPool x = None) (json_ptr FundCommunityPoolMsg_to_json (DistributionMsg_FundCommunityPool x)))"

definition DistributionMsg_decode :: "DistributionMsg decoder" where
  "DistributionMsg_decode = dec_struct (
     dec_field ''set_withdraw_address'' (dec_ptr SetWithdrawAddressMsg_zero SetWithdrawAddressMsg_decode) DistributionMsg_SetWithdrawAddress DistributionMsg_SetWithdrawAddress_update @
     dec_field ''withdraw_delegator_reward'' (dec_ptr WithdrawDelegatorRewardMsg_zero WithdrawDelegatorRewardMsg_decode) DistributionMsg_WithdrawDelegatorReward DistributionMsg_WithdrawDelegatorReward_update @
     dec_field ''fund_community_pool'' (dec_ptr FundCommunityPoolMsg_zero FundCommunityPoolMsg_decode) DistributionMsg_FundCommunityPool DistributionMsg_FundCommunityPool_update)"

definition DistributionMsg_norm :: "DistributionMsg \<Rightarrow> DistributionMsg" where
  "DistributionMsg_norm x = x\<lparr>DistributionMsg_FundCommunityPool := map_option FundCommunityPoolMsg_norm (DistributionMsg_FundCommunityPool x)\<rparr>"

interpretation DistributionMsg_codec: json_codec DistributionMsg_to_json DistributionMsg_decode DistributionMsg_zero DistributionMsg_norm "\<lambda>_. True"
  by (unfold_locales, simp add: DistributionMsg_to_json_def,
    unfold DistributionMsg_decode_def DistributionMsg_to_json_def DistributionMsg_zero_def dec_struct.simps, rule trans,
    ((rule dec_members_fld_last dec_members_fld, simp add: codec_simps, simp)
     | (rule dec_members_omit_last dec_members_omit, simp add: codec_simps, simp del: not_None_eq, simp))+,
    simp add: DistributionMsg_norm_def)

section \<open>Any\<close>

record AnyMsg =
  AnyMsg_TypeURL :: string
  AnyMsg_Value :: byte_slice

definition AnyMsg_zero :: AnyMsg where
  "AnyMsg_zero = \<lparr>AnyMsg_TypeURL = [],
     AnyMsg_Value = None\<rparr>"

definition AnyMsg_to_json :: "AnyMsg \<Rightarrow> json" where
  "AnyMsg_to_json x = JObj (
     fld ''type_url'' (JStr (AnyMsg_TypeURL x)) @
     fld ''value'' (json_bytes (AnyMsg_Value x)))"

definition AnyMsg_decode :: "AnyMsg decoder" where
  "AnyMsg_decode = dec_struct (
     dec_field ''type_url'' dec_string AnyMsg_TypeURL AnyMsg_TypeURL_update @
     dec_field ''value'' dec_bytes AnyMsg_Value AnyMsg_Value_update)"

interpretation AnyMsg_codec: json_codec AnyMsg_to_json AnyMsg_decode AnyMsg_zero "\<lambda>x. x" "\<lambda>_. True"
  by (unfold_locales, simp add: AnyMsg_to_json_def,
    unfold AnyMsg_decode_def AnyMsg_to_json_def AnyMsg_zero_def dec_struct.simps, rule trans,
    ((rule dec_members_fld_last dec_members_fld, simp add: codec_simps, simp)
     | (rule dec_members_omit_last dec_members_omit, simp add: codec_simps, simp del: not_None_eq, simp))+,
    simp)

section \<open>Wasm\<close>

record ExecuteMsg =
  ExecuteMsg_ContractAddr :: string
  ExecuteMsg_Msg :: byte_slice
  ExecuteMsg_Funds :: "Coin slice"

definition ExecuteMsg_zero :: ExecuteMsg where
  "ExecuteMsg_zero = \<lparr>ExecuteMsg_ContractAddr = [],
     ExecuteMsg_Msg = None,
     ExecuteMsg_Funds = None\<rparr>"

definition ExecuteMsg_to_json :: "ExecuteMsg \<Rightarrow> json" where
  "ExecuteMsg_to_json x = JObj (
     fld ''contract_addr'' (JStr (ExecuteMsg_ContractAddr x)) @
     fld ''msg'' (json_bytes (ExecuteMsg_Msg x)) @
     fld ''funds'' (Array_MarshalJSON Coin_to_json (ExecuteMsg_Funds x)))"

definition ExecuteMsg_decode :: "ExecuteMsg decoder" where
  "ExecuteMsg_decode = dec_struct (
     dec_field ''contract_addr'' dec_string ExecuteMsg_ContractAddr ExecuteMsg_ContractAddr_update @
     dec_field ''msg'' dec_bytes ExecuteMsg_Msg ExecuteMsg_Msg_update @
     dec_field ''funds'' (dec_unmarshaler (Array_UnmarshalJSON Coin_zero Coin_decode)) ExecuteMsg_Funds ExecuteMsg_Funds_update)"

definition ExecuteMsg_norm :: "ExecuteMsg \<Rightarrow> ExecuteMsg" where
  "ExecuteMsg_norm x = x\<lparr>ExecuteMsg_Funds := Some (elems (ExecuteMsg_Funds x))\<rparr>"

interpretation ExecuteMsg_codec: json_codec ExecuteMsg_to_json ExecuteMsg_decode ExecuteMsg_zero ExecuteMsg_norm "\<lambda>_. True"
  by (unfold_locales, simp add: ExecuteMsg_to_json_def,
    unfold ExecuteMsg_decode_def ExecuteMsg_to_json_def ExecuteMsg_zero_def dec_struct.simps, rule trans,
    ((rule dec_members_fld_last dec_members_fld, simp add: codec_simps, simp)
     | (rule dec_members_omit_last dec_members_omit, simp add: codec_simps, simp del: not_None_eq, simp))+,
    simp add: ExecuteMsg_norm_def)

record InstantiateMsg =
  InstantiateMsg_CodeID :: u64
  InstantiateMsg_Msg :: byte_slice
  InstantiateMsg_Funds :: "Coin slice"
  InstantiateMsg_Label :: string
  InstantiateMsg_Admin :: string

definition InstantiateMsg_zero :: InstantiateMsg where
  "InstantiateMsg_zero = \<lparr>InstantiateMsg_CodeID = 0,
     InstantiateMsg_Msg = None,
     InstantiateMsg_Funds = None,
     InstantiateMsg_Label = [],
     InstantiateMsg_Admin = []\<rparr>"

definition InstantiateMsg_to_json :: "InstantiateMsg \<Rightarrow> json" where
  "InstantiateMsg_to_json x = JObj (
     fld ''code_id'' (json_u64 (InstantiateMsg_CodeID x)) @
     fld ''msg'' (json_bytes (InstantiateMsg_Msg x)) @
     fld ''funds'' (Array_MarshalJSON Coin_to_json (InstantiateMsg_Funds x)) @
     fld ''label'' (JStr (InstantiateMsg_Label x)) @
     fld_omit ''admin'' (InstantiateMsg_Admin x = []) (JStr (InstantiateMsg_Admin x)))"

definition InstantiateMsg_decode :: "InstantiateMsg decoder" where
  "InstantiateMsg_decode = dec_struct (
     dec_field ''code_id'' dec_uint InstantiateMsg_CodeID InstantiateMsg_CodeID_update @
     dec_field ''msg'' dec_bytes InstantiateMsg_Msg InstantiateMsg_Msg_update @
     dec_field ''funds'' (dec_unmarshaler (Array_UnmarshalJSON Coin_zero Coin_decode)) InstantiateMsg_Funds InstantiateMsg_Funds_update @
     dec_field ''label'' dec_string InstantiateMsg_Label InstantiateMsg_Label_update @
     dec_field ''admin'' dec_string InstantiateMsg_Admin InstantiateMsg_Admin_update)"

definition InstantiateMsg_norm :: "InstantiateMsg \<Rightarrow> InstantiateMsg" where
  "InstantiateMsg_norm x = x\<lparr>InstantiateMsg_Funds := Some (elems (InstantiateMsg_Funds x))\<rparr>"

interpretation InstantiateMsg_codec: json_codec InstantiateMsg_to_json InstantiateMsg_decode InstantiateMsg_zero InstantiateMsg_norm "\<lambda>_. True"
  by (unfold_locales, simp add: InstantiateMsg_to_json_def,
    unfold InstantiateMsg_decode_def InstantiateMsg_to_json_def InstantiateMsg_zero_def dec_struct.simps, rule trans,
    ((rule dec_members_fld_last dec_members_fld, simp add: codec_simps, simp)
     | (rule dec_members_omit_last dec_members_omit, simp add: codec_simps, simp del: not_None_eq, simp))+,
    simp add: InstantiateMsg_norm_def)

record Instantiate2Msg =
  Instantiate2Msg_CodeID :: u64
  Instantiate2Msg_Msg :: byte_slice
  Instantiate2Msg_Funds :: "Coin slice"
  Instantiate2Msg_Label :: string
  Instantiate2Msg_Admin :: string
  Instantiate2Msg_Salt :: byte_slice

definition Instantiate2Msg_zero :: Instantiate2Msg where
  "Instantiate2Msg_zero = \<lparr>Instantiate2Msg_CodeID = 0,
     Instantiate2Msg_Msg = None,
     Instantiate2Msg_Funds = None,
     Instantiate2Msg_Label = [],
     Instantiate2Msg_Admin = [],
     Instantiate2Msg_Salt = None\<rparr>"

definition Instantiate2Msg_to_json :: "Instantiate2Msg \<Rightarrow> json" where
  "Instantiate2Msg_to_json x = JObj (
     fld ''code_id'' (json_u64 (Instantiate2Msg_CodeID x)) @
     fld ''msg'' (json_bytes (Instantiate2Msg_Msg x)) @
     fld ''funds'' (Array_MarshalJSON Coin_to_json (Instantiate2Msg_Funds x)) @
     fld ''label'' (JStr (Instantiate2Msg_Label x)) @
     fld_omit ''admin'' (Instantiate2Msg_Admin x = []) (JStr (Instantiate2Msg_Admin x)) @
     fld ''salt'' (json_bytes (Instantiate2Msg_Salt x)))"

definition Instantiate2Msg_decode :: "Instantiate2Msg decoder" where
  "Instantiate2Msg_decode = dec_struct (
     dec_field ''code_id'' dec_uint Instantiate2Msg_CodeID Instantiate2Msg_CodeID_update @
     dec_field ''msg'' dec_bytes Instantiate2Msg_Msg Instantiate2Msg_Msg_update @
     dec_field ''funds'' (dec_unmarshaler (Array_UnmarshalJSON Coin_zero Coin_decode)) Instantiate2Msg_Funds Instantiate2Msg_Funds_update @
     dec_field ''label'' dec_string Instantiate2Msg_Label Instantiate2Msg_Label_update @
     dec_field ''admin'' dec_string Instantiate2Msg_Admin Instantiate2Msg_Admin_update @
     dec_field ''salt'' dec_bytes Instantiate2Msg_Salt Instantiate2Msg_Salt_update)"

definition Instantiate2Msg_norm :: "Instantiate2Msg \<Rightarrow> Instantiate2Msg" where
  "Instantiate2Msg_norm x = x\<lparr>Instantiate2Msg_Funds := Some (elems (Instantiate2Msg_Funds x))\<rparr>"

interpretation Instantiate2Msg_codec: json_codec Instantiate2Msg_to_json Instantiate2Msg_decode Instantiate2Msg_zero Instantiate2Msg_norm "\<lambda>_. True"
  by (unfold_locales, simp add: Instantiate2Msg_to_json_def,
    unfold Instantiate2Msg_decode_def Instantiate2Msg_to_json_def Instantiate2Msg_zero_def dec_struct.simps, rule trans,
    ((rule dec_members_fld_last dec_members_fld, simp add: codec_simps, simp)
     | (rule dec_members_omit_last dec_members_omit, simp add: codec_simps, simp del: not_None_eq, simp))+,
    simp add: Instantiate2Msg_norm_def)

record MigrateMsg =
  MigrateMsg_ContractAddr :: string
  MigrateMsg_NewCodeID :: u64
  MigrateMsg_Msg :: byte_slice

definition MigrateMsg_zero :: MigrateMsg where
  "MigrateMsg_zero = \<lparr>MigrateMsg_ContractAddr = [],
     MigrateMsg_NewCodeID = 0,
     MigrateMsg_Msg = None\<rparr>"

definition MigrateMsg_to_json :: "MigrateMsg \<Rightarrow> json" where
  "MigrateMsg_to_json x = JObj (
     fld ''contract_addr'' (JStr (MigrateMsg_ContractAddr x)) @
     fld ''new_code_id'' (json_u64 (MigrateMsg_NewCodeID x)) @
     fld ''msg'' (json_bytes (MigrateMsg_Msg x)))"

definition MigrateMsg_decode :: "MigrateMsg decoder" where
  "MigrateMsg_decode = dec_struct (
     dec_field ''contract_addr'' dec_string MigrateMsg_ContractAddr MigrateMsg_ContractAddr_update @
     dec_field ''new_code_id'' dec_uint MigrateMsg_NewCodeID MigrateMsg_NewCodeID_update @
     dec_field ''msg'' dec_bytes MigrateMsg_Msg MigrateMsg_Msg_update)"

interpretation MigrateMsg_codec: json_codec MigrateMsg_to_json MigrateMsg_decode MigrateMsg_zero "\<lambda>x. x" "\<lambda>_. True"
  by (unfold_locales, simp add: MigrateMsg_to_json_def,
    unfold MigrateMsg_decode_def MigrateMsg_to_json_def MigrateMsg_zero_def dec_struct.simps, rule trans,
    ((rule dec_members_fld_last dec_members_fld, simp add: codec_simps, simp)
     | (rule dec_members_omit_last dec_members_omit, simp add: codec_simps, simp del: not_None_eq, simp))+,
    simp)

record UpdateAdminMsg =
  UpdateAdminMsg_ContractAddr :: string
  UpdateAdminMsg_Admin :: string

definition UpdateAdminMsg_zero :: UpdateAdminMsg where
  "UpdateAdminMsg_zero = \<lparr>UpdateAdminMsg_ContractAddr = [],
     UpdateAdminMsg_Admin = []\<rparr>"

definition UpdateAdminMsg_to_json :: "UpdateAdminMsg \<Rightarrow> json" where
  "UpdateAdminMsg_to_json x = JObj (
     fld ''contract_addr'' (JStr (UpdateAdminMsg_ContractAddr x)) @
     fld ''admin'' (JStr (UpdateAdminMsg_Admin x)))"

definition UpdateAdminMsg_decode :: "UpdateAdminMsg decoder" where
  "UpdateAdminMsg_decode = dec_struct (
     dec_field ''contract_addr'' dec_string UpdateAdminMsg_ContractAddr UpdateAdminMsg_ContractAddr_update @
     dec_field ''admin'' dec_string UpdateAdminMsg_Admin UpdateAdminMsg_Admin_update)"

interpretation UpdateAdminMsg_codec: json_codec UpdateAdminMsg_to_json UpdateAdminMsg_decode UpdateAdminMsg_zero "\<lambda>x. x" "\<lambda>_. True"
  by (unfold_locales, simp add: UpdateAdminMsg_to_json_def,
    unfold UpdateAdminMsg_decode_def UpdateAdminMsg_to_json_def UpdateAdminMsg_zero_def dec_struct.simps, rule trans,
    ((rule dec_members_fld_last dec_members_fld, simp add: codec_simps, simp)
     | (rule dec_members_omit_last dec_members_omit, simp add: codec_simps, simp del: not_None_eq, simp))+,
    simp)

record ClearAdminMsg =
  ClearAdminMsg_ContractAddr :: string

definition ClearAdminMsg_zero :: ClearAdminMsg where
  "ClearAdminMsg_zero = \<lparr>ClearAdminMsg_ContractAddr = []\<rparr>"

definition ClearAdminMsg_to_json :: "ClearAdminMsg \<Rightarrow> json" where
  "ClearAdminMsg_to_json x = JObj (
     fld ''contract_addr'' (JStr (ClearAdminMsg_ContractAddr x)))"

definition ClearAdminMsg_decode :: "ClearAdminMsg decoder" where
  "ClearAdminMsg_decode = dec_struct (
     dec_field ''contract_addr'' dec_string ClearAdminMsg_ContractAddr ClearAdminMsg_ContractAddr_update)"

interpretation ClearAdminMsg_codec: json_codec ClearAdminMsg_to_json ClearAdminMsg_decode ClearAdminMsg_zero "\<lambda>x. x" "\<lambda>_. True"
  by (unfold_locales, simp add: ClearAdminMsg_to_json_def,
    unfold ClearAdminMsg_decode_def ClearAdminMsg_to_json_def ClearAdminMsg_zero_def dec_struct.simps, rule trans,
    ((rule dec_members_fld_last dec_members_fld, simp add: codec_simps, simp)
     | (rule dec_members_omit_last dec_members_omit, simp add: codec_simps, simp del: not_None_eq, simp))+,
    simp)

record WasmMsg =
  WasmMsg_Execute :: "ExecuteMsg option"
  WasmMsg_Instantiate :: "InstantiateMsg option"
  WasmMsg_Instantiate2 :: "Instantiate2Msg option"
  WasmMsg_Migrate :: "MigrateMsg option"
  WasmMsg_UpdateAdmin :: "UpdateAdminMsg option"
  WasmMsg_ClearAdmin :: "ClearAdminMsg option"

definition WasmMsg_zero :: WasmMsg where
  "WasmMsg_zero = \<lparr>WasmMsg_Execute = None,
     WasmMsg_Instantiate = None,
     WasmMsg_Instantiate2 = None,
     WasmMsg_Migrate = None,
     WasmMsg_UpdateAdmin = None,
     WasmMsg_ClearAdmin = None\<rparr>"

definition WasmMsg_to_json :: "WasmMsg \<Rightarrow> json" where
  "WasmMsg_to_json x = JObj (
     fld_omit ''execute'' (WasmMsg_Execute x = None) (json_ptr ExecuteMsg_to_json (WasmMsg_Execute x)) @
     fld_omit ''instantiate'' (WasmMsg_Instantiate x = None) (json_ptr InstantiateMsg_to_json (WasmMsg_Instantiate x)) @
     fld_omit ''instantiate2'' (WasmMsg_Instantiate2 x = None) (json_ptr Instantiate2Msg_to_json (WasmMsg_Instantiate2 x)) @
     fld_omit ''migrate'' (WasmMsg_Migrate x = None) (json_ptr MigrateMsg_to_json (WasmMsg_Migrate x)) @
     fld_omit ''update_admin'' (WasmMsg_UpdateAdmin x = None) (json_ptr UpdateAdminMsg_to_json (WasmMsg_UpdateAdmin x)) @
     fld_omit ''clear_admin'' (WasmMsg_ClearAdmin x = None) (json_ptr ClearAdminMsg_to_json (WasmMsg_ClearAdmin x)))"

definition WasmMsg_decode :: "WasmMsg decoder" where
  "WasmMsg_decode = dec_struct (
     dec_field ''execute'' (dec_ptr ExecuteMsg_zero ExecuteMsg_decode) WasmMsg_Execute WasmMsg_Execute_update @
     dec_field ''instantiate'' (dec_ptr InstantiateMsg_zero InstantiateMsg_decode) WasmMsg_Instantiate WasmMsg_Instantiate_update @
     dec_field ''instantiate2'' (dec_ptr Instantiate2Msg_zero Instantiate2Msg_decode) WasmMsg_Instantiate2 WasmMsg_Instantiate2_update @
     dec_field ''migrate'' (dec_ptr MigrateMsg_zero MigrateMsg_decode) WasmMsg_Migrate WasmMsg_Migrate_update @
     dec_field ''update_admin'' (dec_ptr UpdateAdminMsg_zero UpdateAdminMsg_decode) WasmMsg_UpdateAdmin WasmMsg_UpdateAdmin_update @
     dec_field ''clear_admin'' (dec_ptr ClearAdminMsg_zero ClearAdminMsg_decode) WasmMsg_ClearAdmin WasmMsg_ClearAdmin_update)"

definition WasmMsg_norm :: "WasmMsg \<Rightarrow> WasmMsg" where
  "WasmMsg_norm x = x\<lparr>WasmMsg_Execute := map_option ExecuteMsg_norm (WasmMsg_Execute x),
     WasmMsg_Instantiate := map_option InstantiateMsg_norm (WasmMsg_Instantiate x),
     WasmMsg_Instantiate2 := map_option Instantiate2Msg_norm (WasmMsg_Instantiate2 x)\<rparr>"

interpretation WasmMsg_codec: json_codec WasmMsg_to_json WasmMsg_decode WasmMsg_zero WasmMsg_norm "\<lambda>_. True"
  by (unfold_locales, simp add: WasmMsg_to_json_def,
    unfold WasmMsg_decode_def WasmMsg_to_json_def WasmMsg_zero_def dec_struct.simps, rule trans,
    ((rule dec_members_fld_last dec_members_fld, simp add: codec_simps, simp)
     | (rule dec_members_omit_last dec_members_omit, simp add: codec_simps, simp del: not_None_eq, simp))+,
    simp add: WasmMsg_norm_def)

section \<open>IBC2\<close>

record IBC2SendPacketMsg =
  IBC2SendPacketMsg_SourceClient :: string
  IBC2SendPacketMsg_Payloads :: "IBC2Payload slice"
  IBC2SendPacketMsg_Timeout :: u64

definition IBC2SendPacketMsg_zero :: IBC2SendPacketMsg where
  "IBC2SendPacketMsg_zero = \<lparr>IBC2SendPacketMsg_SourceClient = [],
     IBC2SendPacketMsg_Payloads = None,
     IBC2SendPacketMsg_Timeout = 0\<rparr>"

definition IBC2SendPacketMsg_to_json :: "IBC2SendPacketMsg \<Rightarrow> json" where
  "IBC2SendPacketMsg_to_json x = JObj (
     fld ''source_client'' (JStr (IBC2SendPacketMsg_SourceClient x)) @
     fld ''payloads'' (json_slice IBC2Payload_to_json (IBC2SendPacketMsg_Payloads x)) @
     fld_omit ''timeout'' (IBC2SendPacketMsg_Timeout x = 0) (json_u64_quoted (IBC2SendPacketMsg_Timeout x)))"

definition IBC2SendPacketMsg_decode :: "IBC2SendPacketMsg decoder" where
  "IBC2SendPacketMsg_decode = dec_struct (
     dec_field ''source_client'' dec_string IBC2SendPacketMsg_SourceClient IBC2SendPacketMsg_SourceClient_update @
     dec_field ''payloads'' (dec_slice IBC2Payload_zero IBC2Payload_decode) IBC2SendPacketMsg_Payloads IBC2SendPacketMsg_Payloads_update @
     dec_field ''timeout'' dec_quoted_u64 IBC2SendPacketMsg_Timeout IBC2SendPacketMsg_Timeout_update)"

interpretation IBC2SendPacketMsg_codec: json_codec IBC2SendPacketMsg_to_json IBC2SendPacketMsg_decode IBC2SendPacketMsg_zero "\<lambda>x. x" "\<lambda>_. True"
  by (unfold_locales, simp add: IBC2SendPacketMsg_to_json_def,
    unfold IBC2SendPacketMsg_decode_def IBC2SendPacketMsg_to_json_def IBC2SendPacketMsg_zero_def dec_struct.simps, rule trans,
    ((rule dec_members_fld_last dec_members_fld, simp add: codec_simps, simp)
     | (rule dec_members_omit_last dec_members_omit, simp add: codec_simps, simp del: not_None_eq, simp))+,
    simp)

record IBC2WriteAcknowledgementMsg =
  IBC2WriteAcknowledgementMsg_Ack :: IBCAcknowledgement
  IBC2WriteAcknowledgementMsg_SourceClient :: string
  IBC2WriteAcknowledgementMsg_DestinationClient :: string
  IBC2WriteAcknowledgementMsg_PacketSequence :: u64

definition IBC2WriteAcknowledgementMsg_zero :: IBC2WriteAcknowledgementMsg where
  "IBC2WriteAcknowledgementMsg_zero = \<lparr>IBC2WriteAcknowledgementMsg_Ack = IBCAcknowledgement_zero,
     IBC2WriteAcknowledgementMsg_SourceClient = [],
     IBC2WriteAcknowledgementMsg_DestinationClient = [],
     IBC2WriteAcknowledgementMsg_PacketSequence = 0\<rparr>"

definition IBC2WriteAcknowledgementMsg_to_json :: "IBC2WriteAcknowledgementMsg \<Rightarrow> json" where
  "IBC2WriteAcknowledgementMsg_to_json x = JObj (
     fld ''ack'' (IBCAcknowledgement_to_json (IBC2WriteAcknowledgementMsg_Ack x)) @
     fld ''source_client'' (JStr (IBC2WriteAcknowledgementMsg_SourceClient x)) @
     fld ''destination_client'' (JStr (IBC2WriteAcknowledgementMsg_DestinationClient x)) @
     fld ''packet_sequence'' (json_u64 (IBC2WriteAcknowledgementMsg_PacketSequence x)))"

definition IBC2WriteAcknowledgementMsg_decode :: "IBC2WriteAcknowledgementMsg decoder" where
  "IBC2WriteAcknowledgementMsg_decode = dec_struct (
     dec_field ''ack'' IBCAcknowledgement_decode IBC2WriteAcknowledgementMsg_Ack IBC2WriteAcknowledgementMsg_Ack_update @
     dec_field ''source_client'' dec_string IBC2WriteAcknowledgementMsg_SourceClient IBC2WriteAcknowledgementMsg_SourceClient_update @
     dec_field ''destination_client'' dec_string IBC2WriteAcknowledgementMsg_DestinationClient IBC2WriteAcknowledgementMsg_DestinationClient_update @
     dec_field ''packet_sequence'' dec_uint IBC2WriteAcknowledgementMsg_PacketSequence IBC2WriteAcknowledgementMsg_PacketSequence_update)"

interpretation IBC2WriteAcknowledgementMsg_codec: json_codec IBC2WriteAcknowledgementMsg_to_json IBC2WriteAcknowledgementMsg_decode IBC2WriteAcknowledgementMsg_zero "\<lambda>x. x" "\<lambda>_. True"
  by (unfold_locales, simp add: IBC2WriteAcknowledgementMsg_to_json_def,
    unfold IBC2WriteAcknowledgementMsg_decode_def IBC2WriteAcknowledgementMsg_to_json_def IBC2WriteAcknowledgementMsg_zero_def dec_struct.simps, rule trans,
    ((rule dec_members_fld_last dec_members_fld, simp add: codec_simps, simp)
     | (rule dec_members_omit_last dec_members_omit, simp add: codec_simps, simp del: not_None_eq, simp))+,
    simp)

record IBC2Msg =
  IBC2Msg_SendPacket :: "IBC2SendPacketMsg option"
  IBC2Msg_WriteAcknowledgement :: "IBC2WriteAcknowledgementMsg option"

definition IBC2Msg_zero :: IBC2Msg where
  "IBC2Msg_zero = \<lparr>IBC2Msg_SendPacket = None,
     IBC2Msg_WriteAcknowledgement = None\<rparr>"

definition IBC2Msg_to_json :: "IBC2Msg \<Rightarrow> json" where
  "IBC2Msg_to_json x = JObj (
     fld_omit ''send_packet'' (IBC2Msg_SendPacket x = None) (json_ptr IBC2SendPacketMsg_to_json (IBC2Msg_SendPacket x)) @
     fld_omit ''write_acknowledgement'' (IBC2Msg_WriteAcknowledgement x = None) (json_ptr IBC2WriteAcknowledgementMsg_to_json (IBC2Msg_WriteAcknowledgement x)))"

definition IBC2Msg_decode :: "IBC2Msg decoder" where
  "IBC2Msg_decode = dec_struct (
     dec_field ''send_packet'' (dec_ptr IBC2SendPacketMsg_zero IBC2SendPacketMsg_decode) IBC2Msg_SendPacket IBC2Msg_SendPacket_update @
     dec_field ''write_acknowledgement'' (dec_ptr IBC2WriteAcknowledgementMsg_zero IBC2WriteAcknowledgementMsg_decode) IBC2Msg_WriteAcknowledgement IBC2Msg_WriteAcknowledgement_update)"

interpretation IBC2Msg_codec: json_codec IBC2Msg_to_json IBC2Msg_decode IBC2Msg_zero "\<lambda>x. x" "\<lambda>_. True"
  by (unfold_locales, simp add: IBC2Msg_to_json_def,
    unfold IBC2Msg_decode_def IBC2Msg_to_json_def IBC2Msg_zero_def dec_struct.simps, rule trans,
    ((rule dec_members_fld_last dec_members_fld, simp add: codec_simps, simp)
     | (rule dec_members_omit_last dec_members_omit, simp add: codec_simps, simp del: not_None_eq, simp))+,
    simp)

end
