(* ===== verification/CosmosMsg.thy ===== *)
theory CosmosMsg
  imports MsgTypes
begin

text \<open>
  \<open>CosmosMsg\<close> with its \<open>UnmarshalJSON\<close>, the submessages of \<open>submessages.go\<close>, and the results the
  entry points return: \<open>ContractResult\<close> of \<open>msg.go\<close> and the IBC results of \<open>ibc.go\<close>.
\<close>

section \<open>CosmosMsg\<close>

record CosmosMsg =
  CosmosMsg_Bank :: "BankMsg option"
  CosmosMsg_Custom :: "json option"
  CosmosMsg_Distribution :: "DistributionMsg option"
  CosmosMsg_Gov :: "GovMsg option"
  CosmosMsg_IBC :: "IBCMsg option"
  CosmosMsg_Staking :: "StakingMsg option"
  CosmosMsg_Any :: "AnyMsg option"
  CosmosMsg_Wasm :: "WasmMsg option"
  CosmosMsg_IBC2 :: "IBC2Msg option"

definition CosmosMsg_zero :: CosmosMsg where
  "CosmosMsg_zero = \<lparr>CosmosMsg_Bank = None,
     CosmosMsg_Custom = None,
     CosmosMsg_Distribution = None,
     CosmosMsg_Gov = None,
     CosmosMsg_IBC = None,
     CosmosMsg_Staking = None,
     CosmosMsg_Any = None,
     CosmosMsg_Wasm = None,
     CosmosMsg_IBC2 = None\<rparr>"

definition CosmosMsg_to_json :: "CosmosMsg \<Rightarrow> json" where
  "CosmosMsg_to_json x = JObj (
     fld_omit ''bank'' (CosmosMsg_Bank x = None) (json_ptr BankMsg_to_json (CosmosMsg_Bank x)) @
     fld_omit ''custom'' (CosmosMsg_Custom x = None) (json_raw (CosmosMsg_Custom x)) @
     fld_omit ''distribution'' (CosmosMsg_Distribution x = None) (json_ptr DistributionMsg_to_json (CosmosMsg_Distribution x)) @
     fld_omit ''gov'' (CosmosMsg_Gov x = None) (json_ptr GovMsg_to_json (CosmosMsg_Gov x)) @
     fld_omit ''ibc'' (CosmosMsg_IBC x = None) (json_ptr IBCMsg_to_json (CosmosMsg_IBC x)) @
     fld_omit ''staking'' (CosmosMsg_Staking x = None) (json_ptr StakingMsg_to_json (CosmosMsg_Staking x)) @
     fld_omit ''any'' (CosmosMsg_Any x = None) (json_ptr AnyMsg_to_json (CosmosMsg_Any x)) @
     fld_omit ''wasm'' (CosmosMsg_Wasm x = None) (json_ptr WasmMsg_to_json (CosmosMsg_Wasm x)) @
     fld_omit ''ibc2'' (CosmosMsg_IBC2 x = None) (json_ptr IBC2Msg_to_json (CosmosMsg_IBC2 x)))"

record InternalCosmosMsg =
  InternalCosmosMsg_Bank :: "BankMsg option"
  InternalCosmosMsg_Custom :: "json option"
  InternalCosmosMsg_Distribution :: "DistributionMsg option"
  InternalCosmosMsg_Gov :: "GovMsg option"
  InternalCosmosMsg_IBC :: "IBCMsg option"
  InternalCosmosMsg_Staking :: "StakingMsg option"
  InternalCosmosMsg_Any :: "AnyMsg option"
  InternalCosmosMsg_Wasm :: "WasmMsg option"
  InternalCosmosMsg_Stargate :: "AnyMsg option"
  InternalCosmosMsg_IBC2 :: "IBC2Msg option"

definition InternalCosmosMsg_zero :: InternalCosmosMsg where
  "InternalCosmosMsg_zero = \<lparr>InternalCosmosMsg_Bank = None,
     InternalCosmosMsg_Custom = None,
     InternalCosmosMsg_Distribution = None,
     InternalCosmosMsg_Gov = None,
     InternalCosmosMsg_IBC = None,
     InternalCosmosMsg_Staking = None,
     InternalCosmosMsg_Any = None,
     InternalCosmosMsg_Wasm = None,
     InternalCosmosMsg_Stargate = None,
     InternalCosmosMsg_IBC2 = None\<rparr>"

definition InternalCosmosMsg_decode :: "InternalCosmosMsg decoder" where
  "InternalCosmosMsg_decode = dec_struct (
     dec_field ''bank'' (dec_ptr BankMsg_zero BankMsg_decode) InternalCosmosMsg_Bank InternalCosmosMsg_Bank_update @
     dec_field ''custom'' dec_raw InternalCosmosMsg_Custom InternalCosmosMsg_Custom_update @
     dec_field ''distribution'' (dec_ptr DistributionMsg_zero DistributionMsg_decode) InternalCosmosMsg_Distribution InternalCosmosMsg_Distribution_update @
     dec_field ''gov'' (dec_ptr GovMsg_zero GovMsg_decode) InternalCosmosMsg_Gov InternalCosmosMsg_Gov_update @
     dec_field ''ibc'' (dec_ptr IBCMsg_zero IBCMsg_decode) InternalCosmosMsg_IBC InternalCosmosMsg_IBC_update @
     dec_field ''staking'' (dec_ptr StakingMsg_zero StakingMsg_decode) InternalCosmosMsg_Staking InternalCosmosMsg_Staking_update @
     dec_field ''any'' (dec_ptr AnyMsg_zero AnyMsg_decode) InternalCosmosMsg_Any InternalCosmosMsg_Any_update @
     dec_field ''wasm'' (dec_ptr WasmMsg_zero WasmMsg_decode) InternalCosmosMsg_Wasm InternalCosmosMsg_Wasm_update @
     dec_field ''stargate'' (dec_ptr AnyMsg_zero AnyMsg_decode) InternalCosmosMsg_Stargate InternalCosmosMsg_Stargate_update @
     dec_field ''ibc2'' (dec_ptr IBC2Msg_zero IBC2Msg_decode) InternalCosmosMsg_IBC2 InternalCosmosMsg_IBC2_update)"

definition CosmosMsg_UnmarshalJSON :: "json \<Rightarrow> CosmosMsg \<Rightarrow> (json_error + CosmosMsg) go" where
  "CosmosMsg_UnmarshalJSON data m = (case run_decoder InternalCosmosMsg_decode data InternalCosmosMsg_zero of
     Panics p \<Rightarrow> Panics p
   | Return (Inl err) \<Rightarrow> Return (Inl err)
   | Return (Inr tmp) \<Rightarrow>
       if InternalCosmosMsg_Any tmp \<noteq> None \<and> InternalCosmosMsg_Stargate tmp \<noteq> None
       then Return (Inl (UnmarshalerError
         (''invalid CosmosMsg: both '' @ [CHR 0x27] @ ''any'' @ [CHR 0x27] @ '' and '' @
          [CHR 0x27] @ ''stargate'' @ [CHR 0x27] @ '' fields are set'')))
       else (let tmp = (if InternalCosmosMsg_Any tmp = None \<and> InternalCosmosMsg_Stargate tmp \<noteq> None
                        then tmp\<lparr>InternalCosmosMsg_Any := InternalCosmosMsg_Stargate tmp\<rparr> else tmp) in
             Return (Inr \<lparr>CosmosMsg_Bank = InternalCosmosMsg_Bank tmp,
               CosmosMsg_Custom = InternalCosmosMsg_Custom tmp,
               CosmosMsg_Distribution = InternalCosmosMsg_Distribution tmp,
               CosmosMsg_Gov = InternalCosmosMsg_Gov tmp,
               CosmosMsg_IBC = InternalCosmosMsg_IBC tmp,
               CosmosMsg_Staking = InternalCosmosMsg_Staking tmp,
               CosmosMsg_Any = InternalCosmosMsg_Any tmp,
               CosmosMsg_Wasm = InternalCosmosMsg_Wasm tmp,
               CosmosMsg_IBC2 = InternalCosmosMsg_IBC2 tmp\<rparr>)))"

definition CosmosMsg_norm :: "CosmosMsg \<Rightarrow> CosmosMsg" where
  "CosmosMsg_norm x = x\<lparr>CosmosMsg_Bank := map_option BankMsg_norm (CosmosMsg_Bank x),
     CosmosMsg_Distribution := map_option DistributionMsg_norm (CosmosMsg_Distribution x),
     CosmosMsg_IBC := map_option IBCMsg_norm (CosmosMsg_IBC x),
     CosmosMsg_Wasm := map_option WasmMsg_norm (CosmosMsg_Wasm x)\<rparr>"

definition CosmosMsg_valid :: "CosmosMsg \<Rightarrow> bool" where
  "CosmosMsg_valid x \<longleftrightarrow> pred_option GovMsg_valid (CosmosMsg_Gov x)"

text \<open>The decoder of \<open>InternalCosmosMsg\<close> on what a \<open>CosmosMsg\<close> is written as.\<close>

lemma InternalCosmosMsg_decode_CosmosMsg:
  assumes valid: "CosmosMsg_valid x"
  shows "InternalCosmosMsg_decode (CosmosMsg_to_json x) InternalCosmosMsg_zero =
    Dec \<lparr>InternalCosmosMsg_Bank = map_option BankMsg_norm (CosmosMsg_Bank x),
       InternalCosmosMsg_Custom = CosmosMsg_Custom x,
       InternalCosmosMsg_Distribution = map_option DistributionMsg_norm (CosmosMsg_Distribution x),
       InternalCosmosMsg_Gov = CosmosMsg_Gov x,
       InternalCosmosMsg_IBC = map_option IBCMsg_norm (CosmosMsg_IBC x),
       InternalCosmosMsg_Staking = CosmosMsg_Staking x,
       InternalCosmosMsg_Any = CosmosMsg_Any x,
       InternalCosmosMsg_Wasm = map_option WasmMsg_norm (CosmosMsg_Wasm x),
       InternalCosmosMsg_Stargate = None,
       InternalCosmosMsg_IBC2 = CosmosMsg_IBC2 x\<rparr> None"
  using valid
  by (unfold InternalCosmosMsg_decode_def CosmosMsg_to_json_def InternalCosmosMsg_zero_def dec_struct.simps)
    (rule trans, (rule dec_members_omit_last dec_members_omit, simp add: codec_simps,
       simp add: CosmosMsg_valid_def, simp)+, simp)

interpretation CosmosMsg_codec: json_codec CosmosMsg_to_json "dec_unmarshaler CosmosMsg_UnmarshalJSON"
    CosmosMsg_zero CosmosMsg_norm CosmosMsg_valid
  by unfold_locales (simp_all add: CosmosMsg_to_json_def [THEN arg_cong [where f = "\<lambda>j. j = JNull"]]
      InternalCosmosMsg_decode_CosmosMsg dec_unmarshaler_def CosmosMsg_UnmarshalJSON_def run_decoder_def
      CosmosMsg_norm_def)

section \<open>Submessages\<close>

datatype replyOn = UnsetReplyOn | ReplyAlways | ReplySuccess | ReplyError | ReplyNever

definition fromReplyOn :: "replyOn \<rightharpoonup> string" where
  "fromReplyOn r = (case r of
     UnsetReplyOn \<Rightarrow> None
   | ReplyAlways \<Rightarrow> Some ''always''
   | ReplySuccess \<Rightarrow> Some ''success''
   | ReplyError \<Rightarrow> Some ''error''
   | ReplyNever \<Rightarrow> Some ''never'')"

definition toReplyOn :: "string \<rightharpoonup> replyOn" where
  "toReplyOn = map_of [(''always'', ReplyAlways), (''success'', ReplySuccess),
     (''error'', ReplyError), (''never'', ReplyNever)]"

definition replyOn_String :: "replyOn \<Rightarrow> string" where
  "replyOn_String r = (case fromReplyOn r of None \<Rightarrow> [] | Some s \<Rightarrow> s)"

definition replyOn_MarshalJSON :: "replyOn \<Rightarrow> json" where
  "replyOn_MarshalJSON s = JStr (replyOn_String s)"

definition replyOn_UnmarshalJSON :: "json \<Rightarrow> replyOn \<Rightarrow> (json_error + replyOn) go" where
  "replyOn_UnmarshalJSON b s = (case run_decoder dec_string b [] of
     Panics p \<Rightarrow> Panics p
   | Return (Inl err) \<Rightarrow> Return (Inl err)
   | Return (Inr j) \<Rightarrow> (case toReplyOn j of
       None \<Rightarrow> Return (Inl (UnmarshalerError (''invalid reply_on value '' @ [CHR 0x27] @ j @ [CHR 0x27])))
     | Some v \<Rightarrow> Return (Inr v)))"

definition replyOn_valid :: "replyOn \<Rightarrow> bool" where
  "replyOn_valid r \<longleftrightarrow> r \<noteq> UnsetReplyOn"

interpretation replyOn_codec: json_codec replyOn_MarshalJSON
    "dec_unmarshaler replyOn_UnmarshalJSON" UnsetReplyOn "\<lambda>x. x" replyOn_valid
proof unfold_locales
  show "replyOn_MarshalJSON x \<noteq> JNull" for x by (simp add: replyOn_MarshalJSON_def)
  show "dec_unmarshaler replyOn_UnmarshalJSON (replyOn_MarshalJSON x) UnsetReplyOn = Dec x None"
    if "replyOn_valid x" for x
    using that
    by (cases x) (simp_all add: replyOn_valid_def replyOn_MarshalJSON_def replyOn_String_def
        replyOn_UnmarshalJSON_def fromReplyOn_def toReplyOn_def dec_unmarshaler_def run_decoder_def)
qed

record SubMsg =
  SubMsg_ID :: u64
  SubMsg_Msg :: CosmosMsg
  SubMsg_Payload :: byte_slice
  SubMsg_GasLimit :: "u64 option"
  SubMsg_ReplyOn :: replyOn

definition SubMsg_zero :: SubMsg where
  "SubMsg_zero = \<lparr>SubMsg_ID = 0,
     SubMsg_Msg = CosmosMsg_zero,
     SubMsg_Payload = None,
     SubMsg_GasLimit = None,
     SubMsg_ReplyOn = UnsetReplyOn\<rparr>"

definition SubMsg_to_json :: "SubMsg \<Rightarrow> json" where
  "SubMsg_to_json x = JObj (
     fld ''id'' (json_u64 (SubMsg_ID x)) @
     fld ''msg'' (CosmosMsg_to_json (SubMsg_Msg x)) @
     fld_omit ''payload'' (slice_len (SubMsg_Payload x) = 0) (json_bytes (SubMsg_Payload x)) @
     fld_omit ''gas_limit'' (SubMsg_GasLimit x = None) (json_ptr json_u64 (SubMsg_GasLimit x)) @
     fld ''reply_on'' (replyOn_MarshalJSON (SubMsg_ReplyOn x)))"

definition SubMsg_decode :: "SubMsg decoder" where
  "SubMsg_decode = dec_struct (
     dec_field ''id'' dec_uint SubMsg_ID SubMsg_ID_update @
     dec_field ''msg'' (dec_unmarshaler CosmosMsg_UnmarshalJSON) SubMsg_Msg SubMsg_Msg_update @
     dec_field ''payload'' dec_bytes SubMsg_Payload SubMsg_Payload_update @
     dec_field ''gas_limit'' (dec_ptr 0 dec_uint) SubMsg_GasLimit SubMsg_GasLimit_update @
     dec_field ''reply_on'' (dec_unmarshaler replyOn_UnmarshalJSON) SubMsg_ReplyOn SubMsg_ReplyOn_update)"

definition SubMsg_norm :: "SubMsg \<Rightarrow> SubMsg" where
  "SubMsg_norm x = x\<lparr>SubMsg_Msg := CosmosMsg_norm (SubMsg_Msg x),
     SubMsg_Payload := omit_slice (SubMsg_Payload x)\<rparr>"

definition SubMsg_valid :: "SubMsg \<Rightarrow> bool" where
  "SubMsg_valid x \<longleftrightarrow> CosmosMsg_valid (SubMsg_Msg x) \<and>
     replyOn_valid (SubMsg_ReplyOn x)"

interpretation SubMsg_codec: json_codec SubMsg_to_json SubMsg_decode SubMsg_zero SubMsg_norm SubMsg_valid
  by (unfold_locales, simp add: SubMsg_to_json_def,
    unfold SubMsg_decode_def SubMsg_to_json_def SubMsg_zero_def dec_struct.simps, rule trans,
    ((rule dec_members_fld_last dec_members_fld, simp add: codec_simps, simp add: SubMsg_valid_def)
     | (rule dec_members_omit_bytes_last [where upd = SubMsg_Payload_update] dec_members_omit_bytes [where upd = SubMsg_Payload_update],
         simp add: codec_simps, simp)
     | (rule dec_members_omit_last dec_members_omit, simp add: codec_simps, simp add: SubMsg_valid_def del: not_None_eq, simp))+,
    simp add: SubMsg_norm_def)

text \<open>What the host passes to \<open>reply\<close>.\<close>

record MsgResponse =
  MsgResponse_TypeURL :: string
  MsgResponse_Value :: byte_slice

definition MsgResponse_to_json :: "MsgResponse \<Rightarrow> json" where
  "MsgResponse_to_json x = JObj (
     fld ''type_url'' (JStr (MsgResponse_TypeURL x)) @
     fld ''value'' (json_bytes (MsgResponse_Value x)))"

record SubMsgResponse =
  SubMsgResponse_Events :: "Event slice"
  SubMsgResponse_Data :: byte_slice
  SubMsgResponse_MsgResponses :: "MsgResponse slice"

definition SubMsgResponse_to_json :: "SubMsgResponse \<Rightarrow> json" where
  "SubMsgResponse_to_json x = JObj (
     fld ''events'' (Array_MarshalJSON Event_to_json (SubMsgResponse_Events x)) @
     fld_omit ''data'' (slice_len (SubMsgResponse_Data x) = 0) (json_bytes (SubMsgResponse_Data x)) @
     fld ''msg_responses'' (Array_MarshalJSON MsgResponse_to_json (SubMsgResponse_MsgResponses x)))"

record SubMsgResult =
  SubMsgResult_Ok :: "SubMsgResponse option"
  SubMsgResult_Err :: string

definition SubMsgResult_to_json :: "SubMsgResult \<Rightarrow> json" where
  "SubMsgResult_to_json x = JObj (
     fld_omit ''ok'' (SubMsgResult_Ok x = None) (json_ptr SubMsgResponse_to_json (SubMsgResult_Ok x)) @
     fld_omit ''error'' (SubMsgResult_Err x = []) (JStr (SubMsgResult_Err x)))"

record Reply =
  Reply_GasUsed :: u64
  Reply_ID :: u64
  Reply_Result :: SubMsgResult
  Reply_Payload :: byte_slice

definition Reply_to_json :: "Reply \<Rightarrow> json" where
  "Reply_to_json x = JObj (
     fld ''gas_used'' (json_u64 (Reply_GasUsed x)) @
     fld ''id'' (json_u64 (Reply_ID x)) @
     fld ''result'' (SubMsgResult_to_json (Reply_Result x)) @
     fld_omit ''payload'' (slice_len (Reply_Payload x) = 0) (json_bytes (Reply_Payload x)))"

section \<open>Results\<close>

record Response =
  Response_Messages :: "SubMsg slice"
  Response_Data :: byte_slice
  Response_Attributes :: "EventAttribute slice"
  Response_Events :: "Event slice"

definition Response_zero :: Response where
  "Response_zero = \<lparr>Response_Messages = None,
     Response_Data = None,
     Response_Attributes = None,
     Response_Events = None\<rparr>"

definition Response_to_json :: "Response \<Rightarrow> json" where
  "Response_to_json x = JObj (
     fld ''messages'' (json_slice SubMsg_to_json (Response_Messages x)) @
     fld ''data'' (json_bytes (Response_Data x)) @
     fld ''attributes'' (json_slice EventAttribute_to_json (Response_Attributes x)) @
     fld ''events'' (json_slice Event_to_json (Response_Events x)))"

definition Response_decode :: "Response decoder" where
  "Response_decode = dec_struct (
     dec_field ''messages'' (dec_slice SubMsg_zero SubMsg_decode) Response_Messages Response_Messages_update @
     dec_field ''data'' dec_bytes Response_Data Response_Data_update @
     dec_field ''attributes'' (dec_slice EventAttribute_zero EventAttribute_decode) Response_Attributes Response_Attributes_update @
     dec_field ''events'' (dec_slice Event_zero Event_decode) Response_Events Response_Events_update)"

definition Response_norm :: "Response \<Rightarrow> Response" where
  "Response_norm x = x\<lparr>Response_Messages := map_option (map SubMsg_norm) (Response_Messages x),
     Response_Events := map_option (map Event_norm) (Response_Events x)\<rparr>"

definition Response_valid :: "Response \<Rightarrow> bool" where
  "Response_valid x \<longleftrightarrow> pred_option (list_all SubMsg_valid) (Response_Messages x)"

interpretation Response_codec: json_codec Response_to_json Response_decode Response_zero Response_norm Response_valid
  by (unfold_locales, simp add: Response_to_json_def,
    unfold Response_decode_def Response_to_json_def Response_zero_def dec_struct.simps, rule trans,
    ((rule dec_members_fld_last dec_members_fld, simp add: codec_simps, simp add: Response_valid_def)
     | (rule dec_members_omit_last dec_members_omit, simp add: codec_simps, simp add: Response_valid_def del: not_None_eq, simp))+,
    simp add: Response_norm_def)

record ContractResult =
  ContractResult_Ok :: "Response option"
  ContractResult_Err :: string

definition ContractResult_zero :: ContractResult where
  "ContractResult_zero = \<lparr>ContractResult_Ok = None,
     ContractResult_Err = []\<rparr>"

definition ContractResult_to_json :: "ContractResult \<Rightarrow> json" where
  "ContractResult_to_json x = JObj (
     fld_omit ''ok'' (ContractResult_Ok x = None) (json_ptr Response_to_json (ContractResult_Ok x)) @
     fld_omit ''error'' (ContractResult_Err x = []) (JStr (ContractResult_Err x)))"

definition ContractResult_decode :: "ContractResult decoder" where
  "ContractResult_decode = dec_struct (
     dec_field ''ok'' (dec_ptr Response_zero Response_decode) ContractResult_Ok ContractResult_Ok_update @
     dec_field ''error'' dec_string ContractResult_Err ContractResult_Err_update)"

definition ContractResult_norm :: "ContractResult \<Rightarrow> ContractResult" where
  "ContractResult_norm x = x\<lparr>ContractResult_Ok := map_option Response_norm (ContractResult_Ok x)\<rparr>"

definition ContractResult_valid :: "ContractResult \<Rightarrow> bool" where
  "ContractResult_valid x \<longleftrightarrow> pred_option Response_valid (ContractResult_Ok x)"

interpretation ContractResult_codec: json_codec ContractResult_to_json ContractResult_decode ContractResult_zero ContractResult_norm ContractResult_valid
  by (unfold_locales, simp add: ContractResult_to_json_def,
    unfold ContractResult_decode_def ContractResult_to_json_def ContractResult_zero_def dec_struct.simps, rule trans,
    ((rule dec_members_fld_last dec_members_fld, simp add: codec_simps, simp add: ContractResult_valid_def)
     | (rule dec_members_omit_last dec_members_omit, simp add: codec_simps, simp add: ContractResult_valid_def del: not_None_eq, simp))+,
    simp add: ContractResult_norm_def)

definition ContractResult_SubMessages :: "ContractResult \<Rightarrow> SubMsg slice" where
  "ContractResult_SubMessages r = (case ContractResult_Ok r of
     Some ok \<Rightarrow> Response_Messages ok
   | None \<Rightarrow> None)"

record IBC3ChannelOpenResponse =
  IBC3ChannelOpenResponse_Version :: string

definition IBC3ChannelOpenResponse_zero :: IBC3ChannelOpenResponse where
  "IBC3ChannelOpenResponse_zero = \<lparr>IBC3ChannelOpenResponse_Version = []\<rparr>"

definition IBC3ChannelOpenResponse_to_json :: "IBC3ChannelOpenResponse \<Rightarrow> json" where
  "IBC3ChannelOpenResponse_to_json x = JObj (
     fld ''version'' (JStr (IBC3ChannelOpenResponse_Version x)))"

definition IBC3ChannelOpenResponse_decode :: "IBC3ChannelOpenResponse decoder" where
  "IBC3ChannelOpenResponse_decode = dec_struct (
     dec_field ''version'' dec_string IBC3ChannelOpenResponse_Version IBC3ChannelOpenResponse_Version_update)"

interpretation IBC3ChannelOpenResponse_codec: json_codec IBC3ChannelOpenResponse_to_json IBC3ChannelOpenResponse_decode IBC3ChannelOpenResponse_zero "\<lambda>x. x" "\<lambda>_. True"
  by (unfold_locales, simp add: IBC3ChannelOpenResponse_to_json_def,
    unfold IBC3ChannelOpenResponse_decode_def IBC3ChannelOpenResponse_to_json_def IBC3ChannelOpenResponse_zero_def dec_struct.simps, rule trans,
    ((rule dec_members_fld_last dec_members_fld, simp add: codec_simps, simp)
     | (rule dec_members_omit_last dec_members_omit, simp add: codec_simps, simp del: not_None_eq, simp))+,
    simp)

record IBCChannelOpenResult =
  IBCChannelOpenResult_Ok :: "IBC3ChannelOpenResponse option"
  IBCChannelOpenResult_Err :: string

definition IBCChannelOpenResult_zero :: IBCChannelOpenResult where
  "IBCChannelOpenResult_zero = \<lparr>IBCChannelOpenResult_Ok = None,
     IBCChannelOpenResult_Err = []\<rparr>"

definition IBCChannelOpenResult_to_json :: "IBCChannelOpenResult \<Rightarrow> json" where
  "IBCChannelOpenResult_to_json x = JObj (
     fld_omit ''ok'' (IBCChannelOpenResult_Ok x = None) (json_ptr IBC3ChannelOpenResponse_to_json (IBCChannelOpenResult_Ok x)) @
     fld_omit ''error'' (IBCChannelOpenResult_Err x = []) (JStr (IBCChannelOpenResult_Err x)))"

definition IBCChannelOpenResult_decode :: "IBCChannelOpenResult decoder" where
  "IBCChannelOpenResult_decode = dec_struct (
     dec_field ''ok'' (dec_ptr IBC3ChannelOpenResponse_zero IBC3ChannelOpenResponse_decode) IBCChannelOpenResult_Ok IBCChannelOpenResult_Ok_update @
     dec_field ''error'' dec_string IBCChannelOpenResult_Err IBCChannelOpenResult_Err_update)"

interpretation IBCChannelOpenResult_codec: json_codec IBCChannelOpenResult_to_json IBCChannelOpenResult_decode IBCChannelOpenResult_zero "\<lambda>x. x" "\<lambda>_. True"
  by (unfold_locales, simp add: IBCChannelOpenResult_to_json_def,
    unfold IBCChannelOpenResult_decode_def IBCChannelOpenResult_to_json_def IBCChannelOpenResult_zero_def dec_struct.simps, rule trans,
    ((rule dec_members_fld_last dec_members_fld, simp add: codec_simps, simp)
     | (rule dec_members_omit_last dec_members_omit, simp add: codec_simps, simp del: not_None_eq, simp))+,
    simp)

record IBCBasicResponse =
  IBCBasicResponse_Messages :: "SubMsg slice"
  IBCBasicResponse_Attributes :: "EventAttribute slice"
  IBCBasicResponse_Events :: "Event slice"

definition IBCBasicResponse_zero :: IBCBasicResponse where
  "IBCBasicResponse_zero = \<lparr>IBCBasicResponse_Messages = None,
     IBCBasicResponse_Attributes = None,
     IBCBasicResponse_Events = None\<rparr>"

definition IBCBasicResponse_to_json :: "IBCBasicResponse \<Rightarrow> json" where
  "IBCBasicResponse_to_json x = JObj (
     fld ''messages'' (json_slice SubMsg_to_json (IBCBasicResponse_Messages x)) @
     fld ''attributes'' (json_slice EventAttribute_to_json (IBCBasicResponse_Attributes x)) @
     fld ''events'' (json_slice Event_to_json (IBCBasicResponse_Events x)))"

definition IBCBasicResponse_decode :: "IBCBasicResponse decoder" where
  "IBCBasicResponse_decode = dec_struct (
     dec_field ''messages'' (dec_slice SubMsg_zero SubMsg_decode) IBCBasicResponse_Messages IBCBasicResponse_Messages_update @
     dec_field ''attributes'' (dec_slice EventAttribute_zero EventAttribute_decode) IBCBasicResponse_Attributes IBCBasicResponse_Attributes_update @
     dec_field ''events'' (dec_slice Event_zero Event_decode) IBCBasicResponse_Events IBCBasicResponse_Events_update)"

definition IBCBasicResponse_norm :: "IBCBasicResponse \<Rightarrow> IBCBasicResponse" where
  "IBCBasicResponse_norm x = x\<lparr>IBCBasicResponse_Messages := map_option (map SubMsg_norm) (IBCBasicResponse_Messages x),
     IBCBasicResponse_Events := map_option (map Event_norm) (IBCBasicResponse_Events x)\<rparr>"

definition IBCBasicResponse_valid :: "IBCBasicResponse \<Rightarrow> bool" where
  "IBCBasicResponse_valid x \<longleftrightarrow> pred_option (list_all SubMsg_valid) (IBCBasicResponse_Messages x)"

interpretation IBCBasicResponse_codec: json_codec IBCBasicResponse_to_json IBCBasicResponse_decode IBCBasicResponse_zero IBCBasicResponse_norm IBCBasicResponse_valid
  by (unfold_locales, simp add: IBCBasicResponse_to_json_def,
    unfold IBCBasicResponse_decode_def IBCBasicResponse_to_json_def IBCBasicResponse_zero_def dec_struct.simps, rule trans,
    ((rule dec_members_fld_last dec_members_fld, simp add: codec_simps, simp add: IBCBasicResponse_valid_def)
     | (rule dec_members_omit_last dec_members_omit, simp add: codec_simps, simp add: IBCBasicResponse_valid_def del: not_None_eq, simp))+,
    simp add: IBCBasicResponse_norm_def)

record IBCBasicResult =
  IBCBasicResult_Ok :: "IBCBasicResponse option"
  IBCBasicResult_Err :: string

definition IBCBasicResult_zero :: IBCBasicResult where
  "IBCBasicResult_zero = \<lparr>IBCBasicResult_Ok = None,
     IBCBasicResult_Err = []\<rparr>"

definition IBCBasicResult_to_json :: "IBCBasicResult \<Rightarrow> json" where
  "IBCBasicResult_to_json x = JObj (
     fld_omit ''ok'' (IBCBasicResult_Ok x = None) (json_ptr IBCBasicResponse_to_json (IBCBasicResult_Ok x)) @
     fld_omit ''error'' (IBCBasicResult_Err x = []) (JStr (IBCBasicResult_Err x)))"

definition IBCBasicResult_decode :: "IBCBasicResult decoder" where
  "IBCBasicResult_decode = dec_struct (
     dec_field ''ok'' (dec_ptr IBCBasicResponse_zero IBCBasicResponse_decode) IBCBasicResult_Ok IBCBasicResult_Ok_update @
     dec_field ''error'' dec_string IBCBasicResult_Err IBCBasicResult_Err_update)"

definition IBCBasicResult_norm :: "IBCBasicResult \<Rightarrow> IBCBasicResult" where
  "IBCBasicResult_norm x = x\<lparr>IBCBasicResult_Ok := map_option IBCBasicResponse_norm (IBCBasicResult_Ok x)\<rparr>"

definition IBCBasicResult_valid :: "IBCBasicResult \<Rightarrow> bool" where
  "IBCBasicResult_valid x \<longleftrightarrow> pred_option IBCBasicResponse_valid (IBCBasicResult_Ok x)"

interpretation IBCBasicResult_codec: json_codec IBCBasicResult_to_json IBCBasicResult_decode IBCBasicResult_zero IBCBasicResult_norm IBCBasicResult_valid
  by (unfold_locales, simp add: IBCBasicResult_to_json_def,
    unfold IBCBasicResult_decode_def IBCBasicResult_to_json_def IBCBasicResult_zero_def dec_struct.simps, rule trans,
    ((rule dec_members_fld_last dec_members_fld, simp add: codec_simps, simp add: IBCBasicResult_valid_def)
     | (rule dec_members_omit_last dec_members_omit, simp add: codec_simps, simp add: IBCBasicResult_valid_def del: not_None_eq, simp))+,
    simp add: IBCBasicResult_norm_def)

definition IBCBasicResult_SubMessages :: "IBCBasicResult \<Rightarrow> SubMsg slice" where
  "IBCBasicResult_SubMessages r = (case IBCBasicResult_Ok r of
     Some ok \<Rightarrow> IBCBasicResponse_Messages ok
   | None \<Rightarrow> None)"

record IBCReceiveResponse =
  IBCReceiveResponse_Acknowledgement :: byte_slice
  IBCReceiveResponse_Messages :: "SubMsg slice"
  IBCReceiveResponse_Attributes :: "EventAttribute slice"
  IBCReceiveResponse_Events :: "Event slice"

definition IBCReceiveResponse_zero :: IBCReceiveResponse where
  "IBCReceiveResponse_zero = \<lparr>IBCReceiveResponse_Acknowledgement = None,
     IBCReceiveResponse_Messages = None,
     IBCReceiveResponse_Attributes = None,
     IBCReceiveResponse_Events = None\<rparr>"

definition IBCReceiveResponse_to_json :: "IBCReceiveResponse \<Rightarrow> json" where
  "IBCReceiveResponse_to_json x = JObj (
     fld ''acknowledgement'' (json_bytes (IBCReceiveResponse_Acknowledgement x)) @
     fld ''messages'' (json_slice SubMsg_to_json (IBCReceiveResponse_Messages x)) @
     fld ''attributes'' (json_slice EventAttribute_to_json (IBCReceiveResponse_Attributes x)) @
     fld ''events'' (json_slice Event_to_json (IBCReceiveResponse_Events x)))"

definition IBCReceiveResponse_decode :: "IBCReceiveResponse decoder" where
  "IBCReceiveResponse_decode = dec_struct (
     dec_field ''acknowledgement'' dec_bytes IBCReceiveResponse_Acknowledgement IBCReceiveResponse_Acknowledgement_update @
     dec_field ''messages'' (dec_slice SubMsg_zero SubMsg_decode) IBCReceiveResponse_Messages IBCReceiveResponse_Messages_update @
     dec_field ''attributes'' (dec_slice EventAttribute_zero EventAttribute_decode) IBCReceiveResponse_Attributes IBCReceiveResponse_Attributes_update @
     dec_field ''events'' (dec_slice Event_zero Event_decode) IBCReceiveResponse_Events IBCReceiveResponse_Events_update)"

definition IBCReceiveResponse_norm :: "IBCReceiveResponse \<Rightarrow> IBCReceiveResponse" where
  "IBCReceiveResponse_norm x = x\<lparr>IBCReceiveResponse_Messages := map_option (map SubMsg_norm) (IBCReceiveResponse_Messages x),
     IBCReceiveResponse_Events := map_option (map Event_norm) (IBCReceiveResponse_Events x)\<rparr>"

definition IBCReceiveResponse_valid :: "IBCReceiveResponse \<Rightarrow> bool" where
  "IBCReceiveResponse_valid x \<longleftrightarrow> pred_option (list_all SubMsg_valid) (IBCReceiveResponse_Messages x)"

interpretation IBCReceiveResponse_codec: json_codec IBCReceiveResponse_to_json IBCReceiveResponse_decode IBCReceiveResponse_zero IBCReceiveResponse_norm IBCReceiveResponse_valid
  by (unfold_locales, simp add: IBCReceiveResponse_to_json_def,
    unfold IBCReceiveResponse_decode_def IBCReceiveResponse_to_json_def IBCReceiveResponse_zero_def dec_struct.simps, rule trans,
    ((rule dec_members_fld_last dec_members_fld, simp add: codec_simps, simp add: IBCReceiveResponse_valid_def)
     | (rule dec_members_omit_last dec_members_omit, simp add: codec_simps, simp add: IBCReceiveResponse_valid_def del: not_None_eq, simp))+,
    simp add: IBCReceiveResponse_norm_def)

record IBCReceiveResult =
  IBCReceiveResult_Ok :: "IBCReceiveResponse option"
  IBCReceiveResult_Err :: string

definition IBCReceiveResult_zero :: IBCReceiveResult where
  "IBCReceiveResult_zero = \<lparr>IBCReceiveResult_Ok = None,
     IBCReceiveResult_Err = []\<rparr>"

definition IBCReceiveResult_to_json :: "IBCReceiveResult \<Rightarrow> json" where
  "IBCReceiveResult_to_json x = JObj (
     fld_omit ''ok'' (IBCReceiveResult_Ok x = None) (json_ptr IBCReceiveResponse_to_json (IBCReceiveResult_Ok x)) @
     fld_omit ''error'' (IBCReceiveResult_Err x = []) (JStr (IBCReceiveResult_Err x)))"

definition IBCReceiveResult_decode :: "IBCReceiveResult decoder" where
  "IBCReceiveResult_decode = dec_struct (
     dec_field ''ok'' (dec_ptr IBCReceiveResponse_zero IBCReceiveResponse_decode) IBCReceiveResult_Ok IBCReceiveResult_Ok_update @
     dec_field ''error'' dec_string IBCReceiveResult_Err IBCReceiveResult_Err_update)"

definition IBCReceiveResult_norm :: "IBCReceiveResult \<Rightarrow> IBCReceiveResult" where
  "IBCReceiveResult_norm x = x\<lparr>IBCReceiveResult_Ok := map_option IBCReceiveResponse_norm (IBCReceiveResult_Ok x)\<rparr>"

definition IBCReceiveResult_valid :: "IBCReceiveResult \<Rightarrow> bool" where
  "IBCReceiveResult_valid x \<longleftrightarrow> pred_option IBCReceiveResponse_valid (IBCReceiveResult_Ok x)"

interpretation IBCReceiveResult_codec: json_codec IBCReceiveResult_to_json IBCReceiveResult_decode IBCReceiveResult_zero IBCReceiveResult_norm IBCReceiveResult_valid
  by (unfold_locales, simp add: IBCReceiveResult_to_json_def,
    unfold IBCReceiveResult_decode_def IBCReceiveResult_to_json_def IBCReceiveResult_zero_def dec_struct.simps, rule trans,
    ((rule dec_members_fld_last dec_members_fld, simp add: codec_simps, simp add: IBCReceiveResult_valid_def)
     | (rule dec_members_omit_last dec_members_omit, simp add: codec_simps, simp add: IBCReceiveResult_valid_def del: not_None_eq, simp))+,
    simp add: IBCReceiveResult_norm_def)

definition IBCReceiveResult_SubMessages :: "IBCReceiveResult \<Rightarrow> SubMsg slice" where
  "IBCReceiveResult_SubMessages r = (case IBCReceiveResult_Ok r of
     Some ok \<Rightarrow> IBCReceiveResponse_Messages ok
   | None \<Rightarrow> None)"

end
