(* ===== verification/SystemError.thy ===== *)
theory SystemError
  imports TypesGo
begin

text \<open>
  \<open>systemerror.go\<close>: the errors a querier can return to a contract, and the conversion of a Go error
  into one of them.  A Go value of type \<open>error\<close> is a \<open>go_error option\<close>; a pointer may be nil inside
  a non-nil interface, and a method with a value receiver panics when it is called through one.
\<close>

section \<open>The error types\<close>

record InvalidRequest =
  InvalidRequest_Err :: string
  InvalidRequest_Request :: byte_slice

definition InvalidRequest_to_json :: "InvalidRequest \<Rightarrow> json" where
  "InvalidRequest_to_json x = JObj (
     fld ''error'' (JStr (InvalidRequest_Err x)) @
     fld ''request'' (json_bytes (InvalidRequest_Request x)))"

record InvalidResponse =
  InvalidResponse_Err :: string
  InvalidResponse_Response :: byte_slice

definition InvalidResponse_to_json :: "InvalidResponse \<Rightarrow> json" where
  "InvalidResponse_to_json x = JObj (
     fld ''error'' (JStr (InvalidResponse_Err x)) @
     fld ''response'' (json_bytes (InvalidResponse_Response x)))"

record NoSuchContract =
  NoSuchContract_Addr :: string

definition NoSuchContract_to_json :: "NoSuchContract \<Rightarrow> json" where
  "NoSuchContract_to_json x = JObj (
     fld_omit ''addr'' (NoSuchContract_Addr x = []) (JStr (NoSuchContract_Addr x)))"

record NoSuchCode =
  NoSuchCode_CodeID :: u64

definition NoSuchCode_to_json :: "NoSuchCode \<Rightarrow> json" where
  "NoSuchCode_to_json x = JObj (
     fld_omit ''code_id'' (NoSuchCode_CodeID x = 0) (json_u64 (NoSuchCode_CodeID x)))"

datatype Unknown = Unknown

definition Unknown_to_json :: "Unknown \<Rightarrow> json" where
  "Unknown_to_json x = JObj []"

record UnsupportedRequest =
  UnsupportedRequest_Kind :: string

definition UnsupportedRequest_to_json :: "UnsupportedRequest \<Rightarrow> json" where
  "UnsupportedRequest_to_json x = JObj (
     fld_omit ''kind'' (UnsupportedRequest_Kind x = []) (JStr (UnsupportedRequest_Kind x)))"

record SystemError =
  SystemError_InvalidRequest :: "InvalidRequest option"
  SystemError_InvalidResponse :: "InvalidResponse option"
  SystemError_NoSuchContract :: "NoSuchContract option"
  SystemError_NoSuchCode :: "NoSuchCode option"
  SystemError_Unknown :: "Unknown option"
  SystemError_UnsupportedRequest :: "UnsupportedRequest option"

definition SystemError_to_json :: "SystemError \<Rightarrow> json" where
  "SystemError_to_json x = JObj (
     fld_omit ''invalid_request'' (SystemError_InvalidRequest x = None) (json_ptr InvalidRequest_to_json (SystemError_InvalidRequest x)) @
     fld_omit ''invalid_response'' (SystemError_InvalidResponse x = None) (json_ptr InvalidResponse_to_json (SystemError_InvalidResponse x)) @
     fld_omit ''no_such_contract'' (SystemError_NoSuchContract x = None) (json_ptr NoSuchContract_to_json (SystemError_NoSuchContract x)) @
     fld_omit ''no_such_code'' (SystemError_NoSuchCode x = None) (json_ptr NoSuchCode_to_json (SystemError_NoSuchCode x)) @
     fld_omit ''unknown'' (SystemError_Unknown x = None) (json_ptr Unknown_to_json (SystemError_Unknown x)) @
     fld_omit ''unsupported_request'' (SystemError_UnsupportedRequest x = None) (json_ptr UnsupportedRequest_to_json (SystemError_UnsupportedRequest x)))"

definition InvalidRequest_Error :: "InvalidRequest \<Rightarrow> string" where
  "InvalidRequest_Error e = ''invalid request: '' @ InvalidRequest_Err e @ '' - original request: ''
     @ elems (InvalidRequest_Request e)"

definition InvalidResponse_Error :: "InvalidResponse \<Rightarrow> string" where
  "InvalidResponse_Error e = ''invalid response: '' @ InvalidResponse_Err e @ '' - original response: ''
     @ elems (InvalidResponse_Response e)"

definition NoSuchContract_Error :: "NoSuchContract \<Rightarrow> string" where
  "NoSuchContract_Error e = ''no such contract: '' @ NoSuchContract_Addr e"

definition NoSuchCode_Error :: "NoSuchCode \<Rightarrow> string" where
  "NoSuchCode_Error e = ''no such code: '' @ dec (unat (NoSuchCode_CodeID e))"

definition Unknown_Error :: "Unknown \<Rightarrow> string" where
  "Unknown_Error e = ''unknown system error''"

definition UnsupportedRequest_Error :: "UnsupportedRequest \<Rightarrow> string" where
  "UnsupportedRequest_Error e = ''unsupported request: '' @ UnsupportedRequest_Kind e"

definition SystemError_zero :: SystemError where
  "SystemError_zero = \<lparr>SystemError_InvalidRequest = None, SystemError_InvalidResponse = None,
     SystemError_NoSuchContract = None, SystemError_NoSuchCode = None, SystemError_Unknown = None,
     SystemError_UnsupportedRequest = None\<rparr>"

definition SystemError_Error :: "SystemError \<Rightarrow> string go" where
  "SystemError_Error a = (case SystemError_InvalidRequest a of
     Some e \<Rightarrow> Return (InvalidRequest_Error e)
   | None \<Rightarrow> (case SystemError_InvalidResponse a of
     Some e \<Rightarrow> Return (InvalidResponse_Error e)
   | None \<Rightarrow> (case SystemError_NoSuchContract a of
     Some e \<Rightarrow> Return (NoSuchContract_Error e)
   | None \<Rightarrow> (case SystemError_NoSuchCode a of
     Some e \<Rightarrow> Return (NoSuchCode_Error e)
   | None \<Rightarrow> (case SystemError_Unknown a of
     Some e \<Rightarrow> Return (Unknown_Error e)
   | None \<Rightarrow> (case SystemError_UnsupportedRequest a of
     Some e \<Rightarrow> Return (UnsupportedRequest_Error e)
   | None \<Rightarrow> Panics (panic_string ''unknown error variant'')))))))"

section \<open>Go errors\<close>

text \<open>
  The dynamic types of an \<open>error\<close> the code distinguishes, each by value and by pointer;
  \<open>OtherError\<close> is any other error, known by its text only.
\<close>

datatype go_error =
    SystemErrorVal SystemError | SystemErrorPtr "SystemError option"
  | InvalidRequestVal InvalidRequest | InvalidRequestPtr "InvalidRequest option"
  | InvalidResponseVal InvalidResponse | InvalidResponsePtr "InvalidResponse option"
  | NoSuchContractVal NoSuchContract | NoSuchContractPtr "NoSuchContract option"
  | NoSuchCodeVal NoSuchCode | NoSuchCodePtr "NoSuchCode option"
  | UnknownVal Unknown | UnknownPtr "Unknown option"
  | UnsupportedRequestVal UnsupportedRequest | UnsupportedRequestPtr "UnsupportedRequest option"
  | OutOfGasErrorVal
  | OtherError string

type_synonym error = "go_error option"

text \<open>A value method called through a nil pointer.\<close>

definition nil_method :: "string \<Rightarrow> panic_value" where
  "nil_method t = PanicValue ''plainError''
     (''value method types.'' @ t @ ''.Error called using nil *'' @ t @ '' pointer'')"

definition OutOfGasError_Error :: string where
  "OutOfGasError_Error = ''Out of gas''"

definition ptr_error :: "string \<Rightarrow> ('a \<Rightarrow> string go) \<Rightarrow> 'a option \<Rightarrow> string go" where
  "ptr_error t f p = (case p of None \<Rightarrow> Panics (nil_method t) | Some e \<Rightarrow> f e)"

fun error_text :: "go_error \<Rightarrow> string go" where
  "error_text (SystemErrorVal e) = SystemError_Error e"
| "error_text (SystemErrorPtr p) = ptr_error ''SystemError'' SystemError_Error p"
| "error_text (InvalidRequestVal e) = Return (InvalidRequest_Error e)"
| "error_text (InvalidRequestPtr p) = ptr_error ''InvalidRequest'' (\<lambda>e. Return (InvalidRequest_Error e)) p"
| "error_text (InvalidResponseVal e) = Return (InvalidResponse_Error e)"
| "error_text (InvalidResponsePtr p) = ptr_error ''InvalidResponse'' (\<lambda>e. Return (InvalidResponse_Error e)) p"
| "error_text (NoSuchContractVal e) = Return (NoSuchContract_Error e)"
| "error_text (NoSuchContractPtr p) = ptr_error ''NoSuchContract'' (\<lambda>e. Return (NoSuchContract_Error e)) p"
| "error_text (NoSuchCodeVal e) = Return (NoSuchCode_Error e)"
| "error_text (NoSuchCodePtr p) = ptr_error ''NoSuchCode'' (\<lambda>e. Return (NoSuchCode_Error e)) p"
| "error_text (UnknownVal e) = Return (Unknown_Error e)"
| "error_text (UnknownPtr p) = ptr_error ''Unknown'' (\<lambda>e. Return (Unknown_Error e)) p"
| "error_text (UnsupportedRequestVal e) = Return (UnsupportedRequest_Error e)"
| "error_text (UnsupportedRequestPtr p) = ptr_error ''UnsupportedRequest'' (\<lambda>e. Return (UnsupportedRequest_Error e)) p"
| "error_text OutOfGasErrorVal = Return OutOfGasError_Error"
| "error_text (OtherError s) = Return s"

fun isNil :: "error \<Rightarrow> bool" where
  "isNil None = True"
| "isNil (Some (SystemErrorPtr p)) = (p = None)"
| "isNil (Some (InvalidRequestPtr p)) = (p = None)"
| "isNil (Some (InvalidResponsePtr p)) = (p = None)"
| "isNil (Some (NoSuchContractPtr p)) = (p = None)"
| "isNil (Some (NoSuchCodePtr p)) = (p = None)"
| "isNil (Some (UnknownPtr p)) = (p = None)"
| "isNil (Some (UnsupportedRequestPtr p)) = (p = None)"
| "isNil (Some e) = False"

definition ToSystemError :: "error \<Rightarrow> SystemError option" where
  "ToSystemError err =
     (if isNil err then None
      else case the err of
        SystemErrorVal t \<Rightarrow> Some t
      | SystemErrorPtr t \<Rightarrow> t
      | InvalidRequestVal t \<Rightarrow> Some (SystemError_zero\<lparr>SystemError_InvalidRequest := Some t\<rparr>)
      | InvalidRequestPtr t \<Rightarrow> Some (SystemError_zero\<lparr>SystemError_InvalidRequest := t\<rparr>)
      | InvalidResponseVal t \<Rightarrow> Some (SystemError_zero\<lparr>SystemError_InvalidResponse := Some t\<rparr>)
      | InvalidResponsePtr t \<Rightarrow> Some (SystemError_zero\<lparr>SystemError_InvalidResponse := t\<rparr>)
      | NoSuchContractVal t \<Rightarrow> Some (SystemError_zero\<lparr>SystemError_NoSuchContract := Some t\<rparr>)
      | NoSuchContractPtr t \<Rightarrow> Some (SystemError_zero\<lparr>SystemError_NoSuchContract := t\<rparr>)
      | NoSuchCodeVal t \<Rightarrow> Some (SystemError_zero\<lparr>SystemError_NoSuchCode := Some t\<rparr>)
      | NoSuchCodePtr t \<Rightarrow> Some (SystemError_zero\<lparr>SystemError_NoSuchCode := t\<rparr>)
      | UnknownVal t \<Rightarrow> Some (SystemError_zero\<lparr>SystemError_Unknown := Some t\<rparr>)
      | UnknownPtr t \<Rightarrow> Some (SystemError_zero\<lparr>SystemError_Unknown := t\<rparr>)
      | UnsupportedRequestVal t \<Rightarrow> Some (SystemError_zero\<lparr>SystemError_UnsupportedRequest := Some t\<rparr>)
      | UnsupportedRequestPtr t \<Rightarrow> Some (SystemError_zero\<lparr>SystemError_UnsupportedRequest := t\<rparr>)
      | _ \<Rightarrow> None)"

text \<open>The variants that are set.\<close>

definition SystemError_variants :: "SystemError \<Rightarrow> nat" where
  "SystemError_variants a = length (filter id
     [SystemError_InvalidRequest a \<noteq> None,
      SystemError_InvalidResponse a \<noteq> None,
      SystemError_NoSuchContract a \<noteq> None,
      SystemError_NoSuchCode a \<noteq> None,
      SystemError_Unknown a \<noteq> None,
      SystemError_UnsupportedRequest a \<noteq> None])"

lemma error_text_ToSystemError:
  "ToSystemError (Some e) = Some s \<Longrightarrow> error_text e = SystemError_Error s"
  by (cases e) (auto simp: ToSystemError_def ptr_error_def SystemError_Error_def SystemError_zero_def
      split: if_splits)

lemma ToSystemError_variants:
  assumes "ToSystemError (Some e) = Some s" "\<And>t. e \<noteq> SystemErrorVal t" "\<And>t. e \<noteq> SystemErrorPtr t"
  shows "SystemError_variants s = 1"
  using assms by (cases e) (auto simp: ToSystemError_def SystemError_variants_def SystemError_zero_def
      split: if_splits)

lemma ToSystemError_None:
  "ToSystemError err = None \<longleftrightarrow>
     isNil err \<or> err = Some OutOfGasErrorVal \<or> (\<exists>s. err = Some (OtherError s))"
proof (cases err)
  case (Some e)
  then show ?thesis by (cases e) (auto simp: ToSystemError_def)
qed (simp add: ToSystemError_def)

end
