(* ===== verification/Queries.thy ===== *)
theory Queries
  imports Ibc SystemError
begin

text \<open>
  \<open>queries.go\<close>: the requests a contract can make of the chain with their JSON in both directions,
  the responses, and the two levels of a query result.  \<open>RustQuery\<close> decodes a request, runs the
  \<open>Querier\<close>, which is an argument, and wraps the answer.
\<close>

definition empty_struct_to_json :: "unit \<Rightarrow> json" where
  "empty_struct_to_json u = JObj []"

definition dec_empty_struct :: "unit decoder" where
  "dec_empty_struct = dec_struct []"

lemma map_option_unit [simp]: "map_option (\<lambda>x. ()) p = p"
  by (cases p) simp_all

interpretation empty_struct_codec: json_codec empty_struct_to_json dec_empty_struct "()"
    "\<lambda>x. x" "\<lambda>_. True"
  by unfold_locales (simp_all add: empty_struct_to_json_def dec_empty_struct_def)

section \<open>Bank queries\<close>

record SupplyQuery =
  SupplyQuery_Denom :: string

definition SupplyQuery_zero :: SupplyQuery where
  "SupplyQuery_zero = \<lparr>SupplyQuery_Denom = []\<rparr>"

definition SupplyQuery_to_json :: "SupplyQuery \<Rightarrow> json" where
  "SupplyQuery_to_json x = JObj (
     fld ''denom'' (JStr (SupplyQuery_Denom x)))"

definition SupplyQuery_decode :: "SupplyQuery decoder" where
  "SupplyQuery_decode = dec_struct (
     dec_field ''denom'' dec_string SupplyQuery_Denom SupplyQuery_Denom_update)"

interpretation SupplyQuery_codec: json_codec SupplyQuery_to_json SupplyQuery_decode SupplyQuery_zero "\<lambda>x. x" "\<lambda>_. True"
  by (unfold_locales, simp add: SupplyQuery_to_json_def,
    unfold SupplyQuery_decode_def SupplyQuery_to_json_def SupplyQuery_zero_def dec_struct.simps, rule trans,
    ((rule dec_members_fld_last dec_members_fld, simp add: codec_simps, simp)
     | (rule dec_members_omit_last dec_members_omit, simp add: codec_simps, simp del: not_None_eq, simp))+,
    simp)

record BalanceQuery =
  BalanceQuery_Address :: string
  BalanceQuery_Denom :: string

definition BalanceQuery_zero :: BalanceQuery where
  "BalanceQuery_zero = \<lparr>BalanceQuery_Address = [],
     BalanceQuery_Denom = []\<rparr>"

definition BalanceQuery_to_json :: "BalanceQuery \<Rightarrow> json" where
  "BalanceQuery_to_json x = JObj (
     fld ''address'' (JStr (BalanceQuery_Address x)) @
     fld ''denom'' (JStr (BalanceQuery_Denom x)))"

definition BalanceQuery_decode :: "BalanceQuery decoder" where
  "BalanceQuery_decode = dec_struct (
     dec_field ''address'' dec_string BalanceQuery_Address BalanceQuery_Address_update @
     dec_field ''denom'' dec_string BalanceQuery_Denom BalanceQuery_Denom_update)"

interpretation BalanceQuery_codec: json_codec BalanceQuery_to_json BalanceQuery_decode BalanceQuery_zero "\<lambda>x. x" "\<lambda>_. True"
  by (unfold_locales, simp add: BalanceQuery_to_json_def,
    unfold BalanceQuery_decode_def BalanceQuery_to_json_def BalanceQuery_zero_def dec_struct.simps, rule trans,
    ((rule dec_members_fld_last dec_members_fld, simp add: codec_simps, simp)
     | (rule dec_members_omit_last dec_members_omit, simp add: codec_simps, simp del: not_None_eq, simp))+,
    simp)

record AllBalancesQuery =
  AllBalancesQuery_Address :: string

definition AllBalancesQuery_zero :: AllBalancesQuery where
  "AllBalancesQuery_zero = \<lparr>AllBalancesQuery_Address = []\<rparr>"

definition AllBalancesQuery_to_json :: "AllBalancesQuery \<Rightarrow> json" where
  "AllBalancesQuery_to_json x = JObj (
     fld ''address'' (JStr (AllBalancesQuery_Address x)))"

definition AllBalancesQuery_decode :: "AllBalancesQuery decoder" where
  "AllBalancesQuery_decode = dec_struct (
     dec_field ''address'' dec_string AllBalancesQuery_Address AllBalancesQuery_Address_update)"

interpretation AllBalancesQuery_codec: json_codec AllBalancesQuery_to_json AllBalancesQuery_decode AllBalancesQuery_zero "\<lambda>x. x" "\<lambda>_. True"
  by (unfold_locales, simp add: AllBalancesQuery_to_json_def,
    unfold AllBalancesQuery_decode_def AllBalancesQuery_to_json_def AllBalancesQuery_zero_def dec_struct.simps, rule trans,
    ((rule dec_members_fld_last dec_members_fld, simp add: codec_simps, simp)
     | (rule dec_members_omit_last dec_members_omit, simp add: codec_simps, simp del: not_None_eq, simp))+,
    simp)

record DenomMetadataQuery =
  DenomMetadataQuery_Denom :: string

definition DenomMetadataQuery_zero :: DenomMetadataQuery where
  "DenomMetadataQuery_zero = \<lparr>DenomMetadataQuery_Denom = []\<rparr>"

definition DenomMetadataQuery_to_json :: "DenomMetadataQuery \<Rightarrow> json" where
  "DenomMetadataQuery_to_json x = JObj (
     fld ''denom'' (JStr (DenomMetadataQuery_Denom x)))"

definition DenomMetadataQuery_decode :: "DenomMetadataQuery decoder" where
  "DenomMetadataQuery_decode = dec_struct (
     dec_field ''denom'' dec_string DenomMetadataQuery_Denom DenomMetadataQuery_Denom_update)"

interpretation DenomMetadataQuery_codec: json_codec DenomMetadataQuery_to_json DenomMetadataQuery_decode DenomMetadataQuery_zero "\<lambda>x. x" "\<lambda>_. True"
  by (unfold_locales, simp add: DenomMetadataQuery_to_json_def,
    unfold DenomMetadataQuery_decode_def DenomMetadataQuery_to_json_def DenomMetadataQuery_zero_def dec_struct.simps, rule trans,
    ((rule dec_members_fld_last dec_members_fld, simp add: codec_simps, simp)
     | (rule dec_members_omit_last dec_members_omit, simp add: codec_simps, simp del: not_None_eq, simp))+,
    simp)

record AllDenomMetadataQuery =
  AllDenomMetadataQuery_Pagination :: "PageRequest option"

definition AllDenomMetadataQuery_zero :: AllDenomMetadataQuery where
  "AllDenomMetadataQuery_zero = \<lparr>AllDenomMetadataQuery_Pagination = None\<rparr>"

definition AllDenomMetadataQuery_to_json :: "AllDenomMetadataQuery \<Rightarrow> json" where
  "AllDenomMetadataQuery_to_json x = JObj (
     fld_omit ''pagination'' (AllDenomMetadataQuery_Pagination x = None) (json_ptr PageRequest_to_json (AllDenomMetadataQuery_Pagination x)))"

definition AllDenomMetadataQuery_decode :: "AllDenomMetadataQuery decoder" where
  "AllDenomMetadataQuery_decode = dec_struct (
     dec_field ''pagination'' (dec_ptr PageRequest_zero PageRequest_decode) AllDenomMetadataQuery_Pagination AllDenomMetadataQuery_Pagination_update)"

interpretation AllDenomMetadataQuery_codec: json_codec AllDenomMetadataQuery_to_json AllDenomMetadataQuery_decode AllDenomMetadataQuery_zero "\<lambda>x. x" "\<lambda>_. True"
  by (unfold_locales, simp add: AllDenomMetadataQuery_to_json_def,
    unfold AllDenomMetadataQuery_decode_def AllDenomMetadataQuery_to_json_def AllDenomMetadataQuery_zero_def dec_struct.simps, rule trans,
    ((rule dec_members_fld_last dec_members_fld, simp add: codec_simps, simp)
     | (rule dec_members_omit_last dec_members_omit, simp add: codec_simps, simp del: not_None_eq, simp))+,
    simp)

record BankQuery =
  BankQuery_Supply :: "SupplyQuery option"
  BankQuery_Balance :: "BalanceQuery option"
  BankQuery_AllBalances :: "AllBalancesQuery option"
  BankQuery_DenomMetadata :: "DenomMetadataQuery option"
  BankQuery_AllDenomMetadata :: "AllDenomMetadataQuery option"

definition BankQuery_zero :: BankQuery where
  "BankQuery_zero = \<lparr>BankQuery_Supply = None,
     BankQuery_Balance = None,
     BankQuery_AllBalances = None,
     BankQuery_DenomMetadata = None,
     BankQuery_AllDenomMetadata = None\<rparr>"

definition BankQuery_to_json :: "BankQuery \<Rightarrow> json" where
  "BankQuery_to_json x = JObj (
     fld_omit ''supply'' (BankQuery_Supply x = None) (json_ptr SupplyQuery_to_json (BankQuery_Supply x)) @
     fld_omit ''balance'' (BankQuery_Balance x = None) (json_ptr BalanceQuery_to_json (BankQuery_Balance x)) @
     fld_omit ''all_balances'' (BankQuery_AllBalances x = None) (json_ptr AllBalancesQuery_to_json (BankQuery_AllBalances x)) @
     fld_omit ''denom_metadata'' (BankQuery_DenomMetadata x = None) (json_ptr DenomMetadataQuery_to_json (BankQuery_DenomMetadata x)) @
     fld_omit ''all_denom_metadata'' (BankQuery_AllDenomMetadata x = None) (json_ptr AllDenomMetadataQuery_to_json (BankQuery_AllDenomMetadata x)))"

definition BankQuery_decode :: "BankQuery decoder" where
  "BankQuery_decode = dec_struct (
     dec_field ''supply'' (dec_ptr SupplyQuery_zero SupplyQuery_decode) BankQuery_Supply BankQuery_Supply_update @
     dec_field ''balance'' (dec_ptr BalanceQuery_zero BalanceQuery_decode) BankQuery_Balance BankQuery_Balance_update @
     dec_field ''all_balances'' (dec_ptr AllBalancesQuery_zero AllBalancesQuery_decode) BankQuery_AllBalances BankQuery_AllBalances_update @
     dec_field ''denom_metadata'' (dec_ptr DenomMetadataQuery_zero DenomMetadataQuery_decode) BankQuery_DenomMetadata BankQuery_DenomMetadata_update @
     dec_field ''all_denom_metadata'' (dec_ptr AllDenomMetadataQuery_zero AllDenomMetadataQuery_decode) BankQuery_AllDenomMetadata BankQuery_AllDenomMetadata_update)"

interpretation BankQuery_codec: json_codec BankQuery_to_json BankQuery_decode BankQuery_zero "\<lambda>x. x" "\<lambda>_. True"
  by (unfold_locales, simp add: BankQuery_to_json_def,
    unfold BankQuery_decode_def BankQuery_to_json_def BankQuery_zero_def dec_struct.simps, rule trans,
    ((rule dec_members_fld_last dec_members_fld, simp add: codec_simps, simp)
     | (rule dec_members_omit_last dec_members_omit, simp add: codec_simps, simp del: not_None_eq, simp))+,
    simp)

section \<open>IBC queries\<close>

datatype PortIDQuery = PortIDQuery

definition PortIDQuery_to_json :: "PortIDQuery \<Rightarrow> json" where
  "PortIDQuery_to_json x = JObj []"

definition PortIDQuery_decode :: "PortIDQuery decoder" where
  "PortIDQuery_decode = dec_struct []"

interpretation PortIDQuery_codec: json_codec PortIDQuery_to_json PortIDQuery_decode PortIDQuery "\<lambda>x. x" "\<lambda>_. True"
  by unfold_locales (simp_all add: PortIDQuery_to_json_def PortIDQuery_decode_def, metis PortIDQuery.exhaust)

record ListChannelsQuery =
  ListChannelsQuery_PortID :: string

definition ListChannelsQuery_zero :: ListChannelsQuery where
  "ListChannelsQuery_zero = \<lparr>ListChannelsQuery_PortID = []\<rparr>"

definition ListChannelsQuery_to_json :: "ListChannelsQuery \<Rightarrow> json" where
  "ListChannelsQuery_to_json x = JObj (
     fld_omit ''port_id'' (ListChannelsQuery_PortID x = []) (JStr (ListChannelsQuery_PortID x)))"

definition ListChannelsQuery_decode :: "ListChannelsQuery decoder" where
  "ListChannelsQuery_decode = dec_struct (
     dec_field ''port_id'' dec_string ListChannelsQuery_PortID ListChannelsQuery_PortID_update)"

interpretation ListChannelsQuery_codec: json_codec ListChannelsQuery_to_json ListChannelsQuery_decode ListChannelsQuery_zero "\<lambda>x. x" "\<lambda>_. True"
  by (unfold_locales, simp add: ListChannelsQuery_to_json_def,
    unfold ListChannelsQuery_decode_def ListChannelsQuery_to_json_def ListChannelsQuery_zero_def dec_struct.simps, rule trans,
    ((rule dec_members_fld_last dec_members_fld, simp add: codec_simps, simp)
     | (rule dec_members_omit_last dec_members_omit, simp add: codec_simps, simp del: not_None_eq, simp))+,
    simp)

record ChannelQuery =
  ChannelQuery_PortID :: string
  ChannelQuery_ChannelID :: string

definition ChannelQuery_zero :: ChannelQuery where
  "ChannelQuery_zero = \<lparr>ChannelQuery_PortID = [],
     ChannelQuery_ChannelID = []\<rparr>"

definition ChannelQuery_to_json :: "ChannelQuery \<Rightarrow> json" where
  "ChannelQuery_to_json x = JObj (
     fld_omit ''port_id'' (ChannelQuery_PortID x = []) (JStr (ChannelQuery_PortID x)) @
     fld ''channel_id'' (JStr (ChannelQuery_ChannelID x)))"

definition ChannelQuery_decode :: "ChannelQuery decoder" where
  "ChannelQuery_decode = dec_struct (
     dec_field ''port_id'' dec_string ChannelQuery_PortID ChannelQuery_PortID_update @
     dec_field ''channel_id'' dec_string ChannelQuery_ChannelID ChannelQuery_ChannelID_update)"

interpretation ChannelQuery_codec: json_codec ChannelQuery_to_json ChannelQuery_decode ChannelQuery_zero "\<lambda>x. x" "\<lambda>_. True"
  by (unfold_locales, simp add: ChannelQuery_to_json_def,
    unfold ChannelQuery_decode_def ChannelQuery_to_json_def ChannelQuery_zero_def dec_struct.simps, rule trans,
    ((rule dec_members_fld_last dec_members_fld, simp add: codec_simps, simp)
     | (rule dec_members_omit_last dec_members_omit, simp add: codec_simps, simp del: not_None_eq, simp))+,
    simp)

record IBCQuery =
  IBCQuery_PortID :: "PortIDQuery option"
  IBCQuery_ListChannels :: "ListChannelsQuery option"
  IBCQuery_Channel :: "ChannelQuery option"

definition IBCQuery_zero :: IBCQuery where
  "IBCQuery_zero = \<lparr>IBCQuery_PortID = None,
     IBCQuery_ListChannels = None,
     IBCQuery_Channel = None\<rparr>"

definition IBCQuery_to_json :: "IBCQuery \<Rightarrow> json" where
  "IBCQuery_to_json x = JObj (
     fld_omit ''port_id'' (IBCQuery_PortID x = None) (json_ptr PortIDQuery_to_json (IBCQuery_PortID x)) @
     fld_omit ''list_channels'' (IBCQuery_ListChannels x = None) (json_ptr ListChannelsQuery_to_json (IBCQuery_ListChannels x)) @
     fld_omit ''channel'' (IBCQuery_Channel x = None) (json_ptr ChannelQuery_to_json (IBCQuery_Channel x)))"

definition IBCQuery_decode :: "IBCQuery decoder" where
  "IBCQuery_decode = dec_struct (
     dec_field ''port_id'' (dec_ptr PortIDQuery PortIDQuery_decode) IBCQuery_PortID IBCQuery_PortID_update @
     dec_field ''list_channels'' (dec_ptr ListChannelsQuery_zero ListChannelsQuery_decode) IBCQuery_ListChannels IBCQuery_ListChannels_update @
     dec_field ''channel'' (dec_ptr ChannelQuery_zero ChannelQuery_decode) IBCQuery_Channel IBCQuery_Channel_update)"

interpretation IBCQuery_codec: json_codec IBCQuery_to_json IBCQuery_decode IBCQuery_zero "\<lambda>x. x" "\<lambda>_. True"
  by (unfold_locales, simp add: IBCQuery_to_json_def,
    unfold IBCQuery_decode_def IBCQuery_to_json_def IBCQuery_zero_def dec_struct.simps, rule trans,
    ((rule dec_members_fld_last dec_members_fld, simp add: codec_simps, simp)
     | (rule dec_members_omit_last dec_members_omit, simp add: codec_simps, simp del: not_None_eq, simp))+,
    simp)

section \<open>Staking queries\<close>

datatype AllValidatorsQuery = AllValidatorsQuery

definition AllValidatorsQuery_to_json :: "AllValidatorsQuery \<Rightarrow> json" where
  "AllValidatorsQuery_to_json x = JObj []"

definition AllValidatorsQuery_decode :: "AllValidatorsQuery decoder" where
  "AllValidatorsQuery_decode = dec_struct []"

interpretation AllValidatorsQuery_codec: json_codec AllValidatorsQuery_to_json AllValidatorsQuery_decode AllValidatorsQuery "\<lambda>x. x" "\<lambda>_. True"
  by unfold_locales (simp_all add: AllValidatorsQuery_to_json_def AllValidatorsQuery_decode_def, metis AllValidatorsQuery.exhaust)

record ValidatorQuery =
  ValidatorQuery_Address :: string

definition ValidatorQuery_zero :: ValidatorQuery where
  "ValidatorQuery_zero = \<lparr>ValidatorQuery_Address = []\<rparr>"

definition ValidatorQuery_to_json :: "ValidatorQuery \<Rightarrow> json" where
  "ValidatorQuery_to_json x = JObj (
     fld ''address'' (JStr (ValidatorQuery_Address x)))"

definition ValidatorQuery_decode :: "ValidatorQuery decoder" where
  "ValidatorQuery_decode = dec_struct (
     dec_field ''address'' dec_string ValidatorQuery_Address ValidatorQuery_Address_update)"

interpretation ValidatorQuery_codec: json_codec ValidatorQuery_to_json ValidatorQuery_decode ValidatorQuery_zero "\<lambda>x. x" "\<lambda>_. True"
  by (unfold_locales, simp add: ValidatorQuery_to_json_def,
    unfold ValidatorQuery_decode_def ValidatorQuery_to_json_def ValidatorQuery_zero_def dec_struct.simps, rule trans,
    ((rule dec_members_fld_last dec_members_fld, simp add: codec_simps, simp)
     | (rule dec_members_omit_last dec_members_omit, simp add: codec_simps, simp del: not_None_eq, simp))+,
    simp)

record AllDelegationsQuery =
  AllDelegationsQuery_Delegator :: string

definition AllDelegationsQuery_zero :: AllDelegationsQuery where
  "AllDelegationsQuery_zero = \<lparr>AllDelegationsQuery_Delegator = []\<rparr>"

definition AllDelegationsQuery_to_json :: "AllDelegationsQuery \<Rightarrow> json" where
  "AllDelegationsQuery_to_json x = JObj (
     fld ''delegator'' (JStr (AllDelegationsQuery_Delegator x)))"

definition AllDelegationsQuery_decode :: "AllDelegationsQuery decoder" where
  "AllDelegationsQuery_decode = dec_struct (
     dec_field ''delegator'' dec_string AllDelegationsQuery_Delegator AllDelegationsQuery_Delegator_update)"

interpretation AllDelegationsQuery_codec: json_codec AllDelegationsQuery_to_json AllDelegationsQuery_decode AllDelegationsQuery_zero "\<lambda>x. x" "\<lambda>_. True"
  by (unfold_locales, simp add: AllDelegationsQuery_to_json_def,
    unfold AllDelegationsQuery_decode_def AllDelegationsQuery_to_json_def AllDelegationsQuery_zero_def dec_struct.simps, rule trans,
    ((rule dec_members_fld_last dec_members_fld, simp add: codec_simps, simp)
     | (rule dec_members_omit_last dec_members_omit, simp add: codec_simps, simp del: not_None_eq, simp))+,
    simp)

record DelegationQuery =
  DelegationQuery_Delegator :: string
  DelegationQuery_Validator :: string

definition DelegationQuery_zero :: DelegationQuery where
  "DelegationQuery_zero = \<lparr>DelegationQuery_Delegator = [],
     DelegationQuery_Validator = []\<rparr>"

definition DelegationQuery_to_json :: "DelegationQuery \<Rightarrow> json" where
  "DelegationQuery_to_json x = JObj (
     fld ''delegator'' (JStr (DelegationQuery_Delegator x)) @
     fld ''validator'' (JStr (DelegationQuery_Validator x)))"

definition DelegationQuery_decode :: "DelegationQuery decoder" where
  "DelegationQuery_decode = dec_struct (
     dec_field ''delegator'' dec_string DelegationQuery_Delegator DelegationQuery_Delegator_update @
     dec_field ''validator'' dec_string DelegationQuery_Validator DelegationQuery_Validator_update)"

interpretation DelegationQuery_codec: json_codec DelegationQuery_to_json DelegationQuery_decode DelegationQuery_zero "\<lambda>x. x" "\<lambda>_. True"
  by (unfold_locales, simp add: DelegationQuery_to_json_def,
    unfold DelegationQuery_decode_def DelegationQuery_to_json_def DelegationQuery_zero_def dec_struct.simps, rule trans,
    ((rule dec_members_fld_last dec_members_fld, simp add: codec_simps, simp)
     | (rule dec_members_omit_last dec_members_omit, simp add: codec_simps, simp del: not_None_eq, simp))+,
    simp)

record StakingQuery =
  StakingQuery_AllValidators :: "AllValidatorsQuery option"
  StakingQuery_Validator :: "ValidatorQuery option"
  StakingQuery_AllDelegations :: "AllDelegationsQuery option"
  StakingQuery_Delegation :: "DelegationQuery option"
  StakingQuery_BondedDenom :: "unit option"

definition StakingQuery_zero :: StakingQuery where
  "StakingQuery_zero = \<lparr>StakingQuery_AllValidators = None,
     StakingQuery_Validator = None,
     StakingQuery_AllDelegations = None,
     StakingQuery_Delegation = None,
     StakingQuery_BondedDenom = None\<rparr>"

definition StakingQuery_to_json :: "StakingQuery \<Rightarrow> json" where
  "StakingQuery_to_json x = JObj (
     fld_omit ''all_validators'' (StakingQuery_AllValidators x = None) (json_ptr AllValidatorsQuery_to_json (StakingQuery_AllValidators x)) @
     fld_omit ''validator'' (StakingQuery_Validator x = None) (json_ptr ValidatorQuery_to_json (StakingQuery_Validator x)) @
     fld_omit ''all_delegations'' (StakingQuery_AllDelegations x = None) (json_ptr AllDelegationsQuery_to_json (StakingQuery_AllDelegations x)) @
     fld_omit ''delegation'' (StakingQuery_Delegation x = None) (json_ptr DelegationQuery_to_json (StakingQuery_Delegation x)) @
     fld_omit ''bonded_denom'' (StakingQuery_BondedDenom x = None) (json_ptr empty_struct_to_json (StakingQuery_BondedDenom x)))"

definition StakingQuery_decode :: "StakingQuery decoder" where
  "StakingQuery_decode = dec_struct (
     dec_field ''all_validators'' (dec_ptr AllValidatorsQuery AllValidatorsQuery_decode) StakingQuery_AllValidators StakingQuery_AllValidators_update @
     dec_field ''validator'' (dec_ptr ValidatorQuery_zero ValidatorQuery_decode) StakingQuery_Validator StakingQuery_Validator_update @
     dec_field ''all_delegations'' (dec_ptr AllDelegationsQuery_zero AllDelegationsQuery_decode) StakingQuery_AllDelegations StakingQuery_AllDelegations_update @
     dec_field ''delegation'' (dec_ptr DelegationQuery_zero DelegationQuery_decode) StakingQuery_Delegation StakingQuery_Delegation_update @
     dec_field ''bonded_denom'' (dec_ptr () dec_empty_struct) StakingQuery_BondedDenom StakingQuery_BondedDenom_update)"

interpretation StakingQuery_codec: json_codec StakingQuery_to_json StakingQuery_decode StakingQuery_zero "\<lambda>x. x" "\<lambda>_. True"
  by (unfold_locales, simp add: StakingQuery_to_json_def,
    unfold StakingQuery_decode_def StakingQuery_to_json_def StakingQuery_zero_def dec_struct.simps, rule trans,
    ((rule dec_members_fld_last dec_members_fld, simp add: codec_simps, simp)
     | (rule dec_members_omit_last dec_members_omit, simp add: codec_simps, simp del: not_None_eq, simp))+,
    simp)

section \<open>Distribution queries\<close>

record DelegatorWithdrawAddressQuery =
  DelegatorWithdrawAddressQuery_DelegatorAddress :: string

definition DelegatorWithdrawAddressQuery_zero :: DelegatorWithdrawAddressQuery where
  "DelegatorWithdrawAddressQuery_zero = \<lparr>DelegatorWithdrawAddressQuery_DelegatorAddress = []\<rparr>"

definition DelegatorWithdrawAddressQuery_to_json :: "DelegatorWithdrawAddressQuery \<Rightarrow> json" where
  "DelegatorWithdrawAddressQuery_to_json x = JObj (
     fld ''delegator_address'' (JStr (DelegatorWithdrawAddressQuery_DelegatorAddress x)))"

definition DelegatorWithdrawAddressQuery_decode :: "DelegatorWithdrawAddressQuery decoder" where
  "DelegatorWithdrawAddressQuery_decode = dec_struct (
     dec_field ''delegator_address'' dec_string DelegatorWithdrawAddressQuery_DelegatorAddress DelegatorWithdrawAddressQuery_DelegatorAddress_update)"

interpretation DelegatorWithdrawAddressQuery_codec: json_codec DelegatorWithdrawAddressQuery_to_json DelegatorWithdrawAddressQuery_decode DelegatorWithdrawAddressQuery_zero "\<lambda>x. x" "\<lambda>_. True"
  by (unfold_locales, simp add: DelegatorWithdrawAddressQuery_to_json_def,
    unfold DelegatorWithdrawAddressQuery_decode_def DelegatorWithdrawAddressQuery_to_json_def DelegatorWithdrawAddressQuery_zero_def dec_struct.simps, rule trans,
    ((rule dec_members_fld_last dec_members_fld, simp add: codec_simps, simp)
     | (rule dec_members_omit_last dec_members_omit, simp add: codec_simps, simp del: not_None_eq, simp))+,
    simp)

record DelegationRewardsQuery =
  DelegationRewardsQuery_DelegatorAddress :: string
  DelegationRewardsQuery_ValidatorAddress :: string

definition DelegationRewardsQuery_zero :: DelegationRewardsQuery where
  "DelegationRewardsQuery_zero = \<lparr>DelegationRewardsQuery_DelegatorAddress = [],
     DelegationRewardsQuery_ValidatorAddress = []\<rparr>"

definition DelegationRewardsQuery_to_json :: "DelegationRewardsQuery \<Rightarrow> json" where
  "DelegationRewardsQuery_to_json x = JObj (
     fld ''delegator_address'' (JStr (DelegationRewardsQuery_DelegatorAddress x)) @
     fld ''validator_address'' (JStr (DelegationRewardsQuery_ValidatorAddress x)))"

definition DelegationRewardsQuery_decode :: "DelegationRewardsQuery decoder" where
  "DelegationRewardsQuery_decode = dec_struct (
     dec_field ''delegator_address'' dec_string DelegationRewardsQuery_DelegatorAddress DelegationRewardsQuery_DelegatorAddress_update @
     dec_field ''validator_address'' dec_string DelegationRewardsQuery_ValidatorAddress DelegationRewardsQuery_ValidatorAddress_update)"

interpretation DelegationRewardsQuery_codec: json_codec DelegationRewardsQuery_to_json DelegationRewardsQuery_decode DelegationRewardsQuery_zero "\<lambda>x. x" "\<lambda>_. True"
  by (unfold_locales, simp add: DelegationRewardsQuery_to_json_def,
    unfold DelegationRewardsQuery_decode_def DelegationRewardsQuery_to_json_def DelegationRewardsQuery_zero_def dec_struct.simps, rule trans,
    ((rule dec_members_fld_last dec_members_fld, simp add: codec_simps, simp)
     | (rule dec_members_omit_last dec_members_omit, simp add: codec_simps, simp del: not_None_eq, simp))+,
    simp)

record DelegationTotalRewardsQuery =
  DelegationTotalRewardsQuery_DelegatorAddress :: string

definition DelegationTotalRewardsQuery_zero :: DelegationTotalRewardsQuery where
  "DelegationTotalRewardsQuery_zero = \<lparr>DelegationTotalRewardsQuery_DelegatorAddress = []\<rparr>"

definition DelegationTotalRewardsQuery_to_json :: "DelegationTotalRewardsQuery \<Rightarrow> json" where
  "DelegationTotalRewardsQuery_to_json x = JObj (
     fld ''delegator_address'' (JStr (DelegationTotalRewardsQuery_DelegatorAddress x)))"

definition DelegationTotalRewardsQuery_decode :: "DelegationTotalRewardsQuery decoder" where
  "DelegationTotalRewardsQuery_decode = dec_struct (
     dec_field ''delegator_address'' dec_string DelegationTotalRewardsQuery_DelegatorAddress DelegationTotalRewardsQuery_DelegatorAddress_update)"

interpretation DelegationTotalRewardsQuery_codec: json_codec DelegationTotalRewardsQuery_to_json DelegationTotalRewardsQuery_decode DelegationTotalRewardsQuery_zero "\<lambda>x. x" "\<lambda>_. True"
  by (unfold_locales, simp add: DelegationTotalRewardsQuery_to_json_def,
    unfold DelegationTotalRewardsQuery_decode_def DelegationTotalRewardsQuery_to_json_def DelegationTotalRewardsQuery_zero_def dec_struct.simps, rule trans,
    ((rule dec_members_fld_last dec_members_fld, simp add: codec_simps, simp)
     | (rule dec_members_omit_last dec_members_omit, simp add: codec_simps, simp del: not_None_eq, simp))+,
    simp)

record DelegatorValidatorsQuery =
  DelegatorValidatorsQuery_DelegatorAddress :: string

definition DelegatorValidatorsQuery_zero :: DelegatorValidatorsQuery where
  "DelegatorValidatorsQuery_zero = \<lparr>DelegatorValidatorsQuery_DelegatorAddress = []\<rparr>"

definition DelegatorValidatorsQuery_to_json :: "DelegatorValidatorsQuery \<Rightarrow> json" where
  "DelegatorValidatorsQuery_to_json x = JObj (
     fld ''delegator_address'' (JStr (DelegatorValidatorsQuery_DelegatorAddress x)))"

definition DelegatorValidatorsQuery_decode :: "DelegatorValidatorsQuery decoder" where
  "DelegatorValidatorsQuery_decode = dec_struct (
     dec_field ''delegator_address'' dec_string DelegatorValidatorsQuery_DelegatorAddress DelegatorValidatorsQuery_DelegatorAddress_update)"

interpretation DelegatorValidatorsQuery_codec: json_codec DelegatorValidatorsQuery_to_json DelegatorValidatorsQuery_decode DelegatorValidatorsQuery_zero "\<lambda>x. x" "\<lambda>_. True"
  by (unfold_locales, simp add: DelegatorValidatorsQuery_to_json_def,
    unfold DelegatorValidatorsQuery_decode_def DelegatorValidatorsQuery_to_json_def DelegatorValidatorsQuery_zero_def dec_struct.simps, rule trans,
    ((rule dec_members_fld_last dec_members_fld, simp add: codec_simps, simp)
     | (rule dec_members_omit_last dec_members_omit, simp add: codec_simps, simp del: not_None_eq, simp))+,
    simp)

record DistributionQuery =
  DistributionQuery_DelegatorWithdrawAddress :: "DelegatorWithdrawAddressQuery option"
  DistributionQuery_DelegationRewards :: "DelegationRewardsQuery option"
  DistributionQuery_DelegationTotalRewards :: "DelegationTotalRewardsQuery option"
  DistributionQuery_DelegatorValidators :: "DelegatorValidatorsQuery option"

definition DistributionQuery_zero :: DistributionQuery where
  "DistributionQuery_zero = \<lparr>DistributionQuery_DelegatorWithdrawAddress = None,
     DistributionQuery_DelegationRewards = None,
     DistributionQuery_DelegationTotalRewards = None,
     DistributionQuery_DelegatorValidators = None\<rparr>"

definition DistributionQuery_to_json :: "DistributionQuery \<Rightarrow> json" where
  "DistributionQuery_to_json x = JObj (
     fld_omit ''delegator_withdraw_address'' (DistributionQuery_DelegatorWithdrawAddress x = None) (json_ptr DelegatorWithdrawAddressQuery_to_json (DistributionQuery_DelegatorWithdrawAddress x)) @
     fld_omit ''delegation_rewards'' (DistributionQuery_DelegationRewards x = None) (json_ptr DelegationRewardsQuery_to_json (DistributionQuery_DelegationRewards x)) @
     fld_omit ''delegation_total_rewards'' (DistributionQuery_DelegationTotalRewards x = None) (json_ptr DelegationTotalRewardsQuery_to_json (DistributionQuery_DelegationTotalRewards x)) @
     fld_omit ''delegator_validators'' (DistributionQuery_DelegatorValidators x = None) (json_ptr DelegatorValidatorsQuery_to_json (DistributionQuery_DelegatorValidators x)))"

definition DistributionQuery_decode :: "DistributionQuery decoder" where
  "DistributionQuery_decode = dec_struct (
     dec_field ''delegator_withdraw_address'' (dec_ptr DelegatorWithdrawAddressQuery_zero DelegatorWithdrawAddressQuery_decode) DistributionQuery_DelegatorWithdrawAddress DistributionQuery_DelegatorWithdrawAddress_update @
     dec_field ''delegation_rewards'' (dec_ptr DelegationRewardsQuery_zero DelegationRewardsQuery_decode) DistributionQuery_DelegationRewards DistributionQuery_DelegationRewards_update @
     dec_field ''delegation_total_rewards'' (dec_ptr DelegationTotalRewardsQuery_zero DelegationTotalRewardsQuery_decode) DistributionQuery_DelegationTotalRewards DistributionQuery_DelegationTotalRewards_update @
     dec_field ''delegator_validators'' (dec_ptr DelegatorValidatorsQuery_zero DelegatorValidatorsQuery_decode) DistributionQuery_DelegatorValidators DistributionQuery_DelegatorValidators_update)"

interpretation DistributionQuery_codec: json_codec DistributionQuery_to_json DistributionQuery_decode DistributionQuery_zero "\<lambda>x. x" "\<lambda>_. True"
  by (unfold_locales, simp add: DistributionQuery_to_json_def,
    unfold DistributionQuery_decode_def DistributionQuery_to_json_def DistributionQuery_zero_def dec_struct.simps, rule trans,
    ((rule dec_members_fld_last dec_members_fld, simp add: codec_simps, simp)
     | (rule dec_members_omit_last dec_members_omit, simp add: codec_simps, simp del: not_None_eq, simp))+,
    simp)

section \<open>Stargate, gRPC and Wasm queries\<close>

record StargateQuery =
  StargateQuery_Data :: byte_slice
  StargateQuery_Path :: string

definition StargateQuery_zero :: StargateQuery where
  "StargateQuery_zero = \<lparr>StargateQuery_Data = None,
     StargateQuery_Path = []\<rparr>"

definition StargateQuery_to_json :: "StargateQuery \<Rightarrow> json" where
  "StargateQuery_to_json x = JObj (
     fld ''data'' (json_bytes (StargateQuery_Data x)) @
     fld ''path'' (JStr (StargateQuery_Path x)))"

definition StargateQuery_decode :: "StargateQuery decoder" where
  "StargateQuery_decode = dec_struct (
     dec_field ''data'' dec_bytes StargateQuery_Data StargateQuery_Data_update @
     dec_field ''path'' dec_string StargateQuery_Path StargateQuery_Path_update)"

interpretation StargateQuery_codec: json_codec StargateQuery_to_json StargateQuery_decode StargateQuery_zero "\<lambda>x. x" "\<lambda>_. True"
  by (unfold_locales, simp add: StargateQuery_to_json_def,
    unfold StargateQuery_decode_def StargateQuery_to_json_def StargateQuery_zero_def dec_struct.simps, rule trans,
    ((rule dec_members_fld_last dec_members_fld, simp add: codec_simps, simp)
     | (rule dec_members_omit_last dec_members_omit, simp add: codec_simps, simp del: not_None_eq, simp))+,
    simp)

record GrpcQuery =
  GrpcQuery_Data :: byte_slice
  GrpcQuery_Path :: string

definition GrpcQuery_zero :: GrpcQuery where
  "GrpcQuery_zero = \<lparr>GrpcQuery_Data = None,
     GrpcQuery_Path = []\<rparr>"

definition GrpcQuery_to_json :: "GrpcQuery \<Rightarrow> json" where
  "GrpcQuery_to_json x = JObj (
     fld ''data'' (json_bytes (GrpcQuery_Data x)) @
     fld ''path'' (JStr (GrpcQuery_Path x)))"

definition GrpcQuery_decode :: "GrpcQuery decoder" where
  "GrpcQuery_decode = dec_struct (
     dec_field ''data'' dec_bytes GrpcQuery_Data GrpcQuery_Data_update @
     dec_field ''path'' dec_string GrpcQuery_Path GrpcQuery_Path_update)"

interpretation GrpcQuery_codec: json_codec GrpcQuery_to_json GrpcQuery_decode GrpcQuery_zero "\<lambda>x. x" "\<lambda>_. True"
  by (unfold_locales, simp add: GrpcQuery_to_json_def,
    unfold GrpcQuery_decode_def GrpcQuery_to_json_def GrpcQuery_zero_def dec_struct.simps, rule trans,
    ((rule dec_members_fld_last dec_members_fld, simp add: codec_simps, simp)
     | (rule dec_members_omit_last dec_members_omit, simp add: codec_simps, simp del: not_None_eq, simp))+,
    simp)

record SmartQuery =
  SmartQuery_ContractAddr :: string
  SmartQuery_Msg :: byte_slice

definition SmartQuery_zero :: SmartQuery where
  "SmartQuery_zero = \<lparr>SmartQuery_ContractAddr = [],
     SmartQuery_Msg = None\<rparr>"

definition SmartQuery_to_json :: "SmartQuery \<Rightarrow> json" where
  "SmartQuery_to_json x = JObj (
     fld ''contract_addr'' (JStr (SmartQuery_ContractAddr x)) @
     fld ''msg'' (json_bytes (SmartQuery_Msg x)))"

definition SmartQuery_decode :: "SmartQuery decoder" where
  "SmartQuery_decode = dec_struct (
     dec_field ''contract_addr'' dec_string SmartQuery_ContractAddr SmartQuery_ContractAddr_update @
     dec_field ''msg'' dec_bytes SmartQuery_Msg SmartQuery_Msg_update)"

interpretation SmartQuery_codec: json_codec SmartQuery_to_json SmartQuery_decode SmartQuery_zero "\<lambda>x. x" "\<lambda>_. True"
  by (unfold_locales, simp add: SmartQuery_to_json_def,
    unfold SmartQuery_decode_def SmartQuery_to_json_def SmartQuery_zero_def dec_struct.simps, rule trans,
    ((rule dec_members_fld_last dec_members_fld, simp add: codec_simps, simp)
     | (rule dec_members_omit_last dec_members_omit, simp add: codec_simps, simp del: not_None_eq, simp))+,
    simp)

record RawQuery =
  RawQuery_ContractAddr :: string
  RawQuery_Key :: byte_slice

definition RawQuery_zero :: RawQuery where
  "RawQuery_zero = \<lparr>RawQuery_ContractAddr = [],
     RawQuery_Key = None\<rparr>"

definition RawQuery_to_json :: "RawQuery \<Rightarrow> json" where
  "RawQuery_to_json x = JObj (
     fld ''contract_addr'' (JStr (RawQuery_ContractAddr x)) @
     fld ''key'' (json_bytes (RawQuery_Key x)))"

definition RawQuery_decode :: "RawQuery decoder" where
  "RawQuery_decode = dec_struct (
     dec_field ''contract_addr'' dec_string RawQuery_ContractAddr RawQuery_ContractAddr_update @
     dec_field ''key'' dec_bytes RawQuery_Key RawQuery_Key_update)"

interpretation RawQuery_codec: json_codec RawQuery_to_json RawQuery_decode RawQuery_zero "\<lambda>x. x" "\<lambda>_. True"
  by (unfold_locales, simp add: RawQuery_to_json_def,
    unfold RawQuery_decode_def RawQuery_to_json_def RawQuery_zero_def dec_struct.simps, rule trans,
    ((rule dec_members_fld_last dec_members_fld, simp add: codec_simps, simp)
     | (rule dec_members_omit_last dec_members_omit, simp add: codec_simps, simp del: not_None_eq, simp))+,
    simp)

record ContractInfoQuery =
  ContractInfoQuery_ContractAddr :: string

definition ContractInfoQuery_zero :: ContractInfoQuery where
  "ContractInfoQuery_zero = \<lparr>ContractInfoQuery_ContractAddr = []\<rparr>"

definition ContractInfoQuery_to_json :: "ContractInfoQuery \<Rightarrow> json" where
  "ContractInfoQuery_to_json x = JObj (
     fld ''contract_addr'' (JStr (ContractInfoQuery_ContractAddr x)))"

definition ContractInfoQuery_decode :: "ContractInfoQuery decoder" where
  "ContractInfoQuery_decode = dec_struct (
     dec_field ''contract_addr'' dec_string ContractInfoQuery_ContractAddr ContractInfoQuery_ContractAddr_update)"

interpretation ContractInfoQuery_codec: json_codec ContractInfoQuery_to_json ContractInfoQuery_decode ContractInfoQuery_zero "\<lambda>x. x" "\<lambda>_. True"
  by (unfold_locales, simp add: ContractInfoQuery_to_json_def,
    unfold ContractInfoQuery_decode_def ContractInfoQuery_to_json_def ContractInfoQuery_zero_def dec_struct.simps, rule trans,
    ((rule dec_members_fld_last dec_members_fld, simp add: codec_simps, simp)
     | (rule dec_members_omit_last dec_members_omit, simp add: codec_simps, simp del: not_None_eq, simp))+,
    simp)

record CodeInfoQuery =
  CodeInfoQuery_CodeID :: u64

definition CodeInfoQuery_zero :: CodeInfoQuery where
  "CodeInfoQuery_zero = \<lparr>CodeInfoQuery_CodeID = 0\<rparr>"

definition CodeInfoQuery_to_json :: "CodeInfoQuery \<Rightarrow> json" where
  "CodeInfoQuery_to_json x = JObj (
     fld ''code_id'' (json_u64 (CodeInfoQuery_CodeID x)))"

definition CodeInfoQuery_decode :: "CodeInfoQuery decoder" where
  "CodeInfoQuery_decode = dec_struct (
     dec_field ''code_id'' dec_uint CodeInfoQuery_CodeID CodeInfoQuery_CodeID_update)"

interpretation CodeInfoQuery_codec: json_codec CodeInfoQuery_to_json CodeInfoQuery_decode CodeInfoQuery_zero "\<lambda>x. x" "\<lambda>_. True"
  by (unfold_locales, simp add: CodeInfoQuery_to_json_def,
    unfold CodeInfoQuery_decode_def CodeInfoQuery_to_json_def CodeInfoQuery_zero_def dec_struct.simps, rule trans,
    ((rule dec_members_fld_last dec_members_fld, simp add: codec_simps, simp)
     | (rule dec_members_omit_last dec_members_omit, simp add: codec_simps, simp del: not_None_eq, simp))+,
    simp)

record RawRangeQuery =
  RawRangeQuery_ContractAddr :: string
  RawRangeQuery_Start :: byte_slice
  RawRangeQuery_End :: byte_slice
  RawRangeQuery_Limit :: u16
  RawRangeQuery_Order :: string

definition RawRangeQuery_zero :: RawRangeQuery where
  "RawRangeQuery_zero = \<lparr>RawRangeQuery_ContractAddr = [],
     RawRangeQuery_Start = None,
     RawRangeQuery_End = None,
     RawRangeQuery_Limit = 0,
     RawRangeQuery_Order = []\<rparr>"

definition RawRangeQuery_to_json :: "RawRangeQuery \<Rightarrow> json" where
  "RawRangeQuery_to_json x = JObj (
     fld ''contract_addr'' (JStr (RawRangeQuery_ContractAddr x)) @
     fld_omit ''start'' (slice_len (RawRangeQuery_Start x) = 0) (json_bytes (RawRangeQuery_Start x)) @
     fld_omit ''end'' (slice_len (RawRangeQuery_End x) = 0) (json_bytes (RawRangeQuery_End x)) @
     fld ''limit'' (json_u16 (RawRangeQuery_Limit x)) @
     fld ''order'' (JStr (RawRangeQuery_Order x)))"

definition RawRangeQuery_decode :: "RawRangeQuery decoder" where
  "RawRangeQuery_decode = dec_struct (
     dec_field ''contract_addr'' dec_string RawRangeQuery_ContractAddr RawRangeQuery_ContractAddr_update @
     dec_field ''start'' dec_bytes RawRangeQuery_Start RawRangeQuery_Start_update @
     dec_field ''end'' dec_bytes RawRangeQuery_End RawRangeQuery_End_update @
     dec_field ''limit'' dec_uint RawRangeQuery_Limit RawRangeQuery_Limit_update @
     dec_field ''order'' dec_string RawRangeQuery_Order RawRangeQuery_Order_update)"

definition RawRangeQuery_norm :: "RawRangeQuery \<Rightarrow> RawRangeQuery" where
  "RawRangeQuery_norm x = x\<lparr>RawRangeQuery_Start := omit_slice (RawRangeQuery_Start x),
     RawRangeQuery_End := omit_slice (RawRangeQuery_End x)\<rparr>"

interpretation RawRangeQuery_codec: json_codec RawRangeQuery_to_json RawRangeQuery_decode RawRangeQuery_zero RawRangeQuery_norm "\<lambda>_. True"
  by (unfold_locales, simp add: RawRangeQuery_to_json_def,
    unfold RawRangeQuery_decode_def RawRangeQuery_to_json_def RawRangeQuery_zero_def dec_struct.simps, rule trans,
    ((rule dec_members_fld_last dec_members_fld, simp add: codec_simps, simp)
     | (rule dec_members_omit_bytes_last [where upd = RawRangeQuery_Start_update] dec_members_omit_bytes [where upd = RawRangeQuery_Start_update],
         simp add: codec_simps, simp)
     | (rule dec_members_omit_bytes_last [where upd = RawRangeQuery_End_update] dec_members_omit_bytes [where upd = RawRangeQuery_End_update],
         simp add: codec_simps, simp)
     | (rule dec_members_omit_last dec_members_omit, simp add: codec_simps, simp del: not_None_eq, simp))+,
    simp add: RawRangeQuery_norm_def)

record WasmQuery =
  WasmQuery_Smart :: "SmartQuery option"
  WasmQuery_Raw :: "RawQuery option"
  WasmQuery_ContractInfo :: "ContractInfoQuery option"
  WasmQuery_CodeInfo :: "CodeInfoQuery option"
  WasmQuery_RawRange :: "RawRangeQuery option"

definition WasmQuery_zero :: WasmQuery where
  "WasmQuery_zero = \<lparr>WasmQuery_Smart = None,
     WasmQuery_Raw = None,
     WasmQuery_ContractInfo = None,
     WasmQuery_CodeInfo = None,
     WasmQuery_RawRange = None\<rparr>"

definition WasmQuery_to_json :: "WasmQuery \<Rightarrow> json" where
  "WasmQuery_to_json x = JObj (
     fld_omit ''smart'' (WasmQuery_Smart x = None) (json_ptr SmartQuery_to_json (WasmQuery_Smart x)) @
     fld_omit ''raw'' (WasmQuery_Raw x = None) (json_ptr RawQuery_to_json (WasmQuery_Raw x)) @
     fld_omit ''contract_info'' (WasmQuery_ContractInfo x = None) (json_ptr ContractInfoQuery_to_json (WasmQuery_ContractInfo x)) @
     fld_omit ''code_info'' (WasmQuery_CodeInfo x = None) (json_ptr CodeInfoQuery_to_json (WasmQuery_CodeInfo x)) @
     fld_omit ''raw_range'' (WasmQuery_RawRange x = None) (json_ptr RawRangeQuery_to_json (WasmQuery_RawRange x)))"

definition WasmQuery_decode :: "WasmQuery decoder" where
  "WasmQuery_decode = dec_struct (
     dec_field ''smart'' (dec_ptr SmartQuery_zero SmartQuery_decode) WasmQuery_Smart WasmQuery_Smart_update @
     dec_field ''raw'' (dec_ptr RawQuery_zero RawQuery_decode) WasmQuery_Raw WasmQuery_Raw_update @
     dec_field ''contract_info'' (dec_ptr ContractInfoQuery_zero ContractInfoQuery_decode) WasmQuery_ContractInfo WasmQuery_ContractInfo_update @
     dec_field ''code_info'' (dec_ptr CodeInfoQuery_zero CodeInfoQuery_decode) WasmQuery_CodeInfo WasmQuery_CodeInfo_update @
     dec_field ''raw_range'' (dec_ptr RawRangeQuery_zero RawRangeQuery_decode) WasmQuery_RawRange WasmQuery_RawRange_update)"

definition WasmQuery_norm :: "WasmQuery \<Rightarrow> WasmQuery" where
  "WasmQuery_norm x = x\<lparr>WasmQuery_RawRange := map_option RawRangeQuery_norm (WasmQuery_RawRange x)\<rparr>"

interpretation WasmQuery_codec: json_codec WasmQuery_to_json WasmQuery_decode WasmQuery_zero WasmQuery_norm "\<lambda>_. True"
  by (unfold_locales, simp add: WasmQuery_to_json_def,
    unfold WasmQuery_decode_def WasmQuery_to_json_def WasmQuery_zero_def dec_struct.simps, rule trans,
    ((rule dec_members_fld_last dec_members_fld, simp add: codec_simps, simp)
     | (rule dec_members_omit_last dec_members_omit, simp add: codec_simps, simp del: not_None_eq, simp))+,
    simp add: WasmQuery_norm_def)

section \<open>Requests\<close>

record QueryRequest =
  QueryRequest_Bank :: "BankQuery option"
  QueryRequest_Custom :: "json option"
  QueryRequest_IBC :: "IBCQuery option"
  QueryRequest_Staking :: "StakingQuery option"
  QueryRequest_Distribution :: "DistributionQuery option"
  QueryRequest_Stargate :: "StargateQuery option"
  QueryRequest_Grpc :: "GrpcQuery option"
  QueryRequest_Wasm :: "WasmQuery option"

definition QueryRequest_zero :: QueryRequest where
  "QueryRequest_zero = \<lparr>QueryRequest_Bank = None,
     QueryRequest_Custom = None,
     QueryRequest_IBC = None,
     QueryRequest_Staking = None,
     QueryRequest_Distribution = None,
     QueryRequest_Stargate = None,
     QueryRequest_Grpc = None,
     QueryRequest_Wasm = None\<rparr>"

definition QueryRequest_to_json :: "QueryRequest \<Rightarrow> json" where
  "QueryRequest_to_json x = JObj (
     fld_omit ''bank'' (QueryRequest_Bank x = None) (json_ptr BankQuery_to_json (QueryRequest_Bank x)) @
     fld_omit ''custom'' (QueryRequest_Custom x = None) (json_raw (QueryRequest_Custom x)) @
     fld_omit ''ibc'' (QueryRequest_IBC x = None) (json_ptr IBCQuery_to_json (QueryRequest_IBC x)) @
     fld_omit ''staking'' (QueryRequest_Staking x = None) (json_ptr StakingQuery_to_json (QueryRequest_Staking x)) @
     fld_omit ''distribution'' (QueryRequest_Distribution x = None) (json_ptr DistributionQuery_to_json (QueryRequest_Distribution x)) @
     fld_omit ''stargate'' (QueryRequest_Stargate x = None) (json_ptr StargateQuery_to_json (QueryRequest_Stargate x)) @
     fld_omit ''grpc'' (QueryRequest_Grpc x = None) (json_ptr GrpcQuery_to_json (QueryRequest_Grpc x)) @
     fld_omit ''wasm'' (QueryRequest_Wasm x = None) (json_ptr WasmQuery_to_json (QueryRequest_Wasm x)))"

definition QueryRequest_decode :: "QueryRequest decoder" where
  "QueryRequest_decode = dec_struct (
     dec_field ''bank'' (dec_ptr BankQuery_zero BankQuery_decode) QueryRequest_Bank QueryRequest_Bank_update @
     dec_field ''custom'' dec_raw QueryRequest_Custom QueryRequest_Custom_update @
     dec_field ''ibc'' (dec_ptr IBCQuery_zero IBCQuery_decode) QueryRequest_IBC QueryRequest_IBC_update @
     dec_field ''staking'' (dec_ptr StakingQuery_zero StakingQuery_decode) QueryRequest_Staking QueryRequest_Staking_update @
     dec_field ''distribution'' (dec_ptr DistributionQuery_zero DistributionQuery_decode) QueryRequest_Distribution QueryRequest_Distribution_update @
     dec_field ''stargate'' (dec_ptr StargateQuery_zero StargateQuery_decode) QueryRequest_Stargate QueryRequest_Stargate_update @
     dec_field ''grpc'' (dec_ptr GrpcQuery_zero GrpcQuery_decode) QueryRequest_Grpc QueryRequest_Grpc_update @
     dec_field ''wasm'' (dec_ptr WasmQuery_zero WasmQuery_decode) QueryRequest_Wasm QueryRequest_Wasm_update)"

definition QueryRequest_norm :: "QueryRequest \<Rightarrow> QueryRequest" where
  "QueryRequest_norm x = x\<lparr>QueryRequest_Wasm := map_option WasmQuery_norm (QueryRequest_Wasm x)\<rparr>"

interpretation QueryRequest_codec: json_codec QueryRequest_to_json QueryRequest_decode QueryRequest_zero QueryRequest_norm "\<lambda>_. True"
  by (unfold_locales, simp add: QueryRequest_to_json_def,
    unfold QueryRequest_decode_def QueryRequest_to_json_def QueryRequest_zero_def dec_struct.simps, rule trans,
    ((rule dec_members_fld_last dec_members_fld, simp add: codec_simps, simp)
     | (rule dec_members_omit_last dec_members_omit, simp add: codec_simps, simp del: not_None_eq, simp))+,
    simp add: QueryRequest_norm_def)

section \<open>Responses\<close>

record SupplyResponse =
  SupplyResponse_Amount :: Coin

definition SupplyResponse_to_json :: "SupplyResponse \<Rightarrow> json" where
  "SupplyResponse_to_json x = JObj (
     fld ''amount'' (Coin_to_json (SupplyResponse_Amount x)))"

record BalanceResponse =
  BalanceResponse_Amount :: Coin

definition BalanceResponse_to_json :: "BalanceResponse \<Rightarrow> json" where
  "BalanceResponse_to_json x = JObj (
     fld ''amount'' (Coin_to_json (BalanceResponse_Amount x)))"

record AllBalancesResponse =
  AllBalancesResponse_Amount :: "Coin slice"

definition AllBalancesResponse_to_json :: "AllBalancesResponse \<Rightarrow> json" where
  "AllBalancesResponse_to_json x = JObj (
     fld ''amount'' (Array_MarshalJSON Coin_to_json (AllBalancesResponse_Amount x)))"

record DenomMetadataResponse =
  DenomMetadataResponse_Metadata :: DenomMetadata

definition DenomMetadataResponse_to_json :: "DenomMetadataResponse \<Rightarrow> json" where
  "DenomMetadataResponse_to_json x = JObj (
     fld ''metadata'' (DenomMetadata_to_json (DenomMetadataResponse_Metadata x)))"

record AllDenomMetadataResponse =
  AllDenomMetadataResponse_Metadata :: "DenomMetadata slice"
  AllDenomMetadataResponse_NextKey :: byte_slice

definition AllDenomMetadataResponse_to_json :: "AllDenomMetadataResponse \<Rightarrow> json" where
  "AllDenomMetadataResponse_to_json x = JObj (
     fld ''metadata'' (json_slice DenomMetadata_to_json (AllDenomMetadataResponse_Metadata x)) @
     fld_omit ''next_key'' (slice_len (AllDenomMetadataResponse_NextKey x) = 0) (json_bytes (AllDenomMetadataResponse_NextKey x)))"

record PortIDResponse =
  PortIDResponse_PortID :: string

definition PortIDResponse_to_json :: "PortIDResponse \<Rightarrow> json" where
  "PortIDResponse_to_json x = JObj (
     fld ''port_id'' (JStr (PortIDResponse_PortID x)))"

record ListChannelsResponse =
  ListChannelsResponse_Channels :: "IBCChannel slice"

definition ListChannelsResponse_to_json :: "ListChannelsResponse \<Rightarrow> json" where
  "ListChannelsResponse_to_json x = JObj (
     fld ''channels'' (Array_MarshalJSON IBCChannel_to_json (ListChannelsResponse_Channels x)))"

record ChannelResponse =
  ChannelResponse_Channel :: "IBCChannel option"

definition ChannelResponse_to_json :: "ChannelResponse \<Rightarrow> json" where
  "ChannelResponse_to_json x = JObj (
     fld_omit ''channel'' (ChannelResponse_Channel x = None) (json_ptr IBCChannel_to_json (ChannelResponse_Channel x)))"

record Validator =
  Validator_Address :: string
  Validator_Commission :: string
  Validator_MaxCommission :: string
  Validator_MaxChangeRate :: string

definition Validator_to_json :: "Validator \<Rightarrow> json" where
  "Validator_to_json x = JObj (
     fld ''address'' (JStr (Validator_Address x)) @
     fld ''commission'' (JStr (Validator_Commission x)) @
     fld ''max_commission'' (JStr (Validator_MaxCommission x)) @
     fld ''max_change_rate'' (JStr (Validator_MaxChangeRate x)))"

record AllValidatorsResponse =
  AllValidatorsResponse_Validators :: "Validator slice"

definition AllValidatorsResponse_to_json :: "AllValidatorsResponse \<Rightarrow> json" where
  "AllValidatorsResponse_to_json x = JObj (
     fld ''validators'' (Array_MarshalJSON Validator_to_json (AllValidatorsResponse_Validators x)))"

record ValidatorResponse =
  ValidatorResponse_Validator :: "Validator option"

definition ValidatorResponse_to_json :: "ValidatorResponse \<Rightarrow> json" where
  "ValidatorResponse_to_json x = JObj (
     fld ''validator'' (json_ptr Validator_to_json (ValidatorResponse_Validator x)))"

record Delegation =
  Delegation_Delegator :: string
  Delegation_Validator :: string
  Delegation_Amount :: Coin

definition Delegation_to_json :: "Delegation \<Rightarrow> json" where
  "Delegation_to_json x = JObj (
     fld ''delegator'' (JStr (Delegation_Delegator x)) @
     fld ''validator'' (JStr (Delegation_Validator x)) @
     fld ''amount'' (Coin_to_json (Delegation_Amount x)))"

record AllDelegationsResponse =
  AllDelegationsResponse_Delegations :: "Delegation slice"

definition AllDelegationsResponse_to_json :: "AllDelegationsResponse \<Rightarrow> json" where
  "AllDelegationsResponse_to_json x = JObj (
     fld ''delegations'' (Array_MarshalJSON Delegation_to_json (AllDelegationsResponse_Delegations x)))"

record FullDelegation =
  FullDelegation_Delegator :: string
  FullDelegation_Validator :: string
  FullDelegation_Amount :: Coin
  FullDelegation_AccumulatedRewards :: "Coin slice"
  FullDelegation_CanRedelegate :: Coin

definition FullDelegation_to_json :: "FullDelegation \<Rightarrow> json" where
  "FullDelegation_to_json x = JObj (
     fld ''delegator'' (JStr (FullDelegation_Delegator x)) @
     fld ''validator'' (JStr (FullDelegation_Validator x)) @
     fld ''amount'' (Coin_to_json (FullDelegation_Amount x)) @
     fld ''accumulated_rewards'' (Array_MarshalJSON Coin_to_json (FullDelegation_AccumulatedRewards x)) @
     fld ''can_redelegate'' (Coin_to_json (FullDelegation_CanRedelegate x)))"

record DelegationResponse =
  DelegationResponse_Delegation :: "FullDelegation option"

definition DelegationResponse_to_json :: "DelegationResponse \<Rightarrow> json" where
  "DelegationResponse_to_json x = JObj (
     fld_omit ''delegation'' (DelegationResponse_Delegation x = None) (json_ptr FullDelegation_to_json (DelegationResponse_Delegation x)))"

record BondedDenomResponse =
  BondedDenomResponse_Denom :: string

definition BondedDenomResponse_to_json :: "BondedDenomResponse \<Rightarrow> json" where
  "BondedDenomResponse_to_json x = JObj (
     fld ''denom'' (JStr (BondedDenomResponse_Denom x)))"

record DelegatorWithdrawAddressResponse =
  DelegatorWithdrawAddressResponse_WithdrawAddress :: string

definition DelegatorWithdrawAddressResponse_to_json :: "DelegatorWithdrawAddressResponse \<Rightarrow> json" where
  "DelegatorWithdrawAddressResponse_to_json x = JObj (
     fld ''withdraw_address'' (JStr (DelegatorWithdrawAddressResponse_WithdrawAddress x)))"

record DelegationRewardsResponse =
  DelegationRewardsResponse_Rewards :: "DecCoin slice"

definition DelegationRewardsResponse_to_json :: "DelegationRewardsResponse \<Rightarrow> json" where
  "DelegationRewardsResponse_to_json x = JObj (
     fld ''rewards'' (json_slice DecCoin_to_json (DelegationRewardsResponse_Rewards x)))"

record DelegatorReward =
  DelegatorReward_Reward :: "DecCoin slice"
  DelegatorReward_ValidatorAddress :: string

definition DelegatorReward_to_json :: "DelegatorReward \<Rightarrow> json" where
  "DelegatorReward_to_json x = JObj (
     fld ''reward'' (json_slice DecCoin_to_json (DelegatorReward_Reward x)) @
     fld ''validator_address'' (JStr (DelegatorReward_ValidatorAddress x)))"

record DelegationTotalRewardsResponse =
  DelegationTotalRewardsResponse_Rewards :: "DelegatorReward slice"
  DelegationTotalRewardsResponse_Total :: "DecCoin slice"

definition DelegationTotalRewardsResponse_to_json :: "DelegationTotalRewardsResponse \<Rightarrow> json" where
  "DelegationTotalRewardsResponse_to_json x = JObj (
     fld ''rewards'' (json_slice DelegatorReward_to_json (DelegationTotalRewardsResponse_Rewards x)) @
     fld ''total'' (json_slice DecCoin_to_json (DelegationTotalRewardsResponse_Total x)))"

record DelegatorValidatorsResponse =
  DelegatorValidatorsResponse_Validators :: "string slice"

definition DelegatorValidatorsResponse_to_json :: "DelegatorValidatorsResponse \<Rightarrow> json" where
  "DelegatorValidatorsResponse_to_json x = JObj (
     fld ''validators'' (json_slice JStr (DelegatorValidatorsResponse_Validators x)))"

record RawRangeEntry =
  RawRangeEntry_Key :: byte_slice
  RawRangeEntry_Value :: byte_slice

definition RawRangeEntry_zero :: RawRangeEntry where
  "RawRangeEntry_zero = \<lparr>RawRangeEntry_Key = None, RawRangeEntry_Value = None\<rparr>"

definition RawRangeEntry_MarshalJSON :: "RawRangeEntry \<Rightarrow> json" where
  "RawRangeEntry_MarshalJSON r = json_slice json_bytes (Some [RawRangeEntry_Key r, RawRangeEntry_Value r])"

definition RawRangeEntry_UnmarshalJSON :: "json \<Rightarrow> RawRangeEntry \<Rightarrow> (json_error + RawRangeEntry) go" where
  "RawRangeEntry_UnmarshalJSON data r = (case run_decoder (dec_slice None dec_bytes) data None of
     Panics p \<Rightarrow> Panics p
   | Return (Inl err) \<Rightarrow> Return (Inl err)
   | Return (Inr arr) \<Rightarrow>
       if slice_len arr \<noteq> 2
       then Return (Inl (UnmarshalerError
         (''invalid RawRange entry: expected array of length 2, got '' @ dec (slice_len arr))))
       else Return (Inr (r\<lparr>RawRangeEntry_Key := elems arr ! 0, RawRangeEntry_Value := elems arr ! 1\<rparr>)))"

interpretation RawRangeEntry_codec: json_codec RawRangeEntry_MarshalJSON
    "dec_unmarshaler RawRangeEntry_UnmarshalJSON" RawRangeEntry_zero "\<lambda>x. x" "\<lambda>_. True"
  by unfold_locales (simp_all add: RawRangeEntry_MarshalJSON_def RawRangeEntry_UnmarshalJSON_def
      RawRangeEntry_zero_def dec_unmarshaler_def run_decoder_def json_slice_def)

record RawRangeResponse =
  RawRangeResponse_Data :: "RawRangeEntry slice"
  RawRangeResponse_NextKey :: byte_slice

definition RawRangeResponse_zero :: RawRangeResponse where
  "RawRangeResponse_zero = \<lparr>RawRangeResponse_Data = None,
     RawRangeResponse_NextKey = None\<rparr>"

definition RawRangeResponse_to_json :: "RawRangeResponse \<Rightarrow> json" where
  "RawRangeResponse_to_json x = JObj (
     fld ''data'' (Array_MarshalJSON RawRangeEntry_MarshalJSON (RawRangeResponse_Data x)) @
     fld ''next_key'' (json_bytes (RawRangeResponse_NextKey x)))"

definition RawRangeResponse_decode :: "RawRangeResponse decoder" where
  "RawRangeResponse_decode = dec_struct (
     dec_field ''data'' (dec_unmarshaler (Array_UnmarshalJSON RawRangeEntry_zero (dec_unmarshaler RawRangeEntry_UnmarshalJSON))) RawRangeResponse_Data RawRangeResponse_Data_update @
     dec_field ''next_key'' dec_bytes RawRangeResponse_NextKey RawRangeResponse_NextKey_update)"

definition RawRangeResponse_norm :: "RawRangeResponse \<Rightarrow> RawRangeResponse" where
  "RawRangeResponse_norm x = x\<lparr>RawRangeResponse_Data := Some (elems (RawRangeResponse_Data x))\<rparr>"

interpretation RawRangeResponse_codec: json_codec RawRangeResponse_to_json RawRangeResponse_decode RawRangeResponse_zero RawRangeResponse_norm "\<lambda>_. True"
  by (unfold_locales, simp add: RawRangeResponse_to_json_def,
    unfold RawRangeResponse_decode_def RawRangeResponse_to_json_def RawRangeResponse_zero_def dec_struct.simps, rule trans,
    ((rule dec_members_fld_last dec_members_fld, simp add: codec_simps, simp)
     | (rule dec_members_omit_last dec_members_omit, simp add: codec_simps, simp del: not_None_eq, simp))+,
    simp add: RawRangeResponse_norm_def)

record ContractInfoResponse =
  ContractInfoResponse_CodeID :: u64
  ContractInfoResponse_Creator :: string
  ContractInfoResponse_Admin :: string
  ContractInfoResponse_Pinned :: bool
  ContractInfoResponse_IBCPort :: string
  ContractInfoResponse_IBC2Port :: string

definition ContractInfoResponse_to_json :: "ContractInfoResponse \<Rightarrow> json" where
  "ContractInfoResponse_to_json x = JObj (
     fld ''code_id'' (json_u64 (ContractInfoResponse_CodeID x)) @
     fld ''creator'' (JStr (ContractInfoResponse_Creator x)) @
     fld_omit ''admin'' (ContractInfoResponse_Admin x = []) (JStr (ContractInfoResponse_Admin x)) @
     fld ''pinned'' (JBool (ContractInfoResponse_Pinned x)) @
     fld_omit ''ibc_port'' (ContractInfoResponse_IBCPort x = []) (JStr (ContractInfoResponse_IBCPort x)) @
     fld_omit ''ibc2_port'' (ContractInfoResponse_IBC2Port x = []) (JStr (ContractInfoResponse_IBC2Port x)))"

record CodeInfoResponse =
  CodeInfoResponse_CodeID :: u64
  CodeInfoResponse_Creator :: string
  CodeInfoResponse_Checksum :: byte_slice

definition CodeInfoResponse_zero :: CodeInfoResponse where
  "CodeInfoResponse_zero = \<lparr>CodeInfoResponse_CodeID = 0,
     CodeInfoResponse_Creator = [],
     CodeInfoResponse_Checksum = None\<rparr>"

definition CodeInfoResponse_to_json :: "CodeInfoResponse \<Rightarrow> json" where
  "CodeInfoResponse_to_json x = JObj (
     fld ''code_id'' (json_u64 (CodeInfoResponse_CodeID x)) @
     fld ''creator'' (JStr (CodeInfoResponse_Creator x)) @
     fld ''checksum'' (Checksum_MarshalJSON (CodeInfoResponse_Checksum x)))"

definition CodeInfoResponse_decode :: "CodeInfoResponse decoder" where
  "CodeInfoResponse_decode = dec_struct (
     dec_field ''code_id'' dec_uint CodeInfoResponse_CodeID CodeInfoResponse_CodeID_update @
     dec_field ''creator'' dec_string CodeInfoResponse_Creator CodeInfoResponse_Creator_update @
     dec_field ''checksum'' (dec_unmarshaler Checksum_UnmarshalJSON) CodeInfoResponse_Checksum CodeInfoResponse_Checksum_update)"

definition CodeInfoResponse_valid :: "CodeInfoResponse \<Rightarrow> bool" where
  "CodeInfoResponse_valid x \<longleftrightarrow> Checksum_valid (CodeInfoResponse_Checksum x)"

interpretation CodeInfoResponse_codec: json_codec CodeInfoResponse_to_json CodeInfoResponse_decode CodeInfoResponse_zero "\<lambda>x. x" CodeInfoResponse_valid
  by (unfold_locales, simp add: CodeInfoResponse_to_json_def,
    unfold CodeInfoResponse_decode_def CodeInfoResponse_to_json_def CodeInfoResponse_zero_def dec_struct.simps, rule trans,
    ((rule dec_members_fld_last dec_members_fld, simp add: codec_simps, simp add: CodeInfoResponse_valid_def)
     | (rule dec_members_omit_last dec_members_omit, simp add: codec_simps, simp add: CodeInfoResponse_valid_def del: not_None_eq, simp))+,
    simp)

section \<open>Results\<close>

record QueryResult =
  QueryResult_Ok :: byte_slice
  QueryResult_Err :: string

definition QueryResult_zero :: QueryResult where
  "QueryResult_zero = \<lparr>QueryResult_Ok = None,
     QueryResult_Err = []\<rparr>"

definition queryResultImpl_to_json :: "QueryResult \<Rightarrow> json" where
  "queryResultImpl_to_json x = JObj (
     fld_omit ''ok'' (slice_len (QueryResult_Ok x) = 0) (json_bytes (QueryResult_Ok x)) @
     fld_omit ''error'' (QueryResult_Err x = []) (JStr (QueryResult_Err x)))"

definition QueryResult_MarshalJSON :: "QueryResult \<Rightarrow> json" where
  "QueryResult_MarshalJSON q =
     (if slice_len (QueryResult_Ok q) = 0 \<and> length (QueryResult_Err q) = 0
      then JObj [(''ok'', JStr [])]
      else queryResultImpl_to_json q)"

definition QueryResult_decode :: "QueryResult decoder" where
  "QueryResult_decode = dec_struct (
     dec_field ''ok'' dec_bytes QueryResult_Ok QueryResult_Ok_update @
     dec_field ''error'' dec_string QueryResult_Err QueryResult_Err_update)"

definition QueryResult_norm :: "QueryResult \<Rightarrow> QueryResult" where
  "QueryResult_norm x = x\<lparr>QueryResult_Ok :=
     (if slice_len (QueryResult_Ok x) = 0 \<and> length (QueryResult_Err x) = 0 then Some []
      else omit_slice (QueryResult_Ok x))\<rparr>"

lemma queryResultImpl_decode:
  "QueryResult_decode (queryResultImpl_to_json x) QueryResult_zero =
     Dec (x\<lparr>QueryResult_Ok := omit_slice (QueryResult_Ok x)\<rparr>) None"
  by (unfold QueryResult_decode_def queryResultImpl_to_json_def QueryResult_zero_def dec_struct.simps)
    (rule trans, rule dec_members_omit_bytes [where upd = QueryResult_Ok_update], simp add: codec_simps,
      simp, rule dec_members_omit_last, simp add: codec_simps, simp, simp, simp)

lemma QueryResult_decode_empty:
  "QueryResult_decode (JObj [(''ok'', JStr [])]) QueryResult_zero = Dec \<lparr>QueryResult_Ok = Some [], QueryResult_Err = []\<rparr> None"
  by (simp add: QueryResult_decode_def QueryResult_zero_def codec_simps base64_decode_def b64_groups.simps)

interpretation QueryResult_codec: json_codec QueryResult_MarshalJSON QueryResult_decode
    QueryResult_zero QueryResult_norm "\<lambda>_. True"
  by unfold_locales (auto simp: QueryResult_MarshalJSON_def queryResultImpl_to_json_def
      [THEN arg_cong [where f = "\<lambda>j. j = JNull"]] queryResultImpl_decode QueryResult_decode_empty QueryResult_norm_def)

record QuerierResult =
  QuerierResult_Ok :: "QueryResult option"
  QuerierResult_Err :: "SystemError option"

definition QuerierResult_to_json :: "QuerierResult \<Rightarrow> json" where
  "QuerierResult_to_json x = JObj (
     fld_omit ''ok'' (QuerierResult_Ok x = None) (json_ptr QueryResult_MarshalJSON (QuerierResult_Ok x)) @
     fld_omit ''error'' (QuerierResult_Err x = None) (json_ptr SystemError_to_json (QuerierResult_Err x)))"

definition ToQuerierResult :: "byte_slice \<Rightarrow> error \<Rightarrow> QuerierResult go" where
  "ToQuerierResult response err = (case err of
     None \<Rightarrow> Return \<lparr>QuerierResult_Ok = Some \<lparr>QueryResult_Ok = response, QueryResult_Err = []\<rparr>,
       QuerierResult_Err = None\<rparr>
   | Some e \<Rightarrow> (case ToSystemError err of
       Some syserr \<Rightarrow> Return \<lparr>QuerierResult_Ok = None, QuerierResult_Err = Some syserr\<rparr>
     | None \<Rightarrow> go_bind (error_text e) (\<lambda>text.
         Return \<lparr>QuerierResult_Ok = Some \<lparr>QueryResult_Ok = None, QueryResult_Err = text\<rparr>,
           QuerierResult_Err = None\<rparr>)))"

text \<open>
  The \<open>Querier\<close> interface over a state \<open>'s\<close> of the chain.  \<open>json_err\<close> renders an error of
  \<open>encoding/json\<close>.
\<close>

record 's querier =
  Query :: "QueryRequest \<Rightarrow> u64 \<Rightarrow> 's \<Rightarrow> (byte_slice \<times> error) go \<times> 's"
  QuerierGasConsumed :: "'s \<Rightarrow> u64 go \<times> 's"

definition RustQuery ::
    "(json_error \<Rightarrow> string) \<Rightarrow> 's querier \<Rightarrow> byte_slice \<Rightarrow> u64 \<Rightarrow> 's \<Rightarrow> QuerierResult go \<times> 's" where
  "RustQuery json_err q binRequest gasLimit s =
     (case json_Unmarshal QueryRequest_decode (elems binRequest) QueryRequest_zero of
        Panics p \<Rightarrow> (Panics p, s)
      | Return (Inl err) \<Rightarrow> (Return \<lparr>QuerierResult_Ok = None,
          QuerierResult_Err = Some (SystemError_zero\<lparr>SystemError_InvalidRequest :=
            Some \<lparr>InvalidRequest_Err = json_err err, InvalidRequest_Request = binRequest\<rparr>\<rparr>)\<rparr>, s)
      | Return (Inr request) \<Rightarrow> (case Query q request gasLimit s of
          (Panics p, s') \<Rightarrow> (Panics p, s')
        | (Return (bz, err), s') \<Rightarrow> (ToQuerierResult bz err, s')))"

end
