(* ===== verification/TypesSpec.thy ===== *)
theory TypesSpec
  imports CosmosMsg Queries
begin

text \<open>
  What package \<open>types\<close> promises of three of its types that are not plain data: checksums
  (\<open>checksum.go\<close>), messages with an old and a new name of a field (\<open>msg.go\<close>) and the results of
  queries (\<open>queries.go\<close>, \<open>systemerror.go\<close>).
\<close>

section \<open>Checksums\<close>

definition lower_hex :: "char \<Rightarrow> char" where
  "lower_hex c = (if 65 \<le> ord c \<and> ord c \<le> 70 then byte_of (ord c + 32) else c)"

lemma hex_digit_unhex: "unhex c = Some x \<Longrightarrow> hex_digit x = lower_hex c"
  by (auto simp: unhex_def Let_def hex_digit_def lower_hex_def add.commute split: if_splits)

lemma hex_encode_decode: "hex_decode s = Inr d \<Longrightarrow> hex_encode d = map lower_hex s"
proof (induction s arbitrary: d rule: hex_decode.induct)
  case (3 a b s)
  from 3(2) obtain x y t where xy: "unhex a = Some x" "unhex b = Some y" "hex_decode s = Inr t" "d = byte_of (16 * x + y) # t"
    by (auto split: option.splits sum.splits)
  with 3(1) have "hex_encode t = map lower_hex s" by auto
  moreover have "ord (byte_of (16 * x + y)) = 16 * x + y" using unhex_less [OF xy(1)] unhex_less [OF xy(2)] by simp
  ultimately show ?case using xy hex_digit_unhex unhex_less [OF xy(2)] by (simp add: hex_encode_def)
qed (auto simp: hex_encode_def split: if_splits)



section \<open>Messages\<close>

text \<open>
  C36: a message comes back from its JSON form, up to empty slices that are written as absent.  The old
  name \<open>stargate\<close> of the variant \<open>any\<close> is read as \<open>any\<close>, and a message that has both is refused.
\<close>

theorem cosmos_messages:
  assumes "CosmosMsg_valid m" "wf_json (CosmosMsg_to_json m)" "json_depth (CosmosMsg_to_json m) \<le> maxNestingDepth"
  shows "json_Unmarshal (dec_unmarshaler CosmosMsg_UnmarshalJSON) (json_print (CosmosMsg_to_json m)) CosmosMsg_zero =
      Return (Inr (CosmosMsg_norm m)) \<and>
    CosmosMsg_UnmarshalJSON (JObj [(''stargate'', AnyMsg_to_json a)]) old = Return (Inr (CosmosMsg_zero\<lparr>CosmosMsg_Any := Some a\<rparr>)) \<and>
    CosmosMsg_UnmarshalJSON (JObj [(''any'', AnyMsg_to_json a)]) old = Return (Inr (CosmosMsg_zero\<lparr>CosmosMsg_Any := Some a\<rparr>)) \<and>
    (\<exists>err. CosmosMsg_UnmarshalJSON (JObj [(''any'', AnyMsg_to_json a), (''stargate'', AnyMsg_to_json b)]) old = Return (Inl err))"
proof -
  have ptr: "dec_ptr AnyMsg_zero AnyMsg_decode (AnyMsg_to_json x) None = Dec (Some x) None" for x
    by (simp add: dec_ptr_def)
  have "InternalCosmosMsg_decode (JObj [(''stargate'', AnyMsg_to_json a)]) InternalCosmosMsg_zero =
      Dec (InternalCosmosMsg_zero\<lparr>InternalCosmosMsg_Stargate := Some a\<rparr>) None"
    "InternalCosmosMsg_decode (JObj [(''any'', AnyMsg_to_json a)]) InternalCosmosMsg_zero =
      Dec (InternalCosmosMsg_zero\<lparr>InternalCosmosMsg_Any := Some a\<rparr>) None"
    "InternalCosmosMsg_decode (JObj [(''any'', AnyMsg_to_json a), (''stargate'', AnyMsg_to_json b)]) InternalCosmosMsg_zero =
      Dec (InternalCosmosMsg_zero\<lparr>InternalCosmosMsg_Any := Some a, InternalCosmosMsg_Stargate := Some b\<rparr>) None"
    by (simp_all add: InternalCosmosMsg_decode_def InternalCosmosMsg_zero_def codec_simps ptr)
  then show ?thesis
    using CosmosMsg_codec.unmarshal_print [OF assms]
    by (simp add: CosmosMsg_UnmarshalJSON_def run_decoder_def InternalCosmosMsg_zero_def CosmosMsg_zero_def)
qed

theorem cosmos_messages_witness:
  "json_Unmarshal (dec_unmarshaler CosmosMsg_UnmarshalJSON)
      (json_print (CosmosMsg_to_json (CosmosMsg_zero\<lparr>CosmosMsg_Any := Some \<lparr>AnyMsg_TypeURL = ''/x'', AnyMsg_Value = Some []\<rparr>\<rparr>))) CosmosMsg_zero =
    Return (Inr (CosmosMsg_zero\<lparr>CosmosMsg_Any := Some \<lparr>AnyMsg_TypeURL = ''/x'', AnyMsg_Value = Some []\<rparr>\<rparr>))"
proof -
  let ?m = "CosmosMsg_zero\<lparr>CosmosMsg_Any := Some \<lparr>AnyMsg_TypeURL = ''/x'', AnyMsg_Value = Some []\<rparr>\<rparr>"
  have json: "CosmosMsg_to_json ?m = JObj [(''any'', JObj [(''type_url'', JStr ''/x''), (''value'', JStr [])])]"
    by (simp add: CosmosMsg_to_json_def CosmosMsg_zero_def AnyMsg_to_json_def fld_def fld_omit_def json_ptr_def json_bytes_def)
  have "CosmosMsg_valid ?m" "wf_json (CosmosMsg_to_json ?m)" "json_depth (CosmosMsg_to_json ?m) \<le> maxNestingDepth"
    unfolding json by (simp_all add: CosmosMsg_valid_def CosmosMsg_zero_def maxNestingDepth_def)
  from cosmos_messages [OF this] show ?thesis by (simp add: CosmosMsg_norm_def CosmosMsg_zero_def)
qed

section \<open>Errors of queries\<close>

text \<open>
  C38: an error of the chain's querier is not lost.  One of the system's errors, by value or by pointer,
  becomes the structured error with exactly its variant set and the same text; any other becomes an
  error of the contract with its text; only a typed nil pointer panics.
\<close>

theorem querier_errors:
  "case ToQuerierResult response (Some e) of
     Return q \<Rightarrow>
       (\<exists>s. q = \<lparr>QuerierResult_Ok = None, QuerierResult_Err = Some s\<rparr> \<and> error_text e = SystemError_Error s \<and>
         (SystemError_variants s = 1 \<or> e = SystemErrorVal s \<or> e = SystemErrorPtr (Some s))) \<or>
       (\<exists>t. q = \<lparr>QuerierResult_Ok = Some \<lparr>QueryResult_Ok = None, QueryResult_Err = t\<rparr>, QuerierResult_Err = None\<rparr> \<and>
         error_text e = Return t \<and> (e = OutOfGasErrorVal \<or> e = OtherError t))
   | Panics p \<Rightarrow> isNil (Some e)"
  by (cases e) (auto simp: ToQuerierResult_def ToSystemError_def ptr_error_def SystemError_variants_def SystemError_zero_def
      SystemError_Error_def split: option.splits)

end
