(* ===== verification/IteratorFrames.thy ===== *)
theory IteratorFrames
  imports Prelude GoStd
begin

text \<open>
  \<open>internal/api/iterator.go\<close>: the global table of iterators, one frame per contract call, and the
  counter of call IDs.  The two mutexes make every operation atomic, so the state is one record and an
  interleaving of calls is a sequence of operations.  An entry of a frame is an iterator or nil
  (\<open>None\<close>); a frame that is missing in the map is the nil slice.
\<close>

section \<open>State and operations\<close>

type_synonym 'i frame = "'i option list"

record 'i iter_state =
  iteratorFrames :: "u64 \<rightharpoonup> 'i frame"
  latestCallID :: u64

definition iter_init :: "'i iter_state" where
  "iter_init = \<lparr>iteratorFrames = (\<lambda>_. None), latestCallID = 0\<rparr>"

definition startCall :: "'i iter_state \<Rightarrow> u64 \<times> 'i iter_state" where
  "startCall st = (latestCallID st + 1, st\<lparr>latestCallID := latestCallID st + 1\<rparr>)"

definition removeFrame :: "u64 \<Rightarrow> 'i iter_state \<Rightarrow> 'i frame option \<times> 'i iter_state" where
  "removeFrame callID st =
     (iteratorFrames st callID, st\<lparr>iteratorFrames := (iteratorFrames st)(callID := None)\<rparr>)"

text \<open>The loop of \<open>endCall\<close>; \<open>close\<close> is the \<open>Close\<close> method over the state \<open>'s\<close> of the iterators.\<close>

fun close_all :: "('i \<Rightarrow> 's \<Rightarrow> unit go \<times> 's) \<Rightarrow> 'i frame \<Rightarrow> 's \<Rightarrow> unit go \<times> 's" where
  "close_all close [] s = (Return (), s)"
| "close_all close (None # its) s = (Panics nil_deref, s)"
| "close_all close (Some it # its) s = (case close it s of
     (Return u, s') \<Rightarrow> close_all close its s'
   | (Panics p, s') \<Rightarrow> (Panics p, s'))"

definition endCall ::
    "('i \<Rightarrow> 's \<Rightarrow> unit go \<times> 's) \<Rightarrow> u64 \<Rightarrow> 'i iter_state \<Rightarrow> 's \<Rightarrow> (unit go \<times> 's) \<times> 'i iter_state" where
  "endCall close callID st s =
     (let (remove, st') = removeFrame callID st
      in (close_all close (case remove of None \<Rightarrow> [] | Some its \<Rightarrow> its) s, st'))"

definition indexToIteratorID :: "int \<Rightarrow> u64 \<times> bool" where
  "indexToIteratorID index =
     (if index < 0 \<or> index > 2147483647 then (888888888, False) else (of_int index + 1, True))"

definition iteratorIdToIndex :: "u64 \<Rightarrow> int \<times> bool" where
  "iteratorIdToIndex i =
     (if i < 1 \<or> i > 2147483647 then (777777777, False) else (uint i - 1, True))"

definition storeIterator ::
    "u64 \<Rightarrow> 'i option \<Rightarrow> nat \<Rightarrow> 'i iter_state \<Rightarrow> (u64 \<times> string option) \<times> 'i iter_state" where
  "storeIterator callID it frameLenLimit st =
     (let fr = (case iteratorFrames st callID of None \<Rightarrow> [] | Some its \<Rightarrow> its);
          new_index = length fr
      in if new_index \<ge> frameLenLimit
         then ((0, Some (''reached iterator limit ('' @ dec frameLenLimit @ '')'')), st)
         else (let st' = st\<lparr>iteratorFrames := (iteratorFrames st)(callID \<mapsto> fr @ [it])\<rparr>;
                   (iterator_id, ok) = indexToIteratorID (int new_index)
               in if \<not> ok then ((0, Some ''could not convert index to iterator ID''), st')
                  else ((iterator_id, None), st')))"

definition retrieveIterator :: "u64 \<Rightarrow> u64 \<Rightarrow> 'i iter_state \<Rightarrow> 'i option" where
  "retrieveIterator callID iteratorID st =
     (let (indexInFrame, ok) = iteratorIdToIndex iteratorID
      in if \<not> ok then None
         else case iteratorFrames st callID of
           None \<Rightarrow> None
         | Some myFrame \<Rightarrow>
             if indexInFrame \<ge> int (length myFrame) then None
             else myFrame ! nat indexInFrame)"

section \<open>Iterator IDs\<close>

lemma iteratorIdToIndex_simps:
  "iteratorIdToIndex i = (if 1 \<le> uint i \<and> uint i \<le> 2147483647 then (uint i - 1, True)
     else (777777777, False))"
  by (auto simp: iteratorIdToIndex_def word_less_def)

lemma uint_index: "0 \<le> n \<Longrightarrow> n \<le> 2147483647 \<Longrightarrow> uint (fst (indexToIteratorID n)) = n + 1"
  by (simp add: indexToIteratorID_def uint_word_ariths unsigned_of_int take_bit_eq_mod)

lemma index_id_round_trip:
  "0 \<le> n \<Longrightarrow> n < 2147483647 \<Longrightarrow> iteratorIdToIndex (fst (indexToIteratorID n)) = (n, True)"
  by (simp add: iteratorIdToIndex_simps uint_index)

lemma id_index_round_trip:
  assumes "iteratorIdToIndex i = (n, True)"
  shows "indexToIteratorID n = (i, True)" "0 \<le> n" "n < 2147483647"
  using assms by (auto simp: indexToIteratorID_def iteratorIdToIndex_simps split: if_splits)

section \<open>The registry: what the callbacks rely on\<close>

text \<open>
  The contract of the table towards the callbacks, for frames of at most \<open>limit\<close> entries: what is
  stored under a call is found under the returned ID of that call until the call ends, and nowhere
  else.
\<close>

locale iterator_registry =
  fixes store :: "u64 \<Rightarrow> 'i option \<Rightarrow> 'st \<Rightarrow> (u64 \<times> string option) \<times> 'st"
    and retrieve :: "u64 \<Rightarrow> u64 \<Rightarrow> 'st \<Rightarrow> 'i option"
    and remove :: "u64 \<Rightarrow> 'st \<Rightarrow> 'st"
  assumes retrieve_stored: "store c it st = ((i, None), st') \<Longrightarrow> retrieve c i st' = it"
    and retrieve_other:
      "store c it st = (r, st') \<Longrightarrow> c' \<noteq> c \<or> i' \<noteq> fst r \<Longrightarrow> retrieve c' i' st' = retrieve c' i' st"
    and stored_fresh: "store c it st = ((i, None), st') \<Longrightarrow> retrieve c i st = None"
    and store_error: "store c it st = ((i, Some e), st') \<Longrightarrow> i = 0 \<and> st' = st"
    and removed: "retrieve c' i (remove c st) = (if c' = c then None else retrieve c' i st)"
begin

text \<open>An iterator survives everything other calls do and every later \<open>store\<close> of its own call.\<close>

lemma retrieve_stable:
  assumes "store c it st = ((i, None), st')" "store c' it' st' = (r, st'')" "it \<noteq> None"
  shows "retrieve c i st'' = it"
proof (cases "c = c' \<and> i = fst r \<and> snd r = None")
  case True
  then have "retrieve c i st' = None"
    using stored_fresh assms(2) by (cases r) auto
  with retrieve_stored [OF assms(1)] assms(3) show ?thesis by simp
next
  case False
  show ?thesis
  proof (cases "snd r")
    case None
    with False have "c \<noteq> c' \<or> i \<noteq> fst r" by auto
    with retrieve_other [OF assms(2)] retrieve_stored [OF assms(1)] show ?thesis by metis
  next
    case (Some e)
    with store_error [of c' it' st' "fst r" e st''] assms(2) have "st'' = st'" by (cases r) auto
    with retrieve_stored [OF assms(1)] show ?thesis by simp
  qed
qed

lemma remove_isolated: "c' \<noteq> c \<Longrightarrow> retrieve c' i (remove c st) = retrieve c' i st"
  by (simp add: removed)

end

abbreviation frame_of :: "'i iter_state \<Rightarrow> u64 \<Rightarrow> 'i frame" where
  "frame_of st c \<equiv> (case iteratorFrames st c of None \<Rightarrow> [] | Some its \<Rightarrow> its)"

text \<open>\<open>retrieveIterator\<close> reads the frame at the position of the ID.\<close>

lemma retrieveIterator_frame:
  "retrieveIterator c i st =
     (if 1 \<le> uint i \<and> uint i \<le> 2147483647 \<and> uint i \<le> int (length (frame_of st c))
      then frame_of st c ! nat (uint i - 1) else None)"
  by (auto simp: retrieveIterator_def iteratorIdToIndex_simps split: option.split)

lemma storeIterator_ok:
  assumes "length (frame_of st c) < limit" "limit \<le> 2147483647"
  shows "storeIterator c it limit st =
    ((fst (indexToIteratorID (int (length (frame_of st c)))), None),
     st\<lparr>iteratorFrames := (iteratorFrames st)(c \<mapsto> frame_of st c @ [it])\<rparr>)"
  using assms by (simp add: storeIterator_def Let_def indexToIteratorID_def)

lemma storeIterator_full:
  "\<not> length (frame_of st c) < limit \<Longrightarrow>
     storeIterator c it limit st = ((0, Some (''reached iterator limit ('' @ dec limit @ '')'')), st)"
  by (simp add: storeIterator_def)

lemma storeIterator_cases:
  assumes "limit \<le> 2147483647"
  obtains (ok) "length (frame_of st c) < limit"
      "storeIterator c it limit st =
        ((fst (indexToIteratorID (int (length (frame_of st c)))), None),
         st\<lparr>iteratorFrames := (iteratorFrames st)(c \<mapsto> frame_of st c @ [it])\<rparr>)"
    | (full) "\<not> length (frame_of st c) < limit"
      "storeIterator c it limit st = ((0, Some (''reached iterator limit ('' @ dec limit @ '')'')), st)"
  using storeIterator_ok [OF _ assms] storeIterator_full by (metis (no_types))

lemma registry_laws:
  assumes limit: "limit \<le> 2147483647"
  shows "iterator_registry (\<lambda>c it. storeIterator c it limit) retrieveIterator
    (\<lambda>c st. snd (removeFrame c st))"
proof
  fix c c' i i' :: u64 and it :: "'a option" and st st' :: "'a iter_state" and e
    and r :: "u64 \<times> string option"
  let ?n = "int (length (frame_of st c))"
  have u: "uint (fst (indexToIteratorID ?n)) = ?n + 1" if "length (frame_of st c) < limit"
    using that limit by (intro uint_index) auto
  have new: "frame_of (st\<lparr>iteratorFrames := (iteratorFrames st)(c \<mapsto> frame_of st c @ [it])\<rparr>) d
      = (if d = c then frame_of st c @ [it] else frame_of st d)" for d
    by simp
  show "retrieveIterator c i st' = it"
    if "storeIterator c it limit st = ((i, None), st')"
    using limit that
  proof (cases rule: storeIterator_cases [of limit st c it])
    case ok
    with that u limit show ?thesis unfolding retrieveIterator_frame by auto
  qed auto
  show "retrieveIterator c i st = None"
    if "storeIterator c it limit st = ((i, None), st')"
    using limit that
  proof (cases rule: storeIterator_cases [of limit st c it])
    case ok
    with that u show ?thesis unfolding retrieveIterator_frame by auto
  qed auto
  show "retrieveIterator c' i' st' = retrieveIterator c' i' st"
    if "storeIterator c it limit st = (r, st')" "c' \<noteq> c \<or> i' \<noteq> fst r"
    using limit that
  proof (cases rule: storeIterator_cases [of limit st c it])
    case ok
    then have fr: "frame_of st' d = (if d = c then frame_of st c @ [it] else frame_of st d)" for d
      using that(1) new by auto
    have "uint i' \<noteq> ?n + 1" if "c' = c"
      using that \<open>c' \<noteq> c \<or> i' \<noteq> fst r\<close> ok u [OF ok(1)] \<open>storeIterator c it limit st = (r, st')\<close>
      by (metis fst_conv word_uint_eq_iff)
    then show ?thesis
      unfolding retrieveIterator_frame fr by (auto simp: nth_append)
  qed auto
  show "i = 0 \<and> st' = st" if "storeIterator c it limit st = ((i, Some e), st')"
    using limit that by (cases rule: storeIterator_cases [of limit st c it]) auto
  show "retrieveIterator c' i (snd (removeFrame c st)) = (if c' = c then None else retrieveIterator c' i st)"
    by (simp add: retrieveIterator_def removeFrame_def iteratorIdToIndex_simps)
qed

text \<open>The limit \<open>cScan\<close> passes, from \<open>callbacks.go\<close>.\<close>

definition frameLenLimit :: nat where
  "frameLenLimit = 32768"

interpretation registry: iterator_registry "\<lambda>c it. storeIterator c it frameLenLimit" retrieveIterator
    "\<lambda>c st. snd (removeFrame c st)"
  by (rule registry_laws) (simp add: frameLenLimit_def)

section \<open>All interleavings of contract calls\<close>

text \<open>
  \<open>reachable n A st\<close>: after \<open>n\<close> calls were started, those in \<open>A\<close> not yet ended, the table can be
  \<open>st\<close>.  A call in progress stores iterators; its end removes its frame.
\<close>

inductive reachable :: "nat \<Rightarrow> u64 set \<Rightarrow> 'i iter_state \<Rightarrow> bool" where
  init: "reachable 0 {} iter_init"
| start: "reachable n A st \<Longrightarrow> startCall st = (c, st') \<Longrightarrow> reachable (Suc n) (insert c A) st'"
| store: "reachable n A st \<Longrightarrow> c \<in> A \<Longrightarrow> storeIterator c it frameLenLimit st = (r, st')
    \<Longrightarrow> reachable n A st'"
| end_call: "reachable n A st \<Longrightarrow> c \<in> A \<Longrightarrow> removeFrame c st = (fr, st')
    \<Longrightarrow> reachable n (A - {c}) st'"

definition frames_inv :: "nat \<Rightarrow> u64 set \<Rightarrow> 'i iter_state \<Rightarrow> bool" where
  "frames_inv n A st \<longleftrightarrow>
     latestCallID st = of_nat n \<and>
     (\<forall>c\<in>A. \<exists>k\<in>{1..n}. c = of_nat k) \<and>
     (\<forall>c fr. iteratorFrames st c = Some fr \<longrightarrow> c \<in> A \<and> fr \<noteq> [] \<and> length fr \<le> frameLenLimit)"

lemma frames_inv_store:
  assumes "frames_inv n A st" "c \<in> A" "storeIterator c it frameLenLimit st = (r, st')"
  shows "frames_inv n A st'"
proof -
  have "frameLenLimit \<le> 2147483647" by (simp add: frameLenLimit_def)
  then show ?thesis
  proof (cases rule: storeIterator_cases [of _ st c it])
    case ok
    then have st': "st' = st\<lparr>iteratorFrames := (iteratorFrames st)(c \<mapsto> frame_of st c @ [it])\<rparr>"
      using assms(3) by simp
    show ?thesis
      using assms(1,2) ok(1) unfolding frames_inv_def st' by simp
  next
    case full
    with assms show ?thesis by simp
  qed
qed

lemma reachable_inv: "reachable n A st \<Longrightarrow> frames_inv n A st"
proof (induction rule: reachable.induct)
  case init
  show ?case by (simp add: frames_inv_def iter_init_def)
next
  case (start n A st c st')
  then have c: "c = of_nat (Suc n)" "st' = st\<lparr>latestCallID := of_nat (Suc n)\<rparr>"
    by (auto simp: frames_inv_def startCall_def)
  with start.IH show ?case
    unfolding frames_inv_def c
    by simp (metis atLeastAtMost_iff le_SucI of_nat_Suc le_refl Suc_le_mono le0)
next
  case (store n A st c it r st')
  then show ?case by (blast intro: frames_inv_store)
next
  case (end_call n A st c fr st')
  then have st': "st' = st\<lparr>iteratorFrames := (iteratorFrames st)(c := None)\<rparr>"
    by (auto simp: removeFrame_def)
  show ?case using end_call.IH unfolding frames_inv_def st' by simp
qed

lemma of_nat_fresh: "Suc n < 2 ^ 64 \<Longrightarrow> k \<in> {1..n} \<Longrightarrow> (of_nat (Suc n) :: u64) \<noteq> of_nat k"
  by (simp only: word_of_nat_eq_iff take_bit_nat_eq_self_iff) (simp add: take_bit_nat_eq_self)

lemma close_all_fold:
  assumes "\<And>it s. close it s = (Return (), f it s)" "fr = map Some its"
  shows "close_all close fr s = (Return (), fold f its s)"
  unfolding assms(2) by (induction its arbitrary: s) (simp_all add: assms(1))

section \<open>Properties\<close>

text \<open>
  C11: whatever calls start, store iterators and end, and in whichever order they interleave, the table
  holds frames of calls in progress only, none of them empty or beyond the limit.  Once every call
  has ended the table is empty.
\<close>

theorem reachable_frames:
  assumes "reachable n A st"
  shows "(\<forall>c fr. iteratorFrames st c = Some fr \<longrightarrow> c \<in> A \<and> 0 < length fr \<and> length fr \<le> frameLenLimit)
    \<and> (A = {} \<longrightarrow> iteratorFrames st = (\<lambda>_. None))"
  using reachable_inv [OF assms] unfolding frames_inv_def by auto

theorem reachable_frames_witness:
  "\<exists>st :: nat iter_state. reachable 1 {1} st \<and> iteratorFrames st 1 = Some [Some 7] \<and>
     length (the (iteratorFrames st 1)) \<le> frameLenLimit"
proof -
  define st1 where "st1 = (iter_init :: nat iter_state)\<lparr>latestCallID := 1\<rparr>"
  define st2 where "st2 = st1\<lparr>iteratorFrames := [1 \<mapsto> [Some 7]]\<rparr>"
  have "reachable (Suc 0) (insert 1 {}) st1"
    by (rule reachable.start [OF reachable.init]) (simp add: startCall_def iter_init_def st1_def)
  then have "reachable 1 {1} st2"
    using reachable.store [of 1 "{1}" st1 1 "Some 7" "(1, None)" st2]
    by (simp add: storeIterator_def frameLenLimit_def indexToIteratorID_def st1_def st2_def iter_init_def)
  moreover from reachable_frames [OF this, THEN conjunct1, rule_format, of 1 "[Some 7]"]
  have "length [Some (7::nat)] \<le> frameLenLimit" by (simp add: st2_def)
  ultimately show ?thesis by (intro exI [of _ st2]) (simp add: st2_def)
qed

text \<open>
  C24: as long as fewer than 2^64 - 1 calls were started, \<open>startCall\<close> returns an ID that no call in
  progress uses and for which the table holds no iterator.
\<close>

theorem startCall_fresh:
  assumes "reachable n A st" "Suc n < 2 ^ 64"
  shows "fst (startCall st) \<notin> A \<and> (\<forall>i. retrieveIterator (fst (startCall st)) i st = None)"
proof -
  from reachable_inv [OF assms(1)] have inv: "frames_inv n A st" .
  then have c: "fst (startCall st) = of_nat (Suc n)" by (simp add: frames_inv_def startCall_def)
  have "fst (startCall st) \<notin> A"
    using inv of_nat_fresh [OF assms(2)] unfolding c frames_inv_def by metis
  moreover from this have "iteratorFrames st (fst (startCall st)) = None"
    using inv unfolding frames_inv_def by (meson not_None_eq)
  ultimately show ?thesis by (simp add: retrieveIterator_def iteratorIdToIndex_simps)
qed

theorem startCall_fresh_witness:
  "fst (startCall (iter_init :: nat iter_state)) \<notin> {} \<and> retrieveIterator 1 1 (iter_init :: nat iter_state) = None"
  using startCall_fresh [OF reachable.init, where 'a = nat] by (simp add: startCall_def iter_init_def)

text \<open>
  C25: an iterator stored for a call is what \<open>retrieveIterator\<close> returns for that call and the returned
  ID, where it found nothing before, and no other entry of the table changes.  When the frame is full
  nothing is stored and the error names the limit.
\<close>

theorem storeIterator_retrieveIterator:
  assumes "storeIterator c it frameLenLimit st = ((i, err), st')"
  shows "(err = None \<longrightarrow> retrieveIterator c i st' = it \<and> retrieveIterator c i st = None) \<and>
    (err \<noteq> None \<longrightarrow> st' = st \<and> err = Some (''reached iterator limit (32768)'')) \<and>
    (\<forall>c' i'. c' \<noteq> c \<or> i' \<noteq> i \<longrightarrow> retrieveIterator c' i' st' = retrieveIterator c' i' st)"
proof (intro conjI impI allI)
  show "retrieveIterator c i st' = it" if "err = None"
    using registry.retrieve_stored [of c it st i st'] assms that by simp
  show "retrieveIterator c i st = None" if "err = None"
    using registry.stored_fresh [of c it st i st'] assms that by simp
  show "st' = st" if "err \<noteq> None"
    using registry.store_error [of c it st i _ st'] assms that by auto
  show "err = Some (''reached iterator limit (32768)'')" if "err \<noteq> None"
  proof -
    have "dec 32768 = ''32768''" by (simp add: dec.simps digit_lits)
    then have d: "dec frameLenLimit = ''32768''" by (simp only: frameLenLimit_def)
    have "frameLenLimit \<le> 2147483647" by (simp add: frameLenLimit_def)
    then show ?thesis
    proof (cases rule: storeIterator_cases [of _ st c it])
      case ok
      with that assms show ?thesis by simp
    next
      case full
      with assms show ?thesis by (simp add: d)
    qed
  qed
  show "retrieveIterator c' i' st' = retrieveIterator c' i' st" if "c' \<noteq> c \<or> i' \<noteq> i" for c' i'
    using registry.retrieve_other [OF assms, of c' i'] that by simp
qed

theorem storeIterator_retrieveIterator_witness:
  "retrieveIterator 3 1 (snd (storeIterator 3 (Some (7::nat)) frameLenLimit iter_init)) = Some 7"
  using storeIterator_retrieveIterator [of 3 "Some (7::nat)" iter_init 1 None
      "iter_init\<lparr>iteratorFrames := [3 \<mapsto> [Some 7]]\<rparr>"]
  by (simp add: storeIterator_def frameLenLimit_def indexToIteratorID_def iter_init_def)

end
