(* ===== verification/Memory.thy ===== *)
theory Memory
  imports Prelude
begin

text \<open>
  Passing bytes between Go and Rust: \<open>internal/api/memory.go\<close> and \<open>libwasmvm/src/memory.rs\<close>.  A view
  borrows the bytes of the other side, so its pointer is modelled by the bytes it points to (\<open>None\<close>
  is the null pointer).  An \<open>UnmanagedVector\<close> owns an allocation of Rust: \<open>heap\<close> holds the
  allocations that were given away as raw parts and not yet taken back.  Using a vector whose
  allocation is not in the heap is undefined behaviour, the result \<open>None\<close>.
\<close>

section \<open>Views of Go bytes\<close>

record ByteSliceView =
  bsv_is_nil :: bool
  bsv_ptr :: "string option"
  bsv_len :: u64

definition makeView :: "byte_slice \<Rightarrow> ByteSliceView" where
  "makeView s = (case s of
     None \<Rightarrow> \<lparr>bsv_is_nil = True, bsv_ptr = None, bsv_len = 0\<rparr>
   | Some bs \<Rightarrow>
       if length bs = 0 then \<lparr>bsv_is_nil = False, bsv_ptr = None, bsv_len = 0\<rparr>
       else \<lparr>bsv_is_nil = False, bsv_ptr = Some bs, bsv_len = of_nat (length bs)\<rparr>)"

text \<open>\<open>slice::from_raw_parts\<close>: reading beyond the bytes, or through null, is undefined.\<close>

definition from_raw_parts :: "string option \<Rightarrow> u64 \<Rightarrow> string option" where
  "from_raw_parts p n = (case p of
     None \<Rightarrow> None
   | Some bs \<Rightarrow> if unat n \<le> length bs then Some (take (unat n) bs) else None)"

text \<open>\<open>ByteSliceView::read\<close>; the outer option is definedness.\<close>

definition ByteSliceView_read :: "ByteSliceView \<Rightarrow> string option option" where
  "ByteSliceView_read v =
     (if bsv_is_nil v then Some None
      else if bsv_len v = 0 then Some (Some [])
      else map_option Some (from_raw_parts (bsv_ptr v) (bsv_len v)))"

section \<open>Views of Rust bytes\<close>

record U8SliceView =
  u8v_is_none :: bool
  u8v_ptr :: "string option"
  u8v_len :: u64

definition U8SliceView_new :: "string option \<Rightarrow> U8SliceView" where
  "U8SliceView_new source = (case source of
     Some data \<Rightarrow> \<lparr>u8v_is_none = False, u8v_ptr = (if data = [] then None else Some data),
       u8v_len = of_nat (length data)\<rparr>
   | None \<Rightarrow> \<lparr>u8v_is_none = True, u8v_ptr = None, u8v_len = 0\<rparr>)"

text \<open>
  \<open>C.GoBytes(ptr, cint(len))\<close>: the length is truncated to a C int, and a negative length panics.
  The outer option is definedness.
\<close>

definition gobytes_panic :: panic_value where
  "gobytes_panic = PanicValue ''errorString'' ''gobytes: length out of range''"

definition C_GoBytes :: "string option \<Rightarrow> u64 \<Rightarrow> byte_slice go option" where
  "C_GoBytes p n =
     (let k = sint (ucast n :: 32 word) in
      if k = 0 then Some (Return (Some []))
      else if k < 0 then Some (Panics gobytes_panic)
      else map_option (\<lambda>bs. Return (Some bs)) (from_raw_parts p (of_int k)))"

definition copyU8Slice :: "U8SliceView \<Rightarrow> byte_slice go option" where
  "copyU8Slice view =
     (if u8v_is_none view then Some (Return None)
      else if u8v_len view = 0 then Some (Return (Some []))
      else C_GoBytes (u8v_ptr view) (u8v_len view))"

section \<open>Vectors owned by Rust\<close>

record UnmanagedVector =
  uv_is_none :: bool
  uv_ptr :: nat
  uv_len :: u64
  uv_cap :: u64

text \<open>
  An allocation holds the bytes of the vector and has a capacity.  Addresses are handed out once, so a
  stale pointer is never valid again; address 0 is null.
\<close>

record heap =
  blocks :: "nat \<rightharpoonup> string \<times> u64"
  next_block :: nat

definition empty_heap :: heap where
  "empty_heap = \<lparr>blocks = (\<lambda>_. None), next_block = 1\<rparr>"

definition heap_ok :: "heap \<Rightarrow> bool" where
  "heap_ok h \<longleftrightarrow> 0 < next_block h \<and> (\<forall>p\<in>dom (blocks h). p < next_block h) \<and>
     (\<forall>p bs cap. blocks h p = Some (bs, cap) \<longrightarrow> length bs \<le> unat cap \<and> cap \<noteq> 0)"

text \<open>A \<open>Vec<u8>\<close>: its bytes and its capacity.  A vector without capacity has no allocation.\<close>

type_synonym rust_vec = "string \<times> u64"

definition UnmanagedVector_new :: "rust_vec option \<Rightarrow> heap \<Rightarrow> UnmanagedVector \<times> heap" where
  "UnmanagedVector_new source h = (case source of
     Some (data, cap) \<Rightarrow>
       if cap = 0 then (\<lparr>uv_is_none = False, uv_ptr = 0, uv_len = 0, uv_cap = 0\<rparr>, h)
       else (\<lparr>uv_is_none = False, uv_ptr = next_block h, uv_len = of_nat (length data), uv_cap = cap\<rparr>,
             h\<lparr>blocks := (blocks h)(next_block h \<mapsto> (data, cap)), next_block := Suc (next_block h)\<rparr>)
   | None \<Rightarrow> (\<lparr>uv_is_none = True, uv_ptr = 0, uv_len = 0, uv_cap = 0\<rparr>, h))"

text \<open>\<open>Vec::from(slice)\<close> allocates exactly the length.\<close>

definition vec_from :: "string \<Rightarrow> rust_vec" where
  "vec_from bs = (bs, of_nat (length bs))"

definition UnmanagedVector_some :: "string \<Rightarrow> heap \<Rightarrow> UnmanagedVector \<times> heap" where
  "UnmanagedVector_some data h = UnmanagedVector_new (Some (vec_from data)) h"

definition UnmanagedVector_none :: "heap \<Rightarrow> UnmanagedVector \<times> heap" where
  "UnmanagedVector_none h = UnmanagedVector_new None h"

definition UnmanagedVector_default :: "heap \<Rightarrow> UnmanagedVector \<times> heap" where
  "UnmanagedVector_default h = UnmanagedVector_none h"

text \<open>\<open>Vec::from_raw_parts\<close> takes the allocation back.\<close>

definition take_block :: "UnmanagedVector \<Rightarrow> heap \<Rightarrow> (rust_vec \<times> heap) option" where
  "take_block v h = (case blocks h (uv_ptr v) of
     Some (bs, cap) \<Rightarrow>
       if uv_cap v = cap \<and> unat (uv_len v) \<le> length bs
       then Some ((take (unat (uv_len v)) bs, cap), h\<lparr>blocks := (blocks h)(uv_ptr v := None)\<rparr>)
       else None
   | None \<Rightarrow> None)"

definition UnmanagedVector_consume :: "UnmanagedVector \<Rightarrow> heap \<Rightarrow> (rust_vec option \<times> heap) option" where
  "UnmanagedVector_consume v h =
     (if uv_is_none v then Some (None, h)
      else if uv_cap v = 0 then Some (Some ([], 0), h)
      else map_option (\<lambda>(vec, h'). (Some vec, h')) (take_block v h))"

definition new_unmanaged_vector :: "bool \<Rightarrow> string option \<Rightarrow> u64 \<Rightarrow> heap \<Rightarrow> (UnmanagedVector \<times> heap) option" where
  "new_unmanaged_vector is_nil p n h =
     (if is_nil then Some (UnmanagedVector_new None h)
      else if n = 0 then Some (UnmanagedVector_new (Some ([], 0)) h)
      else map_option (\<lambda>bs. UnmanagedVector_new (Some (vec_from bs)) h) (from_raw_parts p n))"

definition destroy_unmanaged_vector :: "UnmanagedVector \<Rightarrow> heap \<Rightarrow> heap option" where
  "destroy_unmanaged_vector v h = map_option snd (UnmanagedVector_consume v h)"

section \<open>The Go side of vectors\<close>

definition constructUnmanagedVector :: "bool \<Rightarrow> nat \<Rightarrow> u64 \<Rightarrow> u64 \<Rightarrow> UnmanagedVector" where
  "constructUnmanagedVector is_none p n cap =
     \<lparr>uv_is_none = is_none, uv_ptr = p, uv_len = n, uv_cap = cap\<rparr>"

definition uninitializedUnmanagedVector :: UnmanagedVector where
  "uninitializedUnmanagedVector = \<lparr>uv_is_none = False, uv_ptr = 0, uv_len = 0, uv_cap = 0\<rparr>"

definition newUnmanagedVector :: "byte_slice \<Rightarrow> heap \<Rightarrow> (UnmanagedVector \<times> heap) option" where
  "newUnmanagedVector data h = (case data of
     None \<Rightarrow> new_unmanaged_vector True None 0 h
   | Some bs \<Rightarrow>
       if length bs = 0 then new_unmanaged_vector False None 0 h
       else new_unmanaged_vector False (Some bs) (of_nat (length bs)) h)"

text \<open>The bytes behind the pointer of a vector.\<close>

definition vector_bytes :: "heap \<Rightarrow> UnmanagedVector \<Rightarrow> string option" where
  "vector_bytes h v = map_option fst (blocks h (uv_ptr v))"

definition copyAndDestroyUnmanagedVector :: "UnmanagedVector \<Rightarrow> heap \<Rightarrow> (byte_slice go \<times> heap) option" where
  "copyAndDestroyUnmanagedVector v h =
     (let out = (if uv_is_none v then Some (Return None)
                 else if uv_cap v = 0 then Some (Return (Some []))
                 else C_GoBytes (vector_bytes h v) (uv_len v))
      in case out of
           None \<Rightarrow> None
         | Some (Panics p) \<Rightarrow> Some (Panics p, h)
         | Some (Return bs) \<Rightarrow> map_option (\<lambda>h'. (Return bs, h')) (destroy_unmanaged_vector v h))"

record OptionalU64 =
  ou64_is_some :: bool
  ou64_value :: u64

definition optionalU64ToPtr :: "OptionalU64 \<Rightarrow> u64 option" where
  "optionalU64ToPtr val = (if ou64_is_some val then Some (ou64_value val) else None)"

section \<open>Ownership\<close>

text \<open>
  \<open>owned h v x\<close>: the vector \<open>v\<close> stands for \<open>x\<close> and, if it has an allocation, owns it.
  \<open>heap_without h v\<close>: the allocations but that of \<open>v\<close>.
\<close>

definition allocated :: "UnmanagedVector \<Rightarrow> bool" where
  "allocated v \<longleftrightarrow> \<not> uv_is_none v \<and> uv_cap v \<noteq> 0"

definition owned :: "heap \<Rightarrow> UnmanagedVector \<Rightarrow> rust_vec option \<Rightarrow> bool" where
  "owned h v x \<longleftrightarrow>
     (if uv_is_none v then x = None
      else if uv_cap v = 0 then x = Some ([], 0)
      else \<exists>bs. x = Some (bs, uv_cap v) \<and> blocks h (uv_ptr v) = Some (bs, uv_cap v) \<and>
        unat (uv_len v) = length bs)"

definition heap_without :: "heap \<Rightarrow> UnmanagedVector \<Rightarrow> nat \<rightharpoonup> string \<times> u64" where
  "heap_without h v = (if allocated v then (blocks h)(uv_ptr v := None) else blocks h)"

lemma heap_ok_delete: "heap_ok h \<Longrightarrow> heap_ok (h\<lparr>blocks := (blocks h)(p := None)\<rparr>)"
  by (auto simp: heap_ok_def)

lemma heap_ok_fresh: "heap_ok h \<Longrightarrow> blocks h (next_block h) = None"
  unfolding heap_ok_def by (metis domIff nat_neq_iff)

lemma heap_ok_alloc:
  "heap_ok h \<Longrightarrow> length bs \<le> unat cap \<Longrightarrow> cap \<noteq> 0 \<Longrightarrow>
     heap_ok (h\<lparr>blocks := (blocks h)(next_block h \<mapsto> (bs, cap)), next_block := Suc (next_block h)\<rparr>)"
  by (auto simp: heap_ok_def less_Suc_eq)

definition vec_ok :: "rust_vec option \<Rightarrow> bool" where
  "vec_ok x \<longleftrightarrow> (case x of None \<Rightarrow> True | Some (bs, cap) \<Rightarrow> length bs \<le> unat cap)"

lemma UnmanagedVector_new_owned:
  assumes "heap_ok h" "vec_ok x" "UnmanagedVector_new x h = (v, h')"
  shows "owned h' v x" "heap_ok h'" "heap_without h' v = blocks h"
proof -
  have len: "unat (of_nat (length bs) :: u64) = length bs" if "length bs \<le> unat cap"
    for bs :: string and cap :: u64
    using that unat_less_64 [of cap] by (intro unat_of_nat_64) (rule le_less_trans)
  show "owned h' v x" "heap_ok h'" "heap_without h' v = blocks h"
    using assms heap_ok_fresh [OF assms(1)]
    by (auto simp: UnmanagedVector_new_def owned_def vec_ok_def heap_without_def allocated_def
        len heap_ok_alloc fun_upd_idem split: option.splits prod.splits if_splits)
qed

text \<open>
  A transfer of ownership: \<open>give\<close> makes a vector of a value and \<open>take\<close> ends its life.
\<close>

locale owned_transfer =
  fixes give :: "'a \<Rightarrow> heap \<Rightarrow> (UnmanagedVector \<times> heap) option"
    and tak :: "UnmanagedVector \<Rightarrow> heap \<Rightarrow> ('b \<times> heap) option"
    and vec :: "'a \<Rightarrow> rust_vec option" and val :: "'a \<Rightarrow> 'b" and ok :: "'a \<Rightarrow> bool"
  assumes give_law: "heap_ok h \<Longrightarrow> ok x \<Longrightarrow>
      \<exists>v h'. give x h = Some (v, h') \<and> owned h' v (vec x) \<and> heap_ok h' \<and> heap_without h' v = blocks h"
    and take_law: "heap_ok h \<Longrightarrow> ok x \<Longrightarrow> owned h v (vec x) \<Longrightarrow>
      \<exists>h'. tak v h = Some (val x, h') \<and> heap_ok h' \<and> blocks h' = heap_without h v"
begin

lemma give_take:
  assumes "heap_ok h" "ok x"
  shows "\<exists>v h' h''. give x h = Some (v, h') \<and> tak v h' = Some (val x, h'') \<and> heap_ok h'' \<and>
    blocks h'' = blocks h"
  using give_law [OF assms] take_law assms(2) by metis

text \<open>What one transfer owns is left alone by another one.\<close>

lemma owned_give:
  assumes "heap_ok h" "owned h w y" "ok x" "give x h = Some (v, h')"
  shows "owned h' w y \<and> (allocated v \<and> allocated w \<longrightarrow> uv_ptr v \<noteq> uv_ptr w)"
proof -
  from give_law [OF assms(1,3)] assms(4) have "heap_without h' v = blocks h" by auto
  then show ?thesis
    using assms(2) unfolding owned_def heap_without_def allocated_def
    by (auto split: if_splits dest: fun_cong [where x = "uv_ptr w"])
qed

lemma owned_take:
  assumes "heap_ok h" "ok x" "owned h v (vec x)" "owned h w y"
    "allocated v \<and> allocated w \<longrightarrow> uv_ptr v \<noteq> uv_ptr w" "tak v h = Some (z, h')"
  shows "owned h' w y"
proof -
  from take_law [OF assms(1-3)] assms(6) have "blocks h' = heap_without h v" by auto
  then show ?thesis using assms(4,5) by (auto simp: owned_def heap_without_def allocated_def)
qed

text \<open>Two vectors alive at once can be taken in the order they were given, and nothing is left behind.\<close>

lemma give_give_take_take:
  assumes "heap_ok h" "ok x" "ok y"
  shows "\<exists>v w h1 h2 h3 h4. give x h = Some (v, h1) \<and> give y h1 = Some (w, h2) \<and> tak v h2 = Some (val x, h3) \<and>
    tak w h3 = Some (val y, h4) \<and> heap_ok h4 \<and> blocks h4 = blocks h"
proof -
  from give_law [OF assms(1,2)] obtain v h1 where
    1: "give x h = Some (v, h1)" "owned h1 v (vec x)" "heap_ok h1" "heap_without h1 v = blocks h" by auto
  from give_law [OF 1(3) assms(3)] obtain w h2 where
    2: "give y h1 = Some (w, h2)" "owned h2 w (vec y)" "heap_ok h2" "heap_without h2 w = blocks h1" by auto
  from owned_give [OF 1(3,2) assms(3) 2(1)]
  have v: "owned h2 v (vec x)" "allocated v \<and> allocated w \<longrightarrow> uv_ptr v \<noteq> uv_ptr w" by auto
  from take_law [OF 2(3) assms(2) v(1)] obtain h3 where
    3: "tak v h2 = Some (val x, h3)" "heap_ok h3" "blocks h3 = heap_without h2 v" by auto
  have "owned h3 w (vec y)"
    using owned_take [OF 2(3) assms(2) v(1) 2(2) v(2) 3(1)] .
  from take_law [OF 3(2) assms(3) this] obtain h4 where
    4: "tak w h3 = Some (val y, h4)" "heap_ok h4" "blocks h4 = heap_without h3 w" by auto
  have "heap_without h3 w = blocks h"
    using 1(4) 2(4) 3(3) unfolding heap_without_def by (metis fun_upd_twist fun_upd_upd)
  with 1(1) 2(1) 3(1) 4 show ?thesis by auto
qed

end

lemma from_raw_parts_all:
  "length bs < 2 ^ 64 \<Longrightarrow> from_raw_parts (Some bs) (of_nat (length bs)) = Some bs"
  by (simp add: from_raw_parts_def unat_of_nat_64)

lemma newUnmanagedVector_eq:
  "slice_len data < 2 ^ 64 \<Longrightarrow>
     newUnmanagedVector data h = Some (UnmanagedVector_new (map_option vec_from data) h)"
  by (cases data) (auto simp: newUnmanagedVector_def new_unmanaged_vector_def vec_from_def
      from_raw_parts_all of_nat_64_eq_0)

lemma vec_from_ok: "slice_len data < 2 ^ 64 \<Longrightarrow> vec_ok (map_option vec_from data)"
  by (cases data) (simp_all add: vec_ok_def vec_from_def unat_of_nat_64)

lemma consume_owned:
  assumes "owned h v x"
  shows "\<exists>h'. UnmanagedVector_consume v h = Some (x, h') \<and> blocks h' = heap_without h v \<and>
    (heap_ok h \<longrightarrow> heap_ok h')"
  using assms
  by (auto simp: UnmanagedVector_consume_def owned_def take_block_def heap_without_def allocated_def
      heap_ok_delete split: if_splits)

lemma C_GoBytes_all:
  assumes "length bs < 2 ^ 31" "unat n = length bs"
  shows "C_GoBytes (Some bs) n = Some (Return (Some bs))"
proof -
  have "sint (ucast n :: 32 word) = int (length bs)"
    using assms by (simp add: sint_ucast_32)
  moreover have "unat (of_int (int (length bs)) :: u64) = length bs"
    using assms(1) by (simp add: unat_of_nat_64)
  ultimately show ?thesis by (auto simp: C_GoBytes_def from_raw_parts_def Let_def)
qed

lemma copyAndDestroy_owned:
  assumes "owned h v x" "case x of None \<Rightarrow> True | Some (bs, cap) \<Rightarrow> length bs < 2 ^ 31"
  shows "\<exists>h'. copyAndDestroyUnmanagedVector v h = Some (Return (map_option fst x), h') \<and>
    blocks h' = heap_without h v \<and> (heap_ok h \<longrightarrow> heap_ok h')"
proof -
  from consume_owned [OF assms(1)] obtain h' where
    c: "UnmanagedVector_consume v h = Some (x, h')" "blocks h' = heap_without h v" "heap_ok h \<longrightarrow> heap_ok h'"
    by blast
  have "(if uv_is_none v then Some (Return None)
      else if uv_cap v = 0 then Some (Return (Some []))
      else C_GoBytes (vector_bytes h v) (uv_len v)) = Some (Return (map_option fst x))"
    using assms by (auto simp: owned_def vector_bytes_def C_GoBytes_all split: if_splits)
  with c show ?thesis
    by (simp add: copyAndDestroyUnmanagedVector_def destroy_unmanaged_vector_def)
qed

section \<open>The two directions\<close>

definition go_bytes_ok :: "byte_slice \<Rightarrow> bool" where
  "go_bytes_ok data \<longleftrightarrow> slice_len data < 2 ^ 64"

definition rust_vec_ok :: "rust_vec option \<Rightarrow> bool" where
  "rust_vec_ok x \<longleftrightarrow> (case x of None \<Rightarrow> True
     | Some (bs, cap) \<Rightarrow> length bs \<le> unat cap \<and> length bs < 2 ^ 31)"

interpretation to_rust: owned_transfer newUnmanagedVector UnmanagedVector_consume
    "map_option vec_from" "map_option vec_from" go_bytes_ok
proof unfold_locales
  fix h :: heap and x v
  assume h: "heap_ok h" "go_bytes_ok x"
  obtain w h' where w: "UnmanagedVector_new (map_option vec_from x) h = (w, h')" by fastforce
  have "vec_ok (map_option vec_from x)" using h(2) by (simp add: go_bytes_ok_def vec_from_ok)
  from UnmanagedVector_new_owned [OF h(1) this w] w h(2)
  show "\<exists>v h'. newUnmanagedVector x h = Some (v, h') \<and> owned h' v (map_option vec_from x) \<and>
      heap_ok h' \<and> heap_without h' v = blocks h"
    by (auto simp: newUnmanagedVector_eq go_bytes_ok_def)
  show "\<exists>h'. UnmanagedVector_consume v h = Some (map_option vec_from x, h') \<and> heap_ok h' \<and>
      blocks h' = heap_without h v" if "owned h v (map_option vec_from x)"
    using consume_owned [OF that] h(1) by auto
qed

interpretation to_go: owned_transfer "\<lambda>x h. Some (UnmanagedVector_new x h)" copyAndDestroyUnmanagedVector
    "\<lambda>x. x" "\<lambda>x. Return (map_option fst x)" rust_vec_ok
proof unfold_locales
  fix h :: heap and x v
  assume h: "heap_ok h" "rust_vec_ok x"
  then have ok: "vec_ok x" "case x of None \<Rightarrow> True | Some (bs, cap) \<Rightarrow> length bs < 2 ^ 31"
    by (auto simp: rust_vec_ok_def vec_ok_def split: option.splits)
  obtain w h' where w: "UnmanagedVector_new x h = (w, h')" by fastforce
  from UnmanagedVector_new_owned [OF h(1) ok(1) w] w
  show "\<exists>v h'. Some (UnmanagedVector_new x h) = Some (v, h') \<and> owned h' v x \<and> heap_ok h' \<and>
      heap_without h' v = blocks h" by simp
  show "\<exists>h'. copyAndDestroyUnmanagedVector v h = Some (Return (map_option fst x), h') \<and> heap_ok h' \<and>
      blocks h' = heap_without h v" if "owned h v x"
    using copyAndDestroy_owned [OF that ok(2)] h(1) by auto
qed

lemma read_makeView: "slice_len s < 2 ^ 64 \<Longrightarrow> ByteSliceView_read (makeView s) = Some s"
  by (cases s) (auto simp: ByteSliceView_read_def makeView_def of_nat_64_eq_0 from_raw_parts_all)

lemma copyU8Slice_new:
  assumes "slice_len s < 2 ^ 31"
  shows "copyU8Slice (U8SliceView_new s) = Some (Return s)"
proof (cases s)
  case (Some bs)
  with assms have len: "length bs < 2 ^ 31" "length bs < 2 ^ 64" by simp_all
  have "unat (of_nat (length bs) :: u64) = length bs" using len(2) by (rule unat_of_nat_64)
  from C_GoBytes_all [OF len(1) this] show ?thesis
    using of_nat_64_eq_0 [OF len(2)] by (simp add: Some copyU8Slice_def U8SliceView_new_def)
qed (simp add: copyU8Slice_def U8SliceView_new_def)

section \<open>Properties\<close>

text \<open>
  C26: bytes that go from Go to Rust in an \<open>UnmanagedVector\<close> arrive unchanged, nil as \<open>None\<close> and empty
  as an empty vector, and once Rust has consumed the vector no allocation is left behind and all
  others are as before.
\<close>

theorem newUnmanagedVector_consume:
  assumes "heap_ok h" "slice_len data < 2 ^ 64"
  shows "\<exists>v h' h''. newUnmanagedVector data h = Some (v, h') \<and>
    UnmanagedVector_consume v h' = Some (map_option vec_from data, h'') \<and> blocks h'' = blocks h"
  using to_rust.give_take [OF assms(1), of data] assms(2) by (auto simp: go_bytes_ok_def)

theorem newUnmanagedVector_consume_witness:
  "\<exists>v h' h''. newUnmanagedVector (Some ''ab'') empty_heap = Some (v, h') \<and>
    UnmanagedVector_consume v h' = Some (Some (''ab'', 2), h'') \<and> blocks h'' = blocks empty_heap"
proof -
  have "heap_ok empty_heap" by (simp add: heap_ok_def empty_heap_def)
  from newUnmanagedVector_consume [OF this, of "Some ''ab''"] show ?thesis by (simp add: vec_from_def)
qed

text \<open>
  C27: a vector that goes from Rust to Go is copied completely by \<open>copyAndDestroyUnmanagedVector\<close> as long
  as it is shorter than 2^31 bytes, whatever its capacity, and its allocation is freed.
\<close>

theorem copyAndDestroyUnmanagedVector_new:
  assumes "heap_ok h" "length bs \<le> unat cap" "length bs < 2 ^ 31"
  shows "\<exists>v h' h''. UnmanagedVector_new (Some (bs, cap)) h = (v, h') \<and>
    copyAndDestroyUnmanagedVector v h' = Some (Return (Some bs), h'') \<and> blocks h'' = blocks h"
  using to_go.give_take [OF assms(1), of "Some (bs, cap)"] assms(2,3) by (auto simp: rust_vec_ok_def)

theorem copyAndDestroyUnmanagedVector_new_witness:
  "\<exists>v h' h''. UnmanagedVector_new (Some (''ab'', 8)) empty_heap = (v, h') \<and>
    copyAndDestroyUnmanagedVector v h' = Some (Return (Some ''ab''), h'') \<and> blocks h'' = blocks empty_heap"
proof -
  have "heap_ok empty_heap" by (simp add: heap_ok_def empty_heap_def)
  from copyAndDestroyUnmanagedVector_new [OF this, of "''ab''" 8] show ?thesis by simp
qed

text \<open>
  C28: the two borrowing views: Rust reads from \<open>makeView s\<close> exactly \<open>s\<close>, with nil kept apart from empty,
  and \<open>copyU8Slice\<close> copies exactly what Rust passed, nil if and only if it passed \<open>None\<close>.
\<close>

theorem views_faithful:
  assumes "slice_len s < 2 ^ 31"
  shows "ByteSliceView_read (makeView s) = Some s \<and> copyU8Slice (U8SliceView_new s) = Some (Return s)"
  using read_makeView [of s] copyU8Slice_new [OF assms] assms by simp

theorem views_faithful_witness:
  "ByteSliceView_read (makeView (Some ''k'')) = Some (Some ''k'') \<and>
   copyU8Slice (U8SliceView_new (Some ''k'')) = Some (Return (Some ''k''))"
  using views_faithful [of "Some ''k''"] by simp

text \<open>
  Two vectors that are alive at the same time do not interfere: both sides read what was sent, in
  the order of sending, and nothing is left behind.
\<close>

theorem unmanaged_vectors_independent:
  assumes "heap_ok h" "slice_len a < 2 ^ 64" "slice_len b < 2 ^ 64"
  shows "\<exists>v w h1 h2 h3 h4. newUnmanagedVector a h = Some (v, h1) \<and> newUnmanagedVector b h1 = Some (w, h2) \<and>
    UnmanagedVector_consume v h2 = Some (map_option vec_from a, h3) \<and>
    UnmanagedVector_consume w h3 = Some (map_option vec_from b, h4) \<and> heap_ok h4 \<and> blocks h4 = blocks h"
  using to_rust.give_give_take_take [OF assms(1)] assms(2,3) by (simp add: go_bytes_ok_def)

theorem unmanaged_vectors_independent_witness:
  "\<exists>v w h1 h2 h3 h4. newUnmanagedVector (Some ''a'') empty_heap = Some (v, h1) \<and>
     newUnmanagedVector None h1 = Some (w, h2) \<and> UnmanagedVector_consume v h2 = Some (Some (''a'', 1), h3) \<and>
     UnmanagedVector_consume w h3 = Some (None, h4) \<and> heap_ok h4 \<and> blocks h4 = blocks empty_heap"
proof -
  have ok: "heap_ok empty_heap" by (simp add: heap_ok_def empty_heap_def)
  from unmanaged_vectors_independent [OF ok, of "Some ''a''" None] show ?thesis by (simp add: vec_from_def)
qed

end
