(* ===== verification/Callbacks.thy ===== *)
theory Callbacks
  imports IteratorFrames Memory Queries
begin

text \<open>
  \<open>internal/api/callbacks.go\<close>: the functions Rust calls back into Go while a contract runs.  The chain
  behind the Go interfaces \<open>KVStore\<close>, \<open>Iterator\<close>, \<open>GasMeter\<close>, \<open>GoAPI\<close> and \<open>Querier\<close> is a state \<open>'s\<close>; a
  method may change it and may panic.  A callback writes its results through pointers of the caller,
  which are cells of the state \<open>ffi\<close> (\<open>None\<close> is a null pointer); what was written before a panic
  stays written.
\<close>

section \<open>Effects\<close>

datatype 'a res = Ok 'a | Panic panic_value | Undefined

type_synonym ('w, 'a) eff = "'w \<Rightarrow> 'a res \<times> 'w"

definition ret :: "'a \<Rightarrow> ('w, 'a) eff" where
  "ret x w = (Ok x, w)"

definition panic :: "panic_value \<Rightarrow> ('w, 'a) eff" where
  "panic p w = (Panic p, w)"

definition bind :: "('w, 'a) eff \<Rightarrow> ('a \<Rightarrow> ('w, 'b) eff) \<Rightarrow> ('w, 'b) eff" where
  "bind m f w = (case m w of
     (Ok x, w') \<Rightarrow> f x w'
   | (Panic p, w') \<Rightarrow> (Panic p, w')
   | (Undefined, w') \<Rightarrow> (Undefined, w'))"

section \<open>The interfaces of package types\<close>

record ('i, 's) kvstore =
  kv_Get :: "byte_slice \<Rightarrow> 's \<Rightarrow> byte_slice go \<times> 's"
  kv_Set :: "byte_slice \<Rightarrow> byte_slice \<Rightarrow> 's \<Rightarrow> unit go \<times> 's"
  kv_Delete :: "byte_slice \<Rightarrow> 's \<Rightarrow> unit go \<times> 's"
  kv_Iterator :: "byte_slice \<Rightarrow> byte_slice \<Rightarrow> 's \<Rightarrow> 'i option go \<times> 's"
  kv_ReverseIterator :: "byte_slice \<Rightarrow> byte_slice \<Rightarrow> 's \<Rightarrow> 'i option go \<times> 's"

record ('i, 's) iterator_ops =
  it_Valid :: "'i \<Rightarrow> 's \<Rightarrow> bool go \<times> 's"
  it_Next :: "'i \<Rightarrow> 's \<Rightarrow> unit go \<times> 's"
  it_Key :: "'i \<Rightarrow> 's \<Rightarrow> byte_slice go \<times> 's"
  it_Value :: "'i \<Rightarrow> 's \<Rightarrow> byte_slice go \<times> 's"
  it_Close :: "'i \<Rightarrow> 's \<Rightarrow> error go \<times> 's"

type_synonym 's gas_meter = "'s \<Rightarrow> u64 go \<times> 's"

record 's GoAPI =
  HumanizeAddress :: "(byte_slice \<Rightarrow> 's \<Rightarrow> (string \<times> u64 \<times> error) go \<times> 's) option"
  CanonicalizeAddress :: "(string \<Rightarrow> 's \<Rightarrow> (byte_slice \<times> u64 \<times> error) go \<times> 's) option"
  ValidateAddress :: "(string \<Rightarrow> 's \<Rightarrow> (u64 \<times> error) go \<times> 's) option"

section \<open>The state of a callback\<close>

datatype GoError =
    GoError_None | GoError_Panic | GoError_BadArgument | GoError_OutOfGas
  | GoError_CannotSerialize | GoError_User

record IteratorReference =
  call_id :: u64
  iterator_id :: u64

text \<open>
  A \<open>GoIter\<close>: whether the gas meter pointer and the vtable are set, and the reference.
\<close>

record GoIter =
  gi_gas_meter :: bool
  gi_reference :: IteratorReference
  gi_vtable :: bool

record ('i, 's) ffi =
  f_env :: 's
  f_iters :: "'i iter_state"
  f_heap :: heap
  f_usedGas :: "u64 option"
  f_out :: "UnmanagedVector option"
  f_out2 :: "UnmanagedVector option"
  f_errOut :: "UnmanagedVector option"
  f_iter :: "GoIter option"

type_synonym ('i, 's, 'a) callback = "(('i, 's) ffi, 'a) eff"

text \<open>A method of the chain.\<close>

definition env :: "('s \<Rightarrow> 'a go \<times> 's) \<Rightarrow> ('i, 's, 'a) callback" where
  "env f w = (case f (f_env w) of
     (Return x, s) \<Rightarrow> (Ok x, w\<lparr>f_env := s\<rparr>)
   | (Panics p, s) \<Rightarrow> (Panic p, w\<lparr>f_env := s\<rparr>))"

text \<open>Writing through a pointer.\<close>

definition set_usedGas :: "u64 \<Rightarrow> ('i, 's, unit) callback" where
  "set_usedGas g w = (if f_usedGas w = None then (Panic nil_deref, w) else (Ok (), w\<lparr>f_usedGas := Some g\<rparr>))"

definition set_out :: "UnmanagedVector \<Rightarrow> ('i, 's, unit) callback" where
  "set_out v w = (if f_out w = None then (Panic nil_deref, w) else (Ok (), w\<lparr>f_out := Some v\<rparr>))"

definition set_out2 :: "UnmanagedVector \<Rightarrow> ('i, 's, unit) callback" where
  "set_out2 v w = (if f_out2 w = None then (Panic nil_deref, w) else (Ok (), w\<lparr>f_out2 := Some v\<rparr>))"

definition set_errOut :: "UnmanagedVector \<Rightarrow> ('i, 's, unit) callback" where
  "set_errOut v w = (if f_errOut w = None then (Panic nil_deref, w) else (Ok (), w\<lparr>f_errOut := Some v\<rparr>))"

definition set_iter :: "GoIter \<Rightarrow> ('i, 's, unit) callback" where
  "set_iter v w = (if f_iter w = None then (Panic nil_deref, w) else (Ok (), w\<lparr>f_iter := Some v\<rparr>))"

text \<open>The memory operations as effects.\<close>

definition new_vector :: "byte_slice \<Rightarrow> ('i, 's, UnmanagedVector) callback" where
  "new_vector data w = (case newUnmanagedVector data (f_heap w) of
     None \<Rightarrow> (Undefined, w)
   | Some (v, h) \<Rightarrow> (Ok v, w\<lparr>f_heap := h\<rparr>))"

definition copy_view :: "U8SliceView \<Rightarrow> ('i, 's, byte_slice) callback" where
  "copy_view view w = (case copyU8Slice view of
     None \<Rightarrow> (Undefined, w)
   | Some (Panics p) \<Rightarrow> (Panic p, w)
   | Some (Return bs) \<Rightarrow> (Ok bs, w))"

section \<open>Panics\<close>

definition recoverPanic :: "panic_value \<Rightarrow> GoError" where
  "recoverPanic rec = (if panic_type rec = ''ErrorOutOfGas'' then GoError_OutOfGas else GoError_Panic)"

text \<open>A function body under \<open>defer recoverPanic(&ret)\<close>.\<close>

definition recovering :: "('i, 's, GoError) callback \<Rightarrow> ('i, 's, GoError) callback" where
  "recovering body w = (case body w of
     (Panic p, w') \<Rightarrow> (Ok (recoverPanic p), w')
   | r \<Rightarrow> r)"

definition overwrite_panic :: panic_value where
  "overwrite_panic = panic_string (''Got a non-none UnmanagedVector we'' @ [CHR 0x27] @
     ''re about to override. This is a bug because someone has to drop the old one.'')"

definition none_vector :: "UnmanagedVector option \<Rightarrow> bool" where
  "none_vector p = (case p of None \<Rightarrow> False | Some v \<Rightarrow> uv_is_none v)"

section \<open>Database callbacks\<close>

record ('i, 's) DBState =
  Store :: "('i, 's) kvstore"
  CallID :: u64

definition buildDBState :: "('i, 's) kvstore \<Rightarrow> u64 \<Rightarrow> ('i, 's) DBState" where
  "buildDBState kv callID = \<lparr>Store = kv, CallID = callID\<rparr>"

text \<open>Running a method between two readings of the gas meter, and reporting the difference.\<close>

definition metered :: "'s gas_meter \<Rightarrow> ('i, 's, 'a) callback \<Rightarrow> ('i, 's, 'a) callback" where
  "metered gm m =
     bind (env gm) (\<lambda>gasBefore. bind m (\<lambda>x. bind (env gm) (\<lambda>gasAfter.
       bind (set_usedGas (gasAfter - gasBefore)) (\<lambda>_. ret x))))"

definition cGet ::
    "('i, 's) DBState option \<Rightarrow> 's gas_meter option \<Rightarrow> U8SliceView \<Rightarrow> ('i, 's, GoError) callback" where
  "cGet ptr gasMeter key = recovering (\<lambda>w.
     if ptr = None \<or> gasMeter = None \<or> f_usedGas w = None \<or> f_out w = None \<or> f_errOut w = None
     then (Ok GoError_BadArgument, w)
     else if \<not> none_vector (f_out w) then (Panic overwrite_panic, w)
     else bind (copy_view key) (\<lambda>k.
       bind (metered (the gasMeter) (env (kv_Get (Store (the ptr)) k))) (\<lambda>v.
       bind (new_vector v) (\<lambda>val. bind (set_out val) (\<lambda>_. ret GoError_None)))) w)"

definition cSet ::
    "('i, 's) DBState option \<Rightarrow> 's gas_meter option \<Rightarrow> U8SliceView \<Rightarrow> U8SliceView
      \<Rightarrow> ('i, 's, GoError) callback" where
  "cSet ptr gasMeter key val = recovering (\<lambda>w.
     if ptr = None \<or> gasMeter = None \<or> f_usedGas w = None \<or> f_errOut w = None
     then (Ok GoError_BadArgument, w)
     else bind (copy_view key) (\<lambda>k. bind (copy_view val) (\<lambda>v.
       bind (metered (the gasMeter) (env (kv_Set (Store (the ptr)) k v))) (\<lambda>_. ret GoError_None))) w)"

definition cDelete ::
    "('i, 's) DBState option \<Rightarrow> 's gas_meter option \<Rightarrow> U8SliceView \<Rightarrow> ('i, 's, GoError) callback" where
  "cDelete ptr gasMeter key = recovering (\<lambda>w.
     if ptr = None \<or> gasMeter = None \<or> f_usedGas w = None \<or> f_errOut w = None
     then (Ok GoError_BadArgument, w)
     else bind (copy_view key) (\<lambda>k.
       bind (metered (the gasMeter) (env (kv_Delete (Store (the ptr)) k))) (\<lambda>_. ret GoError_None)) w)"

definition buildIterator ::
    "u64 \<Rightarrow> 'i option \<Rightarrow> ('i, 's, IteratorReference \<times> string option) callback" where
  "buildIterator callID it w =
     (case storeIterator callID it frameLenLimit (f_iters w) of
        ((iteratorID, None), st) \<Rightarrow>
          (Ok (\<lparr>call_id = callID, iterator_id = iteratorID\<rparr>, None), w\<lparr>f_iters := st\<rparr>)
      | ((iteratorID, Some err), st) \<Rightarrow>
          (Ok (\<lparr>call_id = 0, iterator_id = 0\<rparr>, Some err), w\<lparr>f_iters := st\<rparr>))"

text \<open>
  In \<open>cScan\<close> an unknown order returns in the middle of the metered part, after the first reading of
  the gas meter and before \<open>usedGas\<close> is written.
\<close>

definition cScan ::
    "('i, 's) DBState option \<Rightarrow> 's gas_meter option \<Rightarrow> U8SliceView \<Rightarrow> U8SliceView \<Rightarrow> 32 word
      \<Rightarrow> ('i, 's, GoError) callback" where
  "cScan ptr gasMeter start stop order = recovering (\<lambda>w.
     if ptr = None \<or> gasMeter = None \<or> f_usedGas w = None \<or> f_iter w = None \<or> f_errOut w = None
     then (Ok GoError_BadArgument, w)
     else if \<not> none_vector (f_errOut w) then (Panic overwrite_panic, w)
     else bind (copy_view start) (\<lambda>s. bind (copy_view stop) (\<lambda>e.
       let kv = Store (the ptr) in
       if order \<noteq> 1 \<and> order \<noteq> 2
       then bind (env (the gasMeter)) (\<lambda>gasBefore. ret GoError_BadArgument)
       else bind (metered (the gasMeter)
           (env (if order = 1 then kv_Iterator kv s e else kv_ReverseIterator kv s e))) (\<lambda>iter.
         bind (buildIterator (CallID (the ptr)) iter) (\<lambda>(iteratorRef, err).
         case err of
           Some text \<Rightarrow> bind (new_vector (Some text)) (\<lambda>v. bind (set_errOut v) (\<lambda>_. ret GoError_User))
         | None \<Rightarrow> bind (set_iter \<lparr>gi_gas_meter = True, gi_reference = iteratorRef, gi_vtable = True\<rparr>)
             (\<lambda>_. ret GoError_None))))) w)"

section \<open>Iterator callbacks\<close>

definition retrieve_panic :: panic_value where
  "retrieve_panic = panic_string ''Unable to retrieve iterator.''"

definition cNext ::
    "('i, 's) iterator_ops \<Rightarrow> IteratorReference \<Rightarrow> 's gas_meter option \<Rightarrow> ('i, 's, GoError) callback" where
  "cNext ops ref gasMeter = recovering (\<lambda>w.
     if call_id ref = 0 \<or> gasMeter = None \<or> f_usedGas w = None \<or> f_out w = None \<or> f_out2 w = None
       \<or> f_errOut w = None
     then (Ok GoError_BadArgument, w)
     else if \<not> none_vector (f_out w) \<or> \<not> none_vector (f_out2 w) then (Panic overwrite_panic, w)
     else case retrieveIterator (call_id ref) (iterator_id ref) (f_iters w) of
         None \<Rightarrow> (Panic retrieve_panic, w)
       | Some iter \<Rightarrow> bind (env (it_Valid ops iter)) (\<lambda>valid.
           if \<not> valid then ret GoError_None
           else bind (metered (the gasMeter)
               (bind (env (it_Key ops iter)) (\<lambda>k. bind (env (it_Value ops iter)) (\<lambda>v.
                bind (env (it_Next ops iter)) (\<lambda>_. ret (k, v)))))) (\<lambda>(k, v).
             bind (new_vector k) (\<lambda>key. bind (set_out key) (\<lambda>_.
             bind (new_vector v) (\<lambda>val. bind (set_out2 val) (\<lambda>_. ret GoError_None)))))) w)"

definition nextPart ::
    "('i, 's) iterator_ops \<Rightarrow> IteratorReference \<Rightarrow> 's gas_meter option
      \<Rightarrow> ('i \<Rightarrow> 's \<Rightarrow> byte_slice go \<times> 's) \<Rightarrow> ('i, 's, GoError) callback" where
  "nextPart ops ref gasMeter valFn = recovering (\<lambda>w.
     if call_id ref = 0 \<or> gasMeter = None \<or> f_usedGas w = None \<or> f_out w = None \<or> f_errOut w = None
     then (Ok GoError_BadArgument, w)
     else if \<not> none_vector (f_out w) then (Panic overwrite_panic, w)
     else case retrieveIterator (call_id ref) (iterator_id ref) (f_iters w) of
         None \<Rightarrow> (Panic retrieve_panic, w)
       | Some iter \<Rightarrow> bind (env (it_Valid ops iter)) (\<lambda>valid.
           if \<not> valid then ret GoError_None
           else bind (metered (the gasMeter)
               (bind (env (valFn iter)) (\<lambda>out. bind (env (it_Next ops iter)) (\<lambda>_. ret out)))) (\<lambda>out.
             bind (new_vector out) (\<lambda>output. bind (set_out output) (\<lambda>_. ret GoError_None)))) w)"

definition cNextKey ::
    "('i, 's) iterator_ops \<Rightarrow> IteratorReference \<Rightarrow> 's gas_meter option \<Rightarrow> ('i, 's, GoError) callback" where
  "cNextKey ops ref gasMeter = nextPart ops ref gasMeter (it_Key ops)"

definition cNextValue ::
    "('i, 's) iterator_ops \<Rightarrow> IteratorReference \<Rightarrow> 's gas_meter option \<Rightarrow> ('i, 's, GoError) callback" where
  "cNextValue ops ref gasMeter = nextPart ops ref gasMeter (it_Value ops)"

section \<open>API callbacks\<close>

text \<open>Calling a function field of \<open>GoAPI\<close> through a pointer: either may be nil.\<close>

definition api_call ::
    "'s GoAPI option \<Rightarrow> ('s GoAPI \<Rightarrow> ('x \<Rightarrow> 's \<Rightarrow> 'a go \<times> 's) option) \<Rightarrow> 'x \<Rightarrow> ('i, 's, 'a) callback" where
  "api_call ptr field x = (case ptr of
     None \<Rightarrow> panic nil_deref
   | Some api \<Rightarrow> (case field api of None \<Rightarrow> panic nil_deref | Some f \<Rightarrow> env (f x)))"

text \<open>\<open>err.Error()\<close> written to \<open>errOut\<close>.\<close>

definition report_error :: "go_error \<Rightarrow> ('i, 's, GoError) callback" where
  "report_error e = (case error_text e of
     Panics p \<Rightarrow> panic p
   | Return text \<Rightarrow> bind (new_vector (Some text)) (\<lambda>v. bind (set_errOut v) (\<lambda>_. ret GoError_User)))"

definition cHumanizeAddress :: "'s GoAPI option \<Rightarrow> U8SliceView \<Rightarrow> ('i, 's, GoError) callback" where
  "cHumanizeAddress ptr src = recovering (\<lambda>w.
     if f_out w = None \<or> f_errOut w = None then (Ok GoError_BadArgument, w)
     else if \<not> none_vector (f_out w) \<or> \<not> none_vector (f_errOut w) then (Panic overwrite_panic, w)
     else bind (copy_view src) (\<lambda>s.
       bind (api_call ptr HumanizeAddress s) (\<lambda>(h, cost, err).
       bind (set_usedGas cost) (\<lambda>_.
       case err of
         Some e \<Rightarrow> report_error e
       | None \<Rightarrow>
           if length h = 0 then panic (panic_string ''`api.HumanizeAddress()` returned an empty string'')
           else bind (new_vector (Some h)) (\<lambda>v. bind (set_out v) (\<lambda>_. ret GoError_None))))) w)"

definition cCanonicalizeAddress :: "'s GoAPI option \<Rightarrow> U8SliceView \<Rightarrow> ('i, 's, GoError) callback" where
  "cCanonicalizeAddress ptr src = recovering (\<lambda>w.
     if f_out w = None \<or> f_errOut w = None then (Ok GoError_BadArgument, w)
     else if \<not> none_vector (f_out w) \<or> \<not> none_vector (f_errOut w) then (Panic overwrite_panic, w)
     else bind (copy_view src) (\<lambda>s.
       bind (api_call ptr CanonicalizeAddress (elems s)) (\<lambda>(c, cost, err).
       bind (set_usedGas cost) (\<lambda>_.
       case err of
         Some e \<Rightarrow> report_error e
       | None \<Rightarrow>
           if slice_len c = 0
           then panic (panic_string ''`api.CanonicalizeAddress()` returned an empty string'')
           else bind (new_vector c) (\<lambda>v. bind (set_out v) (\<lambda>_. ret GoError_None))))) w)"

definition cValidateAddress :: "'s GoAPI option \<Rightarrow> U8SliceView \<Rightarrow> ('i, 's, GoError) callback" where
  "cValidateAddress ptr src = recovering (\<lambda>w.
     if f_errOut w = None then (Ok GoError_BadArgument, w)
     else if \<not> none_vector (f_errOut w) then (Panic overwrite_panic, w)
     else bind (copy_view src) (\<lambda>s.
       bind (api_call ptr ValidateAddress (elems s)) (\<lambda>(cost, err).
       bind (set_usedGas cost) (\<lambda>_.
       case err of
         Some e \<Rightarrow> report_error e
       | None \<Rightarrow> ret GoError_None))) w)"

section \<open>Querier callback\<close>

definition cQueryExternal ::
    "(json_error \<Rightarrow> string) \<Rightarrow> 's querier option \<Rightarrow> u64 \<Rightarrow> U8SliceView \<Rightarrow> ('i, 's, GoError) callback" where
  "cQueryExternal json_err ptr gasLimit request = recovering (\<lambda>w.
     if ptr = None \<or> f_usedGas w = None \<or> f_out w = None \<or> f_errOut w = None
     then (Ok GoError_BadArgument, w)
     else if \<not> none_vector (f_out w) \<or> \<not> none_vector (f_errOut w) then (Panic overwrite_panic, w)
     else bind (copy_view request) (\<lambda>req.
       bind (metered (QuerierGasConsumed (the ptr)) (env (RustQuery json_err (the ptr) req gasLimit))) (\<lambda>r.
       case json_Marshal (QuerierResult_to_json r) of
         Inl err \<Rightarrow> bind (new_vector (Some err)) (\<lambda>v. bind (set_errOut v) (\<lambda>_. ret GoError_CannotSerialize))
       | Inr bz \<Rightarrow> bind (new_vector (Some bz)) (\<lambda>v. bind (set_out v) (\<lambda>_. ret GoError_None)))) w)"

section \<open>The vtables and the objects Rust gets\<close>

text \<open>
  A vtable holds function pointers, which may be null on the Rust side.  The functions of a
  \<open>GoIter\<close> are \<open>cNext\<close>, \<open>cNextKey\<close> and \<open>cNextValue\<close> whenever its vtable is set.
\<close>

record ('i, 's) DbVtable =
  read_db :: "(('i, 's) DBState option \<Rightarrow> 's gas_meter option \<Rightarrow> U8SliceView \<Rightarrow> ('i, 's, GoError) callback) option"
  write_db :: "(('i, 's) DBState option \<Rightarrow> 's gas_meter option \<Rightarrow> U8SliceView \<Rightarrow> U8SliceView
    \<Rightarrow> ('i, 's, GoError) callback) option"
  remove_db :: "(('i, 's) DBState option \<Rightarrow> 's gas_meter option \<Rightarrow> U8SliceView \<Rightarrow> ('i, 's, GoError) callback) option"
  scan_db :: "(('i, 's) DBState option \<Rightarrow> 's gas_meter option \<Rightarrow> U8SliceView \<Rightarrow> U8SliceView \<Rightarrow> 32 word
    \<Rightarrow> ('i, 's, GoError) callback) option"

definition db_vtable :: "('i, 's) DbVtable" where
  "db_vtable = \<lparr>read_db = Some cGet, write_db = Some cSet, remove_db = Some cDelete, scan_db = Some cScan\<rparr>"

record ('i, 's) Db =
  db_gas_meter :: "'s gas_meter option"
  db_state :: "('i, 's) DBState option"
  db_vtab :: "('i, 's) DbVtable"

definition buildDB :: "('i, 's) DBState \<Rightarrow> 's gas_meter \<Rightarrow> ('i, 's) Db" where
  "buildDB state gm = \<lparr>db_gas_meter = Some gm, db_state = Some state, db_vtab = db_vtable\<rparr>"

record ('i, 's) GoApiVtable =
  humanize_address :: "('s GoAPI option \<Rightarrow> U8SliceView \<Rightarrow> ('i, 's, GoError) callback) option"
  canonicalize_address :: "('s GoAPI option \<Rightarrow> U8SliceView \<Rightarrow> ('i, 's, GoError) callback) option"
  validate_address :: "('s GoAPI option \<Rightarrow> U8SliceView \<Rightarrow> ('i, 's, GoError) callback) option"

definition api_vtable :: "('i, 's) GoApiVtable" where
  "api_vtable = \<lparr>humanize_address = Some cHumanizeAddress, canonicalize_address = Some cCanonicalizeAddress,
     validate_address = Some cValidateAddress\<rparr>"

record ('i, 's) GoApi =
  api_state :: "'s GoAPI option"
  api_vtab :: "('i, 's) GoApiVtable"

definition buildAPI :: "'s GoAPI \<Rightarrow> ('i, 's) GoApi" where
  "buildAPI api = \<lparr>api_state = Some api, api_vtab = api_vtable\<rparr>"

record ('i, 's) GoQuerier =
  querier_state :: "'s querier option"
  query_external :: "('s querier option \<Rightarrow> u64 \<Rightarrow> U8SliceView \<Rightarrow> ('i, 's, GoError) callback) option"

definition buildQuerier :: "(json_error \<Rightarrow> string) \<Rightarrow> 's querier \<Rightarrow> ('i, 's) GoQuerier" where
  "buildQuerier json_err q =
     \<lparr>querier_state = Some q, query_external = Some (cQueryExternal json_err)\<rparr>"

section \<open>Facts about effects\<close>

lemma ret_simps [simp]: "ret x w = (Ok x, w)"
  by (simp add: ret_def)

lemma panic_simps [simp]: "panic p w = (Panic p, w)"
  by (simp add: panic_def)

lemma bind_simps [simp]:
  "m w = (Ok x, w') \<Longrightarrow> bind m f w = f x w'"
  "m w = (Panic p, w') \<Longrightarrow> bind m f w = (Panic p, w')"
  "m w = (Undefined, w') \<Longrightarrow> bind m f w = (Undefined, w')"
  by (simp_all add: bind_def)

lemma recovering_simps [simp]:
  "body w = (Ok r, w') \<Longrightarrow> recovering body w = (Ok r, w')"
  "body w = (Panic p, w') \<Longrightarrow> recovering body w = (Ok (recoverPanic p), w')"
  "body w = (Undefined, w') \<Longrightarrow> recovering body w = (Undefined, w')"
  by (simp_all add: recovering_def)

lemma recovering_no_panic: "fst (recovering body w) \<noteq> Panic p"
  by (simp add: recovering_def split: res.split prod.split)

text \<open>Short byte strings, those the views and vectors carry in full.\<close>

definition short :: "byte_slice \<Rightarrow> bool" where
  "short s \<longleftrightarrow> slice_len s < 2 ^ 31"

lemma copy_view_new [simp]: "short s \<Longrightarrow> copy_view (U8SliceView_new s) w = (Ok s, w)"
  by (simp add: copy_view_def copyU8Slice_new short_def)

lemma env_simps [simp]:
  "f (f_env w) = (Return x, s) \<Longrightarrow> env f w = (Ok x, w\<lparr>f_env := s\<rparr>)"
  "f (f_env w) = (Panics p, s) \<Longrightarrow> env f w = (Panic p, w\<lparr>f_env := s\<rparr>)"
  by (simp_all add: env_def)

lemma set_simps [simp]:
  "f_usedGas w \<noteq> None \<Longrightarrow> set_usedGas g w = (Ok (), w\<lparr>f_usedGas := Some g\<rparr>)"
  "f_out w \<noteq> None \<Longrightarrow> set_out v w = (Ok (), w\<lparr>f_out := Some v\<rparr>)"
  "f_out2 w \<noteq> None \<Longrightarrow> set_out2 v w = (Ok (), w\<lparr>f_out2 := Some v\<rparr>)"
  "f_errOut w \<noteq> None \<Longrightarrow> set_errOut v w = (Ok (), w\<lparr>f_errOut := Some v\<rparr>)"
  "f_iter w \<noteq> None \<Longrightarrow> set_iter it w = (Ok (), w\<lparr>f_iter := Some it\<rparr>)"
  by (simp_all add: set_usedGas_def set_out_def set_out2_def set_errOut_def set_iter_def)

lemma new_vector_owned:
  assumes "heap_ok (f_heap w)" "slice_len data < 2 ^ 64"
  obtains v h where "new_vector data w = (Ok v, w\<lparr>f_heap := h\<rparr>)" "owned h v (map_option vec_from data)"
    "heap_ok h" "heap_without h v = blocks (f_heap w)"
  using to_rust.give_law [OF assms(1), of data] assms(2)
  by (auto simp: new_vector_def go_bytes_ok_def)

end
