(* ===== verification/Backend.thy ===== *)
theory Backend
  imports Callbacks "HOL-Library.AList"
begin

text \<open>
  The Rust side of the callbacks in \<open>libwasmvm/src\<close>: \<open>GoStorage\<close> (\<open>storage.rs\<close>), \<open>GoIter\<close>
  (\<open>iterator.rs\<close>), \<open>GoApi\<close> (\<open>api.rs\<close>) and the error conversion of \<open>error/go.rs\<close>.  These
  are the implementations of the traits through which the virtual machine, a third-party crate, reads
  and writes the chain.  A Rust function allocates the out parameters, calls Go through the vtable,
  consumes what Go wrote and converts the result.
\<close>

section \<open>Errors of the crate cosmwasm\_vm\<close>

datatype BackendError =
    ForeignPanic | BadArgument | OutOfGas | UserErr string | UnknownErr string
  | IteratorDoesNotExist u32 | InvalidUtf8

record GasInfo =
  gas_cost :: u64
  externally_used :: u64

definition with_externally_used :: "u64 \<Rightarrow> GasInfo" where
  "with_externally_used g = \<lparr>gas_cost = 0, externally_used = g\<rparr>"

definition with_cost :: "u64 \<Rightarrow> GasInfo" where
  "with_cost g = \<lparr>gas_cost = g, externally_used = 0\<rparr>"

definition gas_free :: GasInfo where
  "gas_free = \<lparr>gas_cost = 0, externally_used = 0\<rparr>"

type_synonym 'a BackendResult = "(BackendError + 'a) \<times> GasInfo"

definition rust_panic :: "string \<Rightarrow> panic_value" where
  "rust_panic s = PanicValue ''rust'' s"

section \<open>Text of the Rust standard library\<close>

text \<open>
  \<open>String::from_utf8_lossy\<close>: valid UTF-8 is kept, and every maximal prefix of a sequence that does not
  go on becomes one replacement character.
\<close>

definition bad_len :: "char \<Rightarrow> string \<Rightarrow> nat" where
  "bad_len c cs =
     (let b = ord c;
          second = (\<lambda>lo hi. cs \<noteq> [] \<and> lo \<le> ord (hd cs) \<and> ord (hd cs) \<le> hi);
          three = (b = 0xE0 \<and> second 0xA0 0xBF) \<or> (0xE1 \<le> b \<and> b \<le> 0xEC \<and> second 0x80 0xBF)
            \<or> (b = 0xED \<and> second 0x80 0x9F) \<or> (0xEE \<le> b \<and> b \<le> 0xEF \<and> second 0x80 0xBF);
          four = (b = 0xF0 \<and> second 0x90 0xBF) \<or> (0xF1 \<le> b \<and> b \<le> 0xF3 \<and> second 0x80 0xBF)
            \<or> (b = 0xF4 \<and> second 0x80 0x8F)
      in if three then 2
         else if four then (if tl cs \<noteq> [] \<and> is_cont (hd (tl cs)) then 3 else 2)
         else 1)"

function from_utf8_lossy :: "string \<Rightarrow> string" where
  "from_utf8_lossy [] = []"
| "from_utf8_lossy (c # cs) =
     (case decode_rune c cs of (r, n) \<Rightarrow>
        if r = RuneError \<and> n = 1
        then encode_rune RuneError @ from_utf8_lossy (drop (bad_len c cs - 1) cs)
        else take n (c # cs) @ from_utf8_lossy (drop (n - 1) cs))"
  by pat_completeness auto

termination
  by (relation "measure length") auto

section \<open>GoError\<close>

datatype rust_GoError =
    RNone | RPanic | RBadArgument | ROutOfGas | RCannotSerialize | RUser | ROther

definition GoError_code :: "GoError \<Rightarrow> 32 word" where
  "GoError_code e = (case e of
     GoError_None \<Rightarrow> 0 | GoError_Panic \<Rightarrow> 1 | GoError_BadArgument \<Rightarrow> 2 | GoError_OutOfGas \<Rightarrow> 3
   | GoError_CannotSerialize \<Rightarrow> 4 | GoError_User \<Rightarrow> 5)"

definition GoError_from :: "32 word \<Rightarrow> rust_GoError" where
  "GoError_from n =
     (if n = 0 then RNone else if n = 1 then RPanic else if n = 2 then RBadArgument
      else if n = 3 then ROutOfGas else if n = 4 then RCannotSerialize else if n = 5 then RUser
      else ROther)"

text \<open>Consuming a vector Go wrote.\<close>

definition take_vector :: "UnmanagedVector option \<Rightarrow> ('i, 's, string option) callback" where
  "take_vector v w = (case UnmanagedVector_consume (the v) (f_heap w) of
     None \<Rightarrow> (Undefined, w)
   | Some (x, h) \<Rightarrow> (Ok (map_option fst x), w\<lparr>f_heap := h\<rparr>))"

definition MAX_ERROR_LEN :: nat where
  "MAX_ERROR_LEN = 8 * 1024"

definition build_error_msg :: "string option \<Rightarrow> string \<Rightarrow> string" where
  "build_error_msg error_msg default_error_msg = (case error_msg of
     Some data \<Rightarrow> from_utf8_lossy (take MAX_ERROR_LEN data)
   | None \<Rightarrow> default_error_msg)"

definition GoError_into_result ::
    "rust_GoError \<Rightarrow> UnmanagedVector option \<Rightarrow> string \<Rightarrow> ('i, 's, BackendError + unit) callback" where
  "GoError_into_result e error_msg default_error_msg =
     bind (take_vector error_msg) (\<lambda>msg. ret (case e of
       RNone \<Rightarrow> Inr ()
     | RPanic \<Rightarrow> Inl ForeignPanic
     | RBadArgument \<Rightarrow> Inl BadArgument
     | ROutOfGas \<Rightarrow> Inl OutOfGas
     | RUser \<Rightarrow> Inl (UserErr (build_error_msg msg default_error_msg))
     | RCannotSerialize \<Rightarrow> Inl (UnknownErr (build_error_msg msg default_error_msg))
     | ROther \<Rightarrow> Inl (UnknownErr (build_error_msg msg default_error_msg))))"

section \<open>Calling Go\<close>

definition none_vec :: UnmanagedVector where
  "none_vec = \<lparr>uv_is_none = True, uv_ptr = 0, uv_len = 0, uv_cap = 0\<rparr>"

text \<open>The out parameters: \<open>UnmanagedVector::default()\<close>, a zero gas counter, a stub iterator.\<close>

definition GoIter_stub :: GoIter where
  "GoIter_stub = \<lparr>gi_gas_meter = False, gi_reference = \<lparr>call_id = 0, iterator_id = 0\<rparr>, gi_vtable = False\<rparr>"

definition fresh_cells :: "('i, 's, unit) callback" where
  "fresh_cells w = (Ok (), w\<lparr>f_usedGas := Some 0, f_out := Some none_vec, f_out2 := Some none_vec,
     f_errOut := Some none_vec, f_iter := Some GoIter_stub\<rparr>)"

definition read_cells ::
    "('i, 's, u64 \<times> UnmanagedVector option \<times> UnmanagedVector option \<times> UnmanagedVector option \<times> GoIter) callback" where
  "read_cells w = (Ok (the (f_usedGas w), f_out w, f_out2 w, f_errOut w, the (f_iter w)), w)"

definition call_go :: "('i, 's, GoError) callback \<Rightarrow> ('i, 's, rust_GoError) callback" where
  "call_go f = bind fresh_cells (\<lambda>_. bind f (\<lambda>e. ret (GoError_from (GoError_code e))))"

section \<open>GoIter\<close>

text \<open>\<open>gm\<close> is what the gas meter pointer of the iterator points to.\<close>

definition GoIter_next ::
    "('i, 's) iterator_ops \<Rightarrow> 's gas_meter \<Rightarrow> GoIter \<Rightarrow> ('i, 's, (string \<times> string) option BackendResult) callback" where
  "GoIter_next ops gm it =
     (if \<not> gi_vtable it then panic (rust_panic ''iterator vtable function next not set'')
      else bind (call_go (cNext ops (gi_reference it) (if gi_gas_meter it then Some gm else None))) (\<lambda>go_result.
        bind read_cells (\<lambda>(used_gas, key, val, err, _).
        bind (take_vector key) (\<lambda>output_key. bind (take_vector val) (\<lambda>output_value.
        bind (GoError_into_result go_result err ''Failed to fetch next item from iterator'') (\<lambda>r.
        ret (case r of
          Inl e \<Rightarrow> (Inl e, with_externally_used used_gas)
        | Inr _ \<Rightarrow> (case output_key of
            Some k \<Rightarrow> (case output_value of
              Some v \<Rightarrow> (Inr (Some (k, v)), with_externally_used used_gas)
            | None \<Rightarrow> (Inl (UnknownErr ''Failed to read value while reading the next key in the db''),
                with_externally_used used_gas))
          | None \<Rightarrow> (Inr None, with_externally_used used_gas)))))))))"

definition GoIter_next_key_or_val ::
    "('i, 's, GoError) callback \<Rightarrow> ('i, 's, string option BackendResult) callback" where
  "GoIter_next_key_or_val nxt =
     bind (call_go nxt) (\<lambda>go_result.
     bind read_cells (\<lambda>(used_gas, out, _, err, _).
     bind (take_vector out) (\<lambda>output.
     bind (GoError_into_result go_result err ''Failed to fetch next item from iterator'') (\<lambda>r.
     ret (case r of
       Inl e \<Rightarrow> (Inl e, with_externally_used used_gas)
     | Inr _ \<Rightarrow> (Inr output, with_externally_used used_gas))))))"

definition GoIter_next_key ::
    "('i, 's) iterator_ops \<Rightarrow> 's gas_meter \<Rightarrow> GoIter \<Rightarrow> ('i, 's, string option BackendResult) callback" where
  "GoIter_next_key ops gm it =
     (if \<not> gi_vtable it then panic (rust_panic ''iterator vtable function next_key not set'')
      else GoIter_next_key_or_val
        (cNextKey ops (gi_reference it) (if gi_gas_meter it then Some gm else None)))"

definition GoIter_next_value ::
    "('i, 's) iterator_ops \<Rightarrow> 's gas_meter \<Rightarrow> GoIter \<Rightarrow> ('i, 's, string option BackendResult) callback" where
  "GoIter_next_value ops gm it =
     (if \<not> gi_vtable it then panic (rust_panic ''iterator vtable function next_value not set'')
      else GoIter_next_key_or_val
        (cNextValue ops (gi_reference it) (if gi_gas_meter it then Some gm else None)))"

section \<open>GoStorage\<close>

text \<open>
  The \<open>HashMap\<close> of iterators is an association list.  A method takes the storage and returns it, as
  \<open>&mut self\<close>.
\<close>

record ('i, 's) GoStorage =
  gs_db :: "('i, 's) Db"
  gs_iterators :: "(u32 \<times> GoIter) list"

definition GoStorage_new :: "('i, 's) Db \<Rightarrow> ('i, 's) GoStorage" where
  "GoStorage_new db = \<lparr>gs_db = db, gs_iterators = []\<rparr>"

definition vtable_fn :: "'f option \<Rightarrow> string \<Rightarrow> ('f \<Rightarrow> ('w, 'a) eff) \<Rightarrow> ('w, 'a) eff" where
  "vtable_fn f name k = (case f of
     None \<Rightarrow> panic (rust_panic (''vtable function '' @ name @ '' not set''))
   | Some g \<Rightarrow> k g)"

definition GoStorage_get ::
    "('i, 's) GoStorage \<Rightarrow> string \<Rightarrow> ('i, 's, string option BackendResult) callback" where
  "GoStorage_get st key = vtable_fn (read_db (db_vtab (gs_db st))) ''read_db'' (\<lambda>f.
     bind (call_go (f (db_state (gs_db st)) (db_gas_meter (gs_db st)) (U8SliceView_new (Some key))))
       (\<lambda>go_error.
     bind read_cells (\<lambda>(used_gas, out, _, err, _).
     bind (take_vector out) (\<lambda>output.
     bind (GoError_into_result go_error err (''Failed to read a key in the db: '' @ from_utf8_lossy key)) (\<lambda>r.
     ret (case r of
       Inl e \<Rightarrow> (Inl e, with_externally_used used_gas)
     | Inr _ \<Rightarrow> (Inr output, with_externally_used used_gas)))))))"

datatype Order = Ascending | Descending

definition order_code :: "Order \<Rightarrow> 32 word" where
  "order_code order = (case order of Ascending \<Rightarrow> 1 | Descending \<Rightarrow> 2)"

text \<open>\<open>debug\<close> renders the two bounds for the message of an error that carries no text.\<close>

definition GoStorage_scan ::
    "(string option \<Rightarrow> string) \<Rightarrow> ('i, 's) GoStorage \<Rightarrow> string option \<Rightarrow> string option \<Rightarrow> Order
      \<Rightarrow> ('i, 's, u32 BackendResult \<times> ('i, 's) GoStorage) callback" where
  "GoStorage_scan debug st start stop order = vtable_fn (scan_db (db_vtab (gs_db st))) ''scan_db'' (\<lambda>f.
     bind (call_go (f (db_state (gs_db st)) (db_gas_meter (gs_db st))
         (U8SliceView_new start) (U8SliceView_new stop) (order_code order))) (\<lambda>go_error.
     bind read_cells (\<lambda>(used_gas, _, _, err, iter).
     bind (GoError_into_result go_error err
         (''Failed to read the next key between '' @ debug start @ '' and '' @ debug stop)) (\<lambda>r.
     case r of
       Inl e \<Rightarrow> ret ((Inl e, with_externally_used used_gas), st)
     | Inr _ \<Rightarrow>
         if length (gs_iterators st) \<ge> 2 ^ 32
         then panic (rust_panic ''Iterator count exceeded uint32 range. This is a bug.'')
         else (let next_id = of_nat (length (gs_iterators st)) in
           ret ((Inr next_id, with_externally_used used_gas),
             st\<lparr>gs_iterators := AList.update next_id iter (gs_iterators st)\<rparr>))))))"

definition GoStorage_with ::
    "('i, 's) GoStorage \<Rightarrow> u32 \<Rightarrow> (GoIter \<Rightarrow> ('i, 's, 'a BackendResult) callback)
      \<Rightarrow> ('i, 's, 'a BackendResult) callback" where
  "GoStorage_with st iid k = (case map_of (gs_iterators st) iid of
     None \<Rightarrow> ret (Inl (IteratorDoesNotExist iid), gas_free)
   | Some iterator \<Rightarrow> k iterator)"

definition GoStorage_next ::
    "('i, 's) iterator_ops \<Rightarrow> 's gas_meter \<Rightarrow> ('i, 's) GoStorage \<Rightarrow> u32
      \<Rightarrow> ('i, 's, (string \<times> string) option BackendResult) callback" where
  "GoStorage_next ops gm st iid = GoStorage_with st iid (GoIter_next ops gm)"

definition GoStorage_next_key ::
    "('i, 's) iterator_ops \<Rightarrow> 's gas_meter \<Rightarrow> ('i, 's) GoStorage \<Rightarrow> u32
      \<Rightarrow> ('i, 's, string option BackendResult) callback" where
  "GoStorage_next_key ops gm st iid = GoStorage_with st iid (GoIter_next_key ops gm)"

definition GoStorage_next_value ::
    "('i, 's) iterator_ops \<Rightarrow> 's gas_meter \<Rightarrow> ('i, 's) GoStorage \<Rightarrow> u32
      \<Rightarrow> ('i, 's, string option BackendResult) callback" where
  "GoStorage_next_value ops gm st iid = GoStorage_with st iid (GoIter_next_value ops gm)"

definition GoStorage_set ::
    "('i, 's) GoStorage \<Rightarrow> string \<Rightarrow> string \<Rightarrow> ('i, 's, unit BackendResult) callback" where
  "GoStorage_set st key val = vtable_fn (write_db (db_vtab (gs_db st))) ''write_db'' (\<lambda>f.
     bind (call_go (f (db_state (gs_db st)) (db_gas_meter (gs_db st))
         (U8SliceView_new (Some key)) (U8SliceView_new (Some val)))) (\<lambda>go_error.
     bind read_cells (\<lambda>(used_gas, _, _, err, _).
     bind (GoError_into_result go_error err (''Failed to set a key in the db: '' @ from_utf8_lossy key)) (\<lambda>r.
     ret (r, with_externally_used used_gas)))))"

definition GoStorage_remove ::
    "('i, 's) GoStorage \<Rightarrow> string \<Rightarrow> ('i, 's, unit BackendResult) callback" where
  "GoStorage_remove st key = vtable_fn (remove_db (db_vtab (gs_db st))) ''remove_db'' (\<lambda>f.
     bind (call_go (f (db_state (gs_db st)) (db_gas_meter (gs_db st)) (U8SliceView_new (Some key))))
       (\<lambda>go_error.
     bind read_cells (\<lambda>(used_gas, _, _, err, _).
     bind (GoError_into_result go_error err (''Failed to delete a key in the db: '' @ from_utf8_lossy key)) (\<lambda>r.
     ret (r, with_externally_used used_gas)))))"

section \<open>GoApi\<close>

definition addr_canonicalize :: "('i, 's) GoApi \<Rightarrow> string \<Rightarrow> ('i, 's, string BackendResult) callback" where
  "addr_canonicalize api human =
     vtable_fn (canonicalize_address (api_vtab api)) ''canonicalize_address'' (\<lambda>f.
     bind (call_go (f (api_state api) (U8SliceView_new (Some human)))) (\<lambda>go_error.
     bind read_cells (\<lambda>(used_gas, out, _, err, _).
     bind (take_vector out) (\<lambda>output.
     bind (GoError_into_result go_error err (''Failed to canonicalize the address: '' @ human)) (\<lambda>r.
     ret (case r of
       Inl e \<Rightarrow> (Inl e, with_cost used_gas)
     | Inr _ \<Rightarrow> (case output of
         None \<Rightarrow> (Inl (UnknownErr ''Unset output''), with_cost used_gas)
       | Some c \<Rightarrow> (Inr c, with_cost used_gas))))))))"

definition addr_humanize :: "('i, 's) GoApi \<Rightarrow> string \<Rightarrow> ('i, 's, string BackendResult) callback" where
  "addr_humanize api canonical =
     vtable_fn (humanize_address (api_vtab api)) ''humanize_address'' (\<lambda>f.
     bind (call_go (f (api_state api) (U8SliceView_new (Some canonical)))) (\<lambda>go_error.
     bind read_cells (\<lambda>(used_gas, out, _, err, _).
     bind (take_vector out) (\<lambda>output.
     bind (GoError_into_result go_error err (''Failed to humanize the address: '' @ hex_upper canonical)) (\<lambda>r.
     ret (case r of
       Inl e \<Rightarrow> (Inl e, with_cost used_gas)
     | Inr _ \<Rightarrow> (case output of
         None \<Rightarrow> (Inl (UnknownErr ''Unset output''), with_cost used_gas)
       | Some h \<Rightarrow> (if utf8_valid h then Inr h else Inl InvalidUtf8, with_cost used_gas))))))))"

definition addr_validate :: "('i, 's) GoApi \<Rightarrow> string \<Rightarrow> ('i, 's, unit BackendResult) callback" where
  "addr_validate api input =
     vtable_fn (validate_address (api_vtab api)) ''validate_address'' (\<lambda>f.
     bind (call_go (f (api_state api) (U8SliceView_new (Some input)))) (\<lambda>go_error.
     bind read_cells (\<lambda>(used_gas, _, _, err, _).
     bind (GoError_into_result go_error err (''Failed to validate the address: '' @ input)) (\<lambda>r.
     ret (r, with_cost used_gas)))))"

section \<open>GoQuerier\<close>

text \<open>
  \<open>parse\<close> is \<open>serde_json::from_slice\<close> into the crate's \<open>SystemResult\<close>; \<open>InvalidResponse\<close> is what the
  code makes of a parse error.
\<close>

datatype 'q system_result = SystemResult 'q | InvalidResponseErr string string

definition query_raw ::
    "(string \<Rightarrow> string + 'q) \<Rightarrow> ('i, 's) GoQuerier \<Rightarrow> string \<Rightarrow> u64
      \<Rightarrow> ('i, 's, 'q system_result BackendResult) callback" where
  "query_raw parse q request gas_limit =
     vtable_fn (query_external q) ''query_external'' (\<lambda>f.
     bind (call_go (f (querier_state q) gas_limit (U8SliceView_new (Some request)))) (\<lambda>go_result.
     bind read_cells (\<lambda>(used_gas, out, _, err, _).
     bind (take_vector out) (\<lambda>output.
     bind (GoError_into_result go_result err
         (''Failed to query another contract with this request: '' @ from_utf8_lossy request)) (\<lambda>r.
     ret (case r of
       Inl e \<Rightarrow> (Inl e, with_externally_used used_gas)
     | Inr _ \<Rightarrow>
         (let bin_result = (case output of None \<Rightarrow> [] | Some b \<Rightarrow> b) in
          (Inr (case parse bin_result of
             Inr sys \<Rightarrow> SystemResult sys
           | Inl e \<Rightarrow> InvalidResponseErr (''Parsing Go response: '' @ e) bin_result),
           with_externally_used used_gas))))))))"

section \<open>What the virtual machine sees\<close>

lemma GoError_from_code:
  "GoError_from (GoError_code e) = (case e of
     GoError_None \<Rightarrow> RNone | GoError_Panic \<Rightarrow> RPanic | GoError_BadArgument \<Rightarrow> RBadArgument
   | GoError_OutOfGas \<Rightarrow> ROutOfGas | GoError_CannotSerialize \<Rightarrow> RCannotSerialize | GoError_User \<Rightarrow> RUser)"
  by (cases e) (simp_all add: GoError_from_def GoError_code_def)

lemma take_none [simp]: "take_vector (Some none_vec) w = (Ok None, w)"
  by (simp add: take_vector_def none_vec_def UnmanagedVector_consume_def)

lemma none_vector_none [simp]: "none_vector (Some none_vec)"
  by (simp add: none_vector_def none_vec_def)

lemma take_owned:
  assumes "owned (f_heap w) v x" "heap_ok (f_heap w)"
  obtains h where "take_vector (Some v) w = (Ok (map_option fst x), w\<lparr>f_heap := h\<rparr>)" "heap_ok h"
    "blocks h = heap_without (f_heap w) v"
  using consume_owned [OF assms(1)] assms(2) by (auto simp: take_vector_def)

lemma map_fst_vec_from [simp]: "map_option fst (map_option vec_from x) = x"
  by (cases x) (simp_all add: vec_from_def)

text \<open>
  The behaviour of a metered operation of the chain, and what the virtual machine is meant to see of
  it: the value and the gas used, or an error that says whether the chain ran out of gas.
\<close>

definition metered_env ::
    "'s gas_meter \<Rightarrow> ('s \<Rightarrow> 'a go \<times> 's) \<Rightarrow> 's \<Rightarrow> (panic_value + 'a \<times> u64) \<times> 's" where
  "metered_env gm f s = (case gm s of
     (Panics p, s1) \<Rightarrow> (Inl p, s1)
   | (Return before, s1) \<Rightarrow> (case f s1 of
       (Panics p, s2) \<Rightarrow> (Inl p, s2)
     | (Return x, s2) \<Rightarrow> (case gm s2 of
         (Panics p, s3) \<Rightarrow> (Inl p, s3)
       | (Return after, s3) \<Rightarrow> (Inr (x, after - before), s3))))"

definition panic_error :: "panic_value \<Rightarrow> BackendError" where
  "panic_error p = (if panic_type p = ''ErrorOutOfGas'' then OutOfGas else ForeignPanic)"

definition backend_result :: "(panic_value + 'a \<times> u64) \<Rightarrow> 'a BackendResult" where
  "backend_result r = (case r of
     Inl p \<Rightarrow> (Inl (panic_error p), with_externally_used 0)
   | Inr (x, g) \<Rightarrow> (Inr x, with_externally_used g))"

lemma metered_run:
  assumes "f_usedGas w \<noteq> None"
  shows "metered gm (env f) w = (case metered_env gm f (f_env w) of
      (Inl p, s) \<Rightarrow> (Panic p, w\<lparr>f_env := s\<rparr>)
    | (Inr (x, g), s) \<Rightarrow> (Ok x, w\<lparr>f_env := s, f_usedGas := Some g\<rparr>))"
  using assms
  by (auto simp: metered_def metered_env_def bind_def env_def split: prod.split go.split)

lemma recoverPanic_result:
  "GoError_from (GoError_code (recoverPanic p)) = (if panic_type p = ''ErrorOutOfGas'' then ROutOfGas else RPanic)"
  by (simp add: recoverPanic_def GoError_from_code)

lemmas rust_call = vtable_fn_def call_go_def fresh_cells_def read_cells_def GoError_into_result_def

definition go_db :: "('i, 's) kvstore \<Rightarrow> u64 \<Rightarrow> 's gas_meter \<Rightarrow> (u32 \<times> GoIter) list \<Rightarrow> ('i, 's) GoStorage" where
  "go_db kv c gm its = \<lparr>gs_db = buildDB (buildDBState kv c) gm, gs_iterators = its\<rparr>"

lemmas go_db_defs = go_db_def buildDB_def buildDBState_def db_vtable_def

lemma GoStorage_set_run:
  assumes "short (Some key)" "short (Some val)"
  shows "\<exists>w'. GoStorage_set (go_db kv c gm its) key val w =
      (Ok (backend_result (fst (metered_env gm (kv_Set kv (Some key) (Some val)) (f_env w)))), w') \<and>
    f_env w' = snd (metered_env gm (kv_Set kv (Some key) (Some val)) (f_env w)) \<and>
    f_iters w' = f_iters w \<and> f_heap w' = f_heap w"
proof (cases "metered_env gm (kv_Set kv (Some key) (Some val)) (f_env w)")
  case (Pair r s)
  show ?thesis
  proof (cases r)
    case (Inl p)
    with Pair assms show ?thesis
      by (simp add: GoStorage_set_def go_db_defs rust_call cSet_def metered_run recoverPanic_result
          backend_result_def panic_error_def)
  next
    case (Inr xg)
    with Pair assms show ?thesis
      by (cases xg) (simp add: GoStorage_set_def go_db_defs rust_call cSet_def metered_run
          GoError_from_code backend_result_def)
  qed
qed

lemma GoStorage_remove_run:
  assumes "short (Some key)"
  shows "\<exists>w'. GoStorage_remove (go_db kv c gm its) key w =
      (Ok (backend_result (fst (metered_env gm (kv_Delete kv (Some key)) (f_env w)))), w') \<and>
    f_env w' = snd (metered_env gm (kv_Delete kv (Some key)) (f_env w)) \<and>
    f_iters w' = f_iters w \<and> f_heap w' = f_heap w"
proof (cases "metered_env gm (kv_Delete kv (Some key)) (f_env w)")
  case (Pair r s)
  show ?thesis
  proof (cases r)
    case (Inl p)
    with Pair assms show ?thesis
      by (simp add: GoStorage_remove_def go_db_defs rust_call cDelete_def metered_run recoverPanic_result
          backend_result_def panic_error_def)
  next
    case (Inr xg)
    with Pair assms show ?thesis
      by (cases xg) (simp add: GoStorage_remove_def go_db_defs rust_call cDelete_def metered_run
          GoError_from_code backend_result_def)
  qed
qed

text \<open>A value written by \<open>new_vector\<close> and taken by \<open>take_vector\<close>: nothing stays allocated.\<close>

lemma new_then_take:
  fixes h0 :: heap
  assumes "heap_ok h0" "slice_len data < 2 ^ 64"
  obtains v h h' where "\<And>w :: ('i, 's) ffi. f_heap w = h0 \<Longrightarrow> new_vector data w = (Ok v, w\<lparr>f_heap := h\<rparr>)"
    "\<And>w :: ('i, 's) ffi. f_heap w = h \<Longrightarrow> take_vector (Some v) w = (Ok data, w\<lparr>f_heap := h'\<rparr>)"
    "blocks h' = blocks h0" "heap_ok h'"
proof -
  from to_rust.give_take [OF assms(1), of data] assms(2) obtain v h h' where
    "newUnmanagedVector data h0 = Some (v, h)"
    "UnmanagedVector_consume v h = Some (map_option vec_from data, h')" "heap_ok h'" "blocks h' = blocks h0"
    by (auto simp: go_bytes_ok_def)
  with that show ?thesis by (simp add: take_vector_def new_vector_def)
qed

lemma GoStorage_get_run:
  fixes w :: "('i, 's) ffi"
  assumes "short (Some key)" "heap_ok (f_heap w)"
    "\<And>v g s. metered_env gm (kv_Get kv (Some key)) (f_env w) = (Inr (v, g), s) \<Longrightarrow> slice_len v < 2 ^ 64"
  shows "\<exists>w'. GoStorage_get (go_db kv c gm its) key w =
      (Ok (backend_result (fst (metered_env gm (kv_Get kv (Some key)) (f_env w)))), w') \<and>
    f_env w' = snd (metered_env gm (kv_Get kv (Some key)) (f_env w)) \<and>
    f_iters w' = f_iters w \<and> blocks (f_heap w') = blocks (f_heap w) \<and> heap_ok (f_heap w')"
proof (cases "metered_env gm (kv_Get kv (Some key)) (f_env w)")
  case (Pair r s)
  show ?thesis
  proof (cases r)
    case (Inl p)
    with Pair assms show ?thesis
      by (simp add: GoStorage_get_def go_db_defs rust_call cGet_def metered_run recoverPanic_result
          backend_result_def panic_error_def)
  next
    case (Inr xg)
    obtain v g where xg: "xg = (v, g)" by fastforce
    have len: "slice_len v < 2 ^ 64" using assms(3) Pair Inr xg by simp
    obtain uv h h' where n: "\<And>w1 :: ('i, 's) ffi. f_heap w1 = f_heap w \<Longrightarrow> new_vector v w1 = (Ok uv, w1\<lparr>f_heap := h\<rparr>)"
      "\<And>w1 :: ('i, 's) ffi. f_heap w1 = h \<Longrightarrow> take_vector (Some uv) w1 = (Ok v, w1\<lparr>f_heap := h'\<rparr>)"
      "blocks h' = blocks (f_heap w)" "heap_ok h'"
      by (rule new_then_take [OF assms(2) len]) blast
    from Pair Inr xg assms n show ?thesis
      by (simp add: GoStorage_get_def go_db_defs rust_call cGet_def metered_run
          GoError_from_code backend_result_def)
  qed
qed

definition scan_op :: "('i, 's) kvstore \<Rightarrow> Order \<Rightarrow> string option \<Rightarrow> string option \<Rightarrow> 's \<Rightarrow> 'i option go \<times> 's" where
  "scan_op kv order start stop = (case order of
     Ascending \<Rightarrow> kv_Iterator kv start stop | Descending \<Rightarrow> kv_ReverseIterator kv start stop)"

lemma GoStorage_scan_stored:
  assumes "short start" "short stop" "length its < 2 ^ 32"
    "metered_env gm (scan_op kv order start stop) (f_env w) = (Inr (it, g), s)"
    "storeIterator c it frameLenLimit (f_iters w) = ((i, None), st)"
  shows "\<exists>w'. GoStorage_scan debug (go_db kv c gm its) start stop order w =
      (Ok ((Inr (of_nat (length its)), with_externally_used g), go_db kv c gm (AList.update (of_nat (length its))
         \<lparr>gi_gas_meter = True, gi_reference = \<lparr>call_id = c, iterator_id = i\<rparr>, gi_vtable = True\<rparr> its)), w') \<and>
    f_env w' = s \<and> f_iters w' = st \<and> f_heap w' = f_heap w"
  using assms
  by (cases order) (simp_all add: GoStorage_scan_def go_db_defs rust_call cScan_def order_code_def scan_op_def metered_run
        buildIterator_def GoError_from_code Let_def)

lemma GoStorage_scan_full:
  fixes w :: "('i, 's) ffi"
  assumes "short start" "short stop" "heap_ok (f_heap w)"
    "metered_env gm (scan_op kv order start stop) (f_env w) = (Inr (it, g), s)"
    "storeIterator c it frameLenLimit (f_iters w) = ((i, Some err), st)" "length err < 2 ^ 64"
  shows "\<exists>w'. GoStorage_scan debug (go_db kv c gm its) start stop order w =
      (Ok ((Inl (UserErr (from_utf8_lossy (take MAX_ERROR_LEN err))), with_externally_used g),
        go_db kv c gm its), w') \<and>
    f_env w' = s \<and> f_iters w' = st \<and> blocks (f_heap w') = blocks (f_heap w) \<and> heap_ok (f_heap w')"
proof -
  obtain uv h h' where n: "\<And>w1 :: ('i, 's) ffi. f_heap w1 = f_heap w \<Longrightarrow> new_vector (Some err) w1 = (Ok uv, w1\<lparr>f_heap := h\<rparr>)"
    "\<And>w1 :: ('i, 's) ffi. f_heap w1 = h \<Longrightarrow> take_vector (Some uv) w1 = (Ok (Some err), w1\<lparr>f_heap := h'\<rparr>)"
    "blocks h' = blocks (f_heap w)" "heap_ok h'"
    by (rule new_then_take [OF assms(3), of "Some err"]) (use assms(6) in auto)
  show ?thesis
    using assms n
    by (cases order) (simp_all add: GoStorage_scan_def go_db_defs rust_call cScan_def order_code_def scan_op_def metered_run
        buildIterator_def GoError_from_code Let_def build_error_msg_def)
qed

lemma GoStorage_scan_panic:
  assumes "short start" "short stop"
    "metered_env gm (scan_op kv order start stop) (f_env w) = (Inl p, s)"
  shows "\<exists>w'. GoStorage_scan debug (go_db kv c gm its) start stop order w =
      (Ok ((Inl (panic_error p), with_externally_used 0), go_db kv c gm its), w') \<and>
    f_env w' = s \<and> f_iters w' = f_iters w \<and> f_heap w' = f_heap w"
  using assms
  by (cases order) (simp_all add: GoStorage_scan_def go_db_defs rust_call cScan_def order_code_def scan_op_def metered_run
        recoverPanic_result panic_error_def Let_def)

lemma new2_then_take2:
  fixes h0 :: heap
  assumes "heap_ok h0" "slice_len k < 2 ^ 64" "slice_len v < 2 ^ 64"
  obtains a b h1 h2 h3 h4 where
    "\<And>w :: ('i, 's) ffi. f_heap w = h0 \<Longrightarrow> new_vector k w = (Ok a, w\<lparr>f_heap := h1\<rparr>)"
    "\<And>w :: ('i, 's) ffi. f_heap w = h1 \<Longrightarrow> new_vector v w = (Ok b, w\<lparr>f_heap := h2\<rparr>)"
    "\<And>w :: ('i, 's) ffi. f_heap w = h2 \<Longrightarrow> take_vector (Some a) w = (Ok k, w\<lparr>f_heap := h3\<rparr>)"
    "\<And>w :: ('i, 's) ffi. f_heap w = h3 \<Longrightarrow> take_vector (Some b) w = (Ok v, w\<lparr>f_heap := h4\<rparr>)"
    "blocks h4 = blocks h0" "heap_ok h4"
proof -
  have ok: "go_bytes_ok k" "go_bytes_ok v" using assms(2,3) by (simp_all add: go_bytes_ok_def)
  from to_rust.give_give_take_take [OF assms(1) ok] obtain a b h1 h2 h3 h4 where
    "newUnmanagedVector k h0 = Some (a, h1)" "newUnmanagedVector v h1 = Some (b, h2)"
    "UnmanagedVector_consume a h2 = Some (map_option vec_from k, h3)"
    "UnmanagedVector_consume b h3 = Some (map_option vec_from v, h4)" "heap_ok h4" "blocks h4 = blocks h0" by blast
  with that show ?thesis by (simp add: take_vector_def new_vector_def)
qed

text \<open>Reading at the position of an iterator and moving on; one whole step of it.\<close>

definition advance ::
    "('i, 's) iterator_ops \<Rightarrow> ('i \<Rightarrow> 's \<Rightarrow> 'a go \<times> 's) \<Rightarrow> 'i \<Rightarrow> 's \<Rightarrow> 'a go \<times> 's" where
  "advance ops read it s = (case read it s of
     (Panics p, s') \<Rightarrow> (Panics p, s')
   | (Return x, s') \<Rightarrow> (case it_Next ops it s' of
       (Panics p, s'') \<Rightarrow> (Panics p, s'')
     | (Return _, s'') \<Rightarrow> (Return x, s'')))"

definition next_env ::
    "('i, 's) iterator_ops \<Rightarrow> 's gas_meter \<Rightarrow> ('i \<Rightarrow> 's \<Rightarrow> 'a go \<times> 's) \<Rightarrow> 'i \<Rightarrow> 's
      \<Rightarrow> (panic_value + 'a option \<times> u64) \<times> 's" where
  "next_env ops gm read it s = (case it_Valid ops it s of
     (Panics p, s1) \<Rightarrow> (Inl p, s1)
   | (Return valid, s1) \<Rightarrow>
       if \<not> valid then (Inr (None, 0), s1)
       else case metered_env gm (advance ops read it) s1 of
         (Inl p, s') \<Rightarrow> (Inl p, s')
       | (Inr (x, g), s') \<Rightarrow> (Inr (Some x, g), s'))"

definition read_pair ::
    "('i, 's) iterator_ops \<Rightarrow> 'i \<Rightarrow> 's \<Rightarrow> (byte_slice \<times> byte_slice) go \<times> 's" where
  "read_pair ops it s = (case it_Key ops it s of
     (Panics p, s') \<Rightarrow> (Panics p, s')
   | (Return k, s') \<Rightarrow> (case it_Value ops it s' of
       (Panics p, s'') \<Rightarrow> (Panics p, s'')
     | (Return v, s'') \<Rightarrow> (Return (k, v), s'')))"

lemma read_next_env:
  "bind (env (read it)) (\<lambda>out. bind (env (it_Next ops it)) (\<lambda>_. ret out)) = env (advance ops read it)"
  by (rule ext) (auto simp: bind_def env_def advance_def split: go.split prod.split)

lemma pair_next_env:
  "bind (env (it_Key ops it)) (\<lambda>k. bind (env (it_Value ops it)) (\<lambda>v.
      bind (env (it_Next ops it)) (\<lambda>_. ret (k, v)))) = env (advance ops (read_pair ops) it)"
  by (rule ext) (auto simp: bind_def env_def read_pair_def advance_def split: go.split prod.split)

definition record_result :: "(panic_value + (byte_slice \<times> byte_slice) option \<times> u64) \<Rightarrow> (string \<times> string) option BackendResult" where
  "record_result r = (case r of
     Inl p \<Rightarrow> (Inl (panic_error p), with_externally_used 0)
   | Inr (None, g) \<Rightarrow> (Inr None, with_externally_used g)
   | Inr (Some (None, v), g) \<Rightarrow> (Inr None, with_externally_used g)
   | Inr (Some (Some k, None), g) \<Rightarrow>
       (Inl (UnknownErr ''Failed to read value while reading the next key in the db''), with_externally_used g)
   | Inr (Some (Some k, Some v), g) \<Rightarrow> (Inr (Some (k, v)), with_externally_used g))"

lemma GoIter_next_run:
  fixes w :: "('i, 's) ffi"
  assumes "heap_ok (f_heap w)" "c \<noteq> 0" "retrieveIterator c i (f_iters w) = Some it"
    "\<And>k v g s. next_env ops gm (read_pair ops) it (f_env w) = (Inr (Some (k, v), g), s) \<Longrightarrow>
       slice_len k < 2 ^ 64 \<and> slice_len v < 2 ^ 64"
    "gi = \<lparr>gi_gas_meter = True, gi_reference = \<lparr>call_id = c, iterator_id = i\<rparr>, gi_vtable = True\<rparr>"
  shows "\<exists>w'. GoIter_next ops gm gi w =
      (Ok (record_result (fst (next_env ops gm (read_pair ops) it (f_env w)))), w') \<and>
    f_env w' = snd (next_env ops gm (read_pair ops) it (f_env w)) \<and>
    f_iters w' = f_iters w \<and> blocks (f_heap w') = blocks (f_heap w) \<and> heap_ok (f_heap w')"
proof (cases "it_Valid ops it (f_env w)")
  case (Pair r s)
  note run = GoIter_next_def assms(5) rust_call cNext_def pair_next_env metered_run next_env_def
  show ?thesis
  proof (cases r)
    case (Panics p)
    with Pair assms(1-3) show ?thesis
      by (simp add: run recoverPanic_result record_result_def panic_error_def)
  next
    case (Return valid)
    show ?thesis
    proof (cases valid)
      case False
      with Return Pair assms(1-3) show ?thesis
        by (simp add: run GoError_from_code record_result_def)
    next
      case True
      obtain r2 s2 where m: "metered_env gm (advance ops (read_pair ops) it) s = (r2, s2)" by fastforce
      show ?thesis
      proof (cases r2)
        case (Inl p)
        with True Return Pair m assms(1-3) show ?thesis
          by (simp add: run recoverPanic_result record_result_def panic_error_def)
      next
        case (Inr xg)
        obtain k v g where xg: "xg = ((k, v), g)" by (cases xg) fastforce
        have "next_env ops gm (read_pair ops) it (f_env w) = (Inr (Some (k, v), g), s2)"
          using True Return Pair m Inr xg by (simp add: next_env_def)
        with assms(4) have len: "slice_len k < 2 ^ 64" "slice_len v < 2 ^ 64" by auto
        obtain a b h1 h2 h3 h4 where n:
          "\<And>w1 :: ('i, 's) ffi. f_heap w1 = f_heap w \<Longrightarrow> new_vector k w1 = (Ok a, w1\<lparr>f_heap := h1\<rparr>)"
          "\<And>w1 :: ('i, 's) ffi. f_heap w1 = h1 \<Longrightarrow> new_vector v w1 = (Ok b, w1\<lparr>f_heap := h2\<rparr>)"
          "\<And>w1 :: ('i, 's) ffi. f_heap w1 = h2 \<Longrightarrow> take_vector (Some a) w1 = (Ok k, w1\<lparr>f_heap := h3\<rparr>)"
          "\<And>w1 :: ('i, 's) ffi. f_heap w1 = h3 \<Longrightarrow> take_vector (Some b) w1 = (Ok v, w1\<lparr>f_heap := h4\<rparr>)"
          "blocks h4 = blocks (f_heap w)" "heap_ok h4"
          by (rule new2_then_take2 [OF assms(1) len]) blast
        show ?thesis
          using True Return Pair m Inr xg assms(1-3) n
          by (simp add: run GoError_from_code record_result_def split: option.split)
      qed
    qed
  qed
qed


definition part_result :: "(panic_value + byte_slice option \<times> u64) \<Rightarrow> string option BackendResult" where
  "part_result r = (case r of
     Inl p \<Rightarrow> (Inl (panic_error p), with_externally_used 0)
   | Inr (None, g) \<Rightarrow> (Inr None, with_externally_used g)
   | Inr (Some x, g) \<Rightarrow> (Inr x, with_externally_used g))"

lemma next_part_run:
  fixes w :: "('i, 's) ffi"
  assumes "heap_ok (f_heap w)" "c \<noteq> 0" "retrieveIterator c i (f_iters w) = Some it"
    "\<And>x g s. next_env ops gm read it (f_env w) = (Inr (Some x, g), s) \<Longrightarrow> slice_len x < 2 ^ 64"
  shows "\<exists>w'. GoIter_next_key_or_val (nextPart ops \<lparr>call_id = c, iterator_id = i\<rparr> (Some gm) read) w =
      (Ok (part_result (fst (next_env ops gm read it (f_env w)))), w') \<and>
    f_env w' = snd (next_env ops gm read it (f_env w)) \<and>
    f_iters w' = f_iters w \<and> blocks (f_heap w') = blocks (f_heap w) \<and> heap_ok (f_heap w')"
proof (cases "it_Valid ops it (f_env w)")
  case (Pair r s)
  note run = GoIter_next_key_or_val_def rust_call nextPart_def read_next_env [of read] metered_run next_env_def
  show ?thesis
  proof (cases "\<exists>p. r = Panics p \<or> r = Return False")
    case True
    with Pair assms(1-3) show ?thesis
      by (auto simp: run recoverPanic_def GoError_from_code part_result_def panic_error_def)
  next
    case False
    then have r: "r = Return True" by (cases r) auto
    obtain r2 s2 where m: "metered_env gm (advance ops read it) s = (r2, s2)" by fastforce
    show ?thesis
    proof (cases r2)
      case (Inl p)
      with r Pair m assms(1-3) show ?thesis
        by (simp add: run recoverPanic_result part_result_def panic_error_def)
    next
      case (Inr xg)
      obtain x g where xg: "xg = (x, g)" by fastforce
      have len: "slice_len x < 2 ^ 64"
        using assms(4) [of x g s2] r Pair m Inr xg by (simp add: next_env_def)
      obtain uv h h' where n:
        "\<And>w1 :: ('i, 's) ffi. f_heap w1 = f_heap w \<Longrightarrow> new_vector x w1 = (Ok uv, w1\<lparr>f_heap := h\<rparr>)"
        "\<And>w1 :: ('i, 's) ffi. f_heap w1 = h \<Longrightarrow> take_vector (Some uv) w1 = (Ok x, w1\<lparr>f_heap := h'\<rparr>)"
        "blocks h' = blocks (f_heap w)" "heap_ok h'"
        by (rule new_then_take [OF assms(1) len]) blast
      show ?thesis
        using r Pair m Inr xg assms(1-3) n by (simp add: run GoError_from_code part_result_def)
    qed
  qed
qed

section \<open>Iterating\<close>

text \<open>
  \<open>collect n\<close> calls \<open>GoIter::next\<close> until it answers \<open>None\<close> or an error, at most \<open>n\<close> times.
\<close>

fun collect :: "('i, 's) iterator_ops \<Rightarrow> 's gas_meter \<Rightarrow> nat \<Rightarrow> GoIter \<Rightarrow> ('i, 's) ffi \<Rightarrow> (string \<times> string) list \<times> bool \<times> ('i, 's) ffi" where
  "collect ops gm 0 gi w = ([], False, w)"
| "collect ops gm (Suc n) gi w = (case GoIter_next ops gm gi w of
     (Ok (Inr (Some kv), _), w') \<Rightarrow> (case collect ops gm n gi w' of (kvs, e, w'') \<Rightarrow> (kv # kvs, e, w''))
   | (Ok (Inr None, _), w') \<Rightarrow> ([], True, w')
   | (_, w') \<Rightarrow> ([], False, w'))"

text \<open>
  The contract of an iterator and a gas meter towards \<open>GoIter\<close>: \<open>remaining s it\<close> is what the iterator
  \<open>it\<close> has still to deliver in the state \<open>s\<close>.  Keys and values are not nil.
\<close>

locale sound_iterator =
  fixes ops :: "('i, 's) iterator_ops" and gm :: "'s gas_meter"
    and remaining :: "'s \<Rightarrow> 'i \<Rightarrow> (string \<times> string) list"
    and inv :: "'s \<Rightarrow> bool"
  assumes valid: "inv s \<Longrightarrow> it_Valid ops it s = (Return (remaining s it \<noteq> []), s)"
    and key: "inv s \<Longrightarrow> remaining s it = (k, v) # r \<Longrightarrow> it_Key ops it s = (Return (Some k), s)"
    and val: "inv s \<Longrightarrow> remaining s it = (k, v) # r \<Longrightarrow> it_Value ops it s = (Return (Some v), s)"
    and move: "inv s \<Longrightarrow> remaining s it = (k, v) # r \<Longrightarrow>
      \<exists>s'. it_Next ops it s = (Return (), s') \<and> inv s' \<and> remaining s' it = r \<and>
        (\<forall>j. j \<noteq> it \<longrightarrow> remaining s' j = remaining s j)"
    and meter: "inv s \<Longrightarrow> \<exists>g s'. gm s = (Return g, s') \<and> inv s' \<and> remaining s' = remaining s"
begin

text \<open>The steps of the iterator itself.\<close>

lemma next_env_end:
  "inv s \<Longrightarrow> remaining s it = [] \<Longrightarrow> next_env ops gm (read_pair ops) it s = (Inr (None, 0), s)"
  by (simp add: next_env_def valid)

lemma next_env_step:
  assumes "inv s" "remaining s it = (k, v) # r"
  shows "\<exists>g s'. next_env ops gm (read_pair ops) it s = (Inr (Some (Some k, Some v), g), s') \<and> inv s' \<and>
    remaining s' it = r \<and> (\<forall>j. j \<noteq> it \<longrightarrow> remaining s' j = remaining s j)"
proof -
  from meter [OF assms(1)] obtain g1 s1 where 1: "gm s = (Return g1, s1)" "inv s1" "remaining s1 = remaining s"
    by blast
  with assms(2) have r1: "remaining s1 it = (k, v) # r" by simp
  from move [OF 1(2) r1] obtain s2 where 2: "it_Next ops it s1 = (Return (), s2)" "inv s2" "remaining s2 it = r"
    "\<forall>j. j \<noteq> it \<longrightarrow> remaining s2 j = remaining s1 j" by blast
  from meter [OF 2(2)] obtain g3 s3 where 3: "gm s2 = (Return g3, s3)" "inv s3" "remaining s3 = remaining s2"
    by blast
  have "next_env ops gm (read_pair ops) it s = (Inr (Some (Some k, Some v), g3 - g1), s3)"
    using assms 1 2 3 key [OF 1(2) r1] val [OF 1(2) r1]
    by (simp add: next_env_def valid metered_env_def advance_def read_pair_def)
  with 1 2 3 show ?thesis by auto
qed

lemma collect_remaining:
  fixes w :: "('i, 's) ffi"
  assumes "inv (f_env w)" "heap_ok (f_heap w)" "c \<noteq> 0" "retrieveIterator c i (f_iters w) = Some it"
    "gi = \<lparr>gi_gas_meter = True, gi_reference = \<lparr>call_id = c, iterator_id = i\<rparr>, gi_vtable = True\<rparr>"
    "\<forall>(k, v)\<in>set (remaining (f_env w) it). length k < 2 ^ 64 \<and> length v < 2 ^ 64"
    "length (remaining (f_env w) it) < n"
  shows "\<exists>w'. collect ops gm n gi w = (remaining (f_env w) it, True, w') \<and> remaining (f_env w') it = [] \<and>
    (\<forall>j. j \<noteq> it \<longrightarrow> remaining (f_env w') j = remaining (f_env w) j) \<and>
    blocks (f_heap w') = blocks (f_heap w) \<and> f_iters w' = f_iters w"
  using assms
proof (induction n arbitrary: w)
  case (Suc n)
  show ?case
  proof (cases "remaining (f_env w) it")
    case Nil
    with GoIter_next_run [OF Suc.prems(2-4) _ Suc.prems(5), of ops gm] Suc.prems(1)
    show ?thesis by (auto simp: next_env_end record_result_def)
  next
    case (Cons kv r)
    obtain k v where kv: "kv = (k, v)" by fastforce
    from next_env_step [OF Suc.prems(1) Cons [unfolded kv]] obtain g s' where
      s': "next_env ops gm (read_pair ops) it (f_env w) = (Inr (Some (Some k, Some v), g), s')" "inv s'"
        "remaining s' it = r" "\<forall>j. j \<noteq> it \<longrightarrow> remaining s' j = remaining (f_env w) j" by blast
    from GoIter_next_run [OF Suc.prems(2-4) _ Suc.prems(5), of ops gm] s'(1) Suc.prems(6) Cons kv
    obtain w1 where w1: "GoIter_next ops gm gi w = (Ok (Inr (Some (k, v)), with_externally_used g), w1)"
      "f_env w1 = s'" "f_iters w1 = f_iters w" "blocks (f_heap w1) = blocks (f_heap w)" "heap_ok (f_heap w1)"
      by (auto simp: record_result_def)
    have "\<exists>w'. collect ops gm n gi w1 = (remaining (f_env w1) it, True, w') \<and> remaining (f_env w') it = [] \<and>
        (\<forall>j. j \<noteq> it \<longrightarrow> remaining (f_env w') j = remaining (f_env w1) j) \<and>
        blocks (f_heap w') = blocks (f_heap w1) \<and> f_iters w' = f_iters w1"
      using Suc.prems s' w1 Cons by (intro Suc.IH) auto
    with w1 s' Cons kv show ?thesis by auto
  qed
qed simp

end

section \<open>The API and the querier as the virtual machine sees them\<close>

definition api_error :: "u64 \<Rightarrow> go_error \<Rightarrow> 'a BackendResult" where
  "api_error cost e = (case error_text e of
     Return t \<Rightarrow> (Inl (UserErr (from_utf8_lossy (take MAX_ERROR_LEN t))), with_cost cost)
   | Panics p \<Rightarrow> (Inl (panic_error p), with_cost cost))"

definition api_result ::
    "('a \<Rightarrow> BackendError + 'b) \<Rightarrow> ('a \<times> u64 \<times> error) go \<Rightarrow> 'b BackendResult" where
  "api_result conv r = (case r of
     Panics p \<Rightarrow> (Inl (panic_error p), with_cost 0)
   | Return (x, cost, Some e) \<Rightarrow> api_error cost e
   | Return (x, cost, None) \<Rightarrow> (conv x, with_cost cost))"

definition conv_canonical :: "byte_slice \<Rightarrow> BackendError + string" where
  "conv_canonical c = (if slice_len c = 0 then Inl ForeignPanic else Inr (elems c))"

definition conv_human :: "string \<Rightarrow> BackendError + string" where
  "conv_human h = (if length h = 0 then Inl ForeignPanic else if utf8_valid h then Inr h else Inl InvalidUtf8)"

definition error_small :: "error \<Rightarrow> bool" where
  "error_small err = (case err of None \<Rightarrow> True | Some e \<Rightarrow> (case error_text e of
     Return t \<Rightarrow> length t < 2 ^ 64 | Panics _ \<Rightarrow> True))"

lemma panic_string_error [simp]: "recoverPanic (panic_string s) = GoError_Panic"
  by (simp add: recoverPanic_def panic_string_def)

text \<open>The four ways an API function can end.\<close>

lemma api_cases:
  fixes r :: "('a \<times> u64 \<times> error) go"
  obtains (panics) p where "r = Panics p"
    | (success) x cost where "r = Return (x, cost, None)"
    | (err_text) x cost e t where "r = Return (x, cost, Some e)" "error_text e = Return t"
    | (err_panic) x cost e p where "r = Return (x, cost, Some e)" "error_text e = Panics p"
  by (cases r; metis go.exhaust option.exhaust prod_cases3)

lemmas api_run = rust_call buildAPI_def api_vtable_def api_call_def report_error_def GoError_from_code
  api_result_def api_error_def conv_canonical_def conv_human_def build_error_msg_def

lemma addr_canonicalize_run:
  fixes w :: "('i, 's) ffi"
  assumes "short (Some human)" "heap_ok (f_heap w)" "CanonicalizeAddress api = Some f"
    "f human (f_env w) = (r, s)" "\<And>c cost err. r = Return (c, cost, err) \<Longrightarrow> slice_len c < 2 ^ 64 \<and> error_small err"
  shows "\<exists>w'. addr_canonicalize (buildAPI api) human w = (Ok (api_result conv_canonical r), w') \<and>
    f_env w' = s \<and> f_iters w' = f_iters w \<and> blocks (f_heap w') = blocks (f_heap w) \<and> heap_ok (f_heap w')"
proof (cases rule: api_cases [of r])
  case (panics p)
  with assms(1-4) show ?thesis by (simp add: addr_canonicalize_def cCanonicalizeAddress_def api_run recoverPanic_def panic_error_def)
next
  case (err_panic x cost e p)
  with assms(1-4) show ?thesis by (simp add: addr_canonicalize_def cCanonicalizeAddress_def api_run recoverPanic_def panic_error_def)
next
  case (err_text x cost e t)
  then have len: "slice_len (Some t) < 2 ^ 64" using assms(5) by (simp add: error_small_def)
  obtain uv h h' where
    "\<And>w1 :: ('i, 's) ffi. f_heap w1 = f_heap w \<Longrightarrow> new_vector (Some t) w1 = (Ok uv, w1\<lparr>f_heap := h\<rparr>)"
    "\<And>w1 :: ('i, 's) ffi. f_heap w1 = h \<Longrightarrow> take_vector (Some uv) w1 = (Ok (Some t), w1\<lparr>f_heap := h'\<rparr>)"
    "blocks h' = blocks (f_heap w)" "heap_ok h'"
    by (rule new_then_take [OF assms(2) len]) blast
  with err_text assms(1-4) show ?thesis by (simp add: addr_canonicalize_def cCanonicalizeAddress_def api_run)
next
  case (success x cost)
  then have len: "slice_len x < 2 ^ 64" using assms(5) by simp
  obtain uv h h' where
    "\<And>w1 :: ('i, 's) ffi. f_heap w1 = f_heap w \<Longrightarrow> new_vector x w1 = (Ok uv, w1\<lparr>f_heap := h\<rparr>)"
    "\<And>w1 :: ('i, 's) ffi. f_heap w1 = h \<Longrightarrow> take_vector (Some uv) w1 = (Ok x, w1\<lparr>f_heap := h'\<rparr>)"
    "blocks h' = blocks (f_heap w)" "heap_ok h'"
    by (rule new_then_take [OF assms(2) len]) blast
  with success assms(1-4) show ?thesis
    by (cases x) (simp_all add: addr_canonicalize_def cCanonicalizeAddress_def api_run)
qed

lemma addr_humanize_run:
  fixes w :: "('i, 's) ffi"
  assumes "short (Some canonical)" "heap_ok (f_heap w)" "HumanizeAddress api = Some f"
    "f (Some canonical) (f_env w) = (r, s)" "\<And>h cost err. r = Return (h, cost, err) \<Longrightarrow> length h < 2 ^ 64 \<and> error_small err"
  shows "\<exists>w'. addr_humanize (buildAPI api) canonical w = (Ok (api_result conv_human r), w') \<and>
    f_env w' = s \<and> f_iters w' = f_iters w \<and> blocks (f_heap w') = blocks (f_heap w) \<and> heap_ok (f_heap w')"
proof (cases rule: api_cases [of r])
  case (panics p)
  with assms(1-4) show ?thesis by (simp add: addr_humanize_def cHumanizeAddress_def api_run recoverPanic_def panic_error_def)
next
  case (err_panic x cost e p)
  with assms(1-4) show ?thesis by (simp add: addr_humanize_def cHumanizeAddress_def api_run recoverPanic_def panic_error_def)
next
  case (err_text x cost e t)
  then have len: "slice_len (Some t) < 2 ^ 64" using assms(5) by (simp add: error_small_def)
  obtain uv h h' where
    "\<And>w1 :: ('i, 's) ffi. f_heap w1 = f_heap w \<Longrightarrow> new_vector (Some t) w1 = (Ok uv, w1\<lparr>f_heap := h\<rparr>)"
    "\<And>w1 :: ('i, 's) ffi. f_heap w1 = h \<Longrightarrow> take_vector (Some uv) w1 = (Ok (Some t), w1\<lparr>f_heap := h'\<rparr>)"
    "blocks h' = blocks (f_heap w)" "heap_ok h'"
    by (rule new_then_take [OF assms(2) len]) blast
  with err_text assms(1-4) show ?thesis by (simp add: addr_humanize_def cHumanizeAddress_def api_run)
next
  case (success x cost)
  then have len: "slice_len (Some x) < 2 ^ 64" using assms(5) by simp
  obtain uv h h' where
    "\<And>w1 :: ('i, 's) ffi. f_heap w1 = f_heap w \<Longrightarrow> new_vector (Some x) w1 = (Ok uv, w1\<lparr>f_heap := h\<rparr>)"
    "\<And>w1 :: ('i, 's) ffi. f_heap w1 = h \<Longrightarrow> take_vector (Some uv) w1 = (Ok (Some x), w1\<lparr>f_heap := h'\<rparr>)"
    "blocks h' = blocks (f_heap w)" "heap_ok h'"
    by (rule new_then_take [OF assms(2) len]) blast
  with success assms(1-4) show ?thesis
    by (cases x) (simp_all add: addr_humanize_def cHumanizeAddress_def api_run)
qed

lemma addr_validate_run:
  fixes w :: "('i, 's) ffi"
  assumes "short (Some input)" "heap_ok (f_heap w)" "ValidateAddress api = Some f"
    "f input (f_env w) = (r0, s)" "r = (case r0 of Panics p \<Rightarrow> Panics p | Return (cost, err) \<Rightarrow> Return ((), cost, err))" "\<And>x cost err. r = Return (x, cost, err) \<Longrightarrow> error_small err"
  shows "\<exists>w'. addr_validate (buildAPI api) input w = (Ok (api_result Inr r), w') \<and>
    f_env w' = s \<and> f_iters w' = f_iters w \<and> blocks (f_heap w') = blocks (f_heap w) \<and> heap_ok (f_heap w')"
proof (cases rule: api_cases [of r])
  case (panics p)
  with assms(1-5) show ?thesis by (cases r0) (auto simp: addr_validate_def cValidateAddress_def api_run recoverPanic_def panic_error_def)
next
  case (err_panic x cost e p)
  with assms(1-5) show ?thesis by (cases r0) (auto simp: addr_validate_def cValidateAddress_def api_run recoverPanic_def panic_error_def)
next
  case (err_text x cost e t)
  then have len: "slice_len (Some t) < 2 ^ 64" using assms(6) by (simp add: error_small_def)
  obtain uv h h' where
    "\<And>w1 :: ('i, 's) ffi. f_heap w1 = f_heap w \<Longrightarrow> new_vector (Some t) w1 = (Ok uv, w1\<lparr>f_heap := h\<rparr>)"
    "\<And>w1 :: ('i, 's) ffi. f_heap w1 = h \<Longrightarrow> take_vector (Some uv) w1 = (Ok (Some t), w1\<lparr>f_heap := h'\<rparr>)"
    "blocks h' = blocks (f_heap w)" "heap_ok h'"
    by (rule new_then_take [OF assms(2) len]) blast
  with err_text assms(1-5) show ?thesis by (cases r0) (auto simp: addr_validate_def cValidateAddress_def api_run)
next
  case (success x cost)
  with assms(1-5) show ?thesis by (cases r0) (auto simp: addr_validate_def cValidateAddress_def api_run)
qed

text \<open>The query result reaches the virtual machine as the text \<open>json.Marshal\<close> writes for it.\<close>

definition query_result ::
    "(string \<Rightarrow> string + 'q) \<Rightarrow> (panic_value + QuerierResult \<times> u64) \<Rightarrow> 'q system_result BackendResult" where
  "query_result parse r = (case r of
     Inl p \<Rightarrow> (Inl (panic_error p), with_externally_used 0)
   | Inr (q, g) \<Rightarrow> (Inr (case parse (json_print (QuerierResult_to_json q)) of
         Inr sys \<Rightarrow> SystemResult sys
       | Inl e \<Rightarrow> InvalidResponseErr (''Parsing Go response: '' @ e) (json_print (QuerierResult_to_json q))),
       with_externally_used g))"

lemma query_raw_run:
  fixes w :: "('i, 's) ffi"
  assumes "short (Some request)" "heap_ok (f_heap w)"
    "metered_env (QuerierGasConsumed q) (RustQuery json_err q (Some request) gas_limit) (f_env w) = (r, s)"
    "\<And>x g. r = Inr (x, g) \<Longrightarrow> length (json_print (QuerierResult_to_json x)) < 2 ^ 64"
  shows "\<exists>w'. query_raw parse (buildQuerier json_err q) request gas_limit w = (Ok (query_result parse r), w') \<and>
    f_env w' = s \<and> f_iters w' = f_iters w \<and> blocks (f_heap w') = blocks (f_heap w) \<and> heap_ok (f_heap w')"
proof (cases r)
  case (Inl p)
  with assms(1-3) show ?thesis
    by (simp add: query_raw_def buildQuerier_def rust_call cQueryExternal_def metered_run recoverPanic_result
        query_result_def panic_error_def)
next
  case (Inr xg)
  obtain x g where xg: "xg = (x, g)" by fastforce
  then have len: "slice_len (Some (json_print (QuerierResult_to_json x))) < 2 ^ 64" using assms(4) Inr by simp
  obtain uv h h' where
    "\<And>w1 :: ('i, 's) ffi. f_heap w1 = f_heap w \<Longrightarrow>
       new_vector (Some (json_print (QuerierResult_to_json x))) w1 = (Ok uv, w1\<lparr>f_heap := h\<rparr>)"
    "\<And>w1 :: ('i, 's) ffi. f_heap w1 = h \<Longrightarrow>
       take_vector (Some uv) w1 = (Ok (Some (json_print (QuerierResult_to_json x))), w1\<lparr>f_heap := h'\<rparr>)"
    "blocks h' = blocks (f_heap w)" "heap_ok h'"
    by (rule new_then_take [OF assms(2) len]) blast
  with Inr xg assms(1-3) show ?thesis
    by (simp add: query_raw_def buildQuerier_def rust_call cQueryExternal_def metered_run GoError_from_code
        query_result_def json_Marshal_def Let_def)
qed

end
