(* ===== verification/Ownership.thy ===== *)
theory Ownership
  imports Backend "HOL-Library.Multiset"
begin

text \<open>
  Who owns which vector at the boundary.  \<open>leased B h vs\<close> says that the heap \<open>h\<close> consists of the
  allocations \<open>B\<close> and of those of the vectors \<open>vs\<close>, each owned once.  \<open>safe P m Q R\<close> says that \<open>m\<close>
  started in \<open>P\<close> does nothing undefined and ends in \<open>Q\<close> when it returns and in \<open>R\<close> when it panics; its
  rules are collected in \<open>safe_intros\<close>.  With them every operation of the backend is shown to return, to
  leave nothing allocated and to touch no iterator frame but its own, whatever the chain answers.
\<close>

named_theorems safe_intros

section \<open>Leases\<close>

definition leased :: "(nat \<rightharpoonup> string \<times> u64) \<Rightarrow> heap \<Rightarrow> UnmanagedVector list \<Rightarrow> bool" where
  "leased B h vs \<longleftrightarrow> heap_ok h \<and> (\<forall>v\<in>set vs. \<exists>x. owned h v x) \<and>
     distinct (map uv_ptr (filter allocated vs)) \<and>
     (\<forall>p. B p = (if p \<in> uv_ptr ` set (filter allocated vs) then None else blocks h p))"

lemma leased_Nil [simp]: "leased B h [] \<longleftrightarrow> heap_ok h \<and> blocks h = B"
  by (auto simp: leased_def)

lemma owned_unallocated: "\<not> allocated v \<Longrightarrow> \<exists>x. owned h v x"
  by (auto simp: owned_def allocated_def)

lemma leased_unallocated [simp]: "\<not> allocated v \<Longrightarrow> leased B h (v # vs) \<longleftrightarrow> leased B h vs"
  by (auto simp: leased_def owned_unallocated)

lemma leased_perm:
  assumes "leased B h vs" "mset vs = mset vs'"
  shows "leased B h vs'"
proof -
  have "mset (map uv_ptr (filter allocated vs)) = mset (map uv_ptr (filter allocated vs'))"
    by (metis assms(2) mset_filter mset_map)
  then have "distinct (map uv_ptr (filter allocated vs')) = distinct (map uv_ptr (filter allocated vs))"
    by (metis mset_eq_imp_distinct_iff)
  moreover have "set vs' = set vs" using assms(2) by (metis set_mset_mset)
  ultimately show ?thesis using assms(1) by (simp add: leased_def)
qed

lemma owned_blocks: "blocks h' = blocks h \<Longrightarrow> owned h' v x = owned h v x"
  by (simp add: owned_def)

lemma leased_take:
  assumes "leased B h (v # vs)" "blocks h' = heap_without h v" "heap_ok h'"
  shows "leased B h' vs"
proof (cases "allocated v")
  case True
  have own: "\<exists>x. owned h' w x" if "w \<in> set vs" for w
  proof (cases "allocated w")
    case False
    then show ?thesis by (rule owned_unallocated)
  next
    case w: True
    from assms(1) True have "uv_ptr v \<notin> uv_ptr ` set (filter allocated vs)" by (simp add: leased_def)
    moreover from that w have "uv_ptr w \<in> uv_ptr ` set (filter allocated vs)" by simp
    ultimately have "uv_ptr w \<noteq> uv_ptr v" by metis
    moreover from assms(1) that obtain x where "owned h w x" by (auto simp: leased_def)
    ultimately show ?thesis
      using assms(2) True w by (auto simp: owned_def heap_without_def allocated_def)
  qed
  from assms True show ?thesis by (auto simp: leased_def heap_without_def own)
next
  case False
  with assms have "blocks h' = blocks h" "leased B h vs" by (simp_all add: heap_without_def)
  with assms(3) show ?thesis by (simp add: leased_def owned_blocks [of h' h])
qed

lemma leased_consume:
  assumes "leased B h (v # vs)"
  shows "\<exists>x h'. UnmanagedVector_consume v h = Some (x, h') \<and> leased B h' vs"
proof -
  from assms obtain x where "owned h v x" "heap_ok h" by (auto simp: leased_def)
  with consume_owned [of h v x] leased_take [OF assms] show ?thesis by blast
qed

lemma leased_new:
  assumes "leased B h vs" "vec_ok x" "UnmanagedVector_new x h = (v, h')"
  shows "leased B h' (v # vs)"
proof -
  from assms(1) have ok: "heap_ok h" by (simp add: leased_def)
  note new = UnmanagedVector_new_owned [OF ok assms(2,3)]
  have fresh: "allocated v \<Longrightarrow> uv_ptr v \<notin> dom (blocks h)"
    using new(3) unfolding heap_without_def by (metis domIff fun_upd_same)
  have other: "uv_ptr w \<noteq> uv_ptr v \<and> owned h' w y" if "allocated w" "allocated v" "owned h w y" for w y
    using that fresh fun_cong [OF new(3), of "uv_ptr w"]
    by (auto simp: owned_def allocated_def heap_without_def split: if_splits)
  have own: "\<exists>y. owned h' w y" if "w \<in> set vs" for w
  proof (cases "allocated w \<and> allocated v")
    case True
    from that assms(1) obtain y where "owned h w y" by (auto simp: leased_def)
    with True other show ?thesis by blast
  next
    case False
    with that assms(1) new(3) show ?thesis
      by (auto simp: leased_def heap_without_def owned_def allocated_def split: if_splits)
  qed
  have neq: "uv_ptr v \<notin> uv_ptr ` set (filter allocated vs)" if "allocated v"
  proof
    assume "uv_ptr v \<in> uv_ptr ` set (filter allocated vs)"
    then obtain w where "w \<in> set vs" "allocated w" "uv_ptr w = uv_ptr v" by auto
    with assms(1) that other show False unfolding leased_def by metis
  qed
  have "B p = (if p \<in> uv_ptr ` set (filter allocated (v # vs)) then None else blocks h' p)" for p
    using assms(1) new(3) fresh by (auto simp: leased_def heap_without_def fun_eq_iff split: if_splits)
  with assms(1) new(1,2) own neq show ?thesis by (auto simp: leased_def)
qed

text \<open>Go hands over a slice, whatever its length.\<close>

lemma newUnmanagedVector_defined:
  "\<exists>x. vec_ok x \<and> newUnmanagedVector data h = Some (UnmanagedVector_new x h)"
proof (cases data)
  case None
  then show ?thesis
    by (intro exI [of _ None]) (simp add: newUnmanagedVector_def new_unmanaged_vector_def vec_ok_def)
next
  case (Some bs)
  define n where "n = (of_nat (length bs) :: u64)"
  have n: "unat n \<le> length bs" by (simp add: n_def unat_of_nat take_bit_eq_mod)
  show ?thesis
  proof (cases "length bs = 0 \<or> n = 0")
    case True
    with Some show ?thesis
      by (intro exI [of _ "Some ([], 0)"])
        (auto simp: newUnmanagedVector_def new_unmanaged_vector_def vec_ok_def n_def)
  next
    case False
    with Some n show ?thesis
      by (intro exI [of _ "Some (vec_from (take (unat n) bs))"])
        (auto simp: newUnmanagedVector_def new_unmanaged_vector_def from_raw_parts_def vec_ok_def vec_from_def n_def)
  qed
qed

lemma leased_newUnmanagedVector:
  assumes "leased B h vs"
  shows "\<exists>v h'. newUnmanagedVector data h = Some (v, h') \<and> leased B h' (v # vs)"
  using newUnmanagedVector_defined [of data h] leased_new [OF assms] by (metis surj_pair)

section \<open>Safe effects\<close>

fun outcome :: "('a \<Rightarrow> 'w \<Rightarrow> bool) \<Rightarrow> ('w \<Rightarrow> bool) \<Rightarrow> 'a res \<times> 'w \<Rightarrow> bool" where
  "outcome Q R (Ok x, w) = Q x w"
| "outcome Q R (Panic p, w) = R w"
| "outcome Q R (Undefined, w) = False"

definition safe ::
    "('w \<Rightarrow> bool) \<Rightarrow> ('w, 'a) eff \<Rightarrow> ('a \<Rightarrow> 'w \<Rightarrow> bool) \<Rightarrow> ('w \<Rightarrow> bool) \<Rightarrow> bool" where
  "safe P m Q R \<longleftrightarrow> (\<forall>w. P w \<longrightarrow> outcome Q R (m w))"

lemma run_cases:
  obtains x w where "r = (Ok x, w)" | p w where "r = (Panic p, w)" | w where "r = (Undefined, w)"
  by (metis res.exhaust surj_pair)

lemma safeI: "(\<And>w. P w \<Longrightarrow> outcome Q R (m w)) \<Longrightarrow> safe P m Q R"
  by (simp add: safe_def)

lemma safeD: "safe P m Q R \<Longrightarrow> P w \<Longrightarrow> outcome Q R (m w)"
  by (simp add: safe_def)

lemma safe_returns:
  assumes "safe P m Q (\<lambda>_. False)" "P w"
  obtains x w' where "m w = (Ok x, w')" "Q x w'"
  using safeD [OF assms] by (cases "m w" rule: run_cases) auto

lemma outcome_mono: "outcome Q R x \<Longrightarrow> (\<And>y w. Q y w \<Longrightarrow> Q' y w) \<Longrightarrow> (\<And>w. R w \<Longrightarrow> R' w) \<Longrightarrow> outcome Q' R' x"
  by (cases x rule: run_cases) auto

lemma safe_ret [safe_intros]: "(\<And>w. P w \<Longrightarrow> Q x w) \<Longrightarrow> safe P (ret x) Q R"
  by (simp add: safe_def)

lemma safe_panic [safe_intros]: "(\<And>w. P w \<Longrightarrow> R w) \<Longrightarrow> safe P (panic p) Q R"
  by (simp add: safe_def)

lemma safe_bind:
  assumes "safe P m M R" "\<And>x. safe (M x) (f x) Q R"
  shows "safe P (bind m f) Q R"
proof (rule safeI)
  fix w
  assume "P w"
  from safeD [OF assms(1) this] show "outcome Q R (bind m f w)"
    by (cases "m w" rule: run_cases) (auto simp: safeD [OF assms(2)])
qed

lemma safe_weaken:
  assumes "safe P m Q R" "\<And>w. P' w \<Longrightarrow> P w" "\<And>x w. Q x w \<Longrightarrow> Q' x w" "\<And>w. R w \<Longrightarrow> R' w"
  shows "safe P' m Q' R'"
  using assms by (blast intro: safeI safeD outcome_mono)

lemma safe_cong: "(\<And>w. P w \<Longrightarrow> m w = m' w) \<Longrightarrow> safe P m' Q R \<Longrightarrow> safe P m Q R"
  by (simp add: safe_def)

lemma safe_recovering:
  assumes "safe P m (\<lambda>_. Z) Z"
  shows "safe P (recovering m) (\<lambda>_. Z) R"
proof (rule safeI)
  fix w
  assume "P w"
  from safeD [OF assms this] show "outcome (\<lambda>_. Z) R (recovering m w)"
    by (cases "m w" rule: run_cases) auto
qed

lemma safe_skip:
  "(\<And>w. P w \<Longrightarrow> \<not> b w) \<Longrightarrow> safe P m' Q R \<Longrightarrow> safe P (\<lambda>w. if b w then m w else m' w) Q R"
  by (rule safe_cong) simp_all

lemma safe_ifs [safe_intros]:
  "safe P m Q R \<Longrightarrow> safe P m' Q R \<Longrightarrow> safe P (\<lambda>w. if b w then m w else m' w) Q R"
  "safe P m Q R \<Longrightarrow> safe P m' Q R \<Longrightarrow> safe P (if b' then m else m') Q R"
  by (simp_all add: safe_def)

lemma safe_options [safe_intros]:
  "safe P m Q R \<Longrightarrow> (\<And>y. safe P (k y) Q R) \<Longrightarrow> safe P (\<lambda>w. case g w of None \<Rightarrow> m w | Some y \<Rightarrow> k y w) Q R"
  "safe P m Q R \<Longrightarrow> (\<And>y. safe P (k y) Q R) \<Longrightarrow> safe P (case x of None \<Rightarrow> m | Some y \<Rightarrow> k y) Q R"
  by (auto simp: safe_def split: option.split)

lemma safe_prod [safe_intros]: "(\<And>a b. safe P (f a b) Q R) \<Longrightarrow> safe P (case x of (a, b) \<Rightarrow> f a b) Q R"
  by (cases x) simp

lemma safe_go [safe_intros]:
  "(\<And>y. safe P (f y) Q R) \<Longrightarrow> (\<And>p. safe P (g p) Q R) \<Longrightarrow> safe P (case x of Return y \<Rightarrow> f y | Panics p \<Rightarrow> g p) Q R"
  by (cases x) simp_all

lemma safe_sum [safe_intros]:
  "(\<And>y. safe P (f y) Q R) \<Longrightarrow> (\<And>z. safe P (g z) Q R) \<Longrightarrow> safe P (case x of Inl y \<Rightarrow> f y | Inr z \<Rightarrow> g z) Q R"
  by (cases x) simp_all

lemma safe_ends [safe_intros]:
  "(\<And>w. P w \<Longrightarrow> Q x w) \<Longrightarrow> safe P (\<lambda>w. (Ok x, w)) Q R"
  "(\<And>w. P w \<Longrightarrow> R w) \<Longrightarrow> safe P (\<lambda>w. (Panic p, w)) Q R"
  by (simp_all add: safe_def)

section \<open>Callbacks\<close>

text \<open>
  \<open>held B J vs\<close>: the vectors \<open>vs\<close> are out on lease and the iterator frames satisfy \<open>J\<close>.  \<open>cells\<close> is
  the state in which a callback runs: its out parameters are there, the flags tell which of the
  three vectors are still unset.
\<close>

definition held :: "(nat \<rightharpoonup> string \<times> u64) \<Rightarrow> ('i iter_state \<Rightarrow> bool) \<Rightarrow> UnmanagedVector list
    \<Rightarrow> ('i, 's) ffi \<Rightarrow> bool" where
  "held B J vs w \<longleftrightarrow> leased B (f_heap w) vs \<and> J (f_iters w)"

definition cells :: "(nat \<rightharpoonup> string \<times> u64) \<Rightarrow> ('i iter_state \<Rightarrow> bool) \<Rightarrow> bool \<Rightarrow> bool \<Rightarrow> bool
    \<Rightarrow> ('i, 's) ffi \<Rightarrow> bool" where
  "cells B J a b c w \<longleftrightarrow> f_usedGas w \<noteq> None \<and> f_iter w \<noteq> None \<and> (\<exists>u v e.
     f_out w = Some u \<and> f_out2 w = Some v \<and> f_errOut w = Some e \<and>
     (a \<longrightarrow> u = none_vec) \<and> (b \<longrightarrow> v = none_vec) \<and> (c \<longrightarrow> e = none_vec) \<and> held B J [u, v, e] w)"

lemma none_vec_unallocated [simp]: "\<not> allocated none_vec"
  by (simp add: none_vec_def allocated_def)

lemma held_unallocated [simp]: "\<not> allocated v \<Longrightarrow> held B J (v # vs) w \<longleftrightarrow> held B J vs w"
  by (simp add: held_def)

lemma cells_mono: "cells B J a b c w \<Longrightarrow> (a' \<longrightarrow> a) \<Longrightarrow> (b' \<longrightarrow> b) \<Longrightarrow> (c' \<longrightarrow> c) \<Longrightarrow> cells B J a' b' c' w"
  by (auto simp: cells_def)

lemma cells_pointers:
  "cells B J a b c w \<Longrightarrow> f_usedGas w \<noteq> None \<and> f_iter w \<noteq> None \<and> f_out w \<noteq> None \<and> f_out2 w \<noteq> None \<and> f_errOut w \<noteq> None"
  "cells B J True b c w \<Longrightarrow> f_out w = Some none_vec"
  "cells B J a True c w \<Longrightarrow> f_out2 w = Some none_vec"
  "cells B J a b True w \<Longrightarrow> f_errOut w = Some none_vec"
  by (auto simp: cells_def)

text \<open>The steps that keep \<open>cells\<close>.\<close>

definition calm :: "('i, 's, 'a) callback \<Rightarrow> bool" where
  "calm m \<longleftrightarrow> (\<forall>B J a b c. safe (cells B J a b c) m (\<lambda>_. cells B J a b c) (cells B J a b c))"

lemma calmI: "(\<And>B J a b c. safe (cells B J a b c) m (\<lambda>_. cells B J a b c) (cells B J a b c)) \<Longrightarrow> calm m"
  by (simp add: calm_def)

lemma calm_env [safe_intros]: "calm (env f)"
  by (rule calmI) (auto simp: safe_def env_def cells_def held_def split: prod.split go.split)

lemma calm_set_usedGas [safe_intros]: "calm (set_usedGas g)"
  by (rule calmI) (auto simp: safe_def set_usedGas_def cells_def held_def)

lemma calm_set_iter [safe_intros]: "calm (set_iter it)"
  by (rule calmI) (auto simp: safe_def set_iter_def cells_def held_def)

lemma calm_bind [safe_intros]: "calm m \<Longrightarrow> (\<And>x. calm (f x)) \<Longrightarrow> calm (bind m f)"
  unfolding calm_def by (blast intro: safe_bind)

lemma calm_ret [safe_intros]: "calm (ret x)"
  by (rule calmI) (rule safe_ret)

lemma calm_metered [safe_intros]: "calm m \<Longrightarrow> calm (metered gm m)"
  unfolding metered_def by (intro safe_intros)

lemma copyU8Slice_defined: "\<exists>r. copyU8Slice (U8SliceView_new s) = Some r"
proof (cases "copyU8Slice (U8SliceView_new s)")
  case None
  define n where "n = (of_nat (length (the s)) :: u64)"
  define k where "k = sint (ucast n :: 32 word)"
  have n: "unat n \<le> length (the s)" by (simp add: n_def unat_of_nat take_bit_eq_mod)
  have "unat (of_int k :: u64) \<le> unat n" if "0 < k"
  proof -
    have "k \<le> uint (ucast n :: 32 word)"
      using take_bit_int_less_eq_self_iff [of 32 "uint (ucast n :: 32 word)"]
      unfolding k_def sint_uint signed_take_bit_eq_take_bit_minus by simp
    also have "\<dots> \<le> uint n" by (simp add: unsigned_ucast_eq take_bit_eq_mod zmod_le_nonneg_dividend)
    finally have "k \<le> uint n" .
    moreover have "uint (of_int k :: u64) \<le> k"
      using that by (simp add: unsigned_of_int take_bit_int_less_eq_self_iff)
    ultimately have "(of_int k :: u64) \<le> n" by (simp add: word_le_def)
    then show ?thesis by (simp only: word_le_nat_alt)
  qed
  with None n show ?thesis
    by (cases s) (auto simp: copyU8Slice_def U8SliceView_new_def C_GoBytes_def from_raw_parts_def Let_def
        n_def k_def split: if_splits)
qed blast

lemma calm_copy_view [safe_intros]: "calm (copy_view (U8SliceView_new s))"
  using copyU8Slice_defined [of s]
  by (intro calmI safeI) (auto simp: copy_view_def split: go.split)

lemma safe_calm:
  assumes "calm m" "\<And>x. safe (cells B J a b c) (f x) Q R" "\<And>w. cells B J a b c w \<Longrightarrow> R w"
  shows "safe (cells B J a b c) (bind m f) Q R"
proof (rule safe_bind [OF _ assms(2)])
  from assms(1) have "safe (cells B J a b c) m (\<lambda>_. cells B J a b c) (cells B J a b c)" by (simp add: calm_def)
  then show "safe (cells B J a b c) m (\<lambda>_. cells B J a b c) R" by (rule safe_weaken) (use assms(3) in auto)
qed

text \<open>Allocating a vector and storing it in an unset out parameter.\<close>

lemma new_vector_leased:
  assumes "leased B (f_heap w) vs"
  obtains v h where "new_vector d w = (Ok v, w\<lparr>f_heap := h\<rparr>)" "leased B h (v # vs)"
  using leased_newUnmanagedVector [OF assms, of d] by (auto simp: new_vector_def)

lemma safe_out:
  assumes "safe (cells B J False b c) (k ()) Q R"
  shows "safe (cells B J True b c) (bind (new_vector d) (\<lambda>v. bind (set_out v) k)) Q R"
proof (rule safeI)
  fix w :: "('a, 'b) ffi"
  assume "cells B J True b c w"
  then obtain v e where w: "f_usedGas w \<noteq> None" "f_iter w \<noteq> None" "f_out w = Some none_vec" "f_out2 w = Some v"
    "f_errOut w = Some e" "b \<longrightarrow> v = none_vec" "c \<longrightarrow> e = none_vec" "leased B (f_heap w) [v, e]" "J (f_iters w)"
    by (auto simp: cells_def held_def)
  obtain u h where n: "new_vector d w = (Ok u, w\<lparr>f_heap := h\<rparr>)" "leased B h [u, v, e]"
    by (rule new_vector_leased [OF w(8)])
  have "cells B J False b c (w\<lparr>f_heap := h, f_out := Some u\<rparr>)" using w n by (simp add: cells_def held_def)
  with safeD [OF assms this] n w show "outcome Q R (bind (new_vector d) (\<lambda>v. bind (set_out v) k) w)" by simp
qed

lemma safe_out2:
  assumes "safe (cells B J a False c) (k ()) Q R"
  shows "safe (cells B J a True c) (bind (new_vector d) (\<lambda>v. bind (set_out2 v) k)) Q R"
proof (rule safeI)
  fix w :: "('a, 'b) ffi"
  assume "cells B J a True c w"
  then obtain u e where w: "f_usedGas w \<noteq> None" "f_iter w \<noteq> None" "f_out w = Some u" "f_out2 w = Some none_vec"
    "f_errOut w = Some e" "a \<longrightarrow> u = none_vec" "c \<longrightarrow> e = none_vec" "leased B (f_heap w) [u, none_vec, e]" "J (f_iters w)"
    by (auto simp: cells_def held_def)
  from w(8) have "leased B (f_heap w) [none_vec, u, e]" by (rule leased_perm) simp
  then have "leased B (f_heap w) [u, e]" by simp
  then obtain v h where n: "new_vector d w = (Ok v, w\<lparr>f_heap := h\<rparr>)" "leased B h [v, u, e]"
    by (rule new_vector_leased)
  from n(2) have "leased B h [u, v, e]" by (rule leased_perm) simp
  then have "cells B J a False c (w\<lparr>f_heap := h, f_out2 := Some v\<rparr>)" using w n by (simp add: cells_def held_def)
  with safeD [OF assms this] n w show "outcome Q R (bind (new_vector d) (\<lambda>v. bind (set_out2 v) k) w)" by simp
qed

lemma safe_errOut:
  assumes "safe (cells B J a b False) (k ()) Q R"
  shows "safe (cells B J a b True) (bind (new_vector d) (\<lambda>v. bind (set_errOut v) k)) Q R"
proof (rule safeI)
  fix w :: "('a, 'b) ffi"
  assume "cells B J a b True w"
  then obtain u v where w: "f_usedGas w \<noteq> None" "f_iter w \<noteq> None" "f_out w = Some u" "f_out2 w = Some v"
    "f_errOut w = Some none_vec" "a \<longrightarrow> u = none_vec" "b \<longrightarrow> v = none_vec" "leased B (f_heap w) [u, v, none_vec]" "J (f_iters w)"
    by (auto simp: cells_def held_def)
  from w(8) have "leased B (f_heap w) [none_vec, u, v]" by (rule leased_perm) simp
  then have "leased B (f_heap w) [u, v]" by simp
  then obtain e h where n: "new_vector d w = (Ok e, w\<lparr>f_heap := h\<rparr>)" "leased B h [e, u, v]"
    by (rule new_vector_leased)
  from n(2) have "leased B h [u, v, e]" by (rule leased_perm) simp
  then have "cells B J a b False (w\<lparr>f_heap := h, f_errOut := Some e\<rparr>)" using w n by (simp add: cells_def held_def)
  with safeD [OF assms this] n w show "outcome Q R (bind (new_vector d) (\<lambda>v. bind (set_errOut v) k) w)" by simp
qed

text \<open>The callbacks with their pointers set, from fresh out parameters.\<close>

lemma cGet_safe:
  "safe (cells B J True True True) (cGet (Some st) (Some gm) (U8SliceView_new k)) (\<lambda>_. cells B J False True False) R"
  unfolding cGet_def
  by (rule safe_recovering, rule safe_skip, fastforce simp: cells_def, rule safe_skip, fastforce simp: cells_def)
    (intro safe_calm safe_out safe_intros; auto elim: cells_mono)

lemma cSet_safe:
  "safe (cells B J True True True) (cSet (Some st) (Some gm) (U8SliceView_new k) (U8SliceView_new v))
     (\<lambda>_. cells B J True True False) R"
  unfolding cSet_def
  by (rule safe_recovering, rule safe_skip, fastforce simp: cells_def)
    (intro safe_calm safe_intros; auto elim: cells_mono)

lemma cDelete_safe:
  "safe (cells B J True True True) (cDelete (Some st) (Some gm) (U8SliceView_new k)) (\<lambda>_. cells B J True True False) R"
  unfolding cDelete_def
  by (rule safe_recovering, rule safe_skip, fastforce simp: cells_def)
    (intro safe_calm safe_intros; auto elim: cells_mono)

text \<open>The frames stay within \<open>J\<close> when the call \<open>c\<close> stores an iterator.\<close>

definition frame_stable :: "u64 \<Rightarrow> ('i iter_state \<Rightarrow> bool) \<Rightarrow> bool" where
  "frame_stable c J \<longleftrightarrow> (\<forall>st it. J st \<longrightarrow> J (snd (storeIterator c it frameLenLimit st)))"

text \<open>The frames of the other calls and the counter.\<close>

definition other_frames :: "u64 \<Rightarrow> 'i iter_state \<Rightarrow> 'i iter_state \<Rightarrow> bool" where
  "other_frames c st0 st \<longleftrightarrow> latestCallID st = latestCallID st0 \<and>
     (\<forall>d. d \<noteq> c \<longrightarrow> iteratorFrames st d = iteratorFrames st0 d)"

lemma frame_stable_other: "frame_stable c (other_frames c st0)"
  unfolding frame_stable_def
proof (intro allI impI)
  fix st it
  assume "other_frames c st0 st"
  then show "other_frames c st0 (snd (storeIterator c it frameLenLimit st))"
    by (auto simp: other_frames_def storeIterator_def Let_def split: prod.split)
qed

lemma buildIterator_safe:
  assumes "frame_stable c J"
  shows "safe (cells B J x y z) (buildIterator c it) (\<lambda>_. cells B J x y z) R"
proof (rule safeI)
  fix w :: "('a, 'b) ffi"
  assume w: "cells B J x y z w"
  obtain i err st where s: "storeIterator c it frameLenLimit (f_iters w) = ((i, err), st)" by (metis surj_pair)
  from w have "J (f_iters w)" by (auto simp: cells_def held_def)
  with assms have "J (snd (storeIterator c it frameLenLimit (f_iters w)))" by (simp add: frame_stable_def)
  with s have "J st" by simp
  with w s show "outcome (\<lambda>_. cells B J x y z) R (buildIterator c it w)"
    by (cases err) (auto simp: buildIterator_def cells_def held_def)
qed

lemma cScan_safe:
  assumes "frame_stable (CallID st) J"
  shows "safe (cells B J True True True)
    (cScan (Some st) (Some gm) (U8SliceView_new a) (U8SliceView_new b) order) (\<lambda>_. cells B J True True False) R"
  unfolding cScan_def Let_def
  by (rule safe_recovering, rule safe_skip, fastforce simp: cells_def, rule safe_skip, fastforce simp: cells_def)
    (intro safe_calm safe_errOut safe_bind [OF buildIterator_safe] safe_intros; auto simp: assms elim: cells_mono)

lemma cNext_safe:
  "safe (cells B J True True True) (cNext ops ref gm) (\<lambda>_. cells B J False False False) R"
  unfolding cNext_def
  by (rule safe_recovering) (intro safe_calm safe_out safe_out2 safe_intros; auto elim: cells_mono)

lemma nextPart_safe:
  "safe (cells B J True True True) (nextPart ops ref gm f) (\<lambda>_. cells B J False True False) R"
  unfolding nextPart_def
  by (rule safe_recovering) (intro safe_calm safe_out safe_intros; auto elim: cells_mono)

lemma report_error_safe:
  "safe (cells B J True True True) (report_error e) (\<lambda>_. cells B J True True False) (cells B J True True False)"
  unfolding report_error_def by (intro safe_errOut safe_intros; auto elim: cells_mono)

lemma calm_panic [safe_intros]: "calm (panic p)"
  by (rule calmI) (rule safe_panic)

lemma calm_api_call [safe_intros]: "calm (api_call ptr field x)"
  unfolding api_call_def by (cases ptr; cases "field (the ptr)") (auto intro: safe_intros)

lemma safe_report_error:
  "safe (cells B J True True True) (report_error e) (\<lambda>_. cells B J False True False) (cells B J False True False)"
  by (rule safe_weaken [OF report_error_safe]) (auto elim: cells_mono)

lemma cHumanizeAddress_safe:
  "safe (cells B J True True True) (cHumanizeAddress ptr (U8SliceView_new s)) (\<lambda>_. cells B J False True False) R"
  unfolding cHumanizeAddress_def
  by (rule safe_recovering)
    (intro safe_calm safe_out safe_report_error safe_intros; auto elim: cells_mono)

lemma cCanonicalizeAddress_safe:
  "safe (cells B J True True True) (cCanonicalizeAddress ptr (U8SliceView_new s)) (\<lambda>_. cells B J False True False) R"
  unfolding cCanonicalizeAddress_def
  by (rule safe_recovering)
    (intro safe_calm safe_out safe_report_error safe_intros; auto elim: cells_mono)

lemma cValidateAddress_safe:
  "safe (cells B J True True True) (cValidateAddress ptr (U8SliceView_new s)) (\<lambda>_. cells B J True True False) R"
  unfolding cValidateAddress_def
  by (rule safe_recovering)
    (intro safe_calm report_error_safe safe_intros; auto elim: cells_mono)

lemma cQueryExternal_safe:
  "safe (cells B J True True True) (cQueryExternal je ptr gas (U8SliceView_new s)) (\<lambda>_. cells B J False True False) R"
  unfolding cQueryExternal_def
  by (rule safe_recovering)
    (intro safe_calm safe_out safe_errOut safe_intros; auto elim: cells_mono)

section \<open>The backend\<close>

lemma held_none [simp]:
  "held B J (none_vec # vs) = held B J vs"
  "held B J (u # none_vec # vs) = held B J (u # vs)"
  "held B J (u # v # none_vec # vs) = held B J (u # v # vs)"
proof -
  have "leased B h (u # none_vec # vs) \<longleftrightarrow> leased B h (none_vec # u # vs)"
    "leased B h (u # v # none_vec # vs) \<longleftrightarrow> leased B h (none_vec # u # v # vs)" for h
    by (rule iffI; erule leased_perm; simp)+
  then show "held B J (none_vec # vs) = held B J vs" "held B J (u # none_vec # vs) = held B J (u # vs)"
    "held B J (u # v # none_vec # vs) = held B J (u # v # vs)" by (simp_all add: held_def fun_eq_iff)
qed

lemma safe_call_go:
  assumes "safe (cells B J True True True) f (\<lambda>_. Z) R" "\<And>e. safe Z (k e) Q R"
  shows "safe (held B J []) (bind (call_go f) k) Q R"
  unfolding call_go_def
proof (rule safe_bind [OF safe_bind [OF _ safe_bind [OF assms(1)]] assms(2)])
  show "safe (held B J []) fresh_cells (\<lambda>_. cells B J True True True) R"
    by (rule safeI) (simp add: fresh_cells_def cells_def, simp add: held_def)
qed (rule safe_ret)

lemma safe_read_cells:
  assumes "\<And>g u v e it. (a \<longrightarrow> u = none_vec) \<Longrightarrow> (b \<longrightarrow> v = none_vec) \<Longrightarrow> (c \<longrightarrow> e = none_vec) \<Longrightarrow>
    safe (held B J [u, v, e]) (k (g, Some u, Some v, Some e, it)) Q R"
  shows "safe (cells B J a b c) (bind read_cells k) Q R"
proof (rule safeI)
  fix w :: "('a, 'b) ffi"
  assume "cells B J a b c w"
  then obtain u v e where w: "f_out w = Some u" "f_out2 w = Some v" "f_errOut w = Some e"
    "a \<longrightarrow> u = none_vec" "b \<longrightarrow> v = none_vec" "c \<longrightarrow> e = none_vec" "held B J [u, v, e] w"
    by (auto simp: cells_def)
  show "outcome Q R (bind read_cells k w)"
    using safeD [OF assms [OF w(4-6)] w(7)] w(1-3) by (simp add: read_cells_def)
qed

lemma safe_take:
  assumes "\<And>x. safe (held B J vs) (k x) Q R"
  shows "safe (held B J (v # vs)) (bind (take_vector (Some v)) k) Q R"
proof (rule safeI)
  fix w :: "('a, 'b) ffi"
  assume w: "held B J (v # vs) w"
  with leased_consume [of B "f_heap w" v vs] obtain x h where
    c: "UnmanagedVector_consume v (f_heap w) = Some (x, h)" "leased B h vs" by (auto simp: held_def)
  with w have "held B J vs (w\<lparr>f_heap := h\<rparr>)" by (simp add: held_def)
  with safeD [OF assms this] c show "outcome Q R (bind (take_vector (Some v)) k w)" by (simp add: take_vector_def)
qed

lemma safe_into_result:
  assumes "\<And>r. safe (held B J vs) (k r) Q R"
  shows "safe (held B J (v # vs)) (bind (GoError_into_result e (Some v) d) k) Q R"
proof -
  have "safe (held B J (v # vs)) (GoError_into_result e (Some v) d) (\<lambda>_. held B J vs) R"
    unfolding GoError_into_result_def by (intro safe_take safe_intros)
  then show ?thesis by (rule safe_bind) (rule assms)
qed

text \<open>Every operation of the backend returns with nothing on lease.\<close>

lemma GoStorage_get_safe:
  "safe (held B J []) (GoStorage_get (go_db kv c gm its) key) (\<lambda>_. held B J []) R"
  unfolding GoStorage_get_def go_db_defs vtable_fn_def
  by (simp, intro safe_call_go [OF cGet_safe] safe_read_cells)
    (auto intro!: safe_take safe_into_result safe_intros)

lemma GoStorage_set_safe:
  "safe (held B J []) (GoStorage_set (go_db kv c gm its) key val) (\<lambda>_. held B J []) R"
  unfolding GoStorage_set_def go_db_defs vtable_fn_def
  by (simp, intro safe_call_go [OF cSet_safe] safe_read_cells)
    (auto intro!: safe_take safe_into_result safe_intros)

lemma GoStorage_remove_safe:
  "safe (held B J []) (GoStorage_remove (go_db kv c gm its) key) (\<lambda>_. held B J []) R"
  unfolding GoStorage_remove_def go_db_defs vtable_fn_def
  by (simp, intro safe_call_go [OF cDelete_safe] safe_read_cells)
    (auto intro!: safe_take safe_into_result safe_intros)

text \<open>The storage a scan returns differs in its iterators only; it panics after \<open>2 ^ 32\<close> of them.\<close>

lemma GoStorage_scan_safe:
  assumes "frame_stable c J"
  shows "safe (held B J []) (GoStorage_scan dbg (go_db kv c gm its) start stop order)
    (\<lambda>x w. held B J [] w \<and> (\<exists>its'. snd x = go_db kv c gm its')) (held B J [])"
proof -
  have "frame_stable (CallID \<lparr>Store = kv, CallID = c\<rparr>) J" using assms by simp
  note scan = cScan_safe [OF this]
  show ?thesis
    unfolding GoStorage_scan_def go_db_defs vtable_fn_def
    by (simp, intro safe_call_go [OF scan] safe_read_cells)
      (auto intro!: safe_take safe_into_result safe_intros simp: Let_def)
qed

text \<open>An iterator panics when its vtable is not set.\<close>

lemma GoIter_next_safe: "safe (held B J []) (GoIter_next ops gm it) (\<lambda>_. held B J []) (held B J [])"
  unfolding GoIter_next_def
  by (intro safe_ifs(2) safe_call_go [OF cNext_safe] safe_read_cells)
    (auto intro!: safe_take safe_into_result safe_intros)

lemma GoIter_next_key_or_val_safe:
  "safe (held B J []) (GoIter_next_key_or_val (nextPart ops ref gm f)) (\<lambda>_. held B J []) R"
  unfolding GoIter_next_key_or_val_def
  by (intro safe_call_go [OF nextPart_safe] safe_read_cells)
    (auto intro!: safe_take safe_into_result safe_intros)

lemma GoIter_part_safe:
  "safe (held B J []) (GoIter_next_key ops gm it) (\<lambda>_. held B J []) (held B J [])"
  "safe (held B J []) (GoIter_next_value ops gm it) (\<lambda>_. held B J []) (held B J [])"
  unfolding GoIter_next_key_def GoIter_next_value_def cNextKey_def cNextValue_def
  by (intro safe_ifs(2) GoIter_next_key_or_val_safe safe_panic; simp)+

lemma GoStorage_with_safe:
  assumes "\<And>it. safe (held B J []) (k it) (\<lambda>_. held B J []) R"
  shows "safe (held B J []) (GoStorage_with st iid k) (\<lambda>_. held B J []) R"
  unfolding GoStorage_with_def by (intro safe_intros assms)

lemma addr_safe:
  "safe (held B J []) (addr_canonicalize (buildAPI api) s) (\<lambda>_. held B J []) R"
  "safe (held B J []) (addr_humanize (buildAPI api) s) (\<lambda>_. held B J []) R"
  "safe (held B J []) (addr_validate (buildAPI api) s) (\<lambda>_. held B J []) R"
  unfolding addr_canonicalize_def addr_humanize_def addr_validate_def buildAPI_def api_vtable_def vtable_fn_def
  by (simp_all, intro safe_call_go [OF cCanonicalizeAddress_safe] safe_read_cells,
      auto intro!: safe_take safe_into_result safe_intros safe_call_go [OF cHumanizeAddress_safe]
        safe_call_go [OF cValidateAddress_safe] safe_read_cells)

lemma query_raw_safe:
  "safe (held B J []) (query_raw parse (buildQuerier je q) request gas) (\<lambda>_. held B J []) R"
  unfolding query_raw_def buildQuerier_def vtable_fn_def
  by (simp, intro safe_call_go [OF cQueryExternal_safe] safe_read_cells)
    (auto intro!: safe_take safe_into_result safe_intros simp: Let_def)

end
