(* ===== verification/Libwasmvm.thy ===== *)
theory Libwasmvm
  imports Ownership
begin

text \<open>
  The entry points of \<open>libwasmvm\<close> that Go calls: \<open>calls.rs\<close>, \<open>cache.rs\<close>, \<open>error/rust.rs\<close>, \<open>args.rs\<close> and
  \<open>gas_report.rs\<close>.  The crate \<open>cosmwasm-vm\<close> is not part of the repository: the record \<open>cosmwasm_vm\<close>
  has its functions as fields.  A contract that runs is a tree \<open>vm_prog\<close> of calls into the backend, each
  with what it goes on with for every answer.
\<close>

section \<open>Errors and errno (error/rust.rs)\<close>

datatype RustError =
    RE_EmptyArg string | RE_InvalidUtf8 string | RE_MessagePack string | RE_Json string
  | RE_OutOfGas | RE_Panic | RE_UnsetArg string | RE_ChecksumError | RE_VmErr string

text \<open>\<open>VmError\<close>: gas depletion, or another error with its text.\<close>

datatype VmError = GasDepletion | OtherVmError string

fun RustError_to_string :: "RustError \<Rightarrow> string" where
  "RustError_to_string (RE_EmptyArg name) = ''Empty argument: '' @ name"
| "RustError_to_string (RE_InvalidUtf8 msg) = ''Cannot decode UTF8 bytes into string: '' @ msg"
| "RustError_to_string (RE_MessagePack msg) = ''Cannot deserialize from MessagePack: '' @ msg"
| "RustError_to_string (RE_Json msg) = ''Cannot serialize to / deserialize from JSON: '' @ msg"
| "RustError_to_string RE_OutOfGas = ''Ran out of gas''"
| "RustError_to_string RE_Panic = ''Caught panic''"
| "RustError_to_string (RE_UnsetArg name) = ''Null/Nil argument: '' @ name"
| "RustError_to_string RE_ChecksumError = ''Checksum not of length 32''"
| "RustError_to_string (RE_VmErr msg) = ''Error calling the VM: '' @ msg"

fun RustError_from_VmError :: "VmError \<Rightarrow> RustError" where
  "RustError_from_VmError GasDepletion = RE_OutOfGas"
| "RustError_from_VmError (OtherVmError msg) = RE_VmErr msg"

definition ErrnoValue_Success :: "32 word" where "ErrnoValue_Success = 0"
definition ErrnoValue_Other :: "32 word" where "ErrnoValue_Other = 1"
definition ErrnoValue_OutOfGas :: "32 word" where "ErrnoValue_OutOfGas = 2"

text \<open>
  What a call from Go leaves behind besides its value: \<open>errno\<close> and the error message.  A null pointer
  for the message is \<open>None\<close>.
\<close>

definition set_error ::
    "RustError \<Rightarrow> UnmanagedVector option \<Rightarrow> heap \<Rightarrow> (32 word \<times> UnmanagedVector option) \<times> heap" where
  "set_error err error_msg h =
     (let errno = (case err of RE_OutOfGas \<Rightarrow> ErrnoValue_OutOfGas | _ \<Rightarrow> ErrnoValue_Other)
      in case error_msg of
        Some _ \<Rightarrow> (let (v, h') = UnmanagedVector_new (Some (vec_from (RustError_to_string err))) h
                  in ((errno, Some v), h'))
      | None \<Rightarrow> ((errno, None), h))"

definition handle_c_error_binary ::
    "(RustError + rust_vec) \<Rightarrow> UnmanagedVector option \<Rightarrow> heap
      \<Rightarrow> rust_vec \<times> (32 word \<times> UnmanagedVector option) \<times> heap" where
  "handle_c_error_binary result error_msg h = (case result of
     Inr val \<Rightarrow> (val, (ErrnoValue_Success, error_msg), h)
   | Inl err \<Rightarrow> (([], 0), set_error err error_msg h))"

definition handle_c_error_default ::
    "'a \<Rightarrow> (RustError + 'a) \<Rightarrow> UnmanagedVector option \<Rightarrow> heap
      \<Rightarrow> 'a \<times> (32 word \<times> UnmanagedVector option) \<times> heap" where
  "handle_c_error_default dflt result error_msg h = (case result of
     Inr val \<Rightarrow> (val, (ErrnoValue_Success, error_msg), h)
   | Inl err \<Rightarrow> (dflt, set_error err error_msg h))"

definition handle_c_error_ptr ::
    "(RustError + nat) \<Rightarrow> UnmanagedVector option \<Rightarrow> heap
      \<Rightarrow> nat option \<times> (32 word \<times> UnmanagedVector option) \<times> heap" where
  "handle_c_error_ptr result error_msg h = (case result of
     Inr val \<Rightarrow> (Some val, (ErrnoValue_Success, error_msg), h)
   | Inl err \<Rightarrow> (None, set_error err error_msg h))"

section \<open>Argument names (args.rs)\<close>

definition CONFIG_ARG :: string where "CONFIG_ARG = ''config''"
definition CACHE_ARG :: string where "CACHE_ARG = ''cache''"
definition WASM_ARG :: string where "WASM_ARG = ''wasm''"
definition CHECKSUM_ARG :: string where "CHECKSUM_ARG = ''checksum''"
definition CHECKSUMS_ARG :: string where "CHECKSUMS_ARG = ''checksums''"
definition GAS_REPORT_ARG :: string where "GAS_REPORT_ARG = ''gas_report''"
definition ARG1 :: string where "ARG1 = ''arg1''"
definition ARG2 :: string where "ARG2 = ''arg2''"
definition ARG3 :: string where "ARG3 = ''arg3''"

section \<open>A contract that runs\<close>

datatype ('q, 'r) vm_prog =
    VmDone 'r
  | VmPanic panic_value
  | VmGet string "string option BackendResult \<Rightarrow> ('q, 'r) vm_prog"
  | VmSet string string "unit BackendResult \<Rightarrow> ('q, 'r) vm_prog"
  | VmRemove string "unit BackendResult \<Rightarrow> ('q, 'r) vm_prog"
  | VmScan "string option" "string option" Order "u32 BackendResult \<Rightarrow> ('q, 'r) vm_prog"
  | VmNext u32 "(string \<times> string) option BackendResult \<Rightarrow> ('q, 'r) vm_prog"
  | VmNextKey u32 "string option BackendResult \<Rightarrow> ('q, 'r) vm_prog"
  | VmNextValue u32 "string option BackendResult \<Rightarrow> ('q, 'r) vm_prog"
  | VmCanonicalize string "string BackendResult \<Rightarrow> ('q, 'r) vm_prog"
  | VmHumanize string "string BackendResult \<Rightarrow> ('q, 'r) vm_prog"
  | VmValidate string "unit BackendResult \<Rightarrow> ('q, 'r) vm_prog"
  | VmQuery string u64 "'q system_result BackendResult \<Rightarrow> ('q, 'r) vm_prog"

text \<open>
  The backend of \<open>into_backend\<close>, with the iterators and the gas meter its pointers lead to, and the two
  renderings the crates provide.
\<close>

record ('i, 's, 'q) vm_backend =
  be_api :: "('i, 's) GoApi"
  be_storage :: "('i, 's) GoStorage"
  be_querier :: "('i, 's) GoQuerier"
  be_ops :: "('i, 's) iterator_ops"
  be_parse :: "string \<Rightarrow> string + 'q"
  be_debug :: "string option \<Rightarrow> string"

definition be_meter :: "('i, 's, 'q) vm_backend \<Rightarrow> 's gas_meter" where
  "be_meter be = the (db_gas_meter (gs_db (be_storage be)))"

primrec run_prog ::
    "('q, 'r) vm_prog \<Rightarrow> ('i, 's, 'q) vm_backend \<Rightarrow> ('i, 's, 'r) callback" where
  "run_prog (VmDone r) = (\<lambda>be. ret r)"
| "run_prog (VmPanic p) = (\<lambda>be. panic p)"
| "run_prog (VmGet key k) = (\<lambda>be. bind (GoStorage_get (be_storage be) key) (\<lambda>r. run_prog (k r) be))"
| "run_prog (VmSet key val k) = (\<lambda>be. bind (GoStorage_set (be_storage be) key val) (\<lambda>r. run_prog (k r) be))"
| "run_prog (VmRemove key k) = (\<lambda>be. bind (GoStorage_remove (be_storage be) key) (\<lambda>r. run_prog (k r) be))"
| "run_prog (VmScan start stop order k) = (\<lambda>be.
     bind (GoStorage_scan (be_debug be) (be_storage be) start stop order) (\<lambda>x.
       run_prog (k (fst x)) (be\<lparr>be_storage := snd x\<rparr>)))"
| "run_prog (VmNext iid k) = (\<lambda>be.
     bind (GoStorage_next (be_ops be) (be_meter be) (be_storage be) iid) (\<lambda>r. run_prog (k r) be))"
| "run_prog (VmNextKey iid k) = (\<lambda>be.
     bind (GoStorage_next_key (be_ops be) (be_meter be) (be_storage be) iid) (\<lambda>r. run_prog (k r) be))"
| "run_prog (VmNextValue iid k) = (\<lambda>be.
     bind (GoStorage_next_value (be_ops be) (be_meter be) (be_storage be) iid) (\<lambda>r. run_prog (k r) be))"
| "run_prog (VmCanonicalize human k) = (\<lambda>be. bind (addr_canonicalize (be_api be) human) (\<lambda>r. run_prog (k r) be))"
| "run_prog (VmHumanize canonical k) = (\<lambda>be. bind (addr_humanize (be_api be) canonical) (\<lambda>r. run_prog (k r) be))"
| "run_prog (VmValidate input k) = (\<lambda>be. bind (addr_validate (be_api be) input) (\<lambda>r. run_prog (k r) be))"
| "run_prog (VmQuery request gas k) = (\<lambda>be.
     bind (query_raw (be_parse be) (be_querier be) request gas) (\<lambda>r. run_prog (k r) be))"

section \<open>The crate cosmwasm-vm\<close>

datatype vm_fn =
    call_instantiate_raw
  | call_execute_raw
  | call_migrate_raw
  | call_migrate_with_info_raw
  | call_sudo_raw
  | call_reply_raw
  | call_query_raw
  | call_ibc_channel_open_raw
  | call_ibc_channel_connect_raw
  | call_ibc_channel_close_raw
  | call_ibc_packet_receive_raw
  | call_ibc_packet_ack_raw
  | call_ibc_packet_timeout_raw
  | call_ibc_source_callback_raw
  | call_ibc_destination_callback_raw
  | call_ibc2_packet_receive_raw
  | call_ibc2_packet_ack_raw
  | call_ibc2_packet_timeout_raw
  | call_ibc2_packet_send_raw

text \<open>
  A \<open>cosmwasm_vm::AnalysisReport\<close> and the per-module metrics, as far as the code reads them; a set of
  strings is given by its elements in the order of iteration.
\<close>

record vm_analysis =
  va_has_ibc_entry_points :: bool
  va_required_capabilities :: "string list"
  va_entrypoints :: "string list"
  va_contract_migrate_version :: "u64 option"

record vm_pinned =
  vp_checksum :: string
  vp_hits :: u32
  vp_size :: u64

text \<open>
  \<open>'c\<close> is a \<open>Cache\<close> and \<open>'n\<close> an \<open>Instance\<close>; any function may panic.  The record also has the methods
  of the iterators of the chain, which every iterator object carries with it.
\<close>

record ('c, 'n, 'q, 'i, 's) cosmwasm_vm =
  vm_new_with_config :: "string \<Rightarrow> (string + (VmError + 'c)) go"
  vm_store_code :: "string \<Rightarrow> bool \<Rightarrow> bool \<Rightarrow> 'c \<Rightarrow> (VmError + string) go \<times> 'c"
  vm_remove_wasm :: "string \<Rightarrow> 'c \<Rightarrow> (VmError + unit) go \<times> 'c"
  vm_load_wasm :: "string \<Rightarrow> 'c \<Rightarrow> (VmError + rust_vec) go \<times> 'c"
  vm_pin :: "string \<Rightarrow> 'c \<Rightarrow> (VmError + unit) go \<times> 'c"
  vm_unpin :: "string \<Rightarrow> 'c \<Rightarrow> (VmError + unit) go \<times> 'c"
  vm_sync_pinned_codes :: "string list \<Rightarrow> 'c \<Rightarrow> (VmError + unit) go \<times> 'c"
  vm_analyze :: "string \<Rightarrow> 'c \<Rightarrow> (VmError + vm_analysis) go \<times> 'c"
  vm_metrics :: "'c \<Rightarrow> Metrics go \<times> 'c"
  vm_pinned_metrics :: "'c \<Rightarrow> vm_pinned list go \<times> 'c"
  vm_msgpack :: "vm_pinned list \<Rightarrow> string + rust_vec"
  vm_get_instance :: "string \<Rightarrow> u64 \<Rightarrow> 'c \<Rightarrow> (VmError + 'n) go \<times> 'c"
  vm_call :: "vm_fn \<Rightarrow> 'n \<Rightarrow> string list \<Rightarrow> ('q, (VmError + rust_vec) \<times> 'n) vm_prog"
  vm_create_gas_report :: "'n \<Rightarrow> GasReport"
  vm_ops :: "('i, 's) iterator_ops"
  vm_parse_system_result :: "string \<Rightarrow> string + 'q"
  vm_debug_bound :: "string option \<Rightarrow> string"

section \<open>The state and its effects\<close>

text \<open>
  The state behind the FFI: the boxes \<open>init_cache\<close> made, the directories whose lock file is locked,
  and the state of the callbacks.
\<close>

record ('c, 'i, 's) sys =
  sys_caches :: "nat \<rightharpoonup> 'c"
  sys_next :: nat
  sys_locks :: "string set"
  sys_ffi :: "('i, 's) ffi"

definition on_ffi :: "('i, 's, 'a) callback \<Rightarrow> (('c, 'i, 's) sys, 'a) eff" where
  "on_ffi m w = (case m (sys_ffi w) of (r, f) \<Rightarrow> (r, w\<lparr>sys_ffi := f\<rparr>))"

definition on_heap :: "(heap \<Rightarrow> 'a \<times> heap) \<Rightarrow> (('c, 'i, 's) sys, 'a) eff" where
  "on_heap f w = (case f (f_heap (sys_ffi w)) of (x, h) \<Rightarrow> (Ok x, w\<lparr>sys_ffi := (sys_ffi w)\<lparr>f_heap := h\<rparr>\<rparr>))"

text \<open>\<open>to_cache\<close> and a method on the cache; the pointer of a released cache must not be used.\<close>

definition to_cache :: "nat option \<Rightarrow> nat option" where
  "to_cache ptr = ptr"

definition on_cache :: "nat \<Rightarrow> ('c \<Rightarrow> 'a go \<times> 'c) \<Rightarrow> (('c, 'i, 's) sys, 'a) eff" where
  "on_cache p f w = (case sys_caches w p of
     None \<Rightarrow> (Undefined, w)
   | Some c \<Rightarrow> (case f c of
       (Return x, c') \<Rightarrow> (Ok x, w\<lparr>sys_caches := (sys_caches w)(p \<mapsto> c')\<rparr>)
     | (Panics e, c') \<Rightarrow> (Panic e, w\<lparr>sys_caches := (sys_caches w)(p \<mapsto> c')\<rparr>)))"

text \<open>\<open>catch_unwind\<close> with the error the code turns a panic into, and the operator \<open>?\<close>.\<close>

definition catch_unwind :: "('w, RustError + 'a) eff \<Rightarrow> ('w, RustError + 'a) eff" where
  "catch_unwind m w = (case m w of (Panic p, w') \<Rightarrow> (Ok (Inl RE_Panic), w') | r \<Rightarrow> r)"

definition and_then :: "('w, RustError + 'a) eff \<Rightarrow> ('a \<Rightarrow> ('w, RustError + 'b) eff) \<Rightarrow> ('w, RustError + 'b) eff" where
  "and_then m k = bind m (\<lambda>r. case r of Inl e \<Rightarrow> ret (Inl e) | Inr x \<Rightarrow> k x)"

definition vm_result :: "VmError + 'a \<Rightarrow> RustError + 'a" where
  "vm_result r = (case r of Inl e \<Rightarrow> Inl (RustError_from_VmError e) | Inr x \<Rightarrow> Inr x)"

definition vm_method :: "nat \<Rightarrow> ('c \<Rightarrow> (VmError + 'a) go \<times> 'c) \<Rightarrow> (('c, 'i, 's) sys, RustError + 'a) eff" where
  "vm_method p f = bind (on_cache p f) (\<lambda>r. ret (vm_result r))"

text \<open>Reading an argument: \<open>view.read().ok_or_else(unset_arg)\<close>.\<close>

definition read_arg :: "ByteSliceView \<Rightarrow> string \<Rightarrow> ('w, RustError + string) eff" where
  "read_arg view name w = (case ByteSliceView_read view of
     None \<Rightarrow> (Undefined, w)
   | Some None \<Rightarrow> (Ok (Inl (RE_UnsetArg name)), w)
   | Some (Some bs) \<Rightarrow> (Ok (Inr bs), w))"

definition Checksum_try_from :: "string \<Rightarrow> RustError + string" where
  "Checksum_try_from bs = (if length bs = 32 then Inr bs else Inl RE_ChecksumError)"

definition read_checksum :: "ByteSliceView \<Rightarrow> ('w, RustError + string) eff" where
  "read_checksum view = and_then (read_arg view CHECKSUM_ARG) (\<lambda>bs. ret (Checksum_try_from bs))"

text \<open>\<open>match to_cache(cache)\<close> with the guarded body.\<close>

definition guarded ::
    "nat option \<Rightarrow> (nat \<Rightarrow> ('w, RustError + 'a) eff) \<Rightarrow> ('w, RustError + 'a) eff" where
  "guarded cache body = (case to_cache cache of
     Some c \<Rightarrow> catch_unwind (body c)
   | None \<Rightarrow> ret (Inl (RE_UnsetArg CACHE_ARG)))"

section \<open>Calls into contracts (calls.rs)\<close>

definition into_backend ::
    "('c, 'n, 'q, 'i, 's) cosmwasm_vm \<Rightarrow> ('i, 's) Db \<Rightarrow> ('i, 's) GoApi \<Rightarrow> ('i, 's) GoQuerier
      \<Rightarrow> ('i, 's, 'q) vm_backend" where
  "into_backend vm db api querier =
     \<lparr>be_api = api, be_storage = GoStorage_new db, be_querier = querier, be_ops = vm_ops vm,
      be_parse = vm_parse_system_result vm, be_debug = vm_debug_bound vm\<rparr>"

text \<open>
  The call itself: the gas is reported whether or not the contract fails.  The debug handler that
  \<open>print_debug\<close> installs only writes to standard error.
\<close>

definition call_instance ::
    "('c, 'n, 'q, 'i, 's) cosmwasm_vm \<Rightarrow> vm_fn \<Rightarrow> 'n \<Rightarrow> ('i, 's, 'q) vm_backend \<Rightarrow> string list
      \<Rightarrow> (('c, 'i, 's) sys, RustError + (VmError + rust_vec) \<times> GasReport) eff" where
  "call_instance vm f inst backend args =
     bind (on_ffi (run_prog (vm_call vm f inst args) backend)) (\<lambda>(res, inst').
       ret (Inr (res, vm_create_gas_report vm inst')))"

definition do_call_2_args ::
    "('c, 'n, 'q, 'i, 's) cosmwasm_vm \<Rightarrow> vm_fn \<Rightarrow> nat \<Rightarrow> ByteSliceView \<Rightarrow> ByteSliceView \<Rightarrow> ByteSliceView
      \<Rightarrow> ('i, 's) Db \<Rightarrow> ('i, 's) GoApi \<Rightarrow> ('i, 's) GoQuerier \<Rightarrow> u64 \<Rightarrow> bool \<Rightarrow> GasReport option
      \<Rightarrow> (('c, 'i, 's) sys, RustError + (VmError + rust_vec) \<times> GasReport) eff" where
  "do_call_2_args vm f cache checksum arg1 arg2 db api querier gas_limit print_debug gas_report =
     (case gas_report of
        None \<Rightarrow> ret (Inl (RE_EmptyArg GAS_REPORT_ARG))
      | Some _ \<Rightarrow>
          and_then (read_checksum checksum) (\<lambda>cs.
          and_then (read_arg arg1 ARG1) (\<lambda>a1.
          and_then (read_arg arg2 ARG2) (\<lambda>a2.
          and_then (vm_method cache (vm_get_instance vm cs gas_limit)) (\<lambda>inst.
          call_instance vm f inst (into_backend vm db api querier) [a1, a2])))))"

definition do_call_3_args ::
    "('c, 'n, 'q, 'i, 's) cosmwasm_vm \<Rightarrow> vm_fn \<Rightarrow> nat \<Rightarrow> ByteSliceView \<Rightarrow> ByteSliceView \<Rightarrow> ByteSliceView
      \<Rightarrow> ByteSliceView \<Rightarrow> ('i, 's) Db \<Rightarrow> ('i, 's) GoApi \<Rightarrow> ('i, 's) GoQuerier \<Rightarrow> u64 \<Rightarrow> bool \<Rightarrow> GasReport option
      \<Rightarrow> (('c, 'i, 's) sys, RustError + (VmError + rust_vec) \<times> GasReport) eff" where
  "do_call_3_args vm f cache checksum arg1 arg2 arg3 db api querier gas_limit print_debug gas_report =
     (case gas_report of
        None \<Rightarrow> ret (Inl (RE_EmptyArg GAS_REPORT_ARG))
      | Some _ \<Rightarrow>
          and_then (read_checksum checksum) (\<lambda>cs.
          and_then (read_arg arg1 ARG1) (\<lambda>a1.
          and_then (read_arg arg2 ARG2) (\<lambda>a2.
          and_then (read_arg arg3 ARG3) (\<lambda>a3.
          and_then (vm_method cache (vm_get_instance vm cs gas_limit)) (\<lambda>inst.
          call_instance vm f inst (into_backend vm db api querier) [a1, a2, a3]))))))"

text \<open>
  The result, the gas report, \<open>errno\<close> and the error message; \<open>res?\<close> is taken after the report is written.
\<close>

type_synonym call_out = "UnmanagedVector \<times> GasReport option \<times> 32 word \<times> UnmanagedVector option"

definition finish_call ::
    "GasReport option \<Rightarrow> UnmanagedVector option \<Rightarrow> RustError + (VmError + rust_vec) \<times> GasReport
      \<Rightarrow> (('c, 'i, 's) sys, call_out) eff" where
  "finish_call gas_report error_msg r =
     (let (res, report) = (case r of
            Inl e \<Rightarrow> (Inl e, gas_report)
          | Inr (res, report) \<Rightarrow> (vm_result res, Some report))
      in on_heap (\<lambda>h. let (data, (errno, msg), h1) = handle_c_error_binary res error_msg h;
                         (v, h2) = UnmanagedVector_new (Some data) h1
                     in ((v, report, errno, msg), h2)))"

definition call_2_args ::
    "('c, 'n, 'q, 'i, 's) cosmwasm_vm \<Rightarrow> vm_fn \<Rightarrow> nat option \<Rightarrow> ByteSliceView \<Rightarrow> ByteSliceView \<Rightarrow> ByteSliceView
      \<Rightarrow> ('i, 's) Db \<Rightarrow> ('i, 's) GoApi \<Rightarrow> ('i, 's) GoQuerier \<Rightarrow> u64 \<Rightarrow> bool \<Rightarrow> GasReport option
      \<Rightarrow> UnmanagedVector option \<Rightarrow> (('c, 'i, 's) sys, call_out) eff" where
  "call_2_args vm f cache checksum arg1 arg2 db api querier gas_limit print_debug gas_report error_msg =
     bind (guarded cache (\<lambda>c.
       do_call_2_args vm f c checksum arg1 arg2 db api querier gas_limit print_debug gas_report))
     (finish_call gas_report error_msg)"

definition call_3_args ::
    "('c, 'n, 'q, 'i, 's) cosmwasm_vm \<Rightarrow> vm_fn \<Rightarrow> nat option \<Rightarrow> ByteSliceView \<Rightarrow> ByteSliceView \<Rightarrow> ByteSliceView
      \<Rightarrow> ByteSliceView \<Rightarrow> ('i, 's) Db \<Rightarrow> ('i, 's) GoApi \<Rightarrow> ('i, 's) GoQuerier \<Rightarrow> u64 \<Rightarrow> bool \<Rightarrow> GasReport option
      \<Rightarrow> UnmanagedVector option \<Rightarrow> (('c, 'i, 's) sys, call_out) eff" where
  "call_3_args vm f cache checksum arg1 arg2 arg3 db api querier gas_limit print_debug gas_report error_msg =
     bind (guarded cache (\<lambda>c.
       do_call_3_args vm f c checksum arg1 arg2 arg3 db api querier gas_limit print_debug gas_report))
     (finish_call gas_report error_msg)"

type_synonym ('c, 'n, 'q, 'i, 's) entry_2 = "('c, 'n, 'q, 'i, 's) cosmwasm_vm \<Rightarrow> nat option \<Rightarrow> ByteSliceView \<Rightarrow> ByteSliceView
  \<Rightarrow> ByteSliceView \<Rightarrow> ('i, 's) Db \<Rightarrow> ('i, 's) GoApi \<Rightarrow> ('i, 's) GoQuerier \<Rightarrow> u64 \<Rightarrow> bool \<Rightarrow> GasReport option
  \<Rightarrow> UnmanagedVector option \<Rightarrow> (('c, 'i, 's) sys, call_out) eff"

type_synonym ('c, 'n, 'q, 'i, 's) entry_3 = "('c, 'n, 'q, 'i, 's) cosmwasm_vm \<Rightarrow> nat option \<Rightarrow> ByteSliceView \<Rightarrow> ByteSliceView
  \<Rightarrow> ByteSliceView \<Rightarrow> ByteSliceView \<Rightarrow> ('i, 's) Db \<Rightarrow> ('i, 's) GoApi \<Rightarrow> ('i, 's) GoQuerier \<Rightarrow> u64 \<Rightarrow> bool
  \<Rightarrow> GasReport option \<Rightarrow> UnmanagedVector option \<Rightarrow> (('c, 'i, 's) sys, call_out) eff"

definition instantiate :: "('c, 'n, 'q, 'i, 's) entry_3" where
  "instantiate vm cache checksum env_view info msg db api querier gas_limit print_debug gas_report error_msg =
     call_3_args vm call_instantiate_raw cache checksum env_view info msg db api querier gas_limit print_debug gas_report error_msg"

definition execute :: "('c, 'n, 'q, 'i, 's) entry_3" where
  "execute vm cache checksum env_view info msg db api querier gas_limit print_debug gas_report error_msg =
     call_3_args vm call_execute_raw cache checksum env_view info msg db api querier gas_limit print_debug gas_report error_msg"

definition migrate :: "('c, 'n, 'q, 'i, 's) entry_2" where
  "migrate vm cache checksum env_view msg db api querier gas_limit print_debug gas_report error_msg =
     call_2_args vm call_migrate_raw cache checksum env_view msg db api querier gas_limit print_debug gas_report error_msg"

definition migrate_with_info :: "('c, 'n, 'q, 'i, 's) entry_3" where
  "migrate_with_info vm cache checksum env_view msg migrate_info db api querier gas_limit print_debug gas_report error_msg =
     call_3_args vm call_migrate_with_info_raw cache checksum env_view msg migrate_info db api querier gas_limit print_debug gas_report error_msg"

definition sudo :: "('c, 'n, 'q, 'i, 's) entry_2" where
  "sudo vm cache checksum env_view msg db api querier gas_limit print_debug gas_report error_msg =
     call_2_args vm call_sudo_raw cache checksum env_view msg db api querier gas_limit print_debug gas_report error_msg"

definition reply :: "('c, 'n, 'q, 'i, 's) entry_2" where
  "reply vm cache checksum env_view msg db api querier gas_limit print_debug gas_report error_msg =
     call_2_args vm call_reply_raw cache checksum env_view msg db api querier gas_limit print_debug gas_report error_msg"

definition query :: "('c, 'n, 'q, 'i, 's) entry_2" where
  "query vm cache checksum env_view msg db api querier gas_limit print_debug gas_report error_msg =
     call_2_args vm call_query_raw cache checksum env_view msg db api querier gas_limit print_debug gas_report error_msg"

definition ibc_channel_open :: "('c, 'n, 'q, 'i, 's) entry_2" where
  "ibc_channel_open vm cache checksum env_view msg db api querier gas_limit print_debug gas_report error_msg =
     call_2_args vm call_ibc_channel_open_raw cache checksum env_view msg db api querier gas_limit print_debug gas_report error_msg"

definition ibc_channel_connect :: "('c, 'n, 'q, 'i, 's) entry_2" where
  "ibc_channel_connect vm cache checksum env_view msg db api querier gas_limit print_debug gas_report error_msg =
     call_2_args vm call_ibc_channel_connect_raw cache checksum env_view msg db api querier gas_limit print_debug gas_report error_msg"

definition ibc_channel_close :: "('c, 'n, 'q, 'i, 's) entry_2" where
  "ibc_channel_close vm cache checksum env_view msg db api querier gas_limit print_debug gas_report error_msg =
     call_2_args vm call_ibc_channel_close_raw cache checksum env_view msg db api querier gas_limit print_debug gas_report error_msg"

definition ibc_packet_receive :: "('c, 'n, 'q, 'i, 's) entry_2" where
  "ibc_packet_receive vm cache checksum env_view msg db api querier gas_limit print_debug gas_report error_msg =
     call_2_args vm call_ibc_packet_receive_raw cache checksum env_view msg db api querier gas_limit print_debug gas_report error_msg"

definition ibc_packet_ack :: "('c, 'n, 'q, 'i, 's) entry_2" where
  "ibc_packet_ack vm cache checksum env_view msg db api querier gas_limit print_debug gas_report error_msg =
     call_2_args vm call_ibc_packet_ack_raw cache checksum env_view msg db api querier gas_limit print_debug gas_report error_msg"

definition ibc_packet_timeout :: "('c, 'n, 'q, 'i, 's) entry_2" where
  "ibc_packet_timeout vm cache checksum env_view msg db api querier gas_limit print_debug gas_report error_msg =
     call_2_args vm call_ibc_packet_timeout_raw cache checksum env_view msg db api querier gas_limit print_debug gas_report error_msg"

definition ibc_source_callback :: "('c, 'n, 'q, 'i, 's) entry_2" where
  "ibc_source_callback vm cache checksum env_view msg db api querier gas_limit print_debug gas_report error_msg =
     call_2_args vm call_ibc_source_callback_raw cache checksum env_view msg db api querier gas_limit print_debug gas_report error_msg"

definition ibc_destination_callback :: "('c, 'n, 'q, 'i, 's) entry_2" where
  "ibc_destination_callback vm cache checksum env_view msg db api querier gas_limit print_debug gas_report error_msg =
     call_2_args vm call_ibc_destination_callback_raw cache checksum env_view msg db api querier gas_limit print_debug gas_report error_msg"

definition ibc2_packet_receive :: "('c, 'n, 'q, 'i, 's) entry_2" where
  "ibc2_packet_receive vm cache checksum env_view msg db api querier gas_limit print_debug gas_report error_msg =
     call_2_args vm call_ibc2_packet_receive_raw cache checksum env_view msg db api querier gas_limit print_debug gas_report error_msg"

definition ibc2_packet_ack :: "('c, 'n, 'q, 'i, 's) entry_2" where
  "ibc2_packet_ack vm cache checksum env_view msg db api querier gas_limit print_debug gas_report error_msg =
     call_2_args vm call_ibc2_packet_ack_raw cache checksum env_view msg db api querier gas_limit print_debug gas_report error_msg"

definition ibc2_packet_timeout :: "('c, 'n, 'q, 'i, 's) entry_2" where
  "ibc2_packet_timeout vm cache checksum env_view msg db api querier gas_limit print_debug gas_report error_msg =
     call_2_args vm call_ibc2_packet_timeout_raw cache checksum env_view msg db api querier gas_limit print_debug gas_report error_msg"

definition ibc2_packet_send :: "('c, 'n, 'q, 'i, 's) entry_2" where
  "ibc2_packet_send vm cache checksum env_view msg db api querier gas_limit print_debug gas_report error_msg =
     call_2_args vm call_ibc2_packet_send_raw cache checksum env_view msg db api querier gas_limit print_debug gas_report error_msg"

lemmas entry_defs =
  instantiate_def execute_def migrate_def migrate_with_info_def sudo_def
  reply_def query_def ibc_channel_open_def ibc_channel_connect_def ibc_channel_close_def
  ibc_packet_receive_def ibc_packet_ack_def ibc_packet_timeout_def ibc_source_callback_def ibc_destination_callback_def
  ibc2_packet_receive_def ibc2_packet_ack_def ibc2_packet_timeout_def ibc2_packet_send_def

section \<open>The code cache (cache.rs)\<close>

text \<open>\<open>do_init_cache\<close>: the configuration is parsed and the cache boxed.\<close>

definition do_init_cache ::
    "('c, 'n, 'q, 'i, 's) cosmwasm_vm \<Rightarrow> ByteSliceView \<Rightarrow> (('c, 'i, 's) sys, RustError + nat) eff" where
  "do_init_cache vm config =
     and_then (read_arg config CONFIG_ARG) (\<lambda>bs w. case vm_new_with_config vm bs of
       Panics p \<Rightarrow> (Panic p, w)
     | Return (Inl msg) \<Rightarrow> (Ok (Inl (RE_Json msg)), w)
     | Return (Inr (Inl e)) \<Rightarrow> (Ok (Inl (RustError_from_VmError e)), w)
     | Return (Inr (Inr c)) \<Rightarrow> (Ok (Inr (sys_next w)),
         w\<lparr>sys_caches := (sys_caches w)(sys_next w \<mapsto> c), sys_next := Suc (sys_next w)\<rparr>))"

definition init_cache ::
    "('c, 'n, 'q, 'i, 's) cosmwasm_vm \<Rightarrow> ByteSliceView \<Rightarrow> UnmanagedVector option
      \<Rightarrow> (('c, 'i, 's) sys, nat option \<times> 32 word \<times> UnmanagedVector option) eff" where
  "init_cache vm config error_msg =
     bind (catch_unwind (do_init_cache vm config)) (\<lambda>r.
       on_heap (\<lambda>h. let (p, out, h') = handle_c_error_ptr r error_msg h in ((p, out), h')))"

definition release_cache :: "nat option \<Rightarrow> (('c, 'i, 's) sys, unit) eff" where
  "release_cache cache w = (case cache of
     None \<Rightarrow> (Ok (), w)
   | Some p \<Rightarrow> (case sys_caches w p of
       None \<Rightarrow> (Undefined, w)
     | Some _ \<Rightarrow> (Ok (), w\<lparr>sys_caches := (sys_caches w)(p := None)\<rparr>)))"

text \<open>The two ways a function of the cache ends.\<close>

definition finish_binary ::
    "UnmanagedVector option \<Rightarrow> RustError + rust_vec
      \<Rightarrow> (('c, 'i, 's) sys, UnmanagedVector \<times> 32 word \<times> UnmanagedVector option) eff" where
  "finish_binary error_msg r = on_heap (\<lambda>h.
     let (data, out, h1) = handle_c_error_binary r error_msg h; (v, h2) = UnmanagedVector_new (Some data) h1
     in ((v, out), h2))"

definition finish_default ::
    "'a \<Rightarrow> UnmanagedVector option \<Rightarrow> RustError + 'a
      \<Rightarrow> (('c, 'i, 's) sys, 'a \<times> 32 word \<times> UnmanagedVector option) eff" where
  "finish_default dflt error_msg r = on_heap (\<lambda>h.
     let (x, out, h') = handle_c_error_default dflt r error_msg h in ((x, out), h'))"

definition do_store_code ::
    "('c, 'n, 'q, 'i, 's) cosmwasm_vm \<Rightarrow> nat \<Rightarrow> ByteSliceView \<Rightarrow> bool \<Rightarrow> bool
      \<Rightarrow> (('c, 'i, 's) sys, RustError + rust_vec) eff" where
  "do_store_code vm cache wasm checked persist =
     and_then (read_arg wasm WASM_ARG) (\<lambda>bs.
     and_then (vm_method cache (vm_store_code vm bs checked persist)) (\<lambda>checksum. ret (Inr (vec_from checksum))))"

definition store_code ::
    "('c, 'n, 'q, 'i, 's) cosmwasm_vm \<Rightarrow> nat option \<Rightarrow> ByteSliceView \<Rightarrow> bool \<Rightarrow> bool \<Rightarrow> UnmanagedVector option
      \<Rightarrow> (('c, 'i, 's) sys, UnmanagedVector \<times> 32 word \<times> UnmanagedVector option) eff" where
  "store_code vm cache wasm checked persist error_msg =
     bind (guarded cache (\<lambda>c. do_store_code vm c wasm checked persist)) (finish_binary error_msg)"

definition do_remove_wasm ::
    "('c, 'n, 'q, 'i, 's) cosmwasm_vm \<Rightarrow> nat \<Rightarrow> ByteSliceView \<Rightarrow> (('c, 'i, 's) sys, RustError + unit) eff" where
  "do_remove_wasm vm cache checksum =
     and_then (read_checksum checksum) (\<lambda>cs. and_then (vm_method cache (vm_remove_wasm vm cs)) (\<lambda>_. ret (Inr ())))"

definition remove_wasm ::
    "('c, 'n, 'q, 'i, 's) cosmwasm_vm \<Rightarrow> nat option \<Rightarrow> ByteSliceView \<Rightarrow> UnmanagedVector option
      \<Rightarrow> (('c, 'i, 's) sys, unit \<times> 32 word \<times> UnmanagedVector option) eff" where
  "remove_wasm vm cache checksum error_msg =
     bind (guarded cache (\<lambda>c. do_remove_wasm vm c checksum)) (finish_default () error_msg)"

definition do_load_wasm ::
    "('c, 'n, 'q, 'i, 's) cosmwasm_vm \<Rightarrow> nat \<Rightarrow> ByteSliceView \<Rightarrow> (('c, 'i, 's) sys, RustError + rust_vec) eff" where
  "do_load_wasm vm cache checksum =
     and_then (read_checksum checksum) (\<lambda>cs. and_then (vm_method cache (vm_load_wasm vm cs)) (\<lambda>wasm. ret (Inr wasm)))"

definition load_wasm ::
    "('c, 'n, 'q, 'i, 's) cosmwasm_vm \<Rightarrow> nat option \<Rightarrow> ByteSliceView \<Rightarrow> UnmanagedVector option
      \<Rightarrow> (('c, 'i, 's) sys, UnmanagedVector \<times> 32 word \<times> UnmanagedVector option) eff" where
  "load_wasm vm cache checksum error_msg =
     bind (guarded cache (\<lambda>c. do_load_wasm vm c checksum)) (finish_binary error_msg)"

definition do_pin ::
    "('c, 'n, 'q, 'i, 's) cosmwasm_vm \<Rightarrow> nat \<Rightarrow> ByteSliceView \<Rightarrow> (('c, 'i, 's) sys, RustError + unit) eff" where
  "do_pin vm cache checksum =
     and_then (read_checksum checksum) (\<lambda>cs. and_then (vm_method cache (vm_pin vm cs)) (\<lambda>_. ret (Inr ())))"

definition pin ::
    "('c, 'n, 'q, 'i, 's) cosmwasm_vm \<Rightarrow> nat option \<Rightarrow> ByteSliceView \<Rightarrow> UnmanagedVector option
      \<Rightarrow> (('c, 'i, 's) sys, unit \<times> 32 word \<times> UnmanagedVector option) eff" where
  "pin vm cache checksum error_msg =
     bind (guarded cache (\<lambda>c. do_pin vm c checksum)) (finish_default () error_msg)"

definition do_unpin ::
    "('c, 'n, 'q, 'i, 's) cosmwasm_vm \<Rightarrow> nat \<Rightarrow> ByteSliceView \<Rightarrow> (('c, 'i, 's) sys, RustError + unit) eff" where
  "do_unpin vm cache checksum =
     and_then (read_checksum checksum) (\<lambda>cs. and_then (vm_method cache (vm_unpin vm cs)) (\<lambda>_. ret (Inr ())))"

definition unpin ::
    "('c, 'n, 'q, 'i, 's) cosmwasm_vm \<Rightarrow> nat option \<Rightarrow> ByteSliceView \<Rightarrow> UnmanagedVector option
      \<Rightarrow> (('c, 'i, 's) sys, unit \<times> 32 word \<times> UnmanagedVector option) eff" where
  "unpin vm cache checksum error_msg =
     bind (guarded cache (\<lambda>c. do_unpin vm c checksum)) (finish_default () error_msg)"

text \<open>\<open>chunks_exact(32)\<close>: the blocks of 32 bytes; a shorter rest is left out.\<close>

function chunks_exact_32 :: "string \<Rightarrow> string list" where
  "chunks_exact_32 bs = (if length bs < 32 then [] else take 32 bs # chunks_exact_32 (drop 32 bs))"
  by pat_completeness auto
termination by (relation "measure length") auto

declare chunks_exact_32.simps [simp del]

definition do_sync_pinned_codes ::
    "('c, 'n, 'q, 'i, 's) cosmwasm_vm \<Rightarrow> nat \<Rightarrow> ByteSliceView \<Rightarrow> (('c, 'i, 's) sys, RustError + unit) eff" where
  "do_sync_pinned_codes vm cache checksums =
     and_then (read_arg checksums CHECKSUMS_ARG) (\<lambda>bs.
     let css = map Checksum_try_from (chunks_exact_32 bs) in
     if list_all (\<lambda>r. \<not> isl r) css
     then and_then (vm_method cache (vm_sync_pinned_codes vm (map projr css))) (\<lambda>_. ret (Inr ()))
     else ret (Inl RE_ChecksumError))"

definition sync_pinned_codes ::
    "('c, 'n, 'q, 'i, 's) cosmwasm_vm \<Rightarrow> nat option \<Rightarrow> ByteSliceView \<Rightarrow> UnmanagedVector option
      \<Rightarrow> (('c, 'i, 's) sys, unit \<times> 32 word \<times> UnmanagedVector option) eff" where
  "sync_pinned_codes vm cache checksums error_msg =
     bind (guarded cache (\<lambda>c. do_sync_pinned_codes vm c checksums)) (finish_default () error_msg)"

text \<open>The analysis report of the FFI owns two vectors.\<close>

record rust_AnalysisReport =
  ar_has_ibc_entry_points :: bool
  ar_entrypoints :: UnmanagedVector
  ar_required_capabilities :: UnmanagedVector
  ar_contract_migrate_version :: OptionalU64

definition OptionalU64_from :: "u64 option \<Rightarrow> OptionalU64" where
  "OptionalU64_from v = (case v of
     None \<Rightarrow> \<lparr>ou64_is_some = False, ou64_value = 0\<rparr>
   | Some x \<Rightarrow> \<lparr>ou64_is_some = True, ou64_value = x\<rparr>)"

text \<open>\<open>list.join(\<dots>)\<close>.\<close>

fun join :: "string \<Rightarrow> string list \<Rightarrow> string" where
  "join sep [] = []"
| "join sep [s] = s"
| "join sep (s # ss) = s @ sep @ join sep ss"

definition set_to_csv :: "string list \<Rightarrow> string" where
  "set_to_csv s = join '','' s"

definition AnalysisReport_default :: rust_AnalysisReport where
  "AnalysisReport_default = \<lparr>ar_has_ibc_entry_points = False, ar_entrypoints = none_vec,
     ar_required_capabilities = none_vec, ar_contract_migrate_version = \<lparr>ou64_is_some = False, ou64_value = 0\<rparr>\<rparr>"

definition AnalysisReport_from :: "vm_analysis \<Rightarrow> heap \<Rightarrow> rust_AnalysisReport \<times> heap" where
  "AnalysisReport_from report h =
     (let (caps, h1) = UnmanagedVector_new (Some (vec_from (set_to_csv (va_required_capabilities report)))) h;
          (ents, h2) = UnmanagedVector_new (Some (vec_from (set_to_csv (va_entrypoints report)))) h1
      in (\<lparr>ar_has_ibc_entry_points = va_has_ibc_entry_points report, ar_entrypoints = ents,
           ar_required_capabilities = caps,
           ar_contract_migrate_version = OptionalU64_from (va_contract_migrate_version report)\<rparr>, h2))"

definition do_analyze_code ::
    "('c, 'n, 'q, 'i, 's) cosmwasm_vm \<Rightarrow> nat \<Rightarrow> ByteSliceView
      \<Rightarrow> (('c, 'i, 's) sys, RustError + rust_AnalysisReport) eff" where
  "do_analyze_code vm cache checksum =
     and_then (read_checksum checksum) (\<lambda>cs. and_then (vm_method cache (vm_analyze vm cs)) (\<lambda>report.
       bind (on_heap (AnalysisReport_from report)) (\<lambda>r. ret (Inr r))))"

definition analyze_code ::
    "('c, 'n, 'q, 'i, 's) cosmwasm_vm \<Rightarrow> nat option \<Rightarrow> ByteSliceView \<Rightarrow> UnmanagedVector option
      \<Rightarrow> (('c, 'i, 's) sys, rust_AnalysisReport \<times> 32 word \<times> UnmanagedVector option) eff" where
  "analyze_code vm cache checksum error_msg =
     bind (guarded cache (\<lambda>c. do_analyze_code vm c checksum)) (finish_default AnalysisReport_default error_msg)"

definition Metrics_default :: Metrics where
  "Metrics_default = \<lparr>Metrics_HitsPinnedMemoryCache = 0, Metrics_HitsMemoryCache = 0, Metrics_HitsFsCache = 0,
     Metrics_Misses = 0, Metrics_ElementsPinnedMemoryCache = 0, Metrics_ElementsMemoryCache = 0,
     Metrics_SizePinnedMemoryCache = 0, Metrics_SizeMemoryCache = 0\<rparr>"

definition do_get_metrics ::
    "('c, 'n, 'q, 'i, 's) cosmwasm_vm \<Rightarrow> nat \<Rightarrow> (('c, 'i, 's) sys, RustError + Metrics) eff" where
  "do_get_metrics vm cache = bind (on_cache cache (vm_metrics vm)) (\<lambda>m. ret (Inr m))"

definition get_metrics ::
    "('c, 'n, 'q, 'i, 's) cosmwasm_vm \<Rightarrow> nat option \<Rightarrow> UnmanagedVector option
      \<Rightarrow> (('c, 'i, 's) sys, Metrics \<times> 32 word \<times> UnmanagedVector option) eff" where
  "get_metrics vm cache error_msg =
     bind (guarded cache (do_get_metrics vm)) (finish_default Metrics_default error_msg)"

definition do_get_pinned_metrics ::
    "('c, 'n, 'q, 'i, 's) cosmwasm_vm \<Rightarrow> nat \<Rightarrow> (('c, 'i, 's) sys, RustError + UnmanagedVector) eff" where
  "do_get_pinned_metrics vm cache =
     bind (on_cache cache (vm_pinned_metrics vm)) (\<lambda>m. case vm_msgpack vm m of
       Inl msg \<Rightarrow> ret (Inl (RE_MessagePack msg))
     | Inr edgerunner \<Rightarrow> bind (on_heap (UnmanagedVector_new (Some edgerunner))) (\<lambda>v. ret (Inr v)))"

definition get_pinned_metrics ::
    "('c, 'n, 'q, 'i, 's) cosmwasm_vm \<Rightarrow> nat option \<Rightarrow> UnmanagedVector option
      \<Rightarrow> (('c, 'i, 's) sys, UnmanagedVector \<times> 32 word \<times> UnmanagedVector option) eff" where
  "get_pinned_metrics vm cache error_msg =
     bind (guarded cache (do_get_pinned_metrics vm)) (finish_default none_vec error_msg)"

section \<open>Running a contract is safe\<close>

text \<open>A backend made of what Go builds: a database for the call \<open>c\<close>, an API and a querier.\<close>

definition go_backend :: "u64 \<Rightarrow> ('i, 's, 'q) vm_backend \<Rightarrow> bool" where
  "go_backend c be \<longleftrightarrow> (\<exists>kv gm its. be_storage be = go_db kv c gm its) \<and>
     (\<exists>api. be_api be = buildAPI api) \<and> (\<exists>je q. be_querier be = buildQuerier je q)"

lemma go_backendE:
  assumes "go_backend c be"
  obtains kv gm its api je q where "be_storage be = go_db kv c gm its" "be_api be = buildAPI api"
    "be_querier be = buildQuerier je q"
  using assms by (auto simp: go_backend_def)

lemma go_backend_storage:
  "go_backend c be \<Longrightarrow> st = go_db kv c gm its \<Longrightarrow> go_backend c (be\<lparr>be_storage := st\<rparr>)"
  by (auto simp: go_backend_def)

lemma go_backend_ops:
  assumes "go_backend c be"
  shows "safe (held B J []) (GoStorage_get (be_storage be) key) (\<lambda>_. held B J []) R"
    "safe (held B J []) (GoStorage_set (be_storage be) key val) (\<lambda>_. held B J []) R"
    "safe (held B J []) (GoStorage_remove (be_storage be) key) (\<lambda>_. held B J []) R"
    "safe (held B J []) (addr_canonicalize (be_api be) s) (\<lambda>_. held B J []) R"
    "safe (held B J []) (addr_humanize (be_api be) s) (\<lambda>_. held B J []) R"
    "safe (held B J []) (addr_validate (be_api be) s) (\<lambda>_. held B J []) R"
    "safe (held B J []) (query_raw parse (be_querier be) request gas) (\<lambda>_. held B J []) R"
  using assms
  by (auto elim!: go_backendE simp: GoStorage_get_safe GoStorage_set_safe GoStorage_remove_safe addr_safe query_raw_safe)

text \<open>\<open>prog_all G\<close>: every result the program can reach satisfies \<open>G\<close>.\<close>

primrec prog_all :: "('r \<Rightarrow> bool) \<Rightarrow> ('q, 'r) vm_prog \<Rightarrow> bool" where
  "prog_all G (VmDone r) = G r"
| "prog_all G (VmPanic p) = True"
| "prog_all G (VmGet key k) = (\<forall>r. prog_all G (k r))"
| "prog_all G (VmSet key val k) = (\<forall>r. prog_all G (k r))"
| "prog_all G (VmRemove key k) = (\<forall>r. prog_all G (k r))"
| "prog_all G (VmScan start stop order k) = (\<forall>r. prog_all G (k r))"
| "prog_all G (VmNext iid k) = (\<forall>r. prog_all G (k r))"
| "prog_all G (VmNextKey iid k) = (\<forall>r. prog_all G (k r))"
| "prog_all G (VmNextValue iid k) = (\<forall>r. prog_all G (k r))"
| "prog_all G (VmCanonicalize human k) = (\<forall>r. prog_all G (k r))"
| "prog_all G (VmHumanize canonical k) = (\<forall>r. prog_all G (k r))"
| "prog_all G (VmValidate input k) = (\<forall>r. prog_all G (k r))"
| "prog_all G (VmQuery request gas k) = (\<forall>r. prog_all G (k r))"

lemma run_scan_safe:
  fixes k :: "u32 BackendResult \<Rightarrow> ('q, 'r) vm_prog" and be :: "('i, 's, 'q) vm_backend"
  assumes "frame_stable c J" and be: "go_backend c be"
    and rest: "\<And>r (be' :: ('i, 's, 'q) vm_backend). go_backend c be' \<Longrightarrow>
      safe (held B J []) (run_prog (k r) be') (\<lambda>r w. held B J [] w \<and> G r) (held B J [])"
  shows "safe (held B J []) (run_prog (VmScan start stop order k) be) (\<lambda>r w. held B J [] w \<and> G r) (held B J [])"
proof -
  from be obtain kv gm its where st: "be_storage be = go_db kv c gm its" by (rule go_backendE)
  have "safe (\<lambda>w. held B J [] w \<and> (\<exists>its'. snd x = go_db kv c gm its'))
      (run_prog (k (fst x)) (be\<lparr>be_storage := snd x\<rparr>)) (\<lambda>r w. held B J [] w \<and> G r) (held B J [])" for x
  proof (rule safeI, elim conjE exE)
    fix w :: "('i, 's) ffi" and its'
    assume w: "held B J [] w" "snd x = go_db kv c gm its'"
    from safeD [OF rest [OF go_backend_storage [OF be w(2)]] w(1)]
    show "outcome (\<lambda>r w. held B J [] w \<and> G r) (held B J []) (run_prog (k (fst x)) (be\<lparr>be_storage := snd x\<rparr>) w)"
      .
  qed
  with st show ?thesis by (simp, intro safe_bind [OF GoStorage_scan_safe [OF assms(1)]])
qed

lemma run_prog_safe:
  fixes prog :: "('q, 'r) vm_prog" and be :: "('i, 's, 'q) vm_backend"
  assumes "frame_stable c J"
  shows "go_backend c be \<Longrightarrow> prog_all G prog \<Longrightarrow>
    safe (held B J []) (run_prog prog be) (\<lambda>r w. held B J [] w \<and> G r) (held B J [])"
proof (induction prog arbitrary: be)
  case (VmGet key k)
  then show ?case by (auto intro!: safe_bind [OF go_backend_ops(1)])
next
  case (VmSet key val k)
  then show ?case by (auto intro!: safe_bind [OF go_backend_ops(2)])
next
  case (VmRemove key k)
  then show ?case by (auto intro!: safe_bind [OF go_backend_ops(3)])
next
  case (VmScan start stop order k)
  from VmScan.prems(2) have "prog_all G (k r)" for r by (cases r) simp
  with VmScan show ?case by (intro run_scan_safe [OF assms]) blast+
next
  case (VmNext iid k)
  then show ?case
    by (auto simp: GoStorage_next_def intro!: safe_bind [OF GoStorage_with_safe [OF GoIter_next_safe]])
next
  case (VmNextKey iid k)
  then show ?case
    by (auto simp: GoStorage_next_key_def intro!: safe_bind [OF GoStorage_with_safe [OF GoIter_part_safe(1)]])
next
  case (VmNextValue iid k)
  then show ?case
    by (auto simp: GoStorage_next_value_def intro!: safe_bind [OF GoStorage_with_safe [OF GoIter_part_safe(2)]])
next
  case (VmCanonicalize human k)
  then show ?case by (auto intro!: safe_bind [OF go_backend_ops(4)])
next
  case (VmHumanize canonical k)
  then show ?case by (auto intro!: safe_bind [OF go_backend_ops(5)])
next
  case (VmValidate input k)
  then show ?case by (auto intro!: safe_bind [OF go_backend_ops(6)])
next
  case (VmQuery request gas k)
  then show ?case by (auto intro!: safe_bind [OF go_backend_ops(7)])
qed (simp_all add: safe_def)

section \<open>The entry points are safe\<close>

text \<open>
  \<open>around p w0 H\<close>: the callbacks' state satisfies \<open>H\<close>, the cache \<open>p\<close> is alive and everything but it and the
  callbacks' state is as in \<open>w0\<close>.
\<close>

definition around :: "nat \<Rightarrow> ('c, 'i, 's) sys \<Rightarrow> (('i, 's) ffi \<Rightarrow> bool) \<Rightarrow> ('c, 'i, 's) sys \<Rightarrow> bool" where
  "around p w0 H w \<longleftrightarrow> H (sys_ffi w) \<and> sys_caches w p \<noteq> None \<and> sys_next w = sys_next w0 \<and>
     sys_locks w = sys_locks w0 \<and> (\<forall>q. q \<noteq> p \<longrightarrow> sys_caches w q = sys_caches w0 q)"

lemma safe_on_ffi:
  assumes "safe P m Q R"
  shows "safe (around p w0 P) (on_ffi m) (\<lambda>x. around p w0 (Q x)) (around p w0 R)"
proof (rule safeI)
  fix w
  assume w: "around p w0 P w"
  then have "outcome Q R (m (sys_ffi w))" using safeD [OF assms] by (simp add: around_def)
  with w show "outcome (\<lambda>x. around p w0 (Q x)) (around p w0 R) (on_ffi m w)"
    by (cases "m (sys_ffi w)" rule: run_cases) (simp_all add: on_ffi_def around_def)
qed

lemma safe_on_cache:
  assumes "\<And>c. case fst (f c) of Return x \<Rightarrow> G x | Panics _ \<Rightarrow> True"
  shows "safe (around p w0 H) (on_cache p f) (\<lambda>x w. around p w0 H w \<and> G x) (around p w0 H)"
proof (rule safeI)
  fix w
  assume w: "around p w0 H w"
  then obtain c where c: "sys_caches w p = Some c" by (auto simp: around_def)
  with w assms [of c] show "outcome (\<lambda>x w. around p w0 H w \<and> G x) (around p w0 H) (on_cache p f w)"
    by (cases "f c") (auto simp: on_cache_def around_def split: go.splits)
qed

lemma ByteSliceView_read_defined: "\<exists>r. ByteSliceView_read (makeView s) = Some r"
  by (cases s) (auto simp: ByteSliceView_read_def makeView_def from_raw_parts_def unat_of_nat take_bit_eq_mod)

text \<open>Results and errors: \<open>good E G\<close> is \<open>E\<close> of an error and \<open>G\<close> of a value.\<close>

definition good :: "('e \<Rightarrow> bool) \<Rightarrow> ('a \<Rightarrow> bool) \<Rightarrow> 'e + 'a \<Rightarrow> bool" where
  "good E G r = (case r of Inl e \<Rightarrow> E e | Inr x \<Rightarrow> G x)"

lemma good_simps [simp]: "good E G (Inl e) = E e" "good E G (Inr x) = G x"
  by (simp_all add: good_def)

lemma safe_and_then:
  assumes "safe P m (\<lambda>r w. M w \<and> good E G r) R" "\<And>x. G x \<Longrightarrow> safe M (k x) Q R"
    "\<And>e w. E e \<Longrightarrow> M w \<Longrightarrow> Q (Inl e) w"
  shows "safe P (and_then m k) Q R"
  unfolding and_then_def
proof (rule safe_bind [OF assms(1)])
  fix r
  show "safe (\<lambda>w. M w \<and> good E G r) (case r of Inl e \<Rightarrow> ret (Inl e) | Inr x \<Rightarrow> k x) Q R"
    using assms(2,3) by (cases r) (auto simp: safe_def)
qed

lemma safe_catch_unwind:
  assumes "safe P m (\<lambda>r w. Z w \<and> good E G r) Z" "E RE_Panic"
  shows "safe P (catch_unwind m) (\<lambda>r w. Z w \<and> good E G r) R"
proof (rule safeI)
  fix w
  assume "P w"
  from safeD [OF assms(1) this] assms(2)
  show "outcome (\<lambda>r w. Z w \<and> good E G r) R (catch_unwind m w)"
    by (cases "m w" rule: run_cases) (auto simp: catch_unwind_def)
qed

text \<open>What Go can copy: less than \<open>2 ^ 31\<close> bytes.\<close>

definition error_fits :: "RustError \<Rightarrow> bool" where
  "error_fits e \<longleftrightarrow> length (RustError_to_string e) < 2 ^ 31"

definition vm_error_fits :: "VmError \<Rightarrow> bool" where
  "vm_error_fits e \<longleftrightarrow> error_fits (RustError_from_VmError e)"

definition vec_fits :: "rust_vec \<Rightarrow> bool" where
  "vec_fits v \<longleftrightarrow> length (fst v) \<le> unat (snd v) \<and> length (fst v) < 2 ^ 31"

text \<open>
  The virtual machine: its vectors have the capacity for their bytes, and results and error messages
  are shorter than \<open>2 ^ 31\<close> bytes.
\<close>

definition vm_sound :: "('c, 'n, 'q, 'i, 's) cosmwasm_vm \<Rightarrow> bool" where
  "vm_sound vm \<longleftrightarrow>
     (\<forall>f n args. prog_all (\<lambda>(r, _). good vm_error_fits vec_fits r) (vm_call vm f n args)) \<and>
     (\<forall>cs gas c. case fst (vm_get_instance vm cs gas c) of
        Return r \<Rightarrow> good vm_error_fits (\<lambda>_. True) r | Panics _ \<Rightarrow> True)"

lemma error_fits_names [simp]:
  "error_fits RE_Panic" "error_fits RE_ChecksumError" "error_fits (RE_UnsetArg CHECKSUM_ARG)"
  "error_fits (RE_UnsetArg ARG1)" "error_fits (RE_UnsetArg ARG2)" "error_fits (RE_UnsetArg ARG3)"
  "error_fits (RE_UnsetArg CACHE_ARG)" "error_fits (RE_EmptyArg GAS_REPORT_ARG)"
  by (simp_all add: error_fits_def CHECKSUM_ARG_def ARG1_def ARG2_def ARG3_def CACHE_ARG_def GAS_REPORT_ARG_def)

lemma safe_read_arg:
  assumes "error_fits (RE_UnsetArg name)"
  shows "safe P (read_arg (makeView s) name) (\<lambda>r w. P w \<and> good error_fits (\<lambda>_. True) r) R"
  using ByteSliceView_read_defined [of s] assms by (auto simp: safe_def read_arg_def split: option.split)

lemma safe_read_checksum:
  "safe P (read_checksum (makeView s)) (\<lambda>r w. P w \<and> good error_fits (\<lambda>_. True) r) R"
  unfolding read_checksum_def
  by (rule safe_and_then [OF safe_read_arg]) (auto simp: safe_def Checksum_try_from_def)

lemma safe_vm_method:
  assumes "\<And>c. case fst (f c) of Return r \<Rightarrow> good vm_error_fits G r | Panics _ \<Rightarrow> True"
  shows "safe (around p w0 H) (vm_method p f) (\<lambda>r w. around p w0 H w \<and> good error_fits G r) (around p w0 H)"
  unfolding vm_method_def
proof (rule safe_bind [OF safe_on_cache [where G = "good vm_error_fits G"]])
  show "case fst (f c) of Return r \<Rightarrow> good vm_error_fits G r | Panics _ \<Rightarrow> True" for c by (rule assms)
  show "safe (\<lambda>w. around p w0 H w \<and> good vm_error_fits G r) (ret (vm_result r))
      (\<lambda>r w. around p w0 H w \<and> good error_fits G r) (around p w0 H)" for r
    by (rule safe_ret) (auto simp: vm_result_def vm_error_fits_def good_def split: sum.splits)
qed

definition call_fits :: "(VmError + rust_vec) \<times> GasReport \<Rightarrow> bool" where
  "call_fits x = good vm_error_fits vec_fits (fst x)"

lemma safe_call_instance:
  assumes "vm_sound vm" "frame_stable c J" "go_backend c be"
  shows "safe (around p w0 (held B J [])) (call_instance vm f n be args)
    (\<lambda>r w. around p w0 (held B J []) w \<and> good error_fits call_fits r) (around p w0 (held B J []))"
  unfolding call_instance_def
proof (rule safe_bind [OF safe_on_ffi [OF run_prog_safe [OF assms(2,3), where G = "\<lambda>(r, _). good vm_error_fits vec_fits r"]]])
  show "prog_all (\<lambda>(r, _). good vm_error_fits vec_fits r) (vm_call vm f n args)"
    using assms(1) by (simp add: vm_sound_def)
next
  fix x
  show "safe (around p w0 (\<lambda>w. held B J [] w \<and> (case x of (r, _) \<Rightarrow> good vm_error_fits vec_fits r)))
      (case x of (res, inst') \<Rightarrow> ret (Inr (res, vm_create_gas_report vm inst')))
      (\<lambda>r w. around p w0 (held B J []) w \<and> good error_fits call_fits r) (around p w0 (held B J []))"
    by (cases x) (auto simp: safe_def around_def call_fits_def)
qed

lemma go_backend_into:
  "go_backend c (into_backend vm (buildDB (buildDBState kv c) gm) (buildAPI api) (buildQuerier je q))"
  by (auto simp: go_backend_def into_backend_def go_db_def GoStorage_new_def)

lemma safe_get_instance:
  assumes "vm_sound vm"
  shows "safe (around p w0 H) (vm_method p (vm_get_instance vm cs gas))
    (\<lambda>r w. around p w0 H w \<and> good error_fits (\<lambda>_. True) r) (around p w0 H)"
  by (rule safe_vm_method) (use assms in \<open>simp add: vm_sound_def\<close>)

lemma do_call_safe:
  fixes kv :: "('i, 's) kvstore" and w0 :: "('c, 'i, 's) sys"
  assumes "vm_sound vm" "frame_stable c J"
  shows "safe (around p w0 (held B J [])) (do_call_2_args vm f p (makeView cs) (makeView a1) (makeView a2)
      (buildDB (buildDBState kv c) gm) (buildAPI api) (buildQuerier je q) gas dbg (Some rep))
    (\<lambda>r w. around p w0 (held B J []) w \<and> good error_fits call_fits r) (around p w0 (held B J []))"
    "safe (around p w0 (held B J [])) (do_call_3_args vm f p (makeView cs) (makeView a1) (makeView a2) (makeView a3)
      (buildDB (buildDBState kv c) gm) (buildAPI api) (buildQuerier je q) gas dbg (Some rep))
    (\<lambda>r w. around p w0 (held B J []) w \<and> good error_fits call_fits r) (around p w0 (held B J []))"
  unfolding do_call_2_args_def do_call_3_args_def
  by (simp_all, (rule safe_and_then [OF safe_read_checksum] safe_and_then [OF safe_read_arg]
      safe_and_then [OF safe_get_instance [OF assms(1)]] safe_call_instance [OF assms go_backend_into] | simp)+)

section \<open>Properties\<close>

text \<open>
  C5: whatever a contract does with its storage, its iterators, the API and the querier, and whatever
  the chain answers, the run ends with a value or a panic and never in undefined behaviour.  Every
  vector that crossed the boundary has been freed, and the iterator frames of the other calls and the
  call counter are untouched.
\<close>

theorem run_prog_tidy:
  fixes w :: "('i, 's) ffi"
  assumes "go_backend c be" "heap_ok (f_heap w)"
  shows "\<exists>r w'. run_prog prog be w = (r, w') \<and> r \<noteq> Undefined \<and> blocks (f_heap w') = blocks (f_heap w) \<and>
    heap_ok (f_heap w') \<and> other_frames c (f_iters w) (f_iters w')"
proof -
  have "prog_all (\<lambda>_. True) prog" by (induction prog) simp_all
  from run_prog_safe [OF frame_stable_other [of c "f_iters w"] assms(1) this]
  have "safe (held (blocks (f_heap w)) (other_frames c (f_iters w)) []) (run_prog prog be)
    (\<lambda>r w'. held (blocks (f_heap w)) (other_frames c (f_iters w)) [] w' \<and> True)
    (held (blocks (f_heap w)) (other_frames c (f_iters w)) [])" .
  from safeD [OF this, of w] assms(2) show ?thesis
    by (cases "run_prog prog be w" rule: run_cases) (auto simp: held_def other_frames_def)
qed

text \<open>A contract that writes, scans and reads its iterator, on a store that holds one pair and panics when asked for more.\<close>

theorem run_prog_tidy_witness:
  "\<exists>r w'. run_prog
      (VmSet ''k'' ''v'' (\<lambda>_. VmScan None None Ascending (\<lambda>_. VmNext 0 (\<lambda>r. VmDone r))) :: (unit, (string \<times> string) option BackendResult) vm_prog)
      \<lparr>be_api = buildAPI \<lparr>HumanizeAddress = None, CanonicalizeAddress = None, ValidateAddress = None\<rparr>,
       be_storage = go_db
         \<lparr>kv_Get = \<lambda>k s. (Return None, s), kv_Set = \<lambda>k v s. (Return (), s + 1), kv_Delete = \<lambda>k s. (Panics nil_deref, s),
          kv_Iterator = \<lambda>a b s. (Return (Some ()), s), kv_ReverseIterator = \<lambda>a b s. (Panics nil_deref, s)\<rparr>
         7 (\<lambda>s. (Return s, s)) [],
       be_querier = buildQuerier (\<lambda>_. []) \<lparr>Query = \<lambda>r g s. (Panics nil_deref, s), QuerierGasConsumed = \<lambda>s. (Return s, s)\<rparr>,
       be_ops = \<lparr>it_Valid = \<lambda>i s. (Return True, s), it_Next = \<lambda>i s. (Panics nil_deref, s), it_Key = \<lambda>i s. (Return (Some ''k''), s),
         it_Value = \<lambda>i s. (Return (Some ''v''), s), it_Close = \<lambda>i s. (Return None, s)\<rparr>,
       be_parse = \<lambda>_. Inl [], be_debug = \<lambda>_. []\<rparr>
      \<lparr>f_env = 5 :: u64, f_iters = iter_init, f_heap = empty_heap, f_usedGas = None, f_out = None, f_out2 = None,
       f_errOut = None, f_iter = None\<rparr> = (r, w') \<and> r \<noteq> Undefined \<and> blocks (f_heap w') = Map.empty \<and>
    heap_ok (f_heap w') \<and> other_frames 7 iter_init (f_iters w')"
  (is "\<exists>r w'. run_prog ?prog ?be ?w = (r, w') \<and> ?P r w'")
proof -
  have be: "go_backend 7 ?be" by (simp add: go_backend_def) blast
  have h: "heap_ok (f_heap ?w)" "blocks (f_heap ?w) = Map.empty" by (simp_all add: heap_ok_def empty_heap_def)
  from run_prog_tidy [OF be h(1), of ?prog] show ?thesis unfolding h(2) by simp
qed

end
