(* ===== verification/Api.thy ===== *)
theory Api
  imports Libwasmvm
begin

text \<open>
  \<open>internal/api/lib.go\<close>: the Go side of the calls into \<open>libwasmvm\<close>.  Every function makes views of its
  arguments, calls the function of \<open>calls.rs\<close> or \<open>cache.rs\<close> of the same name and copies what comes
  back.  A call into a contract checks the API and the querier, opens an iterator frame and closes it
  however the call ends.  \<open>KeepAlive\<close> and the pinner keep the garbage collector away from memory that
  Rust reads and have no effect here.
\<close>

section \<open>Errors\<close>

text \<open>An error of type \<open>syscall.Errno\<close>, by its text.\<close>

definition errno_error :: "32 word \<Rightarrow> go_error" where
  "errno_error n = OtherError (if n = 1 then ''operation not permitted''
     else if n = 2 then ''no such file or directory'' else ''errno '' @ dec (unat n))"

definition copy_destroy :: "UnmanagedVector \<Rightarrow> (('c, 'i, 's) sys, byte_slice) eff" where
  "copy_destroy v w = (case copyAndDestroyUnmanagedVector v (f_heap (sys_ffi w)) of
     None \<Rightarrow> (Undefined, w)
   | Some (Panics p, h) \<Rightarrow> (Panic p, w\<lparr>sys_ffi := (sys_ffi w)\<lparr>f_heap := h\<rparr>\<rparr>)
   | Some (Return bs, h) \<Rightarrow> (Ok bs, w\<lparr>sys_ffi := (sys_ffi w)\<lparr>f_heap := h\<rparr>\<rparr>))"

definition errorWithMessage :: "32 word \<Rightarrow> UnmanagedVector \<Rightarrow> (('c, 'i, 's) sys, go_error) eff" where
  "errorWithMessage err b = bind (copy_destroy b) (\<lambda>msg.
     ret (if err = 2 then OutOfGasErrorVal
          else case msg of None \<Rightarrow> errno_error err | Some m \<Rightarrow> OtherError m))"

definition convertGasReport :: "GasReport \<Rightarrow> GasReport" where
  "convertGasReport report =
     \<lparr>GasReport_Limit = GasReport_Limit report, GasReport_Remaining = GasReport_Remaining report,
      GasReport_UsedExternally = GasReport_UsedExternally report,
      GasReport_UsedInternally = GasReport_UsedInternally report\<rparr>"

definition zero_GasReport :: GasReport where
  "zero_GasReport = \<lparr>GasReport_Limit = 0, GasReport_Remaining = 0, GasReport_UsedExternally = 0,
     GasReport_UsedInternally = 0\<rparr>"

section \<open>The cache\<close>

text \<open>The lock file by the file it is; \<open>None\<close> is a null pointer.\<close>

record Cache =
  Cache_ptr :: "nat option"
  Cache_lockfile :: string

text \<open>
  The operating system: the file a path leads to, and which of the first three steps of \<open>InitCache\<close>
  succeed.  The exclusive lock succeeds when nobody holds it.
\<close>

record os =
  os_lock_file :: "string \<Rightarrow> string"
  os_MkdirAll :: "string \<Rightarrow> bool"
  os_OpenFile :: "string \<Rightarrow> bool"
  os_WriteString :: "string \<Rightarrow> bool"

definition Flock :: "string \<Rightarrow> (('c, 'i, 's) sys, bool) eff" where
  "Flock file w = (if file \<in> sys_locks w then (Ok False, w)
     else (Ok True, w\<lparr>sys_locks := insert file (sys_locks w)\<rparr>))"

definition init_error :: "string \<Rightarrow> ('w, go_error + Cache) eff" where
  "init_error text = ret (Inl (OtherError text))"

definition InitCache ::
    "('c, 'n, 'q, 'i, 's) cosmwasm_vm \<Rightarrow> os \<Rightarrow> VMConfig \<Rightarrow> (('c, 'i, 's) sys, go_error + Cache) eff" where
  "InitCache vm os config =
     (let dir = CacheOptions_BaseDir (VMConfig_Cache config); file = os_lock_file os dir in
      if \<not> os_MkdirAll os dir then init_error ''could not create base directory''
      else if \<not> os_OpenFile os file then init_error ''could not open exclusive.lock''
      else if \<not> os_WriteString os file then init_error ''error writing to exclusive.lock''
      else bind (Flock file) (\<lambda>locked.
        if \<not> locked
        then init_error ''could not lock exclusive.lock. Is a different VM running in the same directory already?''
        else case json_Marshal (VMConfig_to_json config) of
          Inl _ \<Rightarrow> init_error ''could not serialize config''
        | Inr configBytes \<Rightarrow>
            bind (init_cache vm (makeView (Some configBytes)) (Some uninitializedUnmanagedVector)) (\<lambda>(ptr, err, errmsg).
              if err \<noteq> 0 then bind (errorWithMessage err (the errmsg)) (\<lambda>e. ret (Inl e))
              else ret (Inr \<lparr>Cache_ptr = ptr, Cache_lockfile = file\<rparr>))))"

definition ReleaseCache :: "Cache \<Rightarrow> (('c, 'i, 's) sys, unit) eff" where
  "ReleaseCache cache = bind (release_cache (Cache_ptr cache)) (\<lambda>_ w.
     (Ok (), w\<lparr>sys_locks := sys_locks w - {Cache_lockfile cache}\<rparr>))"

text \<open>What the functions of the cache have in common: the value is dropped or copied.\<close>

definition unit_result :: "unit \<times> 32 word \<times> UnmanagedVector option \<Rightarrow> (('c, 'i, 's) sys, error) eff" where
  "unit_result r = (case r of (_, err, errmsg) \<Rightarrow>
     if err \<noteq> 0 then bind (errorWithMessage err (the errmsg)) (\<lambda>e. ret (Some e)) else ret None)"

definition bytes_result ::
    "UnmanagedVector \<times> 32 word \<times> UnmanagedVector option \<Rightarrow> (('c, 'i, 's) sys, byte_slice \<times> error) eff" where
  "bytes_result r = (case r of (v, err, errmsg) \<Rightarrow>
     if err \<noteq> 0 then bind (errorWithMessage err (the errmsg)) (\<lambda>e. ret (None, Some e))
     else bind (copy_destroy v) (\<lambda>bs. ret (bs, None)))"

definition api_StoreCode ::
    "('c, 'n, 'q, 'i, 's) cosmwasm_vm \<Rightarrow> Cache \<Rightarrow> byte_slice \<Rightarrow> bool \<Rightarrow> (('c, 'i, 's) sys, byte_slice \<times> error) eff" where
  "api_StoreCode vm cache wasm persist =
     bind (store_code vm (Cache_ptr cache) (makeView wasm) True persist (Some uninitializedUnmanagedVector))
       bytes_result"

definition api_StoreCodeUnchecked ::
    "('c, 'n, 'q, 'i, 's) cosmwasm_vm \<Rightarrow> Cache \<Rightarrow> byte_slice \<Rightarrow> (('c, 'i, 's) sys, byte_slice \<times> error) eff" where
  "api_StoreCodeUnchecked vm cache wasm =
     bind (store_code vm (Cache_ptr cache) (makeView wasm) False True (Some uninitializedUnmanagedVector))
       bytes_result"

definition api_RemoveCode ::
    "('c, 'n, 'q, 'i, 's) cosmwasm_vm \<Rightarrow> Cache \<Rightarrow> byte_slice \<Rightarrow> (('c, 'i, 's) sys, error) eff" where
  "api_RemoveCode vm cache checksum =
     bind (remove_wasm vm (Cache_ptr cache) (makeView checksum) (Some uninitializedUnmanagedVector)) unit_result"

definition api_GetCode ::
    "('c, 'n, 'q, 'i, 's) cosmwasm_vm \<Rightarrow> Cache \<Rightarrow> byte_slice \<Rightarrow> (('c, 'i, 's) sys, byte_slice \<times> error) eff" where
  "api_GetCode vm cache checksum =
     bind (load_wasm vm (Cache_ptr cache) (makeView checksum) (Some uninitializedUnmanagedVector)) bytes_result"

definition api_Pin ::
    "('c, 'n, 'q, 'i, 's) cosmwasm_vm \<Rightarrow> Cache \<Rightarrow> byte_slice \<Rightarrow> (('c, 'i, 's) sys, error) eff" where
  "api_Pin vm cache checksum =
     bind (pin vm (Cache_ptr cache) (makeView checksum) (Some uninitializedUnmanagedVector)) unit_result"

definition api_Unpin ::
    "('c, 'n, 'q, 'i, 's) cosmwasm_vm \<Rightarrow> Cache \<Rightarrow> byte_slice \<Rightarrow> (('c, 'i, 's) sys, error) eff" where
  "api_Unpin vm cache checksum =
     bind (unpin vm (Cache_ptr cache) (makeView checksum) (Some uninitializedUnmanagedVector)) unit_result"

definition api_SyncPinnedCodes ::
    "('c, 'n, 'q, 'i, 's) cosmwasm_vm \<Rightarrow> Cache \<Rightarrow> byte_slice \<Rightarrow> (('c, 'i, 's) sys, error) eff" where
  "api_SyncPinnedCodes vm cache checksums =
     bind (sync_pinned_codes vm (Cache_ptr cache) (makeView checksums) (Some uninitializedUnmanagedVector)) unit_result"

text \<open>\<open>strings.Split\<close> at one byte; the empty string has one part.\<close>

fun strings_Split :: "string \<Rightarrow> char \<Rightarrow> string list" where
  "strings_Split [] sep = [[]]"
| "strings_Split (c # cs) sep =
     (if c = sep then [] # strings_Split cs sep
      else (c # hd (strings_Split cs sep)) # tl (strings_Split cs sep))"

definition api_AnalyzeCode ::
    "('c, 'n, 'q, 'i, 's) cosmwasm_vm \<Rightarrow> Cache \<Rightarrow> byte_slice
      \<Rightarrow> (('c, 'i, 's) sys, go_error + AnalysisReport) eff" where
  "api_AnalyzeCode vm cache checksum =
     bind (analyze_code vm (Cache_ptr cache) (makeView checksum) (Some uninitializedUnmanagedVector)) (\<lambda>(report, err, errmsg).
       if err \<noteq> 0 then bind (errorWithMessage err (the errmsg)) (\<lambda>e. ret (Inl e))
       else bind (copy_destroy (ar_required_capabilities report)) (\<lambda>requiredCapabilities.
         bind (copy_destroy (ar_entrypoints report)) (\<lambda>entrypoints.
         ret (Inr \<lparr>AnalysisReport_HasIBCEntryPoints = ar_has_ibc_entry_points report,
           AnalysisReport_RequiredCapabilities = elems requiredCapabilities,
           AnalysisReport_Entrypoints = Some (strings_Split (elems entrypoints) CHR '',''),
           AnalysisReport_ContractMigrateVersion = optionalU64ToPtr (ar_contract_migrate_version report)\<rparr>))))"

definition api_GetMetrics ::
    "('c, 'n, 'q, 'i, 's) cosmwasm_vm \<Rightarrow> Cache \<Rightarrow> (('c, 'i, 's) sys, go_error + Metrics) eff" where
  "api_GetMetrics vm cache =
     bind (get_metrics vm (Cache_ptr cache) (Some uninitializedUnmanagedVector)) (\<lambda>(metrics, err, errmsg).
       if err \<noteq> 0 then bind (errorWithMessage err (the errmsg)) (\<lambda>e. ret (Inl e))
       else ret (Inr metrics))"

text \<open>\<open>unpack\<close> is \<open>msgpack.UnmarshalAsArray\<close> into \<open>PinnedMetrics\<close>.\<close>

definition api_GetPinnedMetrics ::
    "(string \<Rightarrow> go_error + PinnedMetrics) \<Rightarrow> ('c, 'n, 'q, 'i, 's) cosmwasm_vm \<Rightarrow> Cache
      \<Rightarrow> (('c, 'i, 's) sys, go_error + PinnedMetrics) eff" where
  "api_GetPinnedMetrics unpack vm cache =
     bind (get_pinned_metrics vm (Cache_ptr cache) (Some uninitializedUnmanagedVector)) (\<lambda>(metrics, err, errmsg).
       if err \<noteq> 0 then bind (errorWithMessage err (the errmsg)) (\<lambda>e. ret (Inl e))
       else bind (copy_destroy metrics) (\<lambda>bs. ret (unpack (elems bs))))"

section \<open>Calls into contracts\<close>

definition api_advice :: string where
  "api_advice = '' If you don'' @ [CHR 0x27] @ ''t want to provide API functionality, please create an instance that returns an error on every call to HumanizeAddress(), CanonicalizeAddress() and ValidateAddress().''"

definition checkAndPinAPI :: "'s GoAPI option \<Rightarrow> ('w, unit) eff" where
  "checkAndPinAPI api = (case api of
     None \<Rightarrow> panic (panic_string (''API must not be nil.'' @ api_advice))
   | Some a \<Rightarrow>
       if HumanizeAddress a = None then panic (panic_string (''HumanizeAddress in API must not be nil.'' @ api_advice))
       else if CanonicalizeAddress a = None then panic (panic_string (''CanonicalizeAddress in API must not be nil.'' @ api_advice))
       else if ValidateAddress a = None then panic (panic_string (''ValidateAddress in API must not be nil.'' @ api_advice))
       else ret ())"

definition checkAndPinQuerier :: "'s querier option \<Rightarrow> ('w, unit) eff" where
  "checkAndPinQuerier querier = (case querier of
     None \<Rightarrow> panic (panic_string (''Querier must not be nil. If you don'' @ [CHR 0x27] @ ''t want to provide querier functionality, please create an instance that returns an error on every call to Query().''))
   | Some _ \<Rightarrow> ret ())"

definition start_call :: "(('c, 'i, 's) sys, u64) eff" where
  "start_call w = (case startCall (f_iters (sys_ffi w)) of
     (c, st) \<Rightarrow> (Ok c, w\<lparr>sys_ffi := (sys_ffi w)\<lparr>f_iters := st\<rparr>\<rparr>))"

definition close_iterator :: "('i, 's) iterator_ops \<Rightarrow> 'i \<Rightarrow> 's \<Rightarrow> unit go \<times> 's" where
  "close_iterator ops it s = (case it_Close ops it s of
     (Return _, s') \<Rightarrow> (Return (), s')
   | (Panics p, s') \<Rightarrow> (Panics p, s'))"

definition end_call :: "('i, 's) iterator_ops \<Rightarrow> u64 \<Rightarrow> (('c, 'i, 's) sys, unit) eff" where
  "end_call ops c w = (case endCall (close_iterator ops) c (f_iters (sys_ffi w)) (f_env (sys_ffi w)) of
     ((r, s), st) \<Rightarrow> (case r of Return _ \<Rightarrow> Ok () | Panics p \<Rightarrow> Panic p,
       w\<lparr>sys_ffi := (sys_ffi w)\<lparr>f_iters := st, f_env := s\<rparr>\<rparr>))"

text \<open>A body under \<open>defer d\<close>: \<open>d\<close> runs when the body returns and when it panics.\<close>

definition deferring :: "('w, unit) eff \<Rightarrow> ('w, 'a) eff \<Rightarrow> ('w, 'a) eff" where
  "deferring d body w = (case body w of
     (Ok x, w') \<Rightarrow> bind d (\<lambda>_. ret x) w'
   | (Panic p, w') \<Rightarrow> bind d (\<lambda>_. panic p) w'
   | (Undefined, w') \<Rightarrow> (Undefined, w'))"

type_synonym api_result_t = "byte_slice \<times> GasReport \<times> error"

text \<open>
  The frame all entry points share; \<open>ccall\<close> is the C function with the views of the arguments.
\<close>

type_synonym ('c, 'i, 's) ccall = "('i, 's) Db \<Rightarrow> ('i, 's) GoApi \<Rightarrow> ('i, 's) GoQuerier \<Rightarrow> u64 \<Rightarrow> bool
  \<Rightarrow> GasReport option \<Rightarrow> UnmanagedVector option \<Rightarrow> (('c, 'i, 's) sys, call_out) eff"

record ('i, 's) host =
  h_json_err :: "json_error \<Rightarrow> string"
  h_gasMeter :: "'s gas_meter"
  h_store :: "('i, 's) kvstore"
  h_api :: "'s GoAPI option"
  h_querier :: "'s querier option"

definition call_result :: "call_out \<Rightarrow> (('c, 'i, 's) sys, api_result_t) eff" where
  "call_result out = (case out of (res, gasReport, err, errmsg) \<Rightarrow>
     if err \<noteq> 0 \<and> err \<noteq> ErrnoValue_Success
     then bind (errorWithMessage err (the errmsg)) (\<lambda>e. ret (None, convertGasReport (the gasReport), Some e))
     else bind (copy_destroy res) (\<lambda>bs. ret (bs, convertGasReport (the gasReport), None)))"

definition contract_call ::
    "('i, 's) iterator_ops \<Rightarrow> ('c, 'i, 's) ccall \<Rightarrow> ('i, 's) host \<Rightarrow> u64 \<Rightarrow> bool \<Rightarrow> (('c, 'i, 's) sys, api_result_t) eff" where
  "contract_call ops ccall h gasLimit printDebug =
     bind (checkAndPinAPI (h_api h)) (\<lambda>_. bind (checkAndPinQuerier (h_querier h)) (\<lambda>_.
     bind start_call (\<lambda>callID. deferring (end_call ops callID) (
       bind (ccall (buildDB (buildDBState (h_store h) callID) (h_gasMeter h)) (buildAPI (the (h_api h)))
           (buildQuerier (h_json_err h) (the (h_querier h))) gasLimit printDebug
           (Some zero_GasReport) (Some uninitializedUnmanagedVector))
         call_result))))"

definition api_Instantiate ::
    "('c, 'n, 'q, 'i, 's) cosmwasm_vm \<Rightarrow> Cache \<Rightarrow> byte_slice \<Rightarrow> byte_slice \<Rightarrow> byte_slice \<Rightarrow> byte_slice \<Rightarrow> ('i, 's) host \<Rightarrow> u64 \<Rightarrow> bool
      \<Rightarrow> (('c, 'i, 's) sys, api_result_t) eff" where
  "api_Instantiate vm cache checksum envBin info msg h gasLimit printDebug =
     contract_call (vm_ops vm) (instantiate vm (Cache_ptr cache) (makeView checksum) (makeView envBin) (makeView info) (makeView msg)) h gasLimit printDebug"

definition api_Execute ::
    "('c, 'n, 'q, 'i, 's) cosmwasm_vm \<Rightarrow> Cache \<Rightarrow> byte_slice \<Rightarrow> byte_slice \<Rightarrow> byte_slice \<Rightarrow> byte_slice \<Rightarrow> ('i, 's) host \<Rightarrow> u64 \<Rightarrow> bool
      \<Rightarrow> (('c, 'i, 's) sys, api_result_t) eff" where
  "api_Execute vm cache checksum envBin info msg h gasLimit printDebug =
     contract_call (vm_ops vm) (execute vm (Cache_ptr cache) (makeView checksum) (makeView envBin) (makeView info) (makeView msg)) h gasLimit printDebug"

definition api_Migrate ::
    "('c, 'n, 'q, 'i, 's) cosmwasm_vm \<Rightarrow> Cache \<Rightarrow> byte_slice \<Rightarrow> byte_slice \<Rightarrow> byte_slice \<Rightarrow> ('i, 's) host \<Rightarrow> u64 \<Rightarrow> bool
      \<Rightarrow> (('c, 'i, 's) sys, api_result_t) eff" where
  "api_Migrate vm cache checksum envBin msg h gasLimit printDebug =
     contract_call (vm_ops vm) (migrate vm (Cache_ptr cache) (makeView checksum) (makeView envBin) (makeView msg)) h gasLimit printDebug"

definition api_MigrateWithInfo ::
    "('c, 'n, 'q, 'i, 's) cosmwasm_vm \<Rightarrow> Cache \<Rightarrow> byte_slice \<Rightarrow> byte_slice \<Rightarrow> byte_slice \<Rightarrow> byte_slice \<Rightarrow> ('i, 's) host \<Rightarrow> u64 \<Rightarrow> bool
      \<Rightarrow> (('c, 'i, 's) sys, api_result_t) eff" where
  "api_MigrateWithInfo vm cache checksum envBin msg migrateInfo h gasLimit printDebug =
     contract_call (vm_ops vm) (migrate_with_info vm (Cache_ptr cache) (makeView checksum) (makeView envBin) (makeView msg) (makeView migrateInfo)) h gasLimit printDebug"

definition api_Sudo ::
    "('c, 'n, 'q, 'i, 's) cosmwasm_vm \<Rightarrow> Cache \<Rightarrow> byte_slice \<Rightarrow> byte_slice \<Rightarrow> byte_slice \<Rightarrow> ('i, 's) host \<Rightarrow> u64 \<Rightarrow> bool
      \<Rightarrow> (('c, 'i, 's) sys, api_result_t) eff" where
  "api_Sudo vm cache checksum envBin msg h gasLimit printDebug =
     contract_call (vm_ops vm) (sudo vm (Cache_ptr cache) (makeView checksum) (makeView envBin) (makeView msg)) h gasLimit printDebug"

definition api_Reply ::
    "('c, 'n, 'q, 'i, 's) cosmwasm_vm \<Rightarrow> Cache \<Rightarrow> byte_slice \<Rightarrow> byte_slice \<Rightarrow> byte_slice \<Rightarrow> ('i, 's) host \<Rightarrow> u64 \<Rightarrow> bool
      \<Rightarrow> (('c, 'i, 's) sys, api_result_t) eff" where
  "api_Reply vm cache checksum envBin replyBin h gasLimit printDebug =
     contract_call (vm_ops vm) (reply vm (Cache_ptr cache) (makeView checksum) (makeView envBin) (makeView replyBin)) h gasLimit printDebug"

definition api_Query ::
    "('c, 'n, 'q, 'i, 's) cosmwasm_vm \<Rightarrow> Cache \<Rightarrow> byte_slice \<Rightarrow> byte_slice \<Rightarrow> byte_slice \<Rightarrow> ('i, 's) host \<Rightarrow> u64 \<Rightarrow> bool
      \<Rightarrow> (('c, 'i, 's) sys, api_result_t) eff" where
  "api_Query vm cache checksum envBin msg h gasLimit printDebug =
     contract_call (vm_ops vm) (query vm (Cache_ptr cache) (makeView checksum) (makeView envBin) (makeView msg)) h gasLimit printDebug"

definition api_IBCChannelOpen ::
    "('c, 'n, 'q, 'i, 's) cosmwasm_vm \<Rightarrow> Cache \<Rightarrow> byte_slice \<Rightarrow> byte_slice \<Rightarrow> byte_slice \<Rightarrow> ('i, 's) host \<Rightarrow> u64 \<Rightarrow> bool
      \<Rightarrow> (('c, 'i, 's) sys, api_result_t) eff" where
  "api_IBCChannelOpen vm cache checksum envBin msg h gasLimit printDebug =
     contract_call (vm_ops vm) (ibc_channel_open vm (Cache_ptr cache) (makeView checksum) (makeView envBin) (makeView msg)) h gasLimit printDebug"

definition api_IBCChannelConnect ::
    "('c, 'n, 'q, 'i, 's) cosmwasm_vm \<Rightarrow> Cache \<Rightarrow> byte_slice \<Rightarrow> byte_slice \<Rightarrow> byte_slice \<Rightarrow> ('i, 's) host \<Rightarrow> u64 \<Rightarrow> bool
      \<Rightarrow> (('c, 'i, 's) sys, api_result_t) eff" where
  "api_IBCChannelConnect vm cache checksum envBin msg h gasLimit printDebug =
     contract_call (vm_ops vm) (ibc_channel_connect vm (Cache_ptr cache) (makeView checksum) (makeView envBin) (makeView msg)) h gasLimit printDebug"

definition api_IBCChannelClose ::
    "('c, 'n, 'q, 'i, 's) cosmwasm_vm \<Rightarrow> Cache \<Rightarrow> byte_slice \<Rightarrow> byte_slice \<Rightarrow> byte_slice \<Rightarrow> ('i, 's) host \<Rightarrow> u64 \<Rightarrow> bool
      \<Rightarrow> (('c, 'i, 's) sys, api_result_t) eff" where
  "api_IBCChannelClose vm cache checksum envBin msg h gasLimit printDebug =
     contract_call (vm_ops vm) (ibc_channel_close vm (Cache_ptr cache) (makeView checksum) (makeView envBin) (makeView msg)) h gasLimit printDebug"

definition api_IBCPacketReceive ::
    "('c, 'n, 'q, 'i, 's) cosmwasm_vm \<Rightarrow> Cache \<Rightarrow> byte_slice \<Rightarrow> byte_slice \<Rightarrow> byte_slice \<Rightarrow> ('i, 's) host \<Rightarrow> u64 \<Rightarrow> bool
      \<Rightarrow> (('c, 'i, 's) sys, api_result_t) eff" where
  "api_IBCPacketReceive vm cache checksum envBin packet h gasLimit printDebug =
     contract_call (vm_ops vm) (ibc_packet_receive vm (Cache_ptr cache) (makeView checksum) (makeView envBin) (makeView packet)) h gasLimit printDebug"

definition api_IBC2PacketReceive ::
    "('c, 'n, 'q, 'i, 's) cosmwasm_vm \<Rightarrow> Cache \<Rightarrow> byte_slice \<Rightarrow> byte_slice \<Rightarrow> byte_slice \<Rightarrow> ('i, 's) host \<Rightarrow> u64 \<Rightarrow> bool
      \<Rightarrow> (('c, 'i, 's) sys, api_result_t) eff" where
  "api_IBC2PacketReceive vm cache checksum envBin payload h gasLimit printDebug =
     contract_call (vm_ops vm) (ibc2_packet_receive vm (Cache_ptr cache) (makeView checksum) (makeView envBin) (makeView payload)) h gasLimit printDebug"

definition api_IBC2PacketAck ::
    "('c, 'n, 'q, 'i, 's) cosmwasm_vm \<Rightarrow> Cache \<Rightarrow> byte_slice \<Rightarrow> byte_slice \<Rightarrow> byte_slice \<Rightarrow> ('i, 's) host \<Rightarrow> u64 \<Rightarrow> bool
      \<Rightarrow> (('c, 'i, 's) sys, api_result_t) eff" where
  "api_IBC2PacketAck vm cache checksum envBin payload h gasLimit printDebug =
     contract_call (vm_ops vm) (ibc2_packet_ack vm (Cache_ptr cache) (makeView checksum) (makeView envBin) (makeView payload)) h gasLimit printDebug"

definition api_IBC2PacketTimeout ::
    "('c, 'n, 'q, 'i, 's) cosmwasm_vm \<Rightarrow> Cache \<Rightarrow> byte_slice \<Rightarrow> byte_slice \<Rightarrow> byte_slice \<Rightarrow> ('i, 's) host \<Rightarrow> u64 \<Rightarrow> bool
      \<Rightarrow> (('c, 'i, 's) sys, api_result_t) eff" where
  "api_IBC2PacketTimeout vm cache checksum envBin payload h gasLimit printDebug =
     contract_call (vm_ops vm) (ibc2_packet_timeout vm (Cache_ptr cache) (makeView checksum) (makeView envBin) (makeView payload)) h gasLimit printDebug"

definition api_IBC2PacketSend ::
    "('c, 'n, 'q, 'i, 's) cosmwasm_vm \<Rightarrow> Cache \<Rightarrow> byte_slice \<Rightarrow> byte_slice \<Rightarrow> byte_slice \<Rightarrow> ('i, 's) host \<Rightarrow> u64 \<Rightarrow> bool
      \<Rightarrow> (('c, 'i, 's) sys, api_result_t) eff" where
  "api_IBC2PacketSend vm cache checksum envBin payload h gasLimit printDebug =
     contract_call (vm_ops vm) (ibc2_packet_send vm (Cache_ptr cache) (makeView checksum) (makeView envBin) (makeView payload)) h gasLimit printDebug"

definition api_IBCPacketAck ::
    "('c, 'n, 'q, 'i, 's) cosmwasm_vm \<Rightarrow> Cache \<Rightarrow> byte_slice \<Rightarrow> byte_slice \<Rightarrow> byte_slice \<Rightarrow> ('i, 's) host \<Rightarrow> u64 \<Rightarrow> bool
      \<Rightarrow> (('c, 'i, 's) sys, api_result_t) eff" where
  "api_IBCPacketAck vm cache checksum envBin ack h gasLimit printDebug =
     contract_call (vm_ops vm) (ibc_packet_ack vm (Cache_ptr cache) (makeView checksum) (makeView envBin) (makeView ack)) h gasLimit printDebug"

definition api_IBCPacketTimeout ::
    "('c, 'n, 'q, 'i, 's) cosmwasm_vm \<Rightarrow> Cache \<Rightarrow> byte_slice \<Rightarrow> byte_slice \<Rightarrow> byte_slice \<Rightarrow> ('i, 's) host \<Rightarrow> u64 \<Rightarrow> bool
      \<Rightarrow> (('c, 'i, 's) sys, api_result_t) eff" where
  "api_IBCPacketTimeout vm cache checksum envBin packet h gasLimit printDebug =
     contract_call (vm_ops vm) (ibc_packet_timeout vm (Cache_ptr cache) (makeView checksum) (makeView envBin) (makeView packet)) h gasLimit printDebug"

definition api_IBCSourceCallback ::
    "('c, 'n, 'q, 'i, 's) cosmwasm_vm \<Rightarrow> Cache \<Rightarrow> byte_slice \<Rightarrow> byte_slice \<Rightarrow> byte_slice \<Rightarrow> ('i, 's) host \<Rightarrow> u64 \<Rightarrow> bool
      \<Rightarrow> (('c, 'i, 's) sys, api_result_t) eff" where
  "api_IBCSourceCallback vm cache checksum envBin msg h gasLimit printDebug =
     contract_call (vm_ops vm) (ibc_source_callback vm (Cache_ptr cache) (makeView checksum) (makeView envBin) (makeView msg)) h gasLimit printDebug"

definition api_IBCDestinationCallback ::
    "('c, 'n, 'q, 'i, 's) cosmwasm_vm \<Rightarrow> Cache \<Rightarrow> byte_slice \<Rightarrow> byte_slice \<Rightarrow> byte_slice \<Rightarrow> ('i, 's) host \<Rightarrow> u64 \<Rightarrow> bool
      \<Rightarrow> (('c, 'i, 's) sys, api_result_t) eff" where
  "api_IBCDestinationCallback vm cache checksum envBin msg h gasLimit printDebug =
     contract_call (vm_ops vm) (ibc_destination_callback vm (Cache_ptr cache) (makeView checksum) (makeView envBin) (makeView msg)) h gasLimit printDebug"

lemmas api_defs =
  api_Instantiate_def api_Execute_def api_Migrate_def api_MigrateWithInfo_def
  api_Sudo_def api_Reply_def api_Query_def api_IBCChannelOpen_def
  api_IBCChannelConnect_def api_IBCChannelClose_def api_IBCPacketReceive_def api_IBC2PacketReceive_def
  api_IBC2PacketAck_def api_IBC2PacketTimeout_def api_IBC2PacketSend_def api_IBCPacketAck_def
  api_IBCPacketTimeout_def api_IBCSourceCallback_def api_IBCDestinationCallback_def

section \<open>What a call returns\<close>

text \<open>The Go error for an error of \<open>libwasmvm\<close>, and the three results for the outcome of a call.\<close>

fun go_error_of :: "RustError \<Rightarrow> go_error" where
  "go_error_of RE_OutOfGas = OutOfGasErrorVal"
| "go_error_of e = OtherError (RustError_to_string e)"

definition go_result :: "RustError + (VmError + rust_vec) \<times> GasReport \<Rightarrow> api_result_t" where
  "go_result r = (case r of
     Inl e \<Rightarrow> (None, zero_GasReport, Some (go_error_of e))
   | Inr (Inl e, report) \<Rightarrow> (None, report, Some (go_error_of (RustError_from_VmError e)))
   | Inr (Inr data, report) \<Rightarrow> (Some (fst data), report, None))"

abbreviation heap_of :: "('c, 'i, 's) sys \<Rightarrow> heap" where
  "heap_of w \<equiv> f_heap (sys_ffi w)"

abbreviation with_heap :: "('c, 'i, 's) sys \<Rightarrow> heap \<Rightarrow> ('c, 'i, 's) sys" where
  "with_heap w h \<equiv> w\<lparr>sys_ffi := (sys_ffi w)\<lparr>f_heap := h\<rparr>\<rparr>"

lemma convertGasReport_id [simp]: "convertGasReport report = report"
  by (simp add: convertGasReport_def)

text \<open>A vector made by Rust and copied by Go.\<close>

lemma vector_to_go:
  assumes "heap_ok h" "vec_fits x" "UnmanagedVector_new (Some x) h = (v, h1)"
  obtains h2 where "\<And>w :: ('c, 'i, 's) sys. heap_of w = h1 \<Longrightarrow> copy_destroy v w = (Ok (Some (fst x)), with_heap w h2)"
    "blocks h2 = blocks h" "heap_ok h2"
proof -
  from assms(2) have "rust_vec_ok (Some x)" by (cases x) (simp add: vec_fits_def rust_vec_ok_def)
  from to_go.give_take [OF assms(1) this] assms(3) obtain h2 where
    "copyAndDestroyUnmanagedVector v h1 = Some (Return (Some (fst x)), h2)" "heap_ok h2" "blocks h2 = blocks h"
    by auto
  with that show ?thesis by (simp add: copy_destroy_def)
qed

lemma vec_fits_text: "error_fits e \<Longrightarrow> vec_fits (vec_from (RustError_to_string e))"
  by (simp add: error_fits_def vec_fits_def vec_from_def unat_of_nat_64)

lemma set_error_message:
  assumes "heap_ok h" "error_fits e" "set_error e (Some u) h = ((errno, msg), h1)"
  obtains h2 v where "msg = Some v" "errno \<noteq> 0"
    "\<And>w :: ('c, 'i, 's) sys. heap_of w = h1 \<Longrightarrow> errorWithMessage errno v w = (Ok (go_error_of e), with_heap w h2)"
    "blocks h2 = blocks h" "heap_ok h2"
proof -
  obtain v where v: "UnmanagedVector_new (Some (vec_from (RustError_to_string e))) h = (v, h1)" "msg = Some v"
    "errno = (case e of RE_OutOfGas \<Rightarrow> 2 | _ \<Rightarrow> 1)"
    using assms(3) by (cases e) (auto simp: set_error_def Let_def ErrnoValue_OutOfGas_def ErrnoValue_Other_def
        split: prod.splits)
  obtain h2 where "\<And>w :: ('c, 'i, 's) sys. heap_of w = h1 \<Longrightarrow>
      copy_destroy v w = (Ok (Some (fst (vec_from (RustError_to_string e)))), with_heap w h2)"
    "blocks h2 = blocks h" "heap_ok h2"
    by (rule vector_to_go [OF assms(1) vec_fits_text [OF assms(2)] v(1)]) blast
  with v that show ?thesis by (cases e) (simp_all add: errorWithMessage_def vec_from_def)
qed

lemma finish_call_result:
  fixes w :: "('c, 'i, 's) sys"
  assumes "heap_ok (heap_of w)" "good error_fits call_fits r"
  shows "\<exists>h. bind (finish_call (Some zero_GasReport) (Some uninitializedUnmanagedVector) r) call_result w =
      (Ok (go_result r), with_heap w h) \<and> blocks h = blocks (heap_of w) \<and> heap_ok h"
proof -
  have err: ?thesis if e: "error_fits e" "finish_call (Some zero_GasReport) (Some uninitializedUnmanagedVector) r w =
        (on_heap (\<lambda>h. let (data, (errno, msg), h1) = handle_c_error_binary (Inl e) (Some uninitializedUnmanagedVector) h;
          (v, h2) = UnmanagedVector_new (Some data) h1 in ((v, rep, errno, msg), h2))) w"
      "go_result r = (None, the rep, Some (go_error_of e))" for e rep
  proof -
    obtain errno msg h1 where s: "set_error e (Some uninitializedUnmanagedVector) (heap_of w) = ((errno, msg), h1)"
      by (metis surj_pair)
    obtain h2 v where "msg = Some v" "errno \<noteq> 0"
      "\<And>w :: ('c, 'i, 's) sys. heap_of w = h1 \<Longrightarrow> errorWithMessage errno v w = (Ok (go_error_of e), with_heap w h2)"
      "blocks h2 = blocks (heap_of w)" "heap_ok h2"
      by (rule set_error_message [OF assms(1) e(1) s]) blast
    with s e(2,3) show ?thesis
      by (intro exI [of _ h2]) (simp add: on_heap_def handle_c_error_binary_def UnmanagedVector_new_def call_result_def ErrnoValue_Success_def)
  qed
  show ?thesis
  proof (cases r)
    case (Inl e)
    with assms(2) show ?thesis by (intro err [of e "Some zero_GasReport"]) (simp_all add: finish_call_def go_result_def)
  next
    case (Inr x)
    obtain res rep where x: "x = (res, rep)" by fastforce
    show ?thesis
    proof (cases res)
      case (Inl e)
      with Inr x assms(2) show ?thesis
        by (intro err [of "RustError_from_VmError e" "Some rep"])
          (simp_all add: finish_call_def go_result_def call_fits_def vm_error_fits_def vm_result_def)
    next
      case data: (Inr d)
      obtain v h1 where v: "UnmanagedVector_new (Some d) (heap_of w) = (v, h1)" by fastforce
      have "vec_fits d" using assms(2) Inr x data by (simp add: call_fits_def)
      then obtain h2 where "\<And>w :: ('c, 'i, 's) sys. heap_of w = h1 \<Longrightarrow> copy_destroy v w = (Ok (Some (fst d)), with_heap w h2)"
        "blocks h2 = blocks (heap_of w)" "heap_ok h2"
        by (rule vector_to_go [OF assms(1) _ v]) blast
      with v Inr x data show ?thesis
        by (intro exI [of _ h2]) (simp add: finish_call_def go_result_def vm_result_def on_heap_def handle_c_error_binary_def
            call_result_def ErrnoValue_Success_def)
    qed
  qed
qed

section \<open>The frame of a call\<close>

text \<open>A host whose API and querier are complete.\<close>

definition complete_host :: "('i, 's) host \<Rightarrow> bool" where
  "complete_host h \<longleftrightarrow> (\<exists>a. h_api h = Some a \<and> HumanizeAddress a \<noteq> None \<and> CanonicalizeAddress a \<noteq> None \<and>
     ValidateAddress a \<noteq> None) \<and> h_querier h \<noteq> None"

lemma checks_pass:
  "complete_host h \<Longrightarrow> checkAndPinAPI (h_api h) w = (Ok (), w)"
  "complete_host h \<Longrightarrow> checkAndPinQuerier (h_querier h) w = (Ok (), w)"
  by (auto simp: complete_host_def checkAndPinAPI_def checkAndPinQuerier_def)

text \<open>The state after a call: as before, but for the chain, the cache \<open>p\<close> and the call counter.\<close>

definition call_done :: "nat \<Rightarrow> ('c, 'i, 's) sys \<Rightarrow> ('c, 'i, 's) sys \<Rightarrow> bool" where
  "call_done p w w' \<longleftrightarrow>
     blocks (heap_of w') = blocks (heap_of w) \<and> heap_ok (heap_of w') \<and>
     latestCallID (f_iters (sys_ffi w')) = latestCallID (f_iters (sys_ffi w)) + 1 \<and>
     iteratorFrames (f_iters (sys_ffi w')) =
       (iteratorFrames (f_iters (sys_ffi w)))(latestCallID (f_iters (sys_ffi w)) + 1 := None) \<and>
     sys_locks w' = sys_locks w \<and> sys_next w' = sys_next w \<and> sys_caches w' p \<noteq> None \<and>
     (\<forall>q. q \<noteq> p \<longrightarrow> sys_caches w' q = sys_caches w q)"

definition started :: "('c, 'i, 's) sys \<Rightarrow> ('c, 'i, 's) sys" where
  "started w = w\<lparr>sys_ffi := (sys_ffi w)\<lparr>f_iters := snd (startCall (f_iters (sys_ffi w)))\<rparr>\<rparr>"

text \<open>The C functions behind the entry points, up to the conversion of their result.\<close>

definition guarded_call ::
    "('c, 'n, 'q, 'i, 's) cosmwasm_vm \<Rightarrow> vm_fn \<Rightarrow> nat \<Rightarrow> byte_slice \<Rightarrow> byte_slice list \<Rightarrow> ('i, 's) host \<Rightarrow> u64 \<Rightarrow> bool \<Rightarrow> u64
      \<Rightarrow> (('c, 'i, 's) sys, RustError + (VmError + rust_vec) \<times> GasReport) eff" where
  "guarded_call vm f p cs args h gas dbg c =
     guarded (Some p) (\<lambda>p. case args of
         [a1, a2] \<Rightarrow> do_call_2_args vm f p (makeView cs) (makeView a1) (makeView a2)
           (buildDB (buildDBState (h_store h) c) (h_gasMeter h)) (buildAPI (the (h_api h)))
           (buildQuerier (h_json_err h) (the (h_querier h))) gas dbg (Some zero_GasReport)
       | [a1, a2, a3] \<Rightarrow> do_call_3_args vm f p (makeView cs) (makeView a1) (makeView a2) (makeView a3)
           (buildDB (buildDBState (h_store h) c) (h_gasMeter h)) (buildAPI (the (h_api h)))
           (buildQuerier (h_json_err h) (the (h_querier h))) gas dbg (Some zero_GasReport)
       | _ \<Rightarrow> ret (Inl RE_Panic))"

lemma guarded_call_safe:
  assumes "vm_sound vm" "frame_stable c J"
  shows "safe (around p w0 (held B J [])) (guarded_call vm f p cs args h gas dbg c)
    (\<lambda>r w. around p w0 (held B J []) w \<and> good error_fits call_fits r) (\<lambda>_. False)"
  unfolding guarded_call_def guarded_def to_cache_def
  by (simp, rule safe_catch_unwind)
    (auto intro!: do_call_safe [OF assms] safe_ret split: list.split)

lemma contract_call_run:
  fixes w :: "('c, 'i, 's) sys" and vm :: "('c, 'n, 'q, 'i, 's) cosmwasm_vm"
  assumes "vm_sound vm" "complete_host h" "heap_ok (heap_of w)" "sys_caches w p \<noteq> None"
    and ccall: "\<And>c w. bind (ccall (buildDB (buildDBState (h_store h) c) (h_gasMeter h)) (buildAPI (the (h_api h)))
        (buildQuerier (h_json_err h) (the (h_querier h))) gas dbg (Some zero_GasReport)
        (Some uninitializedUnmanagedVector)) call_result w =
      bind (guarded_call vm f p cs args h gas dbg c)
        (\<lambda>r. bind (finish_call (Some zero_GasReport) (Some uninitializedUnmanagedVector) r) call_result) w"
  shows "\<exists>r w1 e s st w'. guarded_call vm f p cs args h gas dbg (latestCallID (f_iters (sys_ffi w)) + 1) (started w) = (Ok r, w1) \<and>
    endCall (close_iterator (vm_ops vm)) (latestCallID (f_iters (sys_ffi w)) + 1) (f_iters (sys_ffi w1)) (f_env (sys_ffi w1))
      = ((e, s), st) \<and>
    contract_call (vm_ops vm) ccall h gas dbg w = ((case e of Return _ \<Rightarrow> Ok (go_result r) | Panics q \<Rightarrow> Panic q), w') \<and>
    f_env (sys_ffi w') = s \<and> sys_caches w' = sys_caches w1 \<and> call_done p w w'"
proof -
  define c where "c = latestCallID (f_iters (sys_ffi w)) + 1"
  define st where "st = snd (startCall (f_iters (sys_ffi w)))"
  have w0: "around p w (held (blocks (heap_of w)) (other_frames c st) []) (started w)"
    using assms(3,4) by (simp add: around_def held_def other_frames_def started_def st_def)
  from safe_returns [OF guarded_call_safe [OF assms(1) frame_stable_other] w0]
  obtain r w1 where r: "guarded_call vm f p cs args h gas dbg c (started w) = (Ok r, w1)"
    "around p w (held (blocks (heap_of w)) (other_frames c st) []) w1" "good error_fits call_fits r" by metis
  from r(2) have h1: "heap_ok (heap_of w1)" "blocks (heap_of w1) = blocks (heap_of w)" by (simp_all add: around_def held_def)
  from finish_call_result [OF h1(1) r(3)] obtain h2 where
    f: "bind (finish_call (Some zero_GasReport) (Some uninitializedUnmanagedVector) r) call_result w1 =
      (Ok (go_result r), with_heap w1 h2)" "blocks h2 = blocks (heap_of w)" "heap_ok h2"
    using h1(2) by auto
  obtain res s st' where e: "endCall (close_iterator (vm_ops vm)) c (f_iters (sys_ffi w1)) (f_env (sys_ffi w1)) = ((res, s), st')"
    by (metis surj_pair)
  then have st': "st' = (f_iters (sys_ffi w1))\<lparr>iteratorFrames := (iteratorFrames (f_iters (sys_ffi w1)))(c := None)\<rparr>"
    by (auto simp: endCall_def removeFrame_def)
  have start: "start_call w = (Ok c, started w)" by (simp add: start_call_def startCall_def started_def c_def)
  define w' where "w' = (with_heap w1 h2)\<lparr>sys_ffi := (sys_ffi (with_heap w1 h2))\<lparr>f_iters := st', f_env := s\<rparr>\<rparr>"
  have "contract_call (vm_ops vm) ccall h gas dbg w =
      ((case res of Return _ \<Rightarrow> Ok (go_result r) | Panics q \<Rightarrow> Panic q), w')"
    using r(1) f(1) e start
    by (cases res) (simp_all add: contract_call_def checks_pass [OF assms(2)] deferring_def ccall end_call_def w'_def)
  moreover have "call_done p w w'"
    using r(2) f st' by (auto simp: call_done_def w'_def around_def held_def other_frames_def st_def startCall_def c_def fun_eq_iff)
  ultimately show ?thesis using r(1) e unfolding c_def by (auto simp: w'_def intro!: exI)
qed

lemma bind_assoc: "bind (bind m f) g w = bind m (\<lambda>x. bind (f x) g) w"
  by (simp add: bind_def split: prod.split res.split)

section \<open>Properties\<close>

text \<open>
  The entry points of \<open>lib.go\<close> that run a contract, each with the function of the virtual machine it is
  for and the arguments that function is meant to get; \<open>a3\<close> is the third argument of those that take
  three.
\<close>

definition entry_points ::
    "('c, 'n, 'q, 'i, 's) cosmwasm_vm \<Rightarrow> Cache \<Rightarrow> byte_slice \<Rightarrow> byte_slice \<Rightarrow> byte_slice \<Rightarrow> byte_slice \<Rightarrow> ('i, 's) host
      \<Rightarrow> u64 \<Rightarrow> bool \<Rightarrow> ((('c, 'i, 's) sys, api_result_t) eff \<times> vm_fn \<times> byte_slice list) list" where
  "entry_points vm cache cs a1 a2 a3 h gas dbg =
     [(api_Instantiate vm cache cs a1 a2 a3 h gas dbg, call_instantiate_raw, [a1, a2, a3]),
      (api_Execute vm cache cs a1 a2 a3 h gas dbg, call_execute_raw, [a1, a2, a3]),
      (api_Migrate vm cache cs a1 a2 h gas dbg, call_migrate_raw, [a1, a2]),
      (api_MigrateWithInfo vm cache cs a1 a2 a3 h gas dbg, call_migrate_with_info_raw, [a1, a2, a3]),
      (api_Sudo vm cache cs a1 a2 h gas dbg, call_sudo_raw, [a1, a2]),
      (api_Reply vm cache cs a1 a2 h gas dbg, call_reply_raw, [a1, a2]),
      (api_Query vm cache cs a1 a2 h gas dbg, call_query_raw, [a1, a2]),
      (api_IBCChannelOpen vm cache cs a1 a2 h gas dbg, call_ibc_channel_open_raw, [a1, a2]),
      (api_IBCChannelConnect vm cache cs a1 a2 h gas dbg, call_ibc_channel_connect_raw, [a1, a2]),
      (api_IBCChannelClose vm cache cs a1 a2 h gas dbg, call_ibc_channel_close_raw, [a1, a2]),
      (api_IBCPacketReceive vm cache cs a1 a2 h gas dbg, call_ibc_packet_receive_raw, [a1, a2]),
      (api_IBC2PacketReceive vm cache cs a1 a2 h gas dbg, call_ibc2_packet_receive_raw, [a1, a2]),
      (api_IBC2PacketAck vm cache cs a1 a2 h gas dbg, call_ibc2_packet_ack_raw, [a1, a2]),
      (api_IBC2PacketTimeout vm cache cs a1 a2 h gas dbg, call_ibc2_packet_timeout_raw, [a1, a2]),
      (api_IBC2PacketSend vm cache cs a1 a2 h gas dbg, call_ibc2_packet_send_raw, [a1, a2]),
      (api_IBCPacketAck vm cache cs a1 a2 h gas dbg, call_ibc_packet_ack_raw, [a1, a2]),
      (api_IBCPacketTimeout vm cache cs a1 a2 h gas dbg, call_ibc_packet_timeout_raw, [a1, a2]),
      (api_IBCSourceCallback vm cache cs a1 a2 h gas dbg, call_ibc_source_callback_raw, [a1, a2]),
      (api_IBCDestinationCallback vm cache cs a1 a2 h gas dbg, call_ibc_destination_callback_raw, [a1, a2])]"

lemma entry_point_spec:
  fixes w :: "('c, 'i, 's) sys" and vm :: "('c, 'n, 'q, 'i, 's) cosmwasm_vm"
  assumes "vm_sound vm" "complete_host h" "heap_ok (heap_of w)" "Cache_ptr cache = Some p" "sys_caches w p \<noteq> None"
    "(m, f, args) \<in> set (entry_points vm cache cs a1 a2 a3 h gas dbg)"
  shows "\<exists>r w1 e s st w'.
    guarded_call vm f p cs args h gas dbg (latestCallID (f_iters (sys_ffi w)) + 1) (started w) = (Ok r, w1) \<and>
    endCall (close_iterator (vm_ops vm)) (latestCallID (f_iters (sys_ffi w)) + 1) (f_iters (sys_ffi w1)) (f_env (sys_ffi w1))
      = ((e, s), st) \<and>
    m w = ((case e of Return _ \<Rightarrow> Ok (go_result r) | Panics q \<Rightarrow> Panic q), w') \<and>
    f_env (sys_ffi w') = s \<and> sys_caches w' = sys_caches w1 \<and> call_done p w w'"
proof -
  note run = contract_call_run [OF assms(1-3,5)]
  have two: ?thesis if "m = contract_call (vm_ops vm) (call_2_args vm g (Some p) (makeView cs) (makeView a1) (makeView a2)) h gas dbg"
    "f = g" "args = [a1, a2]" for g
    unfolding that by (rule run) (simp add: call_2_args_def guarded_call_def bind_assoc)
  have three: ?thesis if "m = contract_call (vm_ops vm)
      (call_3_args vm g (Some p) (makeView cs) (makeView a1) (makeView a2) (makeView a3)) h gas dbg"
    "f = g" "args = [a1, a2, a3]" for g
    unfolding that by (rule run) (simp add: call_3_args_def guarded_call_def bind_assoc)
  show ?thesis
    using assms(6) unfolding entry_points_def api_defs assms(4) entry_defs [abs_def]
    by (simp only: list.set insert_iff empty_iff prod.inject simp_thms) (elim disjE conjE; (erule (2) two | erule (2) three))
qed


text \<open>
  A virtual machine with one contract, which writes its last argument, opens an iterator and returns
  the argument; a chain that counts the writes; and the state after the cache is made.
\<close>

definition echo_vm :: "(unit, unit, unit, unit, u64) cosmwasm_vm" where
  "echo_vm =
     \<lparr>vm_new_with_config = \<lambda>_. Return (Inr (Inr ())), vm_store_code = \<lambda>_ _ _ c. (Return (Inr (replicate 32 CHR ''x'')), c),
      vm_remove_wasm = \<lambda>_ c. (Return (Inr ()), c), vm_load_wasm = \<lambda>_ c. (Return (Inr (vec_from ''wasm'')), c),
      vm_pin = \<lambda>_ c. (Return (Inr ()), c), vm_unpin = \<lambda>_ c. (Return (Inr ()), c),
      vm_sync_pinned_codes = \<lambda>_ c. (Return (Inr ()), c), vm_analyze = \<lambda>_ c. (Return (Inl GasDepletion), c),
      vm_metrics = \<lambda>c. (Panics nil_deref, c), vm_pinned_metrics = \<lambda>c. (Return [], c),
      vm_msgpack = \<lambda>_. Inl [], vm_get_instance = \<lambda>_ _ c. (Return (Inr ()), c),
      vm_call = \<lambda>f n args. VmSet ''k'' (last args) (\<lambda>_. VmScan None None Ascending (\<lambda>_.
        VmDone (if length (last args) < 1000 then Inr (vec_from (last args)) else Inl GasDepletion, n))),
      vm_create_gas_report = \<lambda>_. \<lparr>GasReport_Limit = 100, GasReport_Remaining = 60, GasReport_UsedExternally = 30,
        GasReport_UsedInternally = 10\<rparr>,
      vm_ops = \<lparr>it_Valid = \<lambda>i s. (Return False, s), it_Next = \<lambda>i s. (Panics nil_deref, s), it_Key = \<lambda>i s. (Panics nil_deref, s),
        it_Value = \<lambda>i s. (Panics nil_deref, s), it_Close = \<lambda>i s. (Return None, s)\<rparr>,
      vm_parse_system_result = \<lambda>_. Inl [], vm_debug_bound = \<lambda>_. []\<rparr>"

definition counting_host :: "(unit, u64) host" where
  "counting_host =
     \<lparr>h_json_err = \<lambda>_. [], h_gasMeter = \<lambda>s. (Return s, s),
      h_store = \<lparr>kv_Get = \<lambda>k s. (Return None, s), kv_Set = \<lambda>k v s. (Return (), s + 1), kv_Delete = \<lambda>k s. (Return (), s),
        kv_Iterator = \<lambda>a b s. (Return (Some ()), s), kv_ReverseIterator = \<lambda>a b s. (Return (Some ()), s)\<rparr>,
      h_api = Some \<lparr>HumanizeAddress = Some (\<lambda>a s. (Panics nil_deref, s)), CanonicalizeAddress = Some (\<lambda>a s. (Panics nil_deref, s)),
        ValidateAddress = Some (\<lambda>a s. (Panics nil_deref, s))\<rparr>,
      h_querier = Some \<lparr>Query = \<lambda>r g s. (Panics nil_deref, s), QuerierGasConsumed = \<lambda>s. (Return s, s)\<rparr>\<rparr>"

definition fresh_sys :: "(unit, unit, u64) sys" where
  "fresh_sys = \<lparr>sys_caches = [0 \<mapsto> ()], sys_next = 1, sys_locks = {''dir/exclusive.lock''},
     sys_ffi = \<lparr>f_env = 5, f_iters = iter_init, f_heap = empty_heap, f_usedGas = None, f_out = None, f_out2 = None,
       f_errOut = None, f_iter = None\<rparr>\<rparr>"

definition fresh_cache :: Cache where
  "fresh_cache = \<lparr>Cache_ptr = Some 0, Cache_lockfile = ''dir/exclusive.lock''\<rparr>"

lemma echo_vm_sound: "vm_sound echo_vm"
  by (simp add: vm_sound_def echo_vm_def vec_fits_def vec_from_def vm_error_fits_def error_fits_def unat_of_nat_64)

lemma counting_host_complete: "complete_host counting_host"
  by (simp add: complete_host_def counting_host_def)

lemma fresh_sys_ok: "heap_ok (heap_of fresh_sys)" "sys_caches fresh_sys 0 = Some ()" "Cache_ptr fresh_cache = Some 0"
  by (simp_all add: fresh_sys_def fresh_cache_def heap_ok_def empty_heap_def)

lemmas echo_ok = echo_vm_sound counting_host_complete fresh_sys_ok


section \<open>The functions of the cache\<close>

text \<open>
  What a function of the cache does: with a good argument it calls the method of the crate, whose errors
  and panics become errors.
\<close>

definition method_step :: "RustError + 'x \<Rightarrow> ('x \<Rightarrow> 'c \<Rightarrow> (VmError + 'a) go \<times> 'c) \<Rightarrow> 'c \<Rightarrow> (RustError + 'a) \<times> 'c" where
  "method_step arg f c = (case arg of
     Inl e \<Rightarrow> (Inl e, c)
   | Inr x \<Rightarrow> (case f x c of (Return r, c') \<Rightarrow> (vm_result r, c') | (Panics _, c') \<Rightarrow> (Inl RE_Panic, c')))"

definition bytes_arg :: "string \<Rightarrow> byte_slice \<Rightarrow> RustError + string" where
  "bytes_arg name b = (case b of None \<Rightarrow> Inl (RE_UnsetArg name) | Some bs \<Rightarrow> Inr bs)"

definition checksum_arg :: "byte_slice \<Rightarrow> RustError + string" where
  "checksum_arg b = (case b of None \<Rightarrow> Inl (RE_UnsetArg CHECKSUM_ARG) | Some bs \<Rightarrow> Checksum_try_from bs)"

definition error_of :: "RustError + 'a \<Rightarrow> error" where
  "error_of r = (case r of Inl e \<Rightarrow> Some (go_error_of e) | Inr _ \<Rightarrow> None)"

definition bytes_of :: "RustError + rust_vec \<Rightarrow> byte_slice" where
  "bytes_of r = (case r of Inl e \<Rightarrow> None | Inr v \<Rightarrow> Some (fst v))"

abbreviation with_cache :: "('c, 'i, 's) sys \<Rightarrow> nat \<Rightarrow> 'c \<Rightarrow> heap \<Rightarrow> ('c, 'i, 's) sys" where
  "with_cache w p c h \<equiv> with_heap (w\<lparr>sys_caches := (sys_caches w)(p \<mapsto> c)\<rparr>) h"

lemma read_arg_view: "slice_len b < 2 ^ 64 \<Longrightarrow> read_arg (makeView b) name w = (Ok (bytes_arg name b), w)"
  by (cases b) (simp_all add: read_makeView read_arg_def bytes_arg_def)

lemma read_checksum_view: "slice_len b < 2 ^ 64 \<Longrightarrow> read_checksum (makeView b) w = (Ok (checksum_arg b), w)"
  by (cases b) (simp_all add: read_checksum_def and_then_def read_arg_view bytes_arg_def checksum_arg_def)

lemma guarded_step:
  assumes "sys_caches w p = Some c" "method_step arg f c = (r, c')" "\<And>w. m w = (Ok arg, w)"
  shows "guarded (Some p) (\<lambda>p. and_then m (\<lambda>x. and_then (vm_method p (f x)) (\<lambda>y. ret (Inr (g y))))) w =
    (Ok (map_sum id g r), w\<lparr>sys_caches := (sys_caches w)(p \<mapsto> c')\<rparr>)"
proof (cases arg)
  case (Inl e)
  with assms show ?thesis
    by (auto simp: guarded_def to_cache_def catch_unwind_def and_then_def method_step_def fun_upd_idem)
next
  case (Inr x)
  obtain y d where f: "f x c = (y, d)" by fastforce
  with Inr assms show ?thesis
    by (cases y)
      (auto simp: guarded_def to_cache_def catch_unwind_def and_then_def method_step_def vm_method_def on_cache_def split: sum.split)
qed

lemma finish_unit:
  fixes w :: "('c, 'i, 's) sys"
  assumes "heap_ok (heap_of w)" "good error_fits (\<lambda>_. True) r"
  shows "\<exists>h. bind (finish_default () (Some uninitializedUnmanagedVector) r) unit_result w = (Ok (error_of r), with_heap w h) \<and>
    blocks h = blocks (heap_of w) \<and> heap_ok h"
proof (cases r)
  case (Inl e)
  then have e: "error_fits e" using assms(2) by simp
  obtain errno msg h1 where s: "set_error e (Some uninitializedUnmanagedVector) (heap_of w) = ((errno, msg), h1)"
    by (metis surj_pair)
  obtain h2 v where "msg = Some v" "errno \<noteq> 0"
    "\<And>w :: ('c, 'i, 's) sys. heap_of w = h1 \<Longrightarrow> errorWithMessage errno v w = (Ok (go_error_of e), with_heap w h2)"
    "blocks h2 = blocks (heap_of w)" "heap_ok h2"
    by (rule set_error_message [OF assms(1) e s]) blast
  with s Inl show ?thesis
    by (intro exI [of _ h2]) (simp add: finish_default_def on_heap_def handle_c_error_default_def unit_result_def error_of_def)
next
  case (Inr u)
  with assms(1) show ?thesis
    by (intro exI [of _ "heap_of w"])
      (simp add: finish_default_def on_heap_def handle_c_error_default_def unit_result_def error_of_def ErrnoValue_Success_def)
qed

lemma finish_bytes:
  fixes w :: "('c, 'i, 's) sys"
  assumes "heap_ok (heap_of w)" "good error_fits vec_fits r"
  shows "\<exists>h. bind (finish_binary (Some uninitializedUnmanagedVector) r) bytes_result w = (Ok (bytes_of r, error_of r), with_heap w h) \<and>
    blocks h = blocks (heap_of w) \<and> heap_ok h"
proof (cases r)
  case (Inl e)
  then have e: "error_fits e" using assms(2) by simp
  obtain errno msg h1 where s: "set_error e (Some uninitializedUnmanagedVector) (heap_of w) = ((errno, msg), h1)"
    by (metis surj_pair)
  obtain h2 v where "msg = Some v" "errno \<noteq> 0"
    "\<And>w :: ('c, 'i, 's) sys. heap_of w = h1 \<Longrightarrow> errorWithMessage errno v w = (Ok (go_error_of e), with_heap w h2)"
    "blocks h2 = blocks (heap_of w)" "heap_ok h2"
    by (rule set_error_message [OF assms(1) e s]) blast
  with s Inl show ?thesis
    by (intro exI [of _ h2]) (simp add: finish_binary_def on_heap_def handle_c_error_binary_def UnmanagedVector_new_def
        bytes_result_def error_of_def bytes_of_def)
next
  case (Inr d)
  obtain v h1 where v: "UnmanagedVector_new (Some d) (heap_of w) = (v, h1)" by fastforce
  have "vec_fits d" using assms(2) Inr by simp
  then obtain h2 where "\<And>w :: ('c, 'i, 's) sys. heap_of w = h1 \<Longrightarrow> copy_destroy v w = (Ok (Some (fst d)), with_heap w h2)"
    "blocks h2 = blocks (heap_of w)" "heap_ok h2"
    by (rule vector_to_go [OF assms(1) _ v]) blast
  with v Inr show ?thesis
    by (intro exI [of _ h2]) (simp add: finish_binary_def on_heap_def handle_c_error_binary_def bytes_result_def ErrnoValue_Success_def
        error_of_def bytes_of_def)
qed

lemma unit_function:
  fixes w :: "('c, 'i, 's) sys"
  assumes "heap_ok (heap_of w)" "sys_caches w p = Some c" "method_step arg f c = (r, c')" "good error_fits (\<lambda>_. True) r"
    "\<And>w :: ('c, 'i, 's) sys. m w = (Ok arg, w)"
  shows "\<exists>h. bind (bind (guarded (Some p) (\<lambda>p. and_then m (\<lambda>x. and_then (vm_method p (f x)) (\<lambda>_. ret (Inr ())))))
      (finish_default () (Some uninitializedUnmanagedVector))) unit_result w = (Ok (error_of r), with_cache w p c' h) \<and>
    blocks h = blocks (heap_of w) \<and> heap_ok h"
proof -
  have "good error_fits (\<lambda>_. True) (map_sum id (\<lambda>_. ()) r)" "error_of (map_sum id (\<lambda>_. ()) r) = error_of r"
    using assms(4) by (cases r; simp add: error_of_def)+
  with finish_unit [of "w\<lparr>sys_caches := (sys_caches w)(p \<mapsto> c')\<rparr>" "map_sum id (\<lambda>_. ()) r"] assms(1) show ?thesis
    by (simp add: bind_assoc bind_def [of "guarded _ _"] guarded_step [OF assms(2,3,5)])
qed

lemma bytes_function:
  fixes w :: "('c, 'i, 's) sys"
  assumes "heap_ok (heap_of w)" "sys_caches w p = Some c" "method_step arg f c = (r, c')" "good error_fits (\<lambda>x. vec_fits (g x)) r"
    "\<And>w :: ('c, 'i, 's) sys. m w = (Ok arg, w)"
  shows "\<exists>h. bind (bind (guarded (Some p) (\<lambda>p. and_then m (\<lambda>x. and_then (vm_method p (f x)) (\<lambda>y. ret (Inr (g y))))))
      (finish_binary (Some uninitializedUnmanagedVector))) bytes_result w =
      (Ok (bytes_of (map_sum id g r), error_of r), with_cache w p c' h) \<and> blocks h = blocks (heap_of w) \<and> heap_ok h"
proof -
  have "good error_fits vec_fits (map_sum id g r)" "error_of (map_sum id g r) = error_of r"
    using assms(4) by (cases r; simp add: error_of_def)+
  with finish_bytes [of "w\<lparr>sys_caches := (sys_caches w)(p \<mapsto> c')\<rparr>" "map_sum id g r"] assms(1) show ?thesis
    by (simp add: bind_assoc bind_def [of "guarded _ _"] guarded_step [OF assms(2,3,5)])
qed

lemma chunks_exact_32_length: "x \<in> set (chunks_exact_32 bs) \<Longrightarrow> length x = 32"
  by (induction bs rule: chunks_exact_32.induct) (subst (asm) (2) chunks_exact_32.simps, auto split: if_splits)

lemma do_sync_pinned_codes_alt:
  "do_sync_pinned_codes vm cache checksums = and_then (read_arg checksums CHECKSUMS_ARG) (\<lambda>bs.
     and_then (vm_method cache (vm_sync_pinned_codes vm (chunks_exact_32 bs))) (\<lambda>_. ret (Inr ())))"
proof -
  have "map Checksum_try_from (chunks_exact_32 bs) = map Inr (chunks_exact_32 bs)" for bs
    by (rule map_cong) (auto simp: Checksum_try_from_def dest: chunks_exact_32_length)
  then show ?thesis by (simp add: do_sync_pinned_codes_def list_all_iff comp_def del: map_eq_conv)
qed

text \<open>The functions that only return an error: the argument and the method each calls.\<close>

definition unit_functions ::
    "('c, 'n, 'q, 'i, 's) cosmwasm_vm \<Rightarrow> Cache \<Rightarrow> byte_slice
      \<Rightarrow> ((('c, 'i, 's) sys, error) eff \<times> (RustError + string) \<times> (string \<Rightarrow> 'c \<Rightarrow> (VmError + unit) go \<times> 'c)) list" where
  "unit_functions vm cache arg =
     [(api_RemoveCode vm cache arg, checksum_arg arg, vm_remove_wasm vm),
      (api_Pin vm cache arg, checksum_arg arg, vm_pin vm),
      (api_Unpin vm cache arg, checksum_arg arg, vm_unpin vm),
      (api_SyncPinnedCodes vm cache arg, bytes_arg CHECKSUMS_ARG arg, \<lambda>bs. vm_sync_pinned_codes vm (chunks_exact_32 bs))]"

text \<open>
  C19: removing, pinning, unpinning and synchronising the pinned codes call the method of the same name
  on the cache exactly once when the argument is good: a checksum of 32 bytes, or for the last any bytes,
  which are cut into checksums.  The error they return is the one of the argument, of the method, or
  of a panic in it; nothing else of the state changes and nothing stays allocated.
\<close>

theorem unit_functions_run:
  fixes w :: "('c, 'i, 's) sys" and vm :: "('c, 'n, 'q, 'i, 's) cosmwasm_vm"
  assumes "heap_ok (heap_of w)" "Cache_ptr cache = Some p" "sys_caches w p = Some c" "slice_len b < 2 ^ 64"
    "(m, arg, f) \<in> set (unit_functions vm cache b)" "method_step arg f c = (r, c')" "good error_fits (\<lambda>_. True) r"
  shows "\<exists>h. m w = (Ok (error_of r), with_cache w p c' h) \<and> blocks h = blocks (heap_of w) \<and> heap_ok h"
proof -
  note defs = api_RemoveCode_def api_Pin_def api_Unpin_def api_SyncPinnedCodes_def remove_wasm_def pin_def unpin_def
    sync_pinned_codes_def do_remove_wasm_def do_pin_def do_unpin_def do_sync_pinned_codes_alt assms(2)
  note run = unit_function [OF assms(1,3) _ assms(7)]
  consider "m = api_RemoveCode vm cache b" "arg = checksum_arg b" "f = vm_remove_wasm vm"
    | "m = api_Pin vm cache b" "arg = checksum_arg b" "f = vm_pin vm"
    | "m = api_Unpin vm cache b" "arg = checksum_arg b" "f = vm_unpin vm"
    | "m = api_SyncPinnedCodes vm cache b" "arg = bytes_arg CHECKSUMS_ARG b" "f = (\<lambda>bs. vm_sync_pinned_codes vm (chunks_exact_32 bs))"
    using assms(5) by (auto simp: unit_functions_def)
  then show ?thesis
  proof cases
    case 4
    show ?thesis unfolding 4(1) defs
      by (rule run [OF _ read_arg_view [OF assms(4)]]) (use assms(6) 4(2,3) in simp)
  next
    case 1
    show ?thesis unfolding 1(1) defs
      by (rule run [OF _ read_checksum_view [OF assms(4)]]) (use assms(6) 1(2,3) in simp)
  next
    case 2
    show ?thesis unfolding 2(1) defs
      by (rule run [OF _ read_checksum_view [OF assms(4)]]) (use assms(6) 2(2,3) in simp)
  next
    case 3
    show ?thesis unfolding 3(1) defs
      by (rule run [OF _ read_checksum_view [OF assms(4)]]) (use assms(6) 3(2,3) in simp)
  qed
qed

theorem unit_functions_run_witness:
  "(\<exists>h. api_Pin echo_vm fresh_cache (Some (replicate 32 CHR ''x'')) fresh_sys = (Ok None, with_cache fresh_sys 0 () h) \<and>
    blocks h = blocks (heap_of fresh_sys) \<and> heap_ok h) \<and>
   (\<exists>h. api_Pin echo_vm fresh_cache (Some ''short'') fresh_sys =
      (Ok (Some (OtherError ''Checksum not of length 32'')), with_cache fresh_sys 0 () h) \<and>
    blocks h = blocks (heap_of fresh_sys) \<and> heap_ok h)"
proof
  have "method_step (checksum_arg (Some (replicate 32 CHR ''x''))) (vm_pin echo_vm) () = (Inr (), ())"
    by (simp add: method_step_def checksum_arg_def Checksum_try_from_def echo_vm_def vm_result_def)
  from unit_functions_run [where m = "api_Pin echo_vm fresh_cache (Some (replicate 32 CHR ''x''))" and vm = echo_vm and b = "Some (replicate 32 CHR ''x'')", OF echo_ok(3,5,4) _ _ this]
  show "\<exists>h. api_Pin echo_vm fresh_cache (Some (replicate 32 CHR ''x'')) fresh_sys = (Ok None, with_cache fresh_sys 0 () h) \<and>
    blocks h = blocks (heap_of fresh_sys) \<and> heap_ok h"
    by (simp add: unit_functions_def error_of_def)
next
  have "method_step (checksum_arg (Some ''short'')) (vm_pin echo_vm) () = (Inl RE_ChecksumError, ())"
    by (simp add: method_step_def checksum_arg_def Checksum_try_from_def)
  from unit_functions_run [where m = "api_Pin echo_vm fresh_cache (Some ''short'')" and vm = echo_vm and b = "Some ''short''", OF echo_ok(3,5,4) _ _ this]
  show "\<exists>h. api_Pin echo_vm fresh_cache (Some ''short'') fresh_sys =
      (Ok (Some (OtherError ''Checksum not of length 32'')), with_cache fresh_sys 0 () h) \<and>
    blocks h = blocks (heap_of fresh_sys) \<and> heap_ok h"
    by (simp add: unit_functions_def error_of_def)
qed

lemma api_StoreCode_run:
  fixes w :: "('c, 'i, 's) sys" and vm :: "('c, 'n, 'q, 'i, 's) cosmwasm_vm"
  assumes "heap_ok (heap_of w)" "Cache_ptr cache = Some p" "sys_caches w p = Some c" "length wasm < 2 ^ 64"
    "vm_store_code vm wasm True True c = (Return (Inr cs), c')" "length cs = 32"
  shows "\<exists>h. api_StoreCode vm cache (Some wasm) True w = (Ok (Some cs, None), with_cache w p c' h) \<and>
    blocks h = blocks (heap_of w) \<and> heap_ok h"
proof -
  have small: "slice_len (Some wasm) < 2 ^ 64" using assms(4) by simp
  have fit: "vec_fits (vec_from cs)" using assms(6) by (simp add: vec_fits_def vec_from_def unat_of_nat_64)
  have st: "method_step (bytes_arg WASM_ARG (Some wasm)) (\<lambda>b. vm_store_code vm b True True) c = (Inr cs, c')"
    using assms(5) by (simp add: method_step_def bytes_arg_def vm_result_def)
  from bytes_function [OF assms(1,3) st _ read_arg_view [OF small], where g = vec_from] fit show ?thesis
    by (auto simp: api_StoreCode_def store_code_def do_store_code_def assms(2) bytes_of_def error_of_def vec_from_def)
qed

text \<open>
  C20: a code that \<open>StoreCode\<close> accepts is what \<open>GetCode\<close> returns for the checksum that \<open>StoreCode\<close> returned,
  whenever the crate loads what it stored: the bytes and the checksum cross the boundary unchanged
  in both directions, and no memory stays allocated.
\<close>

theorem store_get_roundtrip:
  fixes w :: "('c, 'i, 's) sys" and vm :: "('c, 'n, 'q, 'i, 's) cosmwasm_vm"
  assumes "heap_ok (heap_of w)" "Cache_ptr cache = Some p" "sys_caches w p = Some c" "length wasm < 2 ^ 31"
    "vm_store_code vm wasm True True c = (Return (Inr cs), c')" "length cs = 32"
    "vm_load_wasm vm cs c' = (Return (Inr (vec_from wasm)), c'')"
  shows "\<exists>w' h. api_StoreCode vm cache (Some wasm) True w = (Ok (Some cs, None), w') \<and>
    api_GetCode vm cache (Some cs) w' = (Ok (Some wasm, None), with_cache w p c'' h) \<and>
    blocks h = blocks (heap_of w) \<and> heap_ok h"
proof -
  have small: "slice_len (Some cs) < 2 ^ 64" "length wasm < 2 ^ 64" using assms(4,6) by simp_all
  have fit: "vec_fits (vec_from wasm)" using assms(4) by (simp add: vec_fits_def vec_from_def unat_of_nat_64)
  have ld: "method_step (checksum_arg (Some cs)) (vm_load_wasm vm) c' = (Inr (vec_from wasm), c'')"
    using assms(6,7) by (simp add: method_step_def checksum_arg_def Checksum_try_from_def vm_result_def)
  from api_StoreCode_run [OF assms(1-3) small(2) assms(5,6)]
  obtain h1 where 1: "api_StoreCode vm cache (Some wasm) True w = (Ok (Some cs, None), with_cache w p c' h1)"
    "blocks h1 = blocks (heap_of w)" "heap_ok h1" by blast
  from bytes_function [OF _ _ ld _ read_checksum_view [OF small(1)], of "with_cache w p c' h1" p "\<lambda>x. x"] fit 1(2,3)
  show ?thesis
    by (auto simp: api_GetCode_def load_wasm_def do_load_wasm_def assms(2) bytes_of_def error_of_def vec_from_def 1(1))
qed

theorem store_get_roundtrip_witness:
  "\<exists>w' h. api_StoreCode echo_vm fresh_cache (Some ''wasm'') True fresh_sys = (Ok (Some (replicate 32 CHR ''x''), None), w') \<and>
    api_GetCode echo_vm fresh_cache (Some (replicate 32 CHR ''x'')) w' = (Ok (Some ''wasm'', None), with_cache fresh_sys 0 () h) \<and>
    blocks h = blocks (heap_of fresh_sys) \<and> heap_ok h"
  by (rule store_get_roundtrip [OF echo_ok(3,5,4)]) (simp_all add: echo_vm_def)

text \<open>
  C33: a call with an incomplete API or without a querier panics before anything happens: no contract
  runs, no frame is opened and the state is unchanged.
\<close>

theorem incomplete_host_panics:
  fixes w :: "('c, 'i, 's) sys" and vm :: "('c, 'n, 'q, 'i, 's) cosmwasm_vm"
  assumes "\<not> complete_host h" "(m, f, args) \<in> set (entry_points vm cache cs a1 a2 a3 h gas dbg)"
  shows "\<exists>msg. m w = (Panic (panic_string msg), w)"
proof -
  have "\<exists>msg. contract_call ops ccall h gas dbg w = (Panic (panic_string msg), w)" for ops and ccall :: "('c, 'i, 's) ccall"
    using assms(1) by (auto simp: contract_call_def checkAndPinAPI_def checkAndPinQuerier_def complete_host_def split: option.split)
  moreover obtain ops ccall where "m = contract_call ops ccall h gas dbg"
    using assms(2) unfolding entry_points_def api_defs by (simp only: list.set insert_iff empty_iff prod.inject simp_thms) blast
  ultimately show ?thesis by blast
qed

theorem incomplete_host_panics_witness:
  "\<exists>msg. api_Sudo echo_vm fresh_cache None None None (counting_host\<lparr>h_querier := None\<rparr>) 9 False fresh_sys =
    (Panic (panic_string msg), fresh_sys)"
  by (rule incomplete_host_panics [where vm = echo_vm and cache = fresh_cache and cs = None and ?a1.0 = None and ?a2.0 = None
        and ?a3.0 = None and gas = 9 and dbg = False and f = call_sudo_raw and args = "[None, None]"])
    (simp_all add: complete_host_def entry_points_def)

section \<open>Analysing a code\<close>

text \<open>\<open>strings.Split\<close> undoes the \<open>join\<close> of Rust when no part has a comma and there is a part.\<close>

lemma strings_Split_prefix: "sep \<notin> set s \<Longrightarrow> strings_Split (s @ sep # t) sep = s # strings_Split t sep"
  by (induction s) auto

lemma strings_Split_single: "sep \<notin> set s \<Longrightarrow> strings_Split s sep = [s]"
  by (induction s) auto

lemma strings_Split_join:
  "ss \<noteq> [] \<Longrightarrow> (\<And>s. s \<in> set ss \<Longrightarrow> sep \<notin> set s) \<Longrightarrow> strings_Split (join [sep] ss) sep = ss"
  by (induction "[sep]" ss rule: join.induct) (simp_all add: strings_Split_single strings_Split_prefix)

lemma analysis_transfer:
  fixes h :: heap
  assumes "heap_ok h" "length a < 2 ^ 31" "length b < 2 ^ 31"
  obtains v1 v2 h1 h2 h3 h4 where "UnmanagedVector_new (Some (vec_from a)) h = (v1, h1)"
    "UnmanagedVector_new (Some (vec_from b)) h1 = (v2, h2)"
    "\<And>w :: ('c, 'i, 's) sys. heap_of w = h2 \<Longrightarrow> copy_destroy v1 w = (Ok (Some a), with_heap w h3)"
    "\<And>w :: ('c, 'i, 's) sys. heap_of w = h3 \<Longrightarrow> copy_destroy v2 w = (Ok (Some b), with_heap w h4)"
    "heap_ok h4" "blocks h4 = blocks h"
proof -
  have ok: "rust_vec_ok (Some (vec_from a))" "rust_vec_ok (Some (vec_from b))"
    using assms(2,3) by (simp_all add: rust_vec_ok_def vec_from_def unat_of_nat_64)
  from to_go.give_give_take_take [OF assms(1) ok] obtain v1 v2 h1 h2 h3 h4 where
    "UnmanagedVector_new (Some (vec_from a)) h = (v1, h1)" "UnmanagedVector_new (Some (vec_from b)) h1 = (v2, h2)"
    "copyAndDestroyUnmanagedVector v1 h2 = Some (Return (Some a), h3)"
    "copyAndDestroyUnmanagedVector v2 h3 = Some (Return (Some b), h4)" "heap_ok h4" "blocks h4 = blocks h"
    by (auto simp: vec_from_def)
  with that show ?thesis by (simp add: copy_destroy_def)
qed

text \<open>
  C32: \<open>AnalyzeCode\<close> returns what the crate found: the flag for IBC, the migrate version, the required
  capabilities joined by commas and, when there is one and no name has a comma, the very list of entry
  points.  Both vectors of the report are freed.
\<close>

theorem api_AnalyzeCode_report:
  fixes w :: "('c, 'i, 's) sys" and vm :: "('c, 'n, 'q, 'i, 's) cosmwasm_vm"
  assumes "heap_ok (heap_of w)" "Cache_ptr cache = Some p" "sys_caches w p = Some c" "length cs = 32"
    "vm_analyze vm cs c = (Return (Inr rep), c')" "va_entrypoints rep \<noteq> []"
    "\<And>e. e \<in> set (va_entrypoints rep) \<Longrightarrow> CHR '','' \<notin> set e"
    "length (set_to_csv (va_required_capabilities rep)) < 2 ^ 31" "length (set_to_csv (va_entrypoints rep)) < 2 ^ 31"
  shows "\<exists>h. api_AnalyzeCode vm cache (Some cs) w =
      (Ok (Inr \<lparr>AnalysisReport_HasIBCEntryPoints = va_has_ibc_entry_points rep,
         AnalysisReport_RequiredCapabilities = join '','' (va_required_capabilities rep),
         AnalysisReport_Entrypoints = Some (va_entrypoints rep),
         AnalysisReport_ContractMigrateVersion = va_contract_migrate_version rep\<rparr>), with_cache w p c' h) \<and>
    blocks h = blocks (heap_of w) \<and> heap_ok h"
proof -
  obtain v1 v2 h1 h2 h3 h4 where v: "UnmanagedVector_new (Some (vec_from (set_to_csv (va_required_capabilities rep)))) (heap_of w) = (v1, h1)"
    "UnmanagedVector_new (Some (vec_from (set_to_csv (va_entrypoints rep)))) h1 = (v2, h2)"
    "\<And>w :: ('c, 'i, 's) sys. heap_of w = h2 \<Longrightarrow> copy_destroy v1 w = (Ok (Some (set_to_csv (va_required_capabilities rep))), with_heap w h3)"
    "\<And>w :: ('c, 'i, 's) sys. heap_of w = h3 \<Longrightarrow> copy_destroy v2 w = (Ok (Some (set_to_csv (va_entrypoints rep))), with_heap w h4)"
    "heap_ok h4" "blocks h4 = blocks (heap_of w)"
    by (rule analysis_transfer [OF assms(1,8,9)]) blast
  have "slice_len (Some cs) < 2 ^ 64" using assms(4) by simp
  note cs = read_checksum_view [OF this]
  have ptr: "optionalU64ToPtr (OptionalU64_from v) = v" for v
    by (cases v) (simp_all add: optionalU64ToPtr_def OptionalU64_from_def)
  have split: "strings_Split (join '','' (va_entrypoints rep)) CHR '','' = va_entrypoints rep"
    using strings_Split_join [OF assms(6,7)] by simp
  show ?thesis
    using assms(2-5) v
    by (intro exI [of _ h4])
      (simp add: api_AnalyzeCode_def analyze_code_def guarded_def to_cache_def catch_unwind_def do_analyze_code_def and_then_def cs
        checksum_arg_def Checksum_try_from_def vm_method_def on_cache_def vm_result_def on_heap_def AnalysisReport_from_def
        finish_default_def handle_c_error_default_def ErrnoValue_Success_def ptr split set_to_csv_def)
qed

theorem api_AnalyzeCode_report_witness:
  "\<exists>h. api_AnalyzeCode (echo_vm\<lparr>vm_analyze := \<lambda>_ c. (Return (Inr \<lparr>va_has_ibc_entry_points = True,
         va_required_capabilities = [''iterator'', ''staking''], va_entrypoints = [''execute'', ''query''],
         va_contract_migrate_version = Some 42\<rparr>), c)\<rparr>) fresh_cache (Some (replicate 32 CHR ''x'')) fresh_sys =
      (Ok (Inr \<lparr>AnalysisReport_HasIBCEntryPoints = True, AnalysisReport_RequiredCapabilities = ''iterator,staking'',
         AnalysisReport_Entrypoints = Some [''execute'', ''query''],
         AnalysisReport_ContractMigrateVersion = Some 42\<rparr>), with_cache fresh_sys 0 () h) \<and>
    blocks h = blocks (heap_of fresh_sys) \<and> heap_ok h"
  using api_AnalyzeCode_report [OF echo_ok(3,5,4), where vm = "echo_vm\<lparr>vm_analyze := \<lambda>_ c. (Return (Inr \<lparr>va_has_ibc_entry_points = True,
         va_required_capabilities = [''iterator'', ''staking''], va_entrypoints = [''execute'', ''query''],
         va_contract_migrate_version = Some 42\<rparr>), c)\<rparr>" and cs = "replicate 32 CHR ''x''"]
  by (force simp: set_to_csv_def)

section \<open>The life of a cache\<close>

lemma do_init_cache_box:
  "catch_unwind (do_init_cache vm view) w = (Ok (Inr p), w') \<Longrightarrow>
    p = sys_next w \<and> (\<exists>c. w' = w\<lparr>sys_caches := (sys_caches w)(p \<mapsto> c), sys_next := Suc p\<rparr>)"
  by (auto simp: catch_unwind_def do_init_cache_def and_then_def bind_def read_arg_def
      split: prod.splits res.splits sum.splits option.splits go.splits if_splits)

lemma bind_OkD: "bind m k w = (Ok y, w') \<Longrightarrow> \<exists>x w1. m w = (Ok x, w1) \<and> k x w1 = (Ok y, w')"
  by (auto simp: bind_def split: prod.splits res.splits)

lemma init_cache_box:
  assumes "bind (init_cache vm view (Some u)) (\<lambda>(ptr, err, errmsg).
      if err \<noteq> 0 then bind (errorWithMessage err (the errmsg)) (\<lambda>e. ret (Inl e))
      else ret (Inr \<lparr>Cache_ptr = ptr, Cache_lockfile = lockf\<rparr>)) w = (Ok (Inr cache), w')"
  shows "\<exists>c. cache = \<lparr>Cache_ptr = Some (sys_next w), Cache_lockfile = lockf\<rparr> \<and>
    w' = w\<lparr>sys_caches := (sys_caches w)(sys_next w \<mapsto> c), sys_next := Suc (sys_next w)\<rparr>"
proof -
  from bind_OkD [OF assms] obtain ptr err errmsg w1 where 1: "init_cache vm view (Some u) w = (Ok (ptr, err, errmsg), w1)"
    "(if err \<noteq> 0 then bind (errorWithMessage err (the errmsg)) (\<lambda>e. ret (Inl e))
      else ret (Inr \<lparr>Cache_ptr = ptr, Cache_lockfile = lockf\<rparr>)) w1 = (Ok (Inr cache), w')" by auto
  then have "err = 0" by (auto split: if_splits dest: bind_OkD)
  with 1(2) have 2: "cache = \<lparr>Cache_ptr = ptr, Cache_lockfile = lockf\<rparr>" "w' = w1" by auto
  from bind_OkD [OF 1(1) [unfolded init_cache_def]] obtain r w2 where
    3: "catch_unwind (do_init_cache vm view) w = (Ok r, w2)"
      "on_heap (\<lambda>h. let (p, out, h') = handle_c_error_ptr r (Some u) h in ((p, out), h')) w2 = (Ok (ptr, err, errmsg), w1)" by auto
  obtain p where "r = Inr p"
  proof (cases r)
    case (Inl e)
    with 3(2) \<open>err = 0\<close> show ?thesis
      by (cases e) (auto simp: on_heap_def handle_c_error_ptr_def set_error_def ErrnoValue_Other_def ErrnoValue_OutOfGas_def Let_def
          split: prod.splits)
  qed
  with 3 2 do_init_cache_box [of vm view w p w2] show ?thesis
    by (auto simp: on_heap_def handle_c_error_ptr_def)
qed

lemma InitCache_box:
  assumes "InitCache vm os config w = (Ok (Inr cache), w')"
  obtains c where "Cache_lockfile cache \<notin> sys_locks w" "sys_locks w' = insert (Cache_lockfile cache) (sys_locks w)"
    "Cache_ptr cache = Some (sys_next w)" "sys_caches w' = (sys_caches w)(sys_next w \<mapsto> c)"
proof -
  define lockf where "lockf = os_lock_file os (CacheOptions_BaseDir (VMConfig_Cache config))"
  have free: "lockf \<notin> sys_locks w"
  proof
    assume "lockf \<in> sys_locks w"
    with assms show False by (auto simp: InitCache_def Let_def lockf_def init_error_def bind_def [of "Flock _"] Flock_def split: if_splits)
  qed
  with assms obtain bs where "bind (init_cache vm (makeView (Some bs)) (Some uninitializedUnmanagedVector)) (\<lambda>(ptr, err, errmsg).
      if err \<noteq> 0 then bind (errorWithMessage err (the errmsg)) (\<lambda>e. ret (Inl e))
      else ret (Inr \<lparr>Cache_ptr = ptr, Cache_lockfile = lockf\<rparr>)) (w\<lparr>sys_locks := insert lockf (sys_locks w)\<rparr>) = (Ok (Inr cache), w')"
    unfolding lockf_def
    by (auto simp: InitCache_def Let_def init_error_def bind_def [of "Flock _"] Flock_def split: if_splits sum.splits)
  from init_cache_box [OF this] free that show ?thesis by auto
qed

text \<open>
  C21: while a cache is open no other cache can be opened on the directory, by whatever virtual machine:
  \<open>InitCache\<close> fails and changes nothing.  Closing the cache gives back the lock and drops the box, so that
  locks and boxes are what they were before it was opened.
\<close>

theorem cache_exclusive:
  fixes w :: "('c, 'i, 's) sys" and vm :: "('c, 'n, 'q, 'i, 's) cosmwasm_vm"
  assumes "InitCache vm os config w = (Ok (Inr cache), w')" "sys_caches w (sys_next w) = None"
  shows "(\<forall>(vm2 :: ('c, 'n, 'q, 'i, 's) cosmwasm_vm) os2 config2.
      os_lock_file os2 (CacheOptions_BaseDir (VMConfig_Cache config2)) = Cache_lockfile cache \<longrightarrow>
      (\<exists>e. InitCache vm2 os2 config2 w' = (Ok (Inl e), w'))) \<and>
    (\<exists>w''. ReleaseCache cache w' = (Ok (), w'') \<and> sys_locks w'' = sys_locks w \<and> sys_caches w'' = sys_caches w)"
proof -
  from InitCache_box [OF assms(1)] obtain c where
    "Cache_lockfile cache \<notin> sys_locks w" "sys_locks w' = insert (Cache_lockfile cache) (sys_locks w)"
    "Cache_ptr cache = Some (sys_next w)" "sys_caches w' = (sys_caches w)(sys_next w \<mapsto> c)" .
  with assms(2) show ?thesis
    by (auto simp: InitCache_def Let_def init_error_def bind_def [of "Flock _"] Flock_def ReleaseCache_def release_cache_def fun_upd_idem)
qed

lemma InitCache_opens:
  assumes "os_MkdirAll os (CacheOptions_BaseDir (VMConfig_Cache config))" "lockf = os_lock_file os (CacheOptions_BaseDir (VMConfig_Cache config))"
    "os_OpenFile os lockf" "os_WriteString os lockf" "lockf \<notin> sys_locks w" "length (json_print (VMConfig_to_json config)) < 2 ^ 64"
    "vm_new_with_config vm (json_print (VMConfig_to_json config)) = Return (Inr (Inr c))"
  shows "InitCache vm os config w = (Ok (Inr \<lparr>Cache_ptr = Some (sys_next w), Cache_lockfile = lockf\<rparr>),
    w\<lparr>sys_locks := insert lockf (sys_locks w), sys_caches := (sys_caches w)(sys_next w \<mapsto> c), sys_next := Suc (sys_next w)\<rparr>)"
  using assms
  by (simp add: InitCache_def Let_def bind_def [of "Flock _"] Flock_def json_Marshal_def init_cache_def catch_unwind_def do_init_cache_def
      and_then_def read_arg_view bytes_arg_def on_heap_def handle_c_error_ptr_def ErrnoValue_Success_def)

text \<open>
  When the library refuses to open the cache, \<open>InitCache\<close> returns the error without closing the lock file: the lock stays
  taken, for this process too, until the collector gets to the file.
\<close>

lemma InitCache_failure:
  fixes w :: "('c, 'i, 's) sys"
  assumes "os_MkdirAll os (CacheOptions_BaseDir (VMConfig_Cache config))" "lockf = os_lock_file os (CacheOptions_BaseDir (VMConfig_Cache config))"
    "os_OpenFile os lockf" "os_WriteString os lockf" "lockf \<notin> sys_locks w" "length (json_print (VMConfig_to_json config)) < 2 ^ 64"
    "vm_new_with_config vm (json_print (VMConfig_to_json config)) = Return (Inl msg)" "heap_ok (heap_of w)" "error_fits (RE_Json msg)"
  shows "\<exists>w'. InitCache vm os config w = (Ok (Inl (go_error_of (RE_Json msg))), w') \<and> sys_locks w' = insert lockf (sys_locks w) \<and>
    sys_caches w' = sys_caches w"
proof -
  let ?w1 = "w\<lparr>sys_locks := insert lockf (sys_locks w)\<rparr>"
  obtain errno m h1 where 1: "set_error (RE_Json msg) (Some uninitializedUnmanagedVector) (heap_of w) = ((errno, m), h1)"
    by (metis prod.exhaust)
  have 2: "\<exists>h2 v. m = Some v \<and> errno \<noteq> 0 \<and>
      errorWithMessage errno v (with_heap ?w1 h1) = (Ok (go_error_of (RE_Json msg)), with_heap (with_heap ?w1 h1) h2)"
    by (rule set_error_message [OF assms(8,9) 1, where 'c = 'c and 'i = 'i and 's = 's]) force
  show ?thesis
    using assms 1 2
    by (auto simp: InitCache_def Let_def bind_def [of "Flock _"] Flock_def json_Marshal_def init_cache_def catch_unwind_def do_init_cache_def
      and_then_def read_arg_view bytes_arg_def on_heap_def handle_c_error_ptr_def ErrnoValue_Success_def)
qed

definition sample_config :: VMConfig where
  "sample_config = \<lparr>VMConfig_WasmLimits = WasmLimits_zero,
     VMConfig_Cache = \<lparr>CacheOptions_BaseDir = ''new'', CacheOptions_AvailableCapabilities = Some [''iterator''],
       CacheOptions_MemoryCacheSizeBytes = 100, CacheOptions_InstanceMemoryLimitBytes = 32\<rparr>\<rparr>"

theorem cache_exclusive_witness:
  "\<exists>cache w'. InitCache echo_vm \<lparr>os_lock_file = \<lambda>d. d @ ''/exclusive.lock'', os_MkdirAll = \<lambda>_. True, os_OpenFile = \<lambda>_. True,
       os_WriteString = \<lambda>_. True\<rparr> sample_config fresh_sys = (Ok (Inr cache), w') \<and>
    (\<exists>e. InitCache echo_vm \<lparr>os_lock_file = \<lambda>d. d @ ''/exclusive.lock'', os_MkdirAll = \<lambda>_. True, os_OpenFile = \<lambda>_. True,
       os_WriteString = \<lambda>_. True\<rparr> sample_config w' = (Ok (Inl e), w')) \<and>
    (\<exists>w''. ReleaseCache cache w' = (Ok (), w'') \<and> sys_locks w'' = sys_locks fresh_sys \<and> sys_caches w'' = sys_caches fresh_sys)"
  (is "\<exists>cache w'. InitCache _ ?os _ _ = _ \<and> _")
proof -
  have "length (json_print (VMConfig_to_json sample_config)) < 2 ^ 64"
    by (simp add: sample_config_def WasmLimits_zero_def VMConfig_to_json_def WasmLimits_to_json_def CacheOptions_to_json_def fld_def fld_omit_def
        json_slice_def json_quote_def esc_ascii_def Size_MarshalJSON_def json_u32_def json_uint_def dec.simps digit_lits)
  then have "\<exists>cache w'. InitCache echo_vm ?os sample_config fresh_sys = (Ok (Inr cache), w') \<and> Cache_lockfile cache = ''new/exclusive.lock''"
    by (subst InitCache_opens [OF _ refl]) (simp_all add: fresh_sys_def echo_vm_def sample_config_def)
  then obtain cache w' where 1: "InitCache echo_vm ?os sample_config fresh_sys = (Ok (Inr cache), w')"
    "Cache_lockfile cache = ''new/exclusive.lock''" by blast
  have 2: "sys_caches fresh_sys (sys_next fresh_sys) = None" by (simp add: fresh_sys_def)
  have "os_lock_file ?os (CacheOptions_BaseDir (VMConfig_Cache sample_config)) = Cache_lockfile cache"
    using 1(2) by (simp add: sample_config_def)
  with cache_exclusive [OF 1(1) 2] 1(1) show ?thesis by blast
qed

end
