(* ===== verification/BackendSpec.thy ===== *)
theory BackendSpec
  imports Ownership
begin

text \<open>
  What the virtual machine sees of the chain: the operations of the Rust backend (\<open>storage.rs\<close>,
  \<open>api.rs\<close>, \<open>querier.rs\<close>), through the FFI and the Go callbacks (\<open>callbacks.go\<close>), against the store, the
  API and the querier the chain hands in.
\<close>

section \<open>Properties\<close>

text \<open>
  C8: reading, writing and removing through the Rust storage, the FFI and the Go callbacks does what the
  chain's \<open>KVStore\<close> does between two readings of the gas meter.  The virtual machine gets the value,
  nil kept apart from empty, and the difference of the readings; a panic of the chain becomes an
  out-of-gas error or a foreign panic with no gas reported.  The chain is left in the state the
  store left it in, and no memory stays allocated.
\<close>

theorem GoStorage_refines_KVStore:
  fixes w :: "('i, 's) ffi"
  assumes "heap_ok (f_heap w)" "length key < 2 ^ 31" "length val < 2 ^ 31"
    "\<And>v g s. metered_env gm (kv_Get kv (Some key)) (f_env w) = (Inr (v, g), s) \<Longrightarrow> slice_len v < 2 ^ 64"
  shows "(\<exists>w'. GoStorage_get (go_db kv c gm its) key w =
      (Ok (backend_result (fst (metered_env gm (kv_Get kv (Some key)) (f_env w)))), w') \<and>
    f_env w' = snd (metered_env gm (kv_Get kv (Some key)) (f_env w)) \<and>
    f_iters w' = f_iters w \<and> blocks (f_heap w') = blocks (f_heap w) \<and> heap_ok (f_heap w')) \<and>
   (\<exists>w'. GoStorage_set (go_db kv c gm its) key val w =
      (Ok (backend_result (fst (metered_env gm (kv_Set kv (Some key) (Some val)) (f_env w)))), w') \<and>
    f_env w' = snd (metered_env gm (kv_Set kv (Some key) (Some val)) (f_env w)) \<and>
    f_iters w' = f_iters w \<and> f_heap w' = f_heap w) \<and>
   (\<exists>w'. GoStorage_remove (go_db kv c gm its) key w =
      (Ok (backend_result (fst (metered_env gm (kv_Delete kv (Some key)) (f_env w)))), w') \<and>
    f_env w' = snd (metered_env gm (kv_Delete kv (Some key)) (f_env w)) \<and>
    f_iters w' = f_iters w \<and> f_heap w' = f_heap w)"
proof -
  have "short (Some key)" "short (Some val)" using assms(2,3) by (simp_all add: short_def)
  then show ?thesis by (intro conjI GoStorage_get_run GoStorage_set_run GoStorage_remove_run assms)
qed

text \<open>A store with one value, a counter as gas meter, and an empty frame.\<close>

definition one_value_store :: "(unit, string option \<times> u64) kvstore" where
  "one_value_store = \<lparr>kv_Get = \<lambda>k (v, g). (Return v, (v, g + 3)), kv_Set = \<lambda>k v (_, g). (Return (), (v, g + 5)),
     kv_Delete = \<lambda>k (_, g). (Panics (PanicValue ''ErrorOutOfGas'' ''gas''), (None, g)),
     kv_Iterator = \<lambda>a b s. (Return (Some ()), s), kv_ReverseIterator = \<lambda>a b s. (Return (Some ()), s)\<rparr>"

definition counter :: "(string option \<times> u64) gas_meter" where
  "counter s = (Return (snd s), s)"

definition quiet_ffi :: "(unit, string option \<times> u64) ffi" where
  "quiet_ffi = \<lparr>f_env = (Some ''v'', 10), f_iters = iter_init, f_heap = empty_heap, f_usedGas = None, f_out = None,
     f_out2 = None, f_errOut = None, f_iter = None\<rparr>"

lemma quiet_heap: "heap_ok (f_heap quiet_ffi)"
  by (simp add: quiet_ffi_def heap_ok_def empty_heap_def)

lemmas sample_defs = one_value_store_def counter_def quiet_ffi_def

theorem GoStorage_refines_KVStore_witness:
  "(\<exists>w'. GoStorage_get (go_db one_value_store 7 counter []) ''k'' quiet_ffi =
      (Ok (Inr (Some ''v''), with_externally_used 3), w') \<and> f_env w' = (Some ''v'', 13) \<and>
      f_iters w' = f_iters quiet_ffi \<and> blocks (f_heap w') = blocks (f_heap quiet_ffi) \<and> heap_ok (f_heap w')) \<and>
   (\<exists>w'. GoStorage_set (go_db one_value_store 7 counter []) ''k'' ''new'' quiet_ffi =
      (Ok (Inr (), with_externally_used 5), w') \<and> f_env w' = (Some ''new'', 15) \<and>
      f_iters w' = f_iters quiet_ffi \<and> f_heap w' = f_heap quiet_ffi) \<and>
   (\<exists>w'. GoStorage_remove (go_db one_value_store 7 counter []) ''k'' quiet_ffi =
      (Ok (Inl OutOfGas, with_externally_used 0), w') \<and> f_env w' = (None, 10) \<and>
      f_iters w' = f_iters quiet_ffi \<and> f_heap w' = f_heap quiet_ffi)"
proof -
  have env: "metered_env counter (kv_Get one_value_store (Some ''k'')) (f_env quiet_ffi) = (Inr (Some ''v'', 3), (Some ''v'', 13))"
    "metered_env counter (kv_Set one_value_store (Some ''k'') (Some ''new'')) (f_env quiet_ffi) = (Inr ((), 5), (Some ''new'', 15))"
    "metered_env counter (kv_Delete one_value_store (Some ''k'')) (f_env quiet_ffi) =
      (Inl (PanicValue ''ErrorOutOfGas'' ''gas''), (None, 10))"
    by (simp_all add: metered_env_def sample_defs)
  from GoStorage_refines_KVStore [OF quiet_heap, of "''k''" "''new''" counter one_value_store 7 "[]"] show ?thesis
    unfolding env by (simp add: backend_result_def panic_error_def)
qed

text \<open>The error of a full frame is short and passes the conversion to UTF-8 unchanged.\<close>

lemma from_utf8_lossy_ascii: "ascii s \<Longrightarrow> from_utf8_lossy s = s"
  by (induction s) (simp_all add: ascii_def RuneError_def)

lemma dec_limit: "dec frameLenLimit = ''32768''"
  by (simp add: frameLenLimit_def dec.simps digit_lits)

lemma limit_text:
  "from_utf8_lossy (take MAX_ERROR_LEN (''reached iterator limit ('' @ dec frameLenLimit @ '')'')) = ''reached iterator limit (32768)''"
  by (simp add: dec_limit MAX_ERROR_LEN_def RuneError_def)

lemma scan_run:
  fixes w :: "('i, 's) ffi"
  assumes "heap_ok (f_heap w)" "short start" "short stop" "length its < 2 ^ 32"
    "metered_env gm (scan_op kv order start stop) (f_env w) = (r, s)"
  shows "\<exists>res st' w'. GoStorage_scan debug (go_db kv c gm its) start stop order w = (Ok (res, st'), w') \<and>
    f_env w' = s \<and> blocks (f_heap w') = blocks (f_heap w) \<and> heap_ok (f_heap w') \<and>
    (case r of
       Inl p \<Rightarrow> res = (Inl (panic_error p), with_externally_used 0) \<and> st' = go_db kv c gm its \<and> f_iters w' = f_iters w
     | Inr (it, g) \<Rightarrow>
         if length (frame_of (f_iters w) c) < 32768
         then res = (Inr (of_nat (length its)), with_externally_used g) \<and>
           f_iters w' = (f_iters w)\<lparr>iteratorFrames := (iteratorFrames (f_iters w))(c \<mapsto> frame_of (f_iters w) c @ [it])\<rparr> \<and>
           st' = go_db kv c gm (AList.update (of_nat (length its)) \<lparr>gi_gas_meter = True, gi_reference =
             \<lparr>call_id = c, iterator_id = of_nat (length (frame_of (f_iters w) c)) + 1\<rparr>, gi_vtable = True\<rparr> its)
         else res = (Inl (UserErr ''reached iterator limit (32768)''), with_externally_used g) \<and>
           f_iters w' = f_iters w \<and> st' = go_db kv c gm its)"
proof (cases r)
  case (Inl p)
  with assms(1,5) GoStorage_scan_panic [OF assms(2,3), of gm kv order w p s debug c its] show ?thesis by auto
next
  case (Inr x)
  obtain it g where x: "x = (it, g)" by fastforce
  have limit: "frameLenLimit = 32768" "frameLenLimit \<le> 2147483647" by (simp_all add: frameLenLimit_def)
  from limit(2) show ?thesis
  proof (cases rule: storeIterator_cases [of _ "f_iters w" c it])
    case ok
    have "fst (indexToIteratorID (int (length (frame_of (f_iters w) c)))) = of_nat (length (frame_of (f_iters w) c)) + 1"
      using ok(1) limit by (simp add: indexToIteratorID_def)
    with GoStorage_scan_stored [OF assms(2-4) assms(5) [unfolded Inr x] ok(2), of debug] ok(1) Inr x limit(1) assms(1)
    show ?thesis by auto
  next
    case full
    have "length (''reached iterator limit ('' @ dec frameLenLimit @ '')'') < 2 ^ 64" by (simp add: dec_limit)
    from GoStorage_scan_full [OF assms(2,3,1) assms(5) [unfolded Inr x] full(2) this, of debug its] full(1) Inr x limit(1)
    show ?thesis unfolding limit_text by auto
  qed
qed

text \<open>
  C23: a scan ends in one of three ways.  A panic of the store is reported.  An iterator that fits
  into the frame of the call is put at its end and registered with Rust under the next free number,
  with the call and the position it was stored at.  When the frame has its 32768 iterators the scan is
  refused and frames and storage are unchanged.
\<close>

theorem GoStorage_scan_outcomes:
  fixes w :: "('i, 's) ffi"
  assumes "heap_ok (f_heap w)" "short start" "short stop" "length its < 2 ^ 32"
    "metered_env gm (scan_op kv order start stop) (f_env w) = (r, s)"
  shows "\<exists>res st' w'. GoStorage_scan debug (go_db kv c gm its) start stop order w = (Ok (res, st'), w') \<and>
    f_env w' = s \<and> blocks (f_heap w') = blocks (f_heap w) \<and>
    (case r of
       Inl p \<Rightarrow> res = (Inl (panic_error p), with_externally_used 0) \<and> st' = go_db kv c gm its \<and> f_iters w' = f_iters w
     | Inr (it, g) \<Rightarrow>
         if length (frame_of (f_iters w) c) < 32768
         then res = (Inr (of_nat (length its)), with_externally_used g) \<and>
           f_iters w' = (f_iters w)\<lparr>iteratorFrames := (iteratorFrames (f_iters w))(c \<mapsto> frame_of (f_iters w) c @ [it])\<rparr> \<and>
           st' = go_db kv c gm (AList.update (of_nat (length its)) \<lparr>gi_gas_meter = True, gi_reference =
             \<lparr>call_id = c, iterator_id = of_nat (length (frame_of (f_iters w) c)) + 1\<rparr>, gi_vtable = True\<rparr> its)
         else res = (Inl (UserErr ''reached iterator limit (32768)''), with_externally_used g) \<and>
           f_iters w' = f_iters w \<and> st' = go_db kv c gm its)"
  using scan_run [OF assms, of debug c] by blast

theorem GoStorage_scan_outcomes_witness:
  "\<exists>res st' w'. GoStorage_scan (\<lambda>_. []) (go_db one_value_store 7 counter []) None None Ascending quiet_ffi = (Ok (res, st'), w') \<and>
    f_env w' = (Some ''v'', 10) \<and> blocks (f_heap w') = blocks (f_heap quiet_ffi) \<and>
    res = (Inr 0, with_externally_used 0) \<and> iteratorFrames (f_iters w') 7 = Some [Some ()]"
proof -
  have env: "metered_env counter (scan_op one_value_store Ascending None None) (f_env quiet_ffi) = (Inr (Some (), 0), (Some ''v'', 10))"
    by (simp add: metered_env_def sample_defs scan_op_def)
  have frame: "frame_of (f_iters quiet_ffi) 7 = []" by (simp add: quiet_ffi_def iter_init_def)
  have "short None" by (simp add: short_def)
  from GoStorage_scan_outcomes [OF quiet_heap this this _ env, of "[]" "\<lambda>_. []" 7] show ?thesis
    by (auto simp: frame)
qed

text \<open>
  The address functions of the virtual machine call the function the chain provides, once, with the
  argument unchanged.  An error arrives with its text, cut at 8 KiB and made valid UTF-8, and with the
  cost; a panic arrives as out of gas or as a foreign panic.  A canonical address that is empty and a
  human address that is empty or not UTF-8 are refused.
\<close>

theorem address_functions_refine_GoAPI:
  fixes w :: "('i, 's) ffi"
  assumes "heap_ok (f_heap w)" "length a < 2 ^ 31"
    "CanonicalizeAddress api = Some fc" "fc a (f_env w) = (rc, sc)"
    "\<And>c cost err. rc = Return (c, cost, err) \<Longrightarrow> slice_len c < 2 ^ 64 \<and> error_small err"
    "HumanizeAddress api = Some fh" "fh (Some a) (f_env w) = (rh, sh)"
    "\<And>h cost err. rh = Return (h, cost, err) \<Longrightarrow> length h < 2 ^ 64 \<and> error_small err"
    "ValidateAddress api = Some fv" "fv a (f_env w) = (rv, sv)"
    "\<And>cost err. rv = Return (cost, err) \<Longrightarrow> error_small err"
  shows "(\<exists>w'. addr_canonicalize (buildAPI api) a w = (Ok (api_result conv_canonical rc), w') \<and> f_env w' = sc \<and>
      f_iters w' = f_iters w \<and> blocks (f_heap w') = blocks (f_heap w) \<and> heap_ok (f_heap w')) \<and>
    (\<exists>w'. addr_humanize (buildAPI api) a w = (Ok (api_result conv_human rh), w') \<and> f_env w' = sh \<and>
      f_iters w' = f_iters w \<and> blocks (f_heap w') = blocks (f_heap w) \<and> heap_ok (f_heap w')) \<and>
    (\<exists>w'. addr_validate (buildAPI api) a w =
        (Ok (api_result Inr (case rv of Panics p \<Rightarrow> Panics p | Return (cost, err) \<Rightarrow> Return ((), cost, err))), w') \<and> f_env w' = sv \<and>
      f_iters w' = f_iters w \<and> blocks (f_heap w') = blocks (f_heap w) \<and> heap_ok (f_heap w'))"
proof -
  have a: "short (Some a)" using assms(2) by (simp add: short_def)
  have v: "error_small err" if "(case rv of Panics p \<Rightarrow> Panics p | Return (cost, err) \<Rightarrow> Return ((), cost, err)) = Return (x, cost, err)"
    for x cost err using that assms(11) by (auto split: go.splits prod.splits)
  show ?thesis
  proof (intro conjI)
    show "\<exists>w'. addr_canonicalize (buildAPI api) a w = (Ok (api_result conv_canonical rc), w') \<and> f_env w' = sc \<and>
        f_iters w' = f_iters w \<and> blocks (f_heap w') = blocks (f_heap w) \<and> heap_ok (f_heap w')"
      by (rule addr_canonicalize_run [OF a assms(1,3,4)]) (rule assms(5))
    show "\<exists>w'. addr_humanize (buildAPI api) a w = (Ok (api_result conv_human rh), w') \<and> f_env w' = sh \<and>
        f_iters w' = f_iters w \<and> blocks (f_heap w') = blocks (f_heap w) \<and> heap_ok (f_heap w')"
      by (rule addr_humanize_run [OF a assms(1,6,7)]) (rule assms(8))
  qed (rule addr_validate_run [OF a assms(1,9,10) refl], rule v)
qed

definition address_book :: "(string option \<times> u64) GoAPI" where
  "address_book = \<lparr>HumanizeAddress = Some (\<lambda>c s. (Return ([CHR 0xFF], 9, None), s)),
     CanonicalizeAddress = Some (\<lambda>h s. (Return (Some ''raw'', 8, None), s)),
     ValidateAddress = Some (\<lambda>h s. (Return (7, Some (OtherError ''bad'')), s))\<rparr>"

theorem address_functions_refine_GoAPI_witness:
  "(\<exists>w'. addr_canonicalize (buildAPI address_book) ''a'' quiet_ffi = (Ok (Inr ''raw'', with_cost 8), w') \<and>
      f_env w' = (Some ''v'', 10) \<and> f_iters w' = f_iters quiet_ffi \<and> blocks (f_heap w') = blocks (f_heap quiet_ffi) \<and> heap_ok (f_heap w')) \<and>
    (\<exists>w'. addr_humanize (buildAPI address_book) ''a'' quiet_ffi = (Ok (Inl InvalidUtf8, with_cost 9), w') \<and>
      f_env w' = (Some ''v'', 10) \<and> f_iters w' = f_iters quiet_ffi \<and> blocks (f_heap w') = blocks (f_heap quiet_ffi) \<and> heap_ok (f_heap w')) \<and>
    (\<exists>w'. addr_validate (buildAPI address_book) ''a'' quiet_ffi = (Ok (Inl (UserErr ''bad''), with_cost 7), w') \<and>
      f_env w' = (Some ''v'', 10) \<and> f_iters w' = f_iters quiet_ffi \<and> blocks (f_heap w') = blocks (f_heap quiet_ffi) \<and> heap_ok (f_heap w'))"
proof -
  have invalid: "\<not> utf8_valid [CHR 0xFF]" 
    by (simp add: utf8_valid_def runes.simps decode_rune_def decode_multi_def rune_valid_def RuneError_def Let_def)
  have res: "api_result conv_canonical (Return (Some ''raw'', 8, None)) = (Inr ''raw'', with_cost 8)"
    "api_result conv_human (Return ([CHR 0xFF], 9, None)) = (Inl InvalidUtf8, with_cost 9)"
    "api_result Inr (Return ((), 7, Some (OtherError ''bad''))) = (Inl (UserErr ''bad'') :: BackendError + unit, with_cost 7)"
    by (simp_all add: api_result_def conv_canonical_def conv_human_def api_error_def invalid MAX_ERROR_LEN_def RuneError_def)
  have "error_small (Some (OtherError ''bad''))" by (simp add: error_small_def)
  with address_functions_refine_GoAPI [OF quiet_heap, where a = "''a''" and api = address_book
      and fc = "\<lambda>h s. (Return (Some ''raw'', 8, None), s)" and fh = "\<lambda>c s. (Return ([CHR 0xFF], 9, None), s)"
      and fv = "\<lambda>h s. (Return (7, Some (OtherError ''bad'')), s)" and rc = "Return (Some ''raw'', 8, None)"
      and rh = "Return ([CHR 0xFF], 9, None)" and rv = "Return (7, Some (OtherError ''bad''))"
      and sc = "(Some ''v'', 10)" and sh = "(Some ''v'', 10)" and sv = "(Some ''v'', 10)"]
  show ?thesis by (simp add: address_book_def res quiet_ffi_def error_small_def [of None])
qed

text \<open>
  C9: a query request written as JSON reaches the chain's \<open>Querier\<close> as the request it was, once, with the gas
  limit unchanged.  The answer, wrapped as result, error of the contract or error of the system, is
  what the virtual machine parses, with the gas the querier used; a panic of the querier arrives as out of
  gas or as a foreign panic.
\<close>

theorem query_end_to_end:
  fixes w :: "('i, 's) ffi"
  assumes "heap_ok (f_heap w)" "wf_json (QueryRequest_to_json r)" "json_depth (QueryRequest_to_json r) \<le> maxNestingDepth"
    "length (json_print (QueryRequest_to_json r)) < 2 ^ 31"
    "metered_env (QuerierGasConsumed q) (\<lambda>s. case Query q (QueryRequest_norm r) gas s of
        (Panics p, s') \<Rightarrow> (Panics p, s')
      | (Return (bz, err), s') \<Rightarrow> (ToQuerierResult bz err, s')) (f_env w) = (res, s)"
    "\<And>x g. res = Inr (x, g) \<Longrightarrow> length (json_print (QuerierResult_to_json x)) < 2 ^ 64"
  shows "\<exists>w'. query_raw parse (buildQuerier je q) (json_print (QueryRequest_to_json r)) gas w = (Ok (query_result parse res), w') \<and>
    f_env w' = s \<and> f_iters w' = f_iters w \<and> blocks (f_heap w') = blocks (f_heap w) \<and> heap_ok (f_heap w')"
proof (rule query_raw_run [OF _ assms(1) _ assms(6)])
  show "short (Some (json_print (QueryRequest_to_json r)))" using assms(4) by (simp add: short_def)
  show "metered_env (QuerierGasConsumed q) (RustQuery je q (Some (json_print (QueryRequest_to_json r))) gas) (f_env w) = (res, s)"
    using assms(5) QueryRequest_codec.unmarshal_print [OF _ assms(2,3)] by (simp add: RustQuery_def [abs_def])
qed

text \<open>A query for a balance, answered with \<open>{}\<close> for 4 gas.\<close>

definition balance_request :: QueryRequest where
  "balance_request = QueryRequest_zero\<lparr>QueryRequest_Bank := Some (BankQuery_zero\<lparr>BankQuery_Balance :=
     Some \<lparr>BalanceQuery_Address = ''me'', BalanceQuery_Denom = ''x''\<rparr>\<rparr>)\<rparr>"

definition bank :: "(string option \<times> u64) querier" where
  "bank = \<lparr>Query = \<lambda>r gas (v, g). (Return (if r = balance_request then Some ''{}'' else None, None), (v, g + 4)),
     QuerierGasConsumed = counter\<rparr>"

lemma balance_request_json:
  "QueryRequest_to_json balance_request =
     JObj [(''bank'', JObj [(''balance'', JObj [(''address'', JStr ''me''), (''denom'', JStr ''x'')])])]"
  by (simp add: balance_request_def QueryRequest_zero_def QueryRequest_to_json_def BankQuery_zero_def BankQuery_to_json_def
      BalanceQuery_to_json_def fld_def fld_omit_def json_ptr_def)

theorem query_end_to_end_witness:
  "\<exists>w'. query_raw (\<lambda>t. Inr t) (buildQuerier (\<lambda>_. []) bank) (json_print (QueryRequest_to_json balance_request)) 100 quiet_ffi =
    (Ok (Inr (SystemResult (json_print (QuerierResult_to_json \<lparr>QuerierResult_Ok = Some \<lparr>QueryResult_Ok = Some ''{}'', QueryResult_Err = []\<rparr>,
        QuerierResult_Err = None\<rparr>))), with_externally_used 4), w') \<and>
    f_env w' = (Some ''v'', 14) \<and> f_iters w' = f_iters quiet_ffi \<and> blocks (f_heap w') = blocks (f_heap quiet_ffi) \<and>
    heap_ok (f_heap w')"
proof -
  let ?answer = "\<lparr>QuerierResult_Ok = Some \<lparr>QueryResult_Ok = Some ''{}'', QueryResult_Err = []\<rparr>, QuerierResult_Err = None\<rparr>"
  have norm: "QueryRequest_norm balance_request = balance_request"
    by (simp add: QueryRequest_norm_def balance_request_def QueryRequest_zero_def)
  have request: "wf_json (QueryRequest_to_json balance_request)" "json_depth (QueryRequest_to_json balance_request) \<le> maxNestingDepth"
    "length (json_print (QueryRequest_to_json balance_request)) < 2 ^ 31"
    by (simp_all add: balance_request_json maxNestingDepth_def json_quote_def esc_ascii_def)
  have run: "metered_env (QuerierGasConsumed bank) (\<lambda>s. case Query bank (QueryRequest_norm balance_request) 100 s of
        (Panics p, s') \<Rightarrow> (Panics p, s')
      | (Return (bz, err), s') \<Rightarrow> (ToQuerierResult bz err, s')) (f_env quiet_ffi) = (Inr (?answer, 4), (Some ''v'', 14))"
    unfolding norm by (simp add: metered_env_def bank_def sample_defs ToQuerierResult_def)
  have "length (json_print (QuerierResult_to_json ?answer)) < 2 ^ 64"
    by (simp add: QuerierResult_to_json_def fld_omit_def json_ptr_def QueryResult_MarshalJSON_def queryResultImpl_to_json_def json_bytes_def
        json_quote_def esc_ascii_def b64_char_def)
  with query_end_to_end [OF quiet_heap request run, of "\<lambda>t. Inr t" "\<lambda>_. []"] show ?thesis
    by (simp add: query_result_def)
qed

end
