(* ===== verification/Vm.thy ===== *)
theory Vm
  imports Api CosmosMsg
begin

text \<open>
  The public API: \<open>lib_libwasmvm.go\<close> with the type \<open>VM\<close> and its methods, and \<open>CreateChecksum\<close> of \<open>lib.go\<close>.  A
  method that calls a contract encodes its arguments as JSON, calls the function of package \<open>api\<close> of the
  same name, charges gas for decoding the answer, decodes it and checks the payloads of the
  messages in it.
\<close>

section \<open>Checksums (lib.go)\<close>

text \<open>\<open>sha256\<close> is \<open>sha256.Sum256\<close>.\<close>

definition CreateChecksum :: "(string \<Rightarrow> string) \<Rightarrow> byte_slice \<Rightarrow> byte_slice \<times> error" where
  "CreateChecksum sha256 wasm =
     (if slice_len wasm = 0 then (Some [], Some (OtherError ''wasm bytes nil or empty''))
      else if slice_len wasm < 4 then (Some [], Some (OtherError ''wasm bytes shorter than 4 bytes''))
      else if take 4 (elems wasm) \<noteq> [CHR 0x00, CHR 0x61, CHR 0x73, CHR 0x6D]
      then (Some [], Some (OtherError ''wasm bytes do not start with Wasm magic number''))
      else (Some (sha256 (elems wasm)), None))"

section \<open>The virtual machine and its cache\<close>

record VM =
  VM_cache :: Cache
  VM_printDebug :: bool

definition NewVMWithConfig ::
    "('c, 'n, 'q, 'i, 's) cosmwasm_vm \<Rightarrow> os \<Rightarrow> VMConfig \<Rightarrow> bool \<Rightarrow> (('c, 'i, 's) sys, go_error + VM) eff" where
  "NewVMWithConfig lib os config printDebug =
     bind (InitCache lib os config) (\<lambda>r. ret (case r of
       Inl err \<Rightarrow> Inl err
     | Inr cache \<Rightarrow> Inr \<lparr>VM_cache = cache, VM_printDebug = printDebug\<rparr>))"

definition NewVM ::
    "('c, 'n, 'q, 'i, 's) cosmwasm_vm \<Rightarrow> os \<Rightarrow> string \<Rightarrow> string slice \<Rightarrow> u32 \<Rightarrow> bool \<Rightarrow> u32
      \<Rightarrow> (('c, 'i, 's) sys, go_error + VM) eff" where
  "NewVM lib os dataDir supportedCapabilities memoryLimit printDebug cacheSize =
     NewVMWithConfig lib os
       \<lparr>VMConfig_WasmLimits = WasmLimits_zero,
        VMConfig_Cache = \<lparr>CacheOptions_BaseDir = dataDir,
          CacheOptions_AvailableCapabilities = supportedCapabilities,
          CacheOptions_MemoryCacheSizeBytes = NewSizeMebi cacheSize,
          CacheOptions_InstanceMemoryLimitBytes = NewSizeMebi memoryLimit\<rparr>\<rparr> printDebug"

definition VM_Cleanup :: "VM \<Rightarrow> (('c, 'i, 's) sys, unit) eff" where
  "VM_Cleanup vm = ReleaseCache (VM_cache vm)"

definition compileCost :: "byte_slice \<Rightarrow> u64" where
  "compileCost code = 3 * 140000 * of_nat (slice_len code)"

definition VM_StoreCode ::
    "('c, 'n, 'q, 'i, 's) cosmwasm_vm \<Rightarrow> VM \<Rightarrow> byte_slice \<Rightarrow> u64 \<Rightarrow> (('c, 'i, 's) sys, byte_slice \<times> u64 \<times> error) eff" where
  "VM_StoreCode lib vm code gasLimit =
     (let gasCost = compileCost code in
      if gasLimit < gasCost then ret (None, gasCost, Some OutOfGasErrorVal)
      else bind (api_StoreCode lib (VM_cache vm) code True) (\<lambda>(checksum, err). ret (checksum, gasCost, err)))"

definition VM_SimulateStoreCode ::
    "('c, 'n, 'q, 'i, 's) cosmwasm_vm \<Rightarrow> VM \<Rightarrow> byte_slice \<Rightarrow> u64 \<Rightarrow> (('c, 'i, 's) sys, byte_slice \<times> u64 \<times> error) eff" where
  "VM_SimulateStoreCode lib vm code gasLimit =
     (let gasCost = compileCost code in
      if gasLimit < gasCost then ret (None, gasCost, Some OutOfGasErrorVal)
      else bind (api_StoreCode lib (VM_cache vm) code False) (\<lambda>(checksum, err). ret (checksum, gasCost, err)))"

definition VM_StoreCodeUnchecked ::
    "('c, 'n, 'q, 'i, 's) cosmwasm_vm \<Rightarrow> VM \<Rightarrow> byte_slice \<Rightarrow> (('c, 'i, 's) sys, byte_slice \<times> error) eff" where
  "VM_StoreCodeUnchecked lib vm code = api_StoreCodeUnchecked lib (VM_cache vm) code"

definition VM_RemoveCode ::
    "('c, 'n, 'q, 'i, 's) cosmwasm_vm \<Rightarrow> VM \<Rightarrow> byte_slice \<Rightarrow> (('c, 'i, 's) sys, error) eff" where
  "VM_RemoveCode lib vm checksum = api_RemoveCode lib (VM_cache vm) checksum"

definition VM_GetCode ::
    "('c, 'n, 'q, 'i, 's) cosmwasm_vm \<Rightarrow> VM \<Rightarrow> byte_slice \<Rightarrow> (('c, 'i, 's) sys, byte_slice \<times> error) eff" where
  "VM_GetCode lib vm checksum = api_GetCode lib (VM_cache vm) checksum"

definition VM_Pin ::
    "('c, 'n, 'q, 'i, 's) cosmwasm_vm \<Rightarrow> VM \<Rightarrow> byte_slice \<Rightarrow> (('c, 'i, 's) sys, error) eff" where
  "VM_Pin lib vm checksum = api_Pin lib (VM_cache vm) checksum"

definition VM_Unpin ::
    "('c, 'n, 'q, 'i, 's) cosmwasm_vm \<Rightarrow> VM \<Rightarrow> byte_slice \<Rightarrow> (('c, 'i, 's) sys, error) eff" where
  "VM_Unpin lib vm checksum = api_Unpin lib (VM_cache vm) checksum"

definition VM_SyncPinnedCodes ::
    "('c, 'n, 'q, 'i, 's) cosmwasm_vm \<Rightarrow> VM \<Rightarrow> byte_slice slice \<Rightarrow> (('c, 'i, 's) sys, error) eff" where
  "VM_SyncPinnedCodes lib vm checksums =
     (let buffer = fold (\<lambda>checksum buffer. buffer @ elems checksum) (elems checksums) []
      in api_SyncPinnedCodes lib (VM_cache vm) (Some buffer))"

definition VM_AnalyzeCode ::
    "('c, 'n, 'q, 'i, 's) cosmwasm_vm \<Rightarrow> VM \<Rightarrow> byte_slice \<Rightarrow> (('c, 'i, 's) sys, go_error + AnalysisReport) eff" where
  "VM_AnalyzeCode lib vm checksum = api_AnalyzeCode lib (VM_cache vm) checksum"

definition VM_GetMetrics ::
    "('c, 'n, 'q, 'i, 's) cosmwasm_vm \<Rightarrow> VM \<Rightarrow> (('c, 'i, 's) sys, go_error + Metrics) eff" where
  "VM_GetMetrics lib vm = api_GetMetrics lib (VM_cache vm)"

definition VM_GetPinnedMetrics ::
    "(string \<Rightarrow> go_error + PinnedMetrics) \<Rightarrow> ('c, 'n, 'q, 'i, 's) cosmwasm_vm \<Rightarrow> VM
      \<Rightarrow> (('c, 'i, 's) sys, go_error + PinnedMetrics) eff" where
  "VM_GetPinnedMetrics unpack lib vm = api_GetPinnedMetrics unpack lib (VM_cache vm)"

section \<open>Decoding a response\<close>

definition ReplyPayloadMaxBytes :: nat where
  "ReplyPayloadMaxBytes = 128 * 1024"

text \<open>The loop over the sub-messages: the first payload that is too large, with its index.\<close>

fun large_payload :: "nat \<Rightarrow> SubMsg list \<Rightarrow> (nat \<times> nat) option" where
  "large_payload i [] = None"
| "large_payload i (m # ms) =
     (if slice_len (SubMsg_Payload m) > ReplyPayloadMaxBytes then Some (i, slice_len (SubMsg_Payload m))
      else large_payload (Suc i) ms)"

text \<open>
  A type of responses: its decoder, its zero value and \<open>SubMessages\<close>, if it has that method.
\<close>

record 'r response =
  rs_decode :: "'r decoder"
  rs_zero :: 'r
  rs_SubMessages :: "('r \<Rightarrow> SubMsg slice) option"

text \<open>The error, the gas report afterwards and the response.\<close>

definition DeserializeResponse ::
    "(json_error \<Rightarrow> string) \<Rightarrow> u64 \<Rightarrow> UFraction \<Rightarrow> GasReport \<Rightarrow> byte_slice \<Rightarrow> 'r response
      \<Rightarrow> (error \<times> GasReport \<times> 'r) go" where
  "DeserializeResponse json_err gasLimit deserCost gasReport data response =
     go_bind (UFraction_Floor (UFraction_Mul deserCost (of_nat (slice_len data)))) (\<lambda>gasForDeserialization.
     if gasLimit < gasForDeserialization + GasReport_UsedInternally gasReport
     then Return (Some (OtherError (''insufficient gas left to deserialize contract execution result ('' @
       dec (slice_len data) @ '' bytes)'')), gasReport, rs_zero response)
     else (let gasReport = gasReport\<lparr>
         GasReport_UsedInternally := GasReport_UsedInternally gasReport + gasForDeserialization,
         GasReport_Remaining := GasReport_Remaining gasReport - gasForDeserialization\<rparr> in
       go_bind (json_Unmarshal (rs_decode response) (elems data) (rs_zero response)) (\<lambda>r. Return (case r of
         Inl err \<Rightarrow> (Some (OtherError (json_err err)), gasReport, rs_zero response)
       | Inr x \<Rightarrow> (case rs_SubMessages response of
           None \<Rightarrow> (None, gasReport, x)
         | Some subMessages \<Rightarrow> (case large_payload 0 (elems (subMessages x)) of
             None \<Rightarrow> (None, gasReport, x)
           | Some (i, n) \<Rightarrow> (Some (OtherError (''reply contains submessage at index '' @ dec i @
               '' with payload larger than '' @ dec ReplyPayloadMaxBytes @ '' bytes: '' @ dec n @ '' bytes'')),
               gasReport, x)))))))"

definition ContractResult_response :: "ContractResult response" where
  "ContractResult_response = \<lparr>rs_decode = ContractResult_decode, rs_zero = ContractResult_zero,
     rs_SubMessages = Some ContractResult_SubMessages\<rparr>"

definition IBCBasicResult_response :: "IBCBasicResult response" where
  "IBCBasicResult_response = \<lparr>rs_decode = IBCBasicResult_decode, rs_zero = IBCBasicResult_zero,
     rs_SubMessages = Some IBCBasicResult_SubMessages\<rparr>"

definition IBCReceiveResult_response :: "IBCReceiveResult response" where
  "IBCReceiveResult_response = \<lparr>rs_decode = IBCReceiveResult_decode, rs_zero = IBCReceiveResult_zero,
     rs_SubMessages = Some IBCReceiveResult_SubMessages\<rparr>"

definition IBCChannelOpenResult_response :: "IBCChannelOpenResult response" where
  "IBCChannelOpenResult_response = \<lparr>rs_decode = IBCChannelOpenResult_decode, rs_zero = IBCChannelOpenResult_zero,
     rs_SubMessages = None\<rparr>"

definition QueryResult_response :: "QueryResult response" where
  "QueryResult_response = \<lparr>rs_decode = QueryResult_decode, rs_zero = QueryResult_zero, rs_SubMessages = None\<rparr>"

section \<open>Calls into contracts\<close>

text \<open>What the methods get from the chain; \<open>ch_json_err\<close> is the text of an error of \<open>encoding/json\<close>.\<close>

record ('i, 's) chain =
  ch_store :: "('i, 's) kvstore"
  ch_goapi :: "'s GoAPI"
  ch_querier :: "'s querier"
  ch_gasMeter :: "'s gas_meter"
  ch_json_err :: "json_error \<Rightarrow> string"

definition host_of :: "('i, 's) chain \<Rightarrow> ('i, 's) host" where
  "host_of ch = \<lparr>h_json_err = ch_json_err ch, h_gasMeter = ch_gasMeter ch, h_store = ch_store ch,
     h_api = Some (ch_goapi ch), h_querier = Some (ch_querier ch)\<rparr>"

type_synonym 'r vm_result = "'r option \<times> u64 \<times> error"

text \<open>How every method begins and ends: \<open>json.Marshal\<close> of an argument, and the decoding of the result.\<close>

definition marshal :: "json \<Rightarrow> (byte_slice \<Rightarrow> ('w, 'r vm_result) eff) \<Rightarrow> ('w, 'r vm_result) eff" where
  "marshal j k = (case json_Marshal j of
     Inl err \<Rightarrow> ret (None, 0, Some (OtherError err))
   | Inr bin \<Rightarrow> k (Some bin))"

definition respond ::
    "'r response \<Rightarrow> ('i, 's) chain \<Rightarrow> u64 \<Rightarrow> UFraction \<Rightarrow> api_result_t \<Rightarrow> ('w, 'r vm_result) eff" where
  "respond response ch gasLimit deserCost res = (case res of (data, gasReport, err) \<Rightarrow> (case err of
     Some e \<Rightarrow> ret (None, GasReport_UsedInternally gasReport, Some e)
   | None \<Rightarrow> (case DeserializeResponse (ch_json_err ch) gasLimit deserCost gasReport data response of
       Panics p \<Rightarrow> panic p
     | Return (Some e, gasReport, _) \<Rightarrow> ret (None, GasReport_UsedInternally gasReport, Some e)
     | Return (None, gasReport, result) \<Rightarrow> ret (Some result, GasReport_UsedInternally gasReport, None))))"

definition VM_Instantiate ::
    "('c, 'n, 'q, 'i, 's) cosmwasm_vm \<Rightarrow> VM \<Rightarrow> byte_slice \<Rightarrow> Env \<Rightarrow> MessageInfo \<Rightarrow> byte_slice \<Rightarrow> ('i, 's) chain \<Rightarrow> u64 \<Rightarrow> UFraction
      \<Rightarrow> (('c, 'i, 's) sys, ContractResult vm_result) eff" where
  "VM_Instantiate lib vm checksum envir info initMsg ch gasLimit deserCost =
     marshal (Env_to_json envir) (\<lambda>envBin.
     marshal (MessageInfo_to_json info) (\<lambda>infoBin.
     bind (api_Instantiate lib (VM_cache vm) checksum envBin infoBin initMsg (host_of ch) gasLimit (VM_printDebug vm))
       (respond ContractResult_response ch gasLimit deserCost)))"

definition VM_Execute ::
    "('c, 'n, 'q, 'i, 's) cosmwasm_vm \<Rightarrow> VM \<Rightarrow> byte_slice \<Rightarrow> Env \<Rightarrow> MessageInfo \<Rightarrow> byte_slice \<Rightarrow> ('i, 's) chain \<Rightarrow> u64 \<Rightarrow> UFraction
      \<Rightarrow> (('c, 'i, 's) sys, ContractResult vm_result) eff" where
  "VM_Execute lib vm checksum envir info executeMsg ch gasLimit deserCost =
     marshal (Env_to_json envir) (\<lambda>envBin.
     marshal (MessageInfo_to_json info) (\<lambda>infoBin.
     bind (api_Execute lib (VM_cache vm) checksum envBin infoBin executeMsg (host_of ch) gasLimit (VM_printDebug vm))
       (respond ContractResult_response ch gasLimit deserCost)))"

definition VM_Query ::
    "('c, 'n, 'q, 'i, 's) cosmwasm_vm \<Rightarrow> VM \<Rightarrow> byte_slice \<Rightarrow> Env \<Rightarrow> byte_slice \<Rightarrow> ('i, 's) chain \<Rightarrow> u64 \<Rightarrow> UFraction
      \<Rightarrow> (('c, 'i, 's) sys, QueryResult vm_result) eff" where
  "VM_Query lib vm checksum envir queryMsg ch gasLimit deserCost =
     marshal (Env_to_json envir) (\<lambda>envBin.
     bind (api_Query lib (VM_cache vm) checksum envBin queryMsg (host_of ch) gasLimit (VM_printDebug vm))
       (respond QueryResult_response ch gasLimit deserCost))"

definition VM_Migrate ::
    "('c, 'n, 'q, 'i, 's) cosmwasm_vm \<Rightarrow> VM \<Rightarrow> byte_slice \<Rightarrow> Env \<Rightarrow> byte_slice \<Rightarrow> ('i, 's) chain \<Rightarrow> u64 \<Rightarrow> UFraction
      \<Rightarrow> (('c, 'i, 's) sys, ContractResult vm_result) eff" where
  "VM_Migrate lib vm checksum envir migrateMsg ch gasLimit deserCost =
     marshal (Env_to_json envir) (\<lambda>envBin.
     bind (api_Migrate lib (VM_cache vm) checksum envBin migrateMsg (host_of ch) gasLimit (VM_printDebug vm))
       (respond ContractResult_response ch gasLimit deserCost))"

definition VM_MigrateWithInfo ::
    "('c, 'n, 'q, 'i, 's) cosmwasm_vm \<Rightarrow> VM \<Rightarrow> byte_slice \<Rightarrow> Env \<Rightarrow> byte_slice \<Rightarrow> MigrateInfo \<Rightarrow> ('i, 's) chain \<Rightarrow> u64 \<Rightarrow> UFraction
      \<Rightarrow> (('c, 'i, 's) sys, ContractResult vm_result) eff" where
  "VM_MigrateWithInfo lib vm checksum envir migrateMsg migrateInfo ch gasLimit deserCost =
     marshal (Env_to_json envir) (\<lambda>envBin.
     marshal (MigrateInfo_to_json migrateInfo) (\<lambda>migrateBin.
     bind (api_MigrateWithInfo lib (VM_cache vm) checksum envBin migrateMsg migrateBin (host_of ch) gasLimit (VM_printDebug vm))
       (respond ContractResult_response ch gasLimit deserCost)))"

definition VM_Sudo ::
    "('c, 'n, 'q, 'i, 's) cosmwasm_vm \<Rightarrow> VM \<Rightarrow> byte_slice \<Rightarrow> Env \<Rightarrow> byte_slice \<Rightarrow> ('i, 's) chain \<Rightarrow> u64 \<Rightarrow> UFraction
      \<Rightarrow> (('c, 'i, 's) sys, ContractResult vm_result) eff" where
  "VM_Sudo lib vm checksum envir sudoMsg ch gasLimit deserCost =
     marshal (Env_to_json envir) (\<lambda>envBin.
     bind (api_Sudo lib (VM_cache vm) checksum envBin sudoMsg (host_of ch) gasLimit (VM_printDebug vm))
       (respond ContractResult_response ch gasLimit deserCost))"

definition VM_Reply ::
    "('c, 'n, 'q, 'i, 's) cosmwasm_vm \<Rightarrow> VM \<Rightarrow> byte_slice \<Rightarrow> Env \<Rightarrow> Reply \<Rightarrow> ('i, 's) chain \<Rightarrow> u64 \<Rightarrow> UFraction
      \<Rightarrow> (('c, 'i, 's) sys, ContractResult vm_result) eff" where
  "VM_Reply lib vm checksum envir rply ch gasLimit deserCost =
     marshal (Env_to_json envir) (\<lambda>envBin.
     marshal (Reply_to_json rply) (\<lambda>replyBin.
     bind (api_Reply lib (VM_cache vm) checksum envBin replyBin (host_of ch) gasLimit (VM_printDebug vm))
       (respond ContractResult_response ch gasLimit deserCost)))"

definition VM_IBCChannelOpen ::
    "('c, 'n, 'q, 'i, 's) cosmwasm_vm \<Rightarrow> VM \<Rightarrow> byte_slice \<Rightarrow> Env \<Rightarrow> IBCChannelOpenMsg \<Rightarrow> ('i, 's) chain \<Rightarrow> u64 \<Rightarrow> UFraction
      \<Rightarrow> (('c, 'i, 's) sys, IBCChannelOpenResult vm_result) eff" where
  "VM_IBCChannelOpen lib vm checksum envir msg ch gasLimit deserCost =
     marshal (Env_to_json envir) (\<lambda>envBin.
     marshal (IBCChannelOpenMsg_to_json msg) (\<lambda>msgBin.
     bind (api_IBCChannelOpen lib (VM_cache vm) checksum envBin msgBin (host_of ch) gasLimit (VM_printDebug vm))
       (respond IBCChannelOpenResult_response ch gasLimit deserCost)))"

definition VM_IBCChannelConnect ::
    "('c, 'n, 'q, 'i, 's) cosmwasm_vm \<Rightarrow> VM \<Rightarrow> byte_slice \<Rightarrow> Env \<Rightarrow> IBCChannelConnectMsg \<Rightarrow> ('i, 's) chain \<Rightarrow> u64 \<Rightarrow> UFraction
      \<Rightarrow> (('c, 'i, 's) sys, IBCBasicResult vm_result) eff" where
  "VM_IBCChannelConnect lib vm checksum envir msg ch gasLimit deserCost =
     marshal (Env_to_json envir) (\<lambda>envBin.
     marshal (IBCChannelConnectMsg_to_json msg) (\<lambda>msgBin.
     bind (api_IBCChannelConnect lib (VM_cache vm) checksum envBin msgBin (host_of ch) gasLimit (VM_printDebug vm))
       (respond IBCBasicResult_response ch gasLimit deserCost)))"

definition VM_IBCChannelClose ::
    "('c, 'n, 'q, 'i, 's) cosmwasm_vm \<Rightarrow> VM \<Rightarrow> byte_slice \<Rightarrow> Env \<Rightarrow> IBCChannelCloseMsg \<Rightarrow> ('i, 's) chain \<Rightarrow> u64 \<Rightarrow> UFraction
      \<Rightarrow> (('c, 'i, 's) sys, IBCBasicResult vm_result) eff" where
  "VM_IBCChannelClose lib vm checksum envir msg ch gasLimit deserCost =
     marshal (Env_to_json envir) (\<lambda>envBin.
     marshal (IBCChannelCloseMsg_to_json msg) (\<lambda>msgBin.
     bind (api_IBCChannelClose lib (VM_cache vm) checksum envBin msgBin (host_of ch) gasLimit (VM_printDebug vm))
       (respond IBCBasicResult_response ch gasLimit deserCost)))"

definition VM_IBCPacketReceive ::
    "('c, 'n, 'q, 'i, 's) cosmwasm_vm \<Rightarrow> VM \<Rightarrow> byte_slice \<Rightarrow> Env \<Rightarrow> IBCPacketReceiveMsg \<Rightarrow> ('i, 's) chain \<Rightarrow> u64 \<Rightarrow> UFraction
      \<Rightarrow> (('c, 'i, 's) sys, IBCReceiveResult vm_result) eff" where
  "VM_IBCPacketReceive lib vm checksum envir msg ch gasLimit deserCost =
     marshal (Env_to_json envir) (\<lambda>envBin.
     marshal (IBCPacketReceiveMsg_to_json msg) (\<lambda>msgBin.
     bind (api_IBCPacketReceive lib (VM_cache vm) checksum envBin msgBin (host_of ch) gasLimit (VM_printDebug vm))
       (respond IBCReceiveResult_response ch gasLimit deserCost)))"

definition VM_IBCPacketAck ::
    "('c, 'n, 'q, 'i, 's) cosmwasm_vm \<Rightarrow> VM \<Rightarrow> byte_slice \<Rightarrow> Env \<Rightarrow> IBCPacketAckMsg \<Rightarrow> ('i, 's) chain \<Rightarrow> u64 \<Rightarrow> UFraction
      \<Rightarrow> (('c, 'i, 's) sys, IBCBasicResult vm_result) eff" where
  "VM_IBCPacketAck lib vm checksum envir msg ch gasLimit deserCost =
     marshal (Env_to_json envir) (\<lambda>envBin.
     marshal (IBCPacketAckMsg_to_json msg) (\<lambda>msgBin.
     bind (api_IBCPacketAck lib (VM_cache vm) checksum envBin msgBin (host_of ch) gasLimit (VM_printDebug vm))
       (respond IBCBasicResult_response ch gasLimit deserCost)))"

definition VM_IBCPacketTimeout ::
    "('c, 'n, 'q, 'i, 's) cosmwasm_vm \<Rightarrow> VM \<Rightarrow> byte_slice \<Rightarrow> Env \<Rightarrow> IBCPacketTimeoutMsg \<Rightarrow> ('i, 's) chain \<Rightarrow> u64 \<Rightarrow> UFraction
      \<Rightarrow> (('c, 'i, 's) sys, IBCBasicResult vm_result) eff" where
  "VM_IBCPacketTimeout lib vm checksum envir msg ch gasLimit deserCost =
     marshal (Env_to_json envir) (\<lambda>envBin.
     marshal (IBCPacketTimeoutMsg_to_json msg) (\<lambda>msgBin.
     bind (api_IBCPacketTimeout lib (VM_cache vm) checksum envBin msgBin (host_of ch) gasLimit (VM_printDebug vm))
       (respond IBCBasicResult_response ch gasLimit deserCost)))"

definition VM_IBCSourceCallback ::
    "('c, 'n, 'q, 'i, 's) cosmwasm_vm \<Rightarrow> VM \<Rightarrow> byte_slice \<Rightarrow> Env \<Rightarrow> IBCSourceCallbackMsg \<Rightarrow> ('i, 's) chain \<Rightarrow> u64 \<Rightarrow> UFraction
      \<Rightarrow> (('c, 'i, 's) sys, IBCBasicResult vm_result) eff" where
  "VM_IBCSourceCallback lib vm checksum envir msg ch gasLimit deserCost =
     marshal (Env_to_json envir) (\<lambda>envBin.
     marshal (IBCSourceCallbackMsg_to_json msg) (\<lambda>msgBin.
     bind (api_IBCSourceCallback lib (VM_cache vm) checksum envBin msgBin (host_of ch) gasLimit (VM_printDebug vm))
       (respond IBCBasicResult_response ch gasLimit deserCost)))"

definition VM_IBCDestinationCallback ::
    "('c, 'n, 'q, 'i, 's) cosmwasm_vm \<Rightarrow> VM \<Rightarrow> byte_slice \<Rightarrow> Env \<Rightarrow> IBCDestinationCallbackMsg \<Rightarrow> ('i, 's) chain \<Rightarrow> u64 \<Rightarrow> UFraction
      \<Rightarrow> (('c, 'i, 's) sys, IBCBasicResult vm_result) eff" where
  "VM_IBCDestinationCallback lib vm checksum envir msg ch gasLimit deserCost =
     marshal (Env_to_json envir) (\<lambda>envBin.
     marshal (IBCDestinationCallbackMsg_to_json msg) (\<lambda>msgBin.
     bind (api_IBCDestinationCallback lib (VM_cache vm) checksum envBin msgBin (host_of ch) gasLimit (VM_printDebug vm))
       (respond IBCBasicResult_response ch gasLimit deserCost)))"

definition VM_IBC2PacketAck ::
    "('c, 'n, 'q, 'i, 's) cosmwasm_vm \<Rightarrow> VM \<Rightarrow> byte_slice \<Rightarrow> Env \<Rightarrow> IBC2AcknowledgeMsg \<Rightarrow> ('i, 's) chain \<Rightarrow> u64 \<Rightarrow> UFraction
      \<Rightarrow> (('c, 'i, 's) sys, IBCBasicResult vm_result) eff" where
  "VM_IBC2PacketAck lib vm checksum envir msg ch gasLimit deserCost =
     marshal (Env_to_json envir) (\<lambda>envBin.
     marshal (IBC2AcknowledgeMsg_to_json msg) (\<lambda>msgBin.
     bind (api_IBC2PacketAck lib (VM_cache vm) checksum envBin msgBin (host_of ch) gasLimit (VM_printDebug vm))
       (respond IBCBasicResult_response ch gasLimit deserCost)))"

definition VM_IBC2PacketReceive ::
    "('c, 'n, 'q, 'i, 's) cosmwasm_vm \<Rightarrow> VM \<Rightarrow> byte_slice \<Rightarrow> Env \<Rightarrow> IBC2PacketReceiveMsg \<Rightarrow> ('i, 's) chain \<Rightarrow> u64 \<Rightarrow> UFraction
      \<Rightarrow> (('c, 'i, 's) sys, IBCReceiveResult vm_result) eff" where
  "VM_IBC2PacketReceive lib vm checksum envir msg ch gasLimit deserCost =
     marshal (Env_to_json envir) (\<lambda>envBin.
     marshal (IBC2PacketReceiveMsg_to_json msg) (\<lambda>msgBin.
     bind (api_IBC2PacketReceive lib (VM_cache vm) checksum envBin msgBin (host_of ch) gasLimit (VM_printDebug vm))
       (respond IBCReceiveResult_response ch gasLimit deserCost)))"

definition VM_IBC2PacketTimeout ::
    "('c, 'n, 'q, 'i, 's) cosmwasm_vm \<Rightarrow> VM \<Rightarrow> byte_slice \<Rightarrow> Env \<Rightarrow> IBC2PacketTimeoutMsg \<Rightarrow> ('i, 's) chain \<Rightarrow> u64 \<Rightarrow> UFraction
      \<Rightarrow> (('c, 'i, 's) sys, IBCBasicResult vm_result) eff" where
  "VM_IBC2PacketTimeout lib vm checksum envir msg ch gasLimit deserCost =
     marshal (Env_to_json envir) (\<lambda>envBin.
     marshal (IBC2PacketTimeoutMsg_to_json msg) (\<lambda>msgBin.
     bind (api_IBC2PacketTimeout lib (VM_cache vm) checksum envBin msgBin (host_of ch) gasLimit (VM_printDebug vm))
       (respond IBCBasicResult_response ch gasLimit deserCost)))"

definition VM_IBC2PacketSend ::
    "('c, 'n, 'q, 'i, 's) cosmwasm_vm \<Rightarrow> VM \<Rightarrow> byte_slice \<Rightarrow> Env \<Rightarrow> IBC2PacketSendMsg \<Rightarrow> ('i, 's) chain \<Rightarrow> u64 \<Rightarrow> UFraction
      \<Rightarrow> (('c, 'i, 's) sys, IBCBasicResult vm_result) eff" where
  "VM_IBC2PacketSend lib vm checksum envir msg ch gasLimit deserCost =
     marshal (Env_to_json envir) (\<lambda>envBin.
     marshal (IBC2PacketSendMsg_to_json msg) (\<lambda>msgBin.
     bind (api_IBC2PacketSend lib (VM_cache vm) checksum envBin msgBin (host_of ch) gasLimit (VM_printDebug vm))
       (respond IBCBasicResult_response ch gasLimit deserCost)))"

lemmas VM_call_defs = VM_Instantiate_def VM_Execute_def VM_Query_def VM_Migrate_def VM_MigrateWithInfo_def VM_Sudo_def VM_Reply_def VM_IBCChannelOpen_def VM_IBCChannelConnect_def VM_IBCChannelClose_def VM_IBCPacketReceive_def VM_IBCPacketAck_def VM_IBCPacketTimeout_def VM_IBCSourceCallback_def VM_IBCDestinationCallback_def VM_IBC2PacketAck_def VM_IBC2PacketReceive_def VM_IBC2PacketTimeout_def VM_IBC2PacketSend_def

section \<open>What a method returns\<close>

lemma marshal_print [simp]: "marshal j k = k (Some (json_print j))"
  by (simp add: marshal_def json_Marshal_def)

text \<open>Decoding does not touch the state.\<close>

lemma respond_pure: "respond response ch gas cost res w = (fst (respond response ch gas cost res ()), w)"
  by (simp add: respond_def ret_def panic_def split: prod.split option.split go.split)

text \<open>
  A method \<open>m\<close> calls the function \<open>f\<close> of the contract with \<open>args\<close> in an iterator frame of its own, closes the
  iterators of the frame and returns what the response decodes to.
\<close>

fun calls_contract ::
    "('c, 'n, 'q, 'i, 's) cosmwasm_vm \<Rightarrow> nat \<Rightarrow> byte_slice \<Rightarrow> ('i, 's) chain \<Rightarrow> u64 \<Rightarrow> UFraction \<Rightarrow> bool \<Rightarrow> ('c, 'i, 's) sys \<Rightarrow> 'r response
      \<Rightarrow> (('c, 'i, 's) sys, 'r vm_result) eff \<times> vm_fn \<times> byte_slice list \<Rightarrow> bool" where
  "calls_contract lib p cs ch gas cost dbg w response (m, f, args) \<longleftrightarrow> (\<exists>r w1 e s st w'.
     guarded_call lib f p cs args (host_of ch) gas dbg (latestCallID (f_iters (sys_ffi w)) + 1) (started w) = (Ok r, w1) \<and>
     endCall (close_iterator (vm_ops lib)) (latestCallID (f_iters (sys_ffi w)) + 1) (f_iters (sys_ffi w1)) (f_env (sys_ffi w1))
       = ((e, s), st) \<and>
     m w = ((case e of Return _ \<Rightarrow> fst (respond response ch gas cost (go_result r) ()) | Panics q \<Rightarrow> Panic q), w') \<and>
     f_env (sys_ffi w') = s \<and> sys_caches w' = sys_caches w1 \<and> call_done p w w')"

definition complete_chain :: "('i, 's) chain \<Rightarrow> bool" where
  "complete_chain ch \<longleftrightarrow> HumanizeAddress (ch_goapi ch) \<noteq> None \<and> CanonicalizeAddress (ch_goapi ch) \<noteq> None \<and>
     ValidateAddress (ch_goapi ch) \<noteq> None"

lemma calls_contractI:
  fixes w :: "('c, 'i, 's) sys" and lib :: "('c, 'n, 'q, 'i, 's) cosmwasm_vm"
  assumes "vm_sound lib" "complete_chain ch" "heap_ok (heap_of w)" "Cache_ptr cache = Some p" "sys_caches w p \<noteq> None"
    "(m, f, args) \<in> set (entry_points lib cache cs a1 a2 a3 (host_of ch) gas dbg)"
  shows "calls_contract lib p cs ch gas cost dbg w response (bind m (respond response ch gas cost), f, args)"
proof -
  have "complete_host (host_of ch)" using assms(2) by (simp add: complete_host_def complete_chain_def host_of_def)
  from entry_point_spec [OF assms(1) this assms(3-6)] obtain r w1 e s st w' where
    run: "guarded_call lib f p cs args (host_of ch) gas dbg (latestCallID (f_iters (sys_ffi w)) + 1) (started w) = (Ok r, w1)"
    "endCall (close_iterator (vm_ops lib)) (latestCallID (f_iters (sys_ffi w)) + 1) (f_iters (sys_ffi w1)) (f_env (sys_ffi w1)) = ((e, s), st)"
    "m w = ((case e of Return _ \<Rightarrow> Ok (go_result r) | Panics q \<Rightarrow> Panic q), w')" "f_env (sys_ffi w') = s"
    "sys_caches w' = sys_caches w1" "call_done p w w'"
    by blast
  have "bind m (respond response ch gas cost) w =
      ((case e of Return _ \<Rightarrow> fst (respond response ch gas cost (go_result r) ()) | Panics q \<Rightarrow> Panic q), w')"
    using run(3) by (cases e) (simp_all add: respond_pure [of response ch gas cost _ w'])
  with run show ?thesis unfolding calls_contract.simps by blast
qed

text \<open>The methods that call a contract, by the type of their result, with the function and the arguments meant for it.\<close>

abbreviation text_of :: "json \<Rightarrow> byte_slice" where
  "text_of j \<equiv> Some (json_print j)"

definition contract_methods where
  "contract_methods lib vm cs envir info msg minfo rply ch gas cost =
     [(VM_Instantiate lib vm cs envir info msg ch gas cost, call_instantiate_raw,
        [text_of (Env_to_json envir), text_of (MessageInfo_to_json info), msg]),
      (VM_Execute lib vm cs envir info msg ch gas cost, call_execute_raw,
        [text_of (Env_to_json envir), text_of (MessageInfo_to_json info), msg]),
      (VM_Migrate lib vm cs envir msg ch gas cost, call_migrate_raw, [text_of (Env_to_json envir), msg]),
      (VM_MigrateWithInfo lib vm cs envir msg minfo ch gas cost, call_migrate_with_info_raw,
        [text_of (Env_to_json envir), msg, text_of (MigrateInfo_to_json minfo)]),
      (VM_Sudo lib vm cs envir msg ch gas cost, call_sudo_raw, [text_of (Env_to_json envir), msg]),
      (VM_Reply lib vm cs envir rply ch gas cost, call_reply_raw, [text_of (Env_to_json envir), text_of (Reply_to_json rply)])]"

definition ibc_methods where
  "ibc_methods lib vm cs envir m1 m2 m3 m4 m5 m6 ch gas cost =
     [(VM_IBCChannelConnect lib vm cs envir m1 ch gas cost, call_ibc_channel_connect_raw,
        [text_of (Env_to_json envir), text_of (IBCChannelConnectMsg_to_json m1)]),
      (VM_IBCChannelClose lib vm cs envir m2 ch gas cost, call_ibc_channel_close_raw,
        [text_of (Env_to_json envir), text_of (IBCChannelCloseMsg_to_json m2)]),
      (VM_IBCPacketAck lib vm cs envir m3 ch gas cost, call_ibc_packet_ack_raw,
        [text_of (Env_to_json envir), text_of (IBCPacketAckMsg_to_json m3)]),
      (VM_IBCPacketTimeout lib vm cs envir m4 ch gas cost, call_ibc_packet_timeout_raw,
        [text_of (Env_to_json envir), text_of (IBCPacketTimeoutMsg_to_json m4)]),
      (VM_IBCSourceCallback lib vm cs envir m5 ch gas cost, call_ibc_source_callback_raw,
        [text_of (Env_to_json envir), text_of (IBCSourceCallbackMsg_to_json m5)]),
      (VM_IBCDestinationCallback lib vm cs envir m6 ch gas cost, call_ibc_destination_callback_raw,
        [text_of (Env_to_json envir), text_of (IBCDestinationCallbackMsg_to_json m6)])]"

definition ibc2_methods where
  "ibc2_methods lib vm cs envir m1 m2 m3 ch gas cost =
     [(VM_IBC2PacketAck lib vm cs envir m1 ch gas cost, call_ibc2_packet_ack_raw,
        [text_of (Env_to_json envir), text_of (IBC2AcknowledgeMsg_to_json m1)]),
      (VM_IBC2PacketTimeout lib vm cs envir m2 ch gas cost, call_ibc2_packet_timeout_raw,
        [text_of (Env_to_json envir), text_of (IBC2PacketTimeoutMsg_to_json m2)]),
      (VM_IBC2PacketSend lib vm cs envir m3 ch gas cost, call_ibc2_packet_send_raw,
        [text_of (Env_to_json envir), text_of (IBC2PacketSendMsg_to_json m3)])]"

definition receive_methods where
  "receive_methods lib vm cs envir m1 m2 ch gas cost =
     [(VM_IBCPacketReceive lib vm cs envir m1 ch gas cost, call_ibc_packet_receive_raw,
        [text_of (Env_to_json envir), text_of (IBCPacketReceiveMsg_to_json m1)]),
      (VM_IBC2PacketReceive lib vm cs envir m2 ch gas cost, call_ibc2_packet_receive_raw,
        [text_of (Env_to_json envir), text_of (IBC2PacketReceiveMsg_to_json m2)])]"

section \<open>Properties\<close>


text \<open>A chain that counts writes and answers no other call.\<close>

definition counting_chain :: "(unit, u64) chain" where
  "counting_chain = \<lparr>ch_store = h_store counting_host, ch_goapi = the (h_api counting_host), ch_querier = the (h_querier counting_host),
     ch_gasMeter = h_gasMeter counting_host, ch_json_err = \<lambda>_. []\<rparr>"

lemma counting_chain_complete: "complete_chain counting_chain"
  by (simp add: complete_chain_def counting_chain_def counting_host_def)

definition sample_VM :: VM where
  "sample_VM = \<lparr>VM_cache = fresh_cache, VM_printDebug = False\<rparr>"


section \<open>The gas for decoding\<close>

text \<open>The numbers of the gas report as natural numbers, and the cost of \<open>n\<close> bytes, rounded down.\<close>

definition deser_gas :: "UFraction \<Rightarrow> nat \<Rightarrow> nat" where
  "deser_gas cost n = unat (UFraction_Numerator cost) * n div unat (UFraction_Denominator cost)"

lemma Floor_Mul:
  assumes "UFraction_Denominator cost \<noteq> 0" "unat (UFraction_Numerator cost) * n < 2 ^ 64"
  obtains g where "UFraction_Floor (UFraction_Mul cost (of_nat n)) = Return g" "unat g = deser_gas cost n"
proof -
  have "unat (UFraction_Numerator cost * of_nat n) = unat (UFraction_Numerator cost) * n"
  proof (cases "n < 2 ^ 64")
    case True
    then show ?thesis using assms(2) by (simp add: unat_mult_lem [THEN iffD1] unat_of_nat_64)
  next
    case False
    then have "UFraction_Numerator cost = 0"
      using assms(2) by (metis (no_types) One_nat_def Suc_leI le_trans linorder_not_less mult.commute mult_le_mono2 nat_mult_1_right neq0_conv not_less unat_eq_zero)
    then show ?thesis by simp
  qed
  then show ?thesis
    using assms(1) that by (simp add: UFraction_Floor_def UFraction_Mul_def deser_gas_def unat_div)
qed

lemma DeserializeResponse_refused:
  assumes "UFraction_Floor (UFraction_Mul cost (of_nat (slice_len data))) = Return g"
    "limit < g + GasReport_UsedInternally rep"
  shows "DeserializeResponse je limit cost rep data response =
    Return (Some (OtherError (''insufficient gas left to deserialize contract execution result ('' @
       dec (slice_len data) @ '' bytes)'')), rep, rs_zero response)"
  using assms by (simp add: DeserializeResponse_def)

lemma DeserializeResponse_charged:
  assumes "UFraction_Floor (UFraction_Mul cost (of_nat (slice_len data))) = Return g"
    "\<not> limit < g + GasReport_UsedInternally rep"
    "DeserializeResponse je limit cost rep data response = Return (err, rep', x)"
  shows "rep' = rep\<lparr>GasReport_UsedInternally := GasReport_UsedInternally rep + g, GasReport_Remaining := GasReport_Remaining rep - g\<rparr>"
proof (cases "json_Unmarshal (rs_decode response) (elems data) (rs_zero response)")
  case (Return r)
  with assms show ?thesis
    by (cases r) (simp_all add: DeserializeResponse_def Let_def split: option.splits prod.splits)
qed (use assms in \<open>simp add: DeserializeResponse_def Let_def\<close>)



section \<open>What is accepted\<close>

lemma large_payload_None:
  "large_payload i ms = None \<longleftrightarrow> (\<forall>m\<in>set ms. slice_len (SubMsg_Payload m) \<le> ReplyPayloadMaxBytes)"
  by (induction i ms rule: large_payload.induct) auto

lemma large_payload_Some:
  "large_payload i ms = Some (j, n) \<Longrightarrow> i \<le> j \<and> j - i < length ms \<and> n = slice_len (SubMsg_Payload (ms ! (j - i))) \<and>
    n > ReplyPayloadMaxBytes \<and> (\<forall>k < j - i. slice_len (SubMsg_Payload (ms ! k)) \<le> ReplyPayloadMaxBytes)"
proof (induction i ms rule: large_payload.induct)
  case (2 i m ms)
  show ?case
  proof (cases "slice_len (SubMsg_Payload m) > ReplyPayloadMaxBytes")
    case False
    with 2 have *: "Suc i \<le> j" "j - Suc i < length ms" "n = slice_len (SubMsg_Payload (ms ! (j - Suc i)))"
      "n > ReplyPayloadMaxBytes" "\<forall>k < j - Suc i. slice_len (SubMsg_Payload (ms ! k)) \<le> ReplyPayloadMaxBytes" by auto
    then have "j - i = Suc (j - Suc i)" by simp
    with * False show ?thesis by (auto simp: All_less_Suc2)
  qed (use 2 in auto)
qed simp

text \<open>
  C18: a contract's answer that is the JSON text of a result comes out of \<open>DeserializeResponse\<close> as that result when
  the gas suffices, except when a message in it has a payload of more than 128 KiB: then the error
  names the first such message and its size.
\<close>

theorem DeserializeResponse_ContractResult:
  assumes "ContractResult_valid r" "wf_json (ContractResult_to_json r)" "json_depth (ContractResult_to_json r) \<le> maxNestingDepth"
    "data = json_print (ContractResult_to_json r)" "UFraction_Denominator cost \<noteq> 0" "unat (UFraction_Numerator cost) * length data < 2 ^ 64"
    "unat (GasReport_UsedInternally rep) + deser_gas cost (length data) \<le> unat limit"
  shows "\<exists>rep'. case large_payload 0 (elems (ContractResult_SubMessages (ContractResult_norm r))) of
      None \<Rightarrow> DeserializeResponse je limit cost rep (Some data) ContractResult_response = Return (None, rep', ContractResult_norm r) \<and>
        (\<forall>m\<in>set (elems (ContractResult_SubMessages (ContractResult_norm r))). slice_len (SubMsg_Payload m) \<le> 131072)
    | Some (i, n) \<Rightarrow> DeserializeResponse je limit cost rep (Some data) ContractResult_response =
        Return (Some (OtherError (''reply contains submessage at index '' @ dec i @ '' with payload larger than '' @ dec 131072 @
          '' bytes: '' @ dec n @ '' bytes'')), rep', ContractResult_norm r) \<and>
        n = slice_len (SubMsg_Payload (elems (ContractResult_SubMessages (ContractResult_norm r)) ! i)) \<and> 131072 < n \<and>
        (\<forall>k < i. slice_len (SubMsg_Payload (elems (ContractResult_SubMessages (ContractResult_norm r)) ! k)) \<le> 131072)"
proof -
  let ?ms = "elems (ContractResult_SubMessages (ContractResult_norm r))"
  have max: "ReplyPayloadMaxBytes = 131072" by (simp add: ReplyPayloadMaxBytes_def)
  obtain g where g: "UFraction_Floor (UFraction_Mul cost (of_nat (length data))) = Return g" "unat g = deser_gas cost (length data)"
    using Floor_Mul [OF assms(5,6)] .
  have "unat (g + GasReport_UsedInternally rep) = unat g + unat (GasReport_UsedInternally rep)"
    by (rule unat_add_lem [THEN iffD1]) (use assms(7) g(2) unsigned_less [of limit, where 'a = nat] in simp)
  with assms(7) g(2) have enough: "\<not> limit < g + GasReport_UsedInternally rep" by (simp add: word_less_nat_alt)
  have parse: "json_Unmarshal ContractResult_decode data ContractResult_zero = Return (Inr (ContractResult_norm r))"
    using ContractResult_codec.unmarshal_print [OF assms(1-3)] assms(4) by simp
  show ?thesis
  proof (cases "large_payload 0 ?ms")
    case None
    with g(1) enough parse large_payload_None [of 0 ?ms] show ?thesis
      by (simp add: DeserializeResponse_def ContractResult_response_def max)
  next
    case (Some x)
    obtain i n where "x = (i, n)" by fastforce
    with Some g(1) enough parse large_payload_Some [of 0 ?ms i n] show ?thesis
      by (simp add: DeserializeResponse_def ContractResult_response_def max)
  qed
qed

text \<open>A result with one message, whose payload is one byte.\<close>

definition sample_result :: "ContractResult" where
  "sample_result = \<lparr>ContractResult_Ok = Some \<lparr>Response_Messages = Some [SubMsg_zero\<lparr>SubMsg_Payload := Some ''p'', SubMsg_ReplyOn := ReplyNever\<rparr>],
     Response_Data = None, Response_Attributes = Some [], Response_Events = Some []\<rparr>, ContractResult_Err = []\<rparr>"

lemma payload_chars: "byte_of 99 = CHR ''c''" "byte_of 65 = CHR ''A''"
  by (simp_all add: char_of_eq_iff)

lemma sample_result_json:
  "ContractResult_to_json sample_result = JObj [(''ok'', JObj [(''messages'', JArr [JObj [(''id'', JNum ''0''), (''msg'', JObj []),
     (''payload'', JStr ''cA==''), (''reply_on'', JStr ''never'')]]), (''data'', JNull), (''attributes'', JArr []), (''events'', JArr [])])]"
  by (simp add: sample_result_def ContractResult_to_json_def Response_to_json_def SubMsg_to_json_def SubMsg_zero_def fld_def fld_omit_def
      json_ptr_def json_slice_def json_u64_def json_uint_def dec.simps digit_lits CosmosMsg_to_json_def CosmosMsg_zero_def json_bytes_def
      b64_char_def payload_chars replyOn_MarshalJSON_def replyOn_String_def fromReplyOn_def Array_MarshalJSON_def)

theorem DeserializeResponse_ContractResult_witness:
  "\<exists>rep'. DeserializeResponse (\<lambda>_. []) 500 \<lparr>UFraction_Numerator = 2, UFraction_Denominator = 1\<rparr>
     \<lparr>GasReport_Limit = 500, GasReport_Remaining = 490, GasReport_UsedExternally = 0, GasReport_UsedInternally = 10\<rparr>
     (Some (json_print (ContractResult_to_json sample_result))) ContractResult_response = Return (None, rep', sample_result)"
proof -
  have norm: "ContractResult_norm sample_result = sample_result"
    by (simp add: sample_result_def ContractResult_norm_def Response_norm_def SubMsg_norm_def SubMsg_zero_def CosmosMsg_norm_def CosmosMsg_zero_def
        omit_slice_def)
  have len: "length (json_print (ContractResult_to_json sample_result)) = 115"
    by (simp add: sample_result_json json_quote_def esc_ascii_def)
  have num: "num_lit ''0''" using num_lit_dec [of 0] by (simp add: dec.simps digit_lits)
  have ok: "ContractResult_valid sample_result" "wf_json (ContractResult_to_json sample_result)"
    "json_depth (ContractResult_to_json sample_result) \<le> maxNestingDepth"
    by (simp_all add: sample_result_json maxNestingDepth_def num,
      simp add: sample_result_def ContractResult_valid_def Response_valid_def SubMsg_valid_def SubMsg_zero_def CosmosMsg_valid_def
        CosmosMsg_zero_def replyOn_valid_def)
  have "large_payload 0 (elems (ContractResult_SubMessages sample_result)) = None"
    by (simp add: sample_result_def ContractResult_SubMessages_def ReplyPayloadMaxBytes_def)
  with DeserializeResponse_ContractResult [OF ok refl, of "\<lparr>UFraction_Numerator = 2, UFraction_Denominator = 1\<rparr>"
      "\<lparr>GasReport_Limit = 500, GasReport_Remaining = 490, GasReport_UsedExternally = 0, GasReport_UsedInternally = 10\<rparr>" 500 "\<lambda>_. []"]
  show ?thesis unfolding norm len by (simp add: deser_gas_def)
qed

section \<open>Codes\<close>

text \<open>
  C34: storing a code costs 420000 gas per byte.  When the gas limit does not cover this the code is not
  looked at and nothing changes; otherwise the result is that of the library, with the cost.  Both
  hold for the simulation too, which only differs in that the code is not kept.
\<close>

theorem StoreCode_gas:
  fixes w :: "('c, 'i, 's) sys"
  assumes "420000 * slice_len code < 2 ^ 64"
  shows "unat (compileCost code) = 420000 * slice_len code \<and>
    (unat limit < 420000 * slice_len code \<longrightarrow>
       VM_StoreCode lib vm code limit w = (Ok (None, compileCost code, Some OutOfGasErrorVal), w) \<and>
       VM_SimulateStoreCode lib vm code limit w = (Ok (None, compileCost code, Some OutOfGasErrorVal), w)) \<and>
    (420000 * slice_len code \<le> unat limit \<longrightarrow>
       (\<forall>cs err w'. api_StoreCode lib (VM_cache vm) code True w = (Ok (cs, err), w') \<longrightarrow>
          VM_StoreCode lib vm code limit w = (Ok (cs, compileCost code, err), w')) \<and>
       (\<forall>cs err w'. api_StoreCode lib (VM_cache vm) code False w = (Ok (cs, err), w') \<longrightarrow>
          VM_SimulateStoreCode lib vm code limit w = (Ok (cs, compileCost code, err), w')))"
proof -
  have cost: "unat (compileCost code) = 420000 * slice_len code"
    using assms by (simp add: compileCost_def unat_mult_lem [THEN iffD1] unat_of_nat_64)
  then show ?thesis
    by (simp add: VM_StoreCode_def VM_SimulateStoreCode_def Let_def word_less_nat_alt)
qed

theorem StoreCode_gas_witness:
  "VM_StoreCode echo_vm sample_VM (Some ''wasm'') 1679999 fresh_sys = (Ok (None, 1680000, Some OutOfGasErrorVal), fresh_sys)"
  using StoreCode_gas [of "Some ''wasm''" 1679999 echo_vm sample_VM fresh_sys] by (simp add: compileCost_def)

text \<open>The buffer of \<open>SyncPinnedCodes\<close> is cut into the checksums it was made of.\<close>

lemma chunks_exact_32_concat: "\<forall>cs\<in>set css. length cs = 32 \<Longrightarrow> chunks_exact_32 (concat css) = css"
  by (induction css) (simp_all add: chunks_exact_32.simps)

lemma fold_append: "fold (\<lambda>x acc. acc @ f x) xs acc = acc @ concat (map f xs)"
  by (induction xs arbitrary: acc) simp_all

text \<open>
  \<open>SyncPinnedCodes\<close> hands the library exactly the checksums it got, in their order, when each has 32
  bytes.
\<close>

theorem SyncPinnedCodes_checksums:
  fixes w :: "('c, 'i, 's) sys" and lib :: "('c, 'n, 'q, 'i, 's) cosmwasm_vm"
  assumes "heap_ok (heap_of w)" "Cache_ptr (VM_cache vm) = Some p" "sys_caches w p = Some c"
    "\<forall>cs\<in>set css. length cs = 32" "32 * length css < 2 ^ 64"
    "vm_sync_pinned_codes lib css c = (Return r, c')" "good vm_error_fits (\<lambda>_. True) r"
  shows "\<exists>h. VM_SyncPinnedCodes lib vm (Some (map Some css)) w = (Ok (error_of (vm_result r)), with_cache w p c' h) \<and>
    blocks h = blocks (heap_of w) \<and> heap_ok h"
proof -
  have len: "length (concat css) = 32 * length css" using assms(4) by (induction css) auto
  then have view: "slice_len (Some (concat css)) < 2 ^ 64" using assms(5) by simp
  have buffer: "fold (\<lambda>checksum buffer. buffer @ elems checksum) (elems (Some (map Some css))) [] = concat css"
    by (simp add: fold_append comp_def)
  have step: "method_step (bytes_arg CHECKSUMS_ARG (Some (concat css))) (\<lambda>bs. vm_sync_pinned_codes lib (chunks_exact_32 bs)) c =
      (vm_result r, c')"
    using assms(4,6) by (simp add: method_step_def bytes_arg_def chunks_exact_32_concat)
  have "good error_fits (\<lambda>_. True) (vm_result r)"
    using assms(7) by (cases r) (simp_all add: vm_result_def vm_error_fits_def)
  from unit_function [OF assms(1,3) step this read_arg_view [OF view]] show ?thesis
    unfolding VM_SyncPinnedCodes_def buffer Let_def api_SyncPinnedCodes_def sync_pinned_codes_def do_sync_pinned_codes_alt assms(2) .
qed

theorem SyncPinnedCodes_checksums_witness:
  "\<exists>h. VM_SyncPinnedCodes echo_vm sample_VM (Some [Some (replicate 32 CHR ''x''), Some (replicate 32 CHR ''y'')]) fresh_sys =
      (Ok None, with_cache fresh_sys 0 () h) \<and> blocks h = blocks (heap_of fresh_sys) \<and> heap_ok h"
proof -
  have "Cache_ptr (VM_cache sample_VM) = Some 0" by (simp add: sample_VM_def echo_ok)
  from SyncPinnedCodes_checksums [OF echo_ok(3) this echo_ok(4), of "[replicate 32 CHR ''x'', replicate 32 CHR ''y'']" echo_vm "Inr ()" "()"]
  show ?thesis by (simp add: echo_vm_def error_of_def vm_result_def)
qed

section \<open>A message that stops the decoder\<close>

text \<open>A result with a vote that has neither an option nor the older field for it.\<close>

definition vote_document :: json where
  "vote_document = JObj [(''ok'', JObj [(''messages'', JArr [JObj [(''msg'', JObj [(''gov'', JObj [(''vote'', JObj [])])])]])])]"

lemma vote_decode: "dec_unmarshaler VoteMsg_UnmarshalJSON (JObj []) m = DecPanics nil_deref"
  by (simp add: dec_unmarshaler_def VoteMsg_UnmarshalJSON_def run_decoder_def InternalVoteMsg_decode_def InternalVoteMsg_zero_def)

lemma gov_decode: "GovMsg_decode (JObj [(''vote'', JObj [])]) m = DecPanics nil_deref"
  by (simp add: GovMsg_decode_def codec_simps dec_ptr_def vote_decode)

lemma cosmos_decode: "dec_unmarshaler CosmosMsg_UnmarshalJSON (JObj [(''gov'', JObj [(''vote'', JObj [])])]) m = DecPanics nil_deref"
  by (simp add: dec_unmarshaler_def CosmosMsg_UnmarshalJSON_def run_decoder_def InternalCosmosMsg_decode_def codec_simps dec_ptr_def gov_decode)

lemma submsg_decode: "SubMsg_decode (JObj [(''msg'', JObj [(''gov'', JObj [(''vote'', JObj [])])])]) m = DecPanics nil_deref"
  by (simp add: SubMsg_decode_def codec_simps cosmos_decode)


section \<open>Checksums\<close>

text \<open>
  \<open>CreateChecksum\<close> returns a checksum exactly for bytes that begin with the four magic bytes of WebAssembly, and
  then it is the hash of all the bytes; every other input gives an error and an empty checksum.
\<close>

theorem CreateChecksum_accepts:
  "(CreateChecksum sha256 wasm = (Some h, None)) = ((\<exists>rest. elems wasm = [CHR 0x00, CHR 0x61, CHR 0x73, CHR 0x6D] @ rest) \<and> h = sha256 (elems wasm)) \<and>
   (\<exists>h e. CreateChecksum sha256 wasm = (Some h, e) \<and> (e = None \<or> h = []))"
proof -
  have magic: "take 4 xs = [a, b, c, d] \<longleftrightarrow> (\<exists>rest. xs = [a, b, c, d] @ rest)" for xs :: string and a b c d
  proof
    assume "take 4 xs = [a, b, c, d]"
    then show "\<exists>rest. xs = [a, b, c, d] @ rest" by (metis append_take_drop_id)
  qed auto
  have len: "slice_len wasm = length (elems wasm)" by (cases wasm) simp_all
  show ?thesis by (auto simp: CreateChecksum_def magic len)
qed

end
