(* ===== verification/Transparency.thy ===== *)
theory Transparency
  imports Vm BackendSpec
begin

text \<open>
  A contract called through the FFI against a contract on the chain itself.  \<open>chain_prog\<close> runs a contract
  directly on the store, the iterators, the API and the querier of the chain: no vectors, no vtables, no
  callbacks, no table of frames.  The theorems say that the code between the two cannot be told apart from it.
\<close>

section \<open>The chain as a contract should see it\<close>

definition chain_get :: "('i, 's) host \<Rightarrow> string \<Rightarrow> 's \<Rightarrow> string option BackendResult \<times> 's" where
  "chain_get h key s = apfst backend_result (metered_env (h_gasMeter h) (kv_Get (h_store h) (Some key)) s)"

definition chain_set :: "('i, 's) host \<Rightarrow> string \<Rightarrow> string \<Rightarrow> 's \<Rightarrow> unit BackendResult \<times> 's" where
  "chain_set h key val s = apfst backend_result (metered_env (h_gasMeter h) (kv_Set (h_store h) (Some key) (Some val)) s)"

definition chain_remove :: "('i, 's) host \<Rightarrow> string \<Rightarrow> 's \<Rightarrow> unit BackendResult \<times> 's" where
  "chain_remove h key s = apfst backend_result (metered_env (h_gasMeter h) (kv_Delete (h_store h) (Some key)) s)"

text \<open>The iterators a call has opened, in their order; a call has at most 32768 of them.\<close>

definition chain_scan ::
    "('i, 's) host \<Rightarrow> 'i frame \<Rightarrow> string option \<Rightarrow> string option \<Rightarrow> Order \<Rightarrow> 's \<Rightarrow> u32 BackendResult \<times> 'i frame \<times> 's" where
  "chain_scan h its start stop order s =
     (case metered_env (h_gasMeter h) (scan_op (h_store h) order start stop) s of
        (Inl p, s') \<Rightarrow> ((Inl (panic_error p), with_externally_used 0), its, s')
      | (Inr (it, g), s') \<Rightarrow>
          if length its < 32768 then ((Inr (of_nat (length its)), with_externally_used g), its @ [it], s')
          else ((Inl (UserErr ''reached iterator limit (32768)''), with_externally_used g), its, s'))"

definition at_iterator ::
    "'i frame \<Rightarrow> u32 \<Rightarrow> ('i \<Rightarrow> 's \<Rightarrow> 'a BackendResult \<times> 's) \<Rightarrow> 's \<Rightarrow> 'a BackendResult \<times> 's" where
  "at_iterator its iid k s =
     (if unat iid < length its
      then (case its ! unat iid of Some it \<Rightarrow> k it s | None \<Rightarrow> ((Inl ForeignPanic, with_externally_used 0), s))
      else ((Inl (IteratorDoesNotExist iid), gas_free), s))"

definition chain_next ::
    "('i, 's) iterator_ops \<Rightarrow> ('i, 's) host \<Rightarrow> 'i frame \<Rightarrow> u32 \<Rightarrow> 's \<Rightarrow> (string \<times> string) option BackendResult \<times> 's" where
  "chain_next ops h its iid =
     at_iterator its iid (\<lambda>it s. apfst record_result (next_env ops (h_gasMeter h) (read_pair ops) it s))"

definition chain_next_part ::
    "('i, 's) iterator_ops \<Rightarrow> ('i, 's) host \<Rightarrow> ('i \<Rightarrow> 's \<Rightarrow> byte_slice go \<times> 's) \<Rightarrow> 'i frame \<Rightarrow> u32 \<Rightarrow> 's
      \<Rightarrow> string option BackendResult \<times> 's" where
  "chain_next_part ops h read its iid =
     at_iterator its iid (\<lambda>it s. apfst part_result (next_env ops (h_gasMeter h) read it s))"

definition chain_canonicalize :: "('i, 's) host \<Rightarrow> string \<Rightarrow> 's \<Rightarrow> string BackendResult \<times> 's" where
  "chain_canonicalize h human s =
     apfst (api_result conv_canonical) (the (CanonicalizeAddress (the (h_api h))) human s)"

definition chain_humanize :: "('i, 's) host \<Rightarrow> string \<Rightarrow> 's \<Rightarrow> string BackendResult \<times> 's" where
  "chain_humanize h canonical s =
     apfst (api_result conv_human) (the (HumanizeAddress (the (h_api h))) (Some canonical) s)"

definition chain_validate :: "('i, 's) host \<Rightarrow> string \<Rightarrow> 's \<Rightarrow> unit BackendResult \<times> 's" where
  "chain_validate h input s =
     apfst (\<lambda>r. api_result Inr (case r of Panics p \<Rightarrow> Panics p | Return (cost, err) \<Rightarrow> Return ((), cost, err)))
       (the (ValidateAddress (the (h_api h))) input s)"

definition chain_query ::
    "(string \<Rightarrow> string + 'q) \<Rightarrow> ('i, 's) host \<Rightarrow> string \<Rightarrow> u64 \<Rightarrow> 's \<Rightarrow> 'q system_result BackendResult \<times> 's" where
  "chain_query parse h request gas s =
     apfst (query_result parse) (metered_env (QuerierGasConsumed (the (h_querier h)))
       (RustQuery (h_json_err h) (the (h_querier h)) (Some request) gas) s)"

primrec chain_prog ::
    "('i, 's) iterator_ops \<Rightarrow> (string \<Rightarrow> string + 'q) \<Rightarrow> ('i, 's) host \<Rightarrow> ('q, 'r) vm_prog \<Rightarrow> 'i frame \<Rightarrow> 's
      \<Rightarrow> 'r go \<times> 'i frame \<times> 's" where
  "chain_prog ops parse h (VmDone r) = (\<lambda>its s. (Return r, its, s))"
| "chain_prog ops parse h (VmPanic p) = (\<lambda>its s. (Panics p, its, s))"
| "chain_prog ops parse h (VmGet key k) = (\<lambda>its s. case chain_get h key s of (r, s') \<Rightarrow> chain_prog ops parse h (k r) its s')"
| "chain_prog ops parse h (VmSet key val k) =
     (\<lambda>its s. case chain_set h key val s of (r, s') \<Rightarrow> chain_prog ops parse h (k r) its s')"
| "chain_prog ops parse h (VmRemove key k) =
     (\<lambda>its s. case chain_remove h key s of (r, s') \<Rightarrow> chain_prog ops parse h (k r) its s')"
| "chain_prog ops parse h (VmScan start stop order k) =
     (\<lambda>its s. case chain_scan h its start stop order s of (r, its', s') \<Rightarrow> chain_prog ops parse h (k r) its' s')"
| "chain_prog ops parse h (VmNext iid k) =
     (\<lambda>its s. case chain_next ops h its iid s of (r, s') \<Rightarrow> chain_prog ops parse h (k r) its s')"
| "chain_prog ops parse h (VmNextKey iid k) =
     (\<lambda>its s. case chain_next_part ops h (it_Key ops) its iid s of (r, s') \<Rightarrow> chain_prog ops parse h (k r) its s')"
| "chain_prog ops parse h (VmNextValue iid k) =
     (\<lambda>its s. case chain_next_part ops h (it_Value ops) its iid s of (r, s') \<Rightarrow> chain_prog ops parse h (k r) its s')"
| "chain_prog ops parse h (VmCanonicalize human k) =
     (\<lambda>its s. case chain_canonicalize h human s of (r, s') \<Rightarrow> chain_prog ops parse h (k r) its s')"
| "chain_prog ops parse h (VmHumanize canonical k) =
     (\<lambda>its s. case chain_humanize h canonical s of (r, s') \<Rightarrow> chain_prog ops parse h (k r) its s')"
| "chain_prog ops parse h (VmValidate input k) =
     (\<lambda>its s. case chain_validate h input s of (r, s') \<Rightarrow> chain_prog ops parse h (k r) its s')"
| "chain_prog ops parse h (VmQuery request gas k) =
     (\<lambda>its s. case chain_query parse h request gas s of (r, s') \<Rightarrow> chain_prog ops parse h (k r) its s')"

section \<open>Sizes\<close>

text \<open>
  The strings a contract passes have less than 2 GiB, the most the copy on the Go side takes, and the slices
  and texts the chain returns have a length that fits into 64 bits; \<open>run_fits\<close> says so of the strings of one run.
\<close>

definition fits :: "byte_slice \<Rightarrow> bool" where
  "fits b \<longleftrightarrow> slice_len b < 2 ^ 64"

definition get_fits :: "('i, 's) host \<Rightarrow> string \<Rightarrow> 's \<Rightarrow> bool" where
  "get_fits h key s \<longleftrightarrow> short (Some key) \<and> (case fst (metered_env (h_gasMeter h) (kv_Get (h_store h) (Some key)) s) of
     Inl p \<Rightarrow> True | Inr (v, g) \<Rightarrow> fits v)"

definition next_fits :: "('i, 's) iterator_ops \<Rightarrow> ('i, 's) host \<Rightarrow> 'i option \<Rightarrow> 's \<Rightarrow> bool" where
  "next_fits ops h it s \<longleftrightarrow> (case it of None \<Rightarrow> True | Some i \<Rightarrow>
     (case fst (next_env ops (h_gasMeter h) (read_pair ops) i s) of Inr (Some (k, v), g) \<Rightarrow> fits k \<and> fits v | _ \<Rightarrow> True))"

definition part_fits ::
    "('i, 's) iterator_ops \<Rightarrow> ('i, 's) host \<Rightarrow> ('i \<Rightarrow> 's \<Rightarrow> byte_slice go \<times> 's) \<Rightarrow> 'i option \<Rightarrow> 's \<Rightarrow> bool" where
  "part_fits ops h read it s \<longleftrightarrow> (case it of None \<Rightarrow> True | Some i \<Rightarrow>
     (case fst (next_env ops (h_gasMeter h) read i s) of Inr (Some x, g) \<Rightarrow> fits x | _ \<Rightarrow> True))"

definition canonicalize_fits :: "('i, 's) host \<Rightarrow> string \<Rightarrow> 's \<Rightarrow> bool" where
  "canonicalize_fits h a s \<longleftrightarrow> short (Some a) \<and> (case fst (the (CanonicalizeAddress (the (h_api h))) a s) of
     Panics p \<Rightarrow> True | Return (c, cost, err) \<Rightarrow> fits c \<and> error_small err)"

definition humanize_fits :: "('i, 's) host \<Rightarrow> string \<Rightarrow> 's \<Rightarrow> bool" where
  "humanize_fits h a s \<longleftrightarrow> short (Some a) \<and> (case fst (the (HumanizeAddress (the (h_api h))) (Some a) s) of
     Panics p \<Rightarrow> True | Return (t, cost, err) \<Rightarrow> fits (Some t) \<and> error_small err)"

definition validate_fits :: "('i, 's) host \<Rightarrow> string \<Rightarrow> 's \<Rightarrow> bool" where
  "validate_fits h a s \<longleftrightarrow> short (Some a) \<and> (case fst (the (ValidateAddress (the (h_api h))) a s) of
     Panics p \<Rightarrow> True | Return (cost, err) \<Rightarrow> error_small err)"

definition query_fits :: "('i, 's) host \<Rightarrow> string \<Rightarrow> u64 \<Rightarrow> 's \<Rightarrow> bool" where
  "query_fits h request gas s \<longleftrightarrow> short (Some request) \<and>
     (case fst (metered_env (QuerierGasConsumed (the (h_querier h)))
         (RustQuery (h_json_err h) (the (h_querier h)) (Some request) gas) s) of
        Inl p \<Rightarrow> True | Inr (r, g) \<Rightarrow> fits (Some (json_print (QuerierResult_to_json r))))"

definition at_iterator_fits :: "'i frame \<Rightarrow> u32 \<Rightarrow> ('i option \<Rightarrow> bool) \<Rightarrow> bool" where
  "at_iterator_fits its iid F \<longleftrightarrow> unat iid < length its \<longrightarrow> F (its ! unat iid)"

primrec run_fits ::
    "('i, 's) iterator_ops \<Rightarrow> (string \<Rightarrow> string + 'q) \<Rightarrow> ('i, 's) host \<Rightarrow> ('q, 'r) vm_prog \<Rightarrow> 'i frame \<Rightarrow> 's \<Rightarrow> bool" where
  "run_fits ops parse h (VmDone r) = (\<lambda>its s. True)"
| "run_fits ops parse h (VmPanic p) = (\<lambda>its s. True)"
| "run_fits ops parse h (VmGet key k) =
     (\<lambda>its s. get_fits h key s \<and> (case chain_get h key s of (r, s') \<Rightarrow> run_fits ops parse h (k r) its s'))"
| "run_fits ops parse h (VmSet key val k) =
     (\<lambda>its s. short (Some key) \<and> short (Some val) \<and> (case chain_set h key val s of (r, s') \<Rightarrow> run_fits ops parse h (k r) its s'))"
| "run_fits ops parse h (VmRemove key k) =
     (\<lambda>its s. short (Some key) \<and> (case chain_remove h key s of (r, s') \<Rightarrow> run_fits ops parse h (k r) its s'))"
| "run_fits ops parse h (VmScan start stop order k) =
     (\<lambda>its s. short start \<and> short stop \<and>
        (case chain_scan h its start stop order s of (r, its', s') \<Rightarrow> run_fits ops parse h (k r) its' s'))"
| "run_fits ops parse h (VmNext iid k) =
     (\<lambda>its s. at_iterator_fits its iid (\<lambda>it. next_fits ops h it s) \<and>
        (case chain_next ops h its iid s of (r, s') \<Rightarrow> run_fits ops parse h (k r) its s'))"
| "run_fits ops parse h (VmNextKey iid k) =
     (\<lambda>its s. at_iterator_fits its iid (\<lambda>it. part_fits ops h (it_Key ops) it s) \<and>
        (case chain_next_part ops h (it_Key ops) its iid s of (r, s') \<Rightarrow> run_fits ops parse h (k r) its s'))"
| "run_fits ops parse h (VmNextValue iid k) =
     (\<lambda>its s. at_iterator_fits its iid (\<lambda>it. part_fits ops h (it_Value ops) it s) \<and>
        (case chain_next_part ops h (it_Value ops) its iid s of (r, s') \<Rightarrow> run_fits ops parse h (k r) its s'))"
| "run_fits ops parse h (VmCanonicalize human k) =
     (\<lambda>its s. canonicalize_fits h human s \<and> (case chain_canonicalize h human s of (r, s') \<Rightarrow> run_fits ops parse h (k r) its s'))"
| "run_fits ops parse h (VmHumanize canonical k) =
     (\<lambda>its s. humanize_fits h canonical s \<and> (case chain_humanize h canonical s of (r, s') \<Rightarrow> run_fits ops parse h (k r) its s'))"
| "run_fits ops parse h (VmValidate input k) =
     (\<lambda>its s. validate_fits h input s \<and> (case chain_validate h input s of (r, s') \<Rightarrow> run_fits ops parse h (k r) its s'))"
| "run_fits ops parse h (VmQuery request gas k) =
     (\<lambda>its s. query_fits h request gas s \<and> (case chain_query parse h request gas s of (r, s') \<Rightarrow> run_fits ops parse h (k r) its s'))"

lemma get_fitsD:
  "get_fits h key s \<Longrightarrow> metered_env (h_gasMeter h) (kv_Get (h_store h) (Some key)) s = (Inr (v, g), s') \<Longrightarrow> slice_len v < 2 ^ 64"
  by (simp add: get_fits_def fits_def)

lemma next_fitsD:
  "next_fits ops h (Some it) s \<Longrightarrow> next_env ops (h_gasMeter h) (read_pair ops) it s = (Inr (Some (k, v), g), s') \<Longrightarrow>
    slice_len k < 2 ^ 64 \<and> slice_len v < 2 ^ 64"
  by (simp add: next_fits_def fits_def)

lemma part_fitsD:
  "part_fits ops h read (Some it) s \<Longrightarrow> next_env ops (h_gasMeter h) read it s = (Inr (Some x, g), s') \<Longrightarrow> slice_len x < 2 ^ 64"
  by (simp add: part_fits_def fits_def)

section \<open>One operation\<close>

text \<open>
  \<open>in_call c w0 its s w\<close>: in the state \<open>w\<close> the call \<open>c\<close> has the iterators \<open>its\<close> and the chain is in the state \<open>s\<close>; all
  else is as in \<open>w0\<close>.
\<close>

definition in_call :: "u64 \<Rightarrow> ('i, 's) ffi \<Rightarrow> 'i frame \<Rightarrow> 's \<Rightarrow> ('i, 's) ffi \<Rightarrow> bool" where
  "in_call c w0 its s w \<longleftrightarrow> heap_ok (f_heap w) \<and> blocks (f_heap w) = blocks (f_heap w0) \<and> f_env w = s \<and>
     f_iters w = (f_iters w0)\<lparr>iteratorFrames := (iteratorFrames (f_iters w0))(c := if its = [] then None else Some its)\<rparr>"

lemma in_call_frame: "in_call c w0 its s w \<Longrightarrow> frame_of (f_iters w) c = its"
  by (simp add: in_call_def)

lemma in_call_same:
  "in_call c w0 its s w \<Longrightarrow> f_iters w' = f_iters w \<Longrightarrow> blocks (f_heap w') = blocks (f_heap w) \<Longrightarrow> heap_ok (f_heap w') \<Longrightarrow>
    in_call c w0 its (f_env w') w'"
  by (simp add: in_call_def)

text \<open>The iterators Rust has registered for the first \<open>n\<close> iterators of the call.\<close>

definition iter_table :: "u64 \<Rightarrow> nat \<Rightarrow> (u32 \<times> GoIter) list" where
  "iter_table c n = map (\<lambda>i. (of_nat i, \<lparr>gi_gas_meter = True,
     gi_reference = \<lparr>call_id = c, iterator_id = of_nat i + 1\<rparr>, gi_vtable = True\<rparr>)) [0..<n]"

definition answers :: "('i, 's, 'a) callback \<Rightarrow> u64 \<Rightarrow> ('i, 's) ffi \<Rightarrow> 'i frame \<Rightarrow> ('i, 's) ffi \<Rightarrow> 'a \<times> 's \<Rightarrow> bool" where
  "answers m c w0 its w x \<longleftrightarrow> (\<exists>w'. m w = (Ok (fst x), w') \<and> in_call c w0 its (snd x) w')"

lemma answersI:
  assumes "in_call c w0 its s w" "\<exists>w'. m w = (Ok r, w') \<and> f_env w' = s' \<and> f_iters w' = f_iters w \<and>
    blocks (f_heap w') = blocks (f_heap w) \<and> heap_ok (f_heap w')" "x = (r, s')"
  shows "answers m c w0 its w x"
  using assms in_call_same unfolding answers_def by fastforce

lemma storage_answers:
  assumes "in_call c w0 its s w" "short (Some key)"
  shows "get_fits h key s \<Longrightarrow> answers (GoStorage_get (go_db (h_store h) c (h_gasMeter h) tab) key) c w0 its w (chain_get h key s)"
    "short (Some val) \<Longrightarrow> answers (GoStorage_set (go_db (h_store h) c (h_gasMeter h) tab) key val) c w0 its w (chain_set h key val s)"
    "answers (GoStorage_remove (go_db (h_store h) c (h_gasMeter h) tab) key) c w0 its w (chain_remove h key s)"
proof -
  have w: "heap_ok (f_heap w)" "f_env w = s" using assms(1) by (simp_all add: in_call_def)
  show "answers (GoStorage_get (go_db (h_store h) c (h_gasMeter h) tab) key) c w0 its w (chain_get h key s)" if "get_fits h key s"
    using GoStorage_get_run [OF assms(2) w(1) get_fitsD [OF that, folded w(2)], where c = c and its = tab] w(2)
    by (intro answersI [OF assms(1)]) (simp_all add: chain_get_def prod_eq_iff)
  show "answers (GoStorage_set (go_db (h_store h) c (h_gasMeter h) tab) key val) c w0 its w (chain_set h key val s)" if "short (Some val)"
    using GoStorage_set_run [OF assms(2) that, of "h_store h" c "h_gasMeter h" tab w] w
    by (intro answersI [OF assms(1)]) (auto simp: chain_set_def prod_eq_iff)
  show "answers (GoStorage_remove (go_db (h_store h) c (h_gasMeter h) tab) key) c w0 its w (chain_remove h key s)"
    using GoStorage_remove_run [OF assms(2), of "h_store h" c "h_gasMeter h" tab w] w
    by (intro answersI [OF assms(1)]) (auto simp: chain_remove_def prod_eq_iff)
qed

lemma address_answers:
  assumes "in_call c w0 its s w" "complete_host h"
  shows "canonicalize_fits h a s \<Longrightarrow> answers (addr_canonicalize (buildAPI (the (h_api h))) a) c w0 its w (chain_canonicalize h a s)"
    "humanize_fits h a s \<Longrightarrow> answers (addr_humanize (buildAPI (the (h_api h))) a) c w0 its w (chain_humanize h a s)"
    "validate_fits h a s \<Longrightarrow> answers (addr_validate (buildAPI (the (h_api h))) a) c w0 its w (chain_validate h a s)"
proof -
  have w: "heap_ok (f_heap w)" "f_env w = s" using assms(1) by (simp_all add: in_call_def)
  let ?api = "the (h_api h)"
  from assms(2) obtain fc fh fv where f: "CanonicalizeAddress ?api = Some fc" "HumanizeAddress ?api = Some fh"
    "ValidateAddress ?api = Some fv" by (auto simp: complete_host_def)
  obtain rc sc rh sh rv sv where r: "fc a s = (rc, sc)" "fh (Some a) s = (rh, sh)" "fv a s = (rv, sv)" by fastforce
  show "answers (addr_canonicalize (buildAPI ?api) a) c w0 its w (chain_canonicalize h a s)" if "canonicalize_fits h a s"
    using f(1) r(1) that
    by (intro answersI [OF assms(1), rotated]) (simp add: chain_canonicalize_def,
        rule addr_canonicalize_run [OF _ w(1) f(1) r(1) [folded w(2)]], auto simp: canonicalize_fits_def fits_def)
  show "answers (addr_humanize (buildAPI ?api) a) c w0 its w (chain_humanize h a s)" if "humanize_fits h a s"
    using f(2) r(2) that
    by (intro answersI [OF assms(1), rotated]) (simp add: chain_humanize_def,
        rule addr_humanize_run [OF _ w(1) f(2) r(2) [folded w(2)]], auto simp: humanize_fits_def fits_def)
  show "answers (addr_validate (buildAPI ?api) a) c w0 its w (chain_validate h a s)" if "validate_fits h a s"
    using f(3) r(3) that
    by (intro answersI [OF assms(1), rotated]) (simp add: chain_validate_def,
        rule addr_validate_run [OF _ w(1) f(3) r(3) [folded w(2)] HOL.refl], auto simp: validate_fits_def split: go.splits)
qed

lemma query_answers:
  assumes "in_call c w0 its s w" "query_fits h request gas s"
  shows "answers (query_raw parse (buildQuerier (h_json_err h) (the (h_querier h))) request gas) c w0 its w
    (chain_query parse h request gas s)"
proof -
  have w: "heap_ok (f_heap w)" "f_env w = s" using assms(1) by (simp_all add: in_call_def)
  obtain r s' where r: "metered_env (QuerierGasConsumed (the (h_querier h)))
      (RustQuery (h_json_err h) (the (h_querier h)) (Some request) gas) s = (r, s')" by fastforce
  with assms(2) show ?thesis
    by (intro answersI [OF assms(1), rotated]) (simp add: chain_query_def,
        rule query_raw_run [OF _ w(1) r [folded w(2)]], auto simp: query_fits_def fits_def)
qed

text \<open>Finding an iterator: through the table on the Rust side and the frame on the Go side.\<close>

lemma iter_table_map_of:
  assumes "n \<le> 2 ^ 32"
  shows "map_of (iter_table c n) iid = (if unat iid < n then Some \<lparr>gi_gas_meter = True,
    gi_reference = \<lparr>call_id = c, iterator_id = of_nat (unat iid) + 1\<rparr>, gi_vtable = True\<rparr> else None)"
  using assms
proof (induction n)
  case (Suc n)
  have "iid = of_nat n \<longleftrightarrow> unat iid = n" using Suc.prems by (auto simp: unat_of_nat take_bit_nat_eq_self)
  with Suc show ?case by (auto simp: iter_table_def map_add_def less_Suc_eq split: option.split)
qed (simp add: iter_table_def)

lemma iter_table_update:
  assumes "n < 2 ^ 32"
  shows "AList.update (of_nat n) \<lparr>gi_gas_meter = True, gi_reference = \<lparr>call_id = c, iterator_id = of_nat n + 1\<rparr>,
    gi_vtable = True\<rparr> (iter_table c n) = iter_table c (Suc n)"
proof -
  have "AList.update k v ps = ps @ [(k, v)]" if "k \<notin> fst ` set ps" for k :: u32 and v :: GoIter and ps
    using that by (induction ps) auto
  moreover have "(of_nat n :: u32) \<notin> fst ` set (iter_table c n)"
    using iter_table_map_of [of n c "of_nat n"] assms by (simp add: map_of_eq_None_iff unat_of_nat take_bit_nat_eq_self)
  ultimately show ?thesis by (simp add: iter_table_def)
qed

lemma retrieve_in_call:
  assumes "in_call c w0 its s w" "n < length its" "length its \<le> 32768"
  shows "retrieveIterator c (of_nat n + 1) (f_iters w) = its ! n"
proof -
  have "uint (of_nat n + 1 :: u64) = int n + 1"
    using assms(2,3) by (simp add: uint_word_ariths unsigned_of_nat take_bit_nat_eq_self)
  with assms show ?thesis unfolding retrieveIterator_frame in_call_frame [OF assms(1)] by simp
qed

text \<open>A nil iterator: the callback panics before it reads the gas meter.\<close>

lemma nil_iterator:
  fixes w :: "('i, 's) ffi"
  assumes "retrieveIterator c i (f_iters w) = None" "c \<noteq> 0"
    "gi = \<lparr>gi_gas_meter = True, gi_reference = \<lparr>call_id = c, iterator_id = i\<rparr>, gi_vtable = True\<rparr>"
  shows "\<exists>w'. GoIter_next ops gm gi w = (Ok (Inl ForeignPanic, with_externally_used 0), w') \<and>
      f_env w' = f_env w \<and> f_iters w' = f_iters w \<and> f_heap w' = f_heap w"
    "\<exists>w'. GoIter_next_key_or_val (nextPart ops (gi_reference gi) (Some gm) read) w = (Ok (Inl ForeignPanic, with_externally_used 0), w') \<and>
      f_env w' = f_env w \<and> f_iters w' = f_iters w \<and> f_heap w' = f_heap w"
  using assms by (simp_all add: GoIter_next_def GoIter_next_key_or_val_def rust_call cNext_def nextPart_def retrieve_panic_def
      GoError_from_code)

abbreviation go_iter :: "u64 \<Rightarrow> u64 \<Rightarrow> GoIter" where
  "go_iter c i \<equiv> \<lparr>gi_gas_meter = True, gi_reference = \<lparr>call_id = c, iterator_id = i\<rparr>, gi_vtable = True\<rparr>"

lemma at_iterator_answers:
  assumes "in_call c w0 its s w" "length its \<le> 32768" "at_iterator_fits its iid F"
    and nil: "\<And>i. retrieveIterator c i (f_iters w) = None \<Longrightarrow>
      answers (run (go_iter c i)) c w0 its w ((Inl ForeignPanic, with_externally_used 0), s)"
    and some: "\<And>i it. retrieveIterator c i (f_iters w) = Some it \<Longrightarrow> F (Some it) \<Longrightarrow>
      answers (run (go_iter c i)) c w0 its w (k it s)"
  shows "answers (GoStorage_with (go_db kv c gm (iter_table c (length its))) iid run) c w0 its w (at_iterator its iid k s)"
proof (cases "unat iid < length its")
  case False
  with assms(1,2) show ?thesis
    by (auto simp: answers_def GoStorage_with_def go_db_def iter_table_map_of at_iterator_def)
next
  case True
  then have "GoStorage_with (go_db kv c gm (iter_table c (length its))) iid run = run (go_iter c (of_nat (unat iid) + 1))"
    using assms(2) by (simp add: GoStorage_with_def go_db_def iter_table_map_of)
  with retrieve_in_call [OF assms(1) True assms(2)] True nil some assms(3) show ?thesis
    by (cases "its ! unat iid") (simp_all add: at_iterator_def at_iterator_fits_def)
qed

lemma next_answers:
  assumes "in_call c w0 its s w" "c \<noteq> 0" "length its \<le> 32768" "at_iterator_fits its iid (\<lambda>it. next_fits ops h it s)"
  shows "answers (GoStorage_next ops (h_gasMeter h) (go_db (h_store h) c (h_gasMeter h) (iter_table c (length its))) iid) c w0 its w
    (chain_next ops h its iid s)"
  unfolding GoStorage_next_def chain_next_def
proof (rule at_iterator_answers [OF assms(1,3,4)])
  have w: "heap_ok (f_heap w)" "f_env w = s" using assms(1) by (simp_all add: in_call_def)
  fix i
  show "answers (GoIter_next ops (h_gasMeter h) (go_iter c i)) c w0 its w ((Inl ForeignPanic, with_externally_used 0), s)"
    if "retrieveIterator c i (f_iters w) = None"
    using nil_iterator(1) [OF that assms(2) HOL.refl, of ops "h_gasMeter h"] w by (intro answersI [OF assms(1)]) auto
  fix it
  show "answers (GoIter_next ops (h_gasMeter h) (go_iter c i)) c w0 its w
      (apfst record_result (next_env ops (h_gasMeter h) (read_pair ops) it s))"
    if "retrieveIterator c i (f_iters w) = Some it" "next_fits ops h (Some it) s"
    using GoIter_next_run [OF w(1) assms(2) that(1) next_fitsD [OF that(2), folded w(2)] HOL.refl] w(2)
    by (intro answersI [OF assms(1)]) (simp_all add: prod_eq_iff)
qed

lemma next_part_answers:
  assumes "in_call c w0 its s w" "c \<noteq> 0" "length its \<le> 32768" "at_iterator_fits its iid (\<lambda>it. part_fits ops h read it s)"
  shows "answers (GoStorage_with (go_db kv c gm (iter_table c (length its))) iid
      (\<lambda>gi. GoIter_next_key_or_val (nextPart ops (gi_reference gi) (Some (h_gasMeter h)) read))) c w0 its w
    (chain_next_part ops h read its iid s)"
  unfolding chain_next_part_def
proof (rule at_iterator_answers [OF assms(1,3,4)])
  have w: "heap_ok (f_heap w)" "f_env w = s" using assms(1) by (simp_all add: in_call_def)
  fix i
  show "answers (GoIter_next_key_or_val (nextPart ops (gi_reference (go_iter c i)) (Some (h_gasMeter h)) read)) c w0 its w
      ((Inl ForeignPanic, with_externally_used 0), s)" if "retrieveIterator c i (f_iters w) = None"
    using nil_iterator(2) [OF that assms(2) HOL.refl, of ops "h_gasMeter h" read] w by (intro answersI [OF assms(1)]) auto
  fix it
  show "answers (GoIter_next_key_or_val (nextPart ops (gi_reference (go_iter c i)) (Some (h_gasMeter h)) read)) c w0 its w
      (apfst part_result (next_env ops (h_gasMeter h) read it s))"
    if "retrieveIterator c i (f_iters w) = Some it" "part_fits ops h read (Some it) s"
    using next_part_run [OF w(1) assms(2) that(1) part_fitsD [OF that(2), folded w(2)]] w(2)
    by (intro answersI [OF assms(1)]) (simp_all add: prod_eq_iff)
qed

lemma key_and_value_answers:
  assumes "in_call c w0 its s w" "c \<noteq> 0" "length its \<le> 32768"
  shows "at_iterator_fits its iid (\<lambda>it. part_fits ops h (it_Key ops) it s) \<Longrightarrow>
      answers (GoStorage_next_key ops (h_gasMeter h) (go_db kv c gm (iter_table c (length its))) iid) c w0 its w
        (chain_next_part ops h (it_Key ops) its iid s)"
    "at_iterator_fits its iid (\<lambda>it. part_fits ops h (it_Value ops) it s) \<Longrightarrow>
      answers (GoStorage_next_value ops (h_gasMeter h) (go_db kv c gm (iter_table c (length its))) iid) c w0 its w
        (chain_next_part ops h (it_Value ops) its iid s)"
  using next_part_answers [OF assms, where kv = kv and gm = gm and iid = iid and ops = ops and h = h] assms(3)
  by (auto simp: GoStorage_next_key_def GoIter_next_key_def cNextKey_def GoStorage_next_value_def GoIter_next_value_def cNextValue_def
      GoStorage_with_def go_db_def iter_table_map_of split: if_splits)

lemma scan_answers:
  assumes "in_call c w0 its s w" "short start" "short stop" "length its \<le> 32768"
    "chain_scan h its start stop order s = (r, its', s')"
  shows "length its' \<le> 32768 \<and> (\<exists>w'. GoStorage_scan debug (go_db (h_store h) c (h_gasMeter h) (iter_table c (length its))) start stop order w =
      (Ok (r, go_db (h_store h) c (h_gasMeter h) (iter_table c (length its'))), w') \<and> in_call c w0 its' s' w')"
proof -
  have w: "heap_ok (f_heap w)" "f_env w = s" using assms(1) by (simp_all add: in_call_def)
  have n: "length (iter_table c (length its)) = length its" by (simp add: iter_table_def)
  obtain x s1 where x: "metered_env (h_gasMeter h) (scan_op (h_store h) order start stop) s = (x, s1)" by fastforce
  from scan_run [OF w(1) assms(2,3), of "iter_table c (length its)" "h_gasMeter h" "h_store h" order x s1 debug c]
    x w(2) assms(1,4,5) iter_table_update [of "length its" c]
  show ?thesis
    unfolding n in_call_frame [OF assms(1)]
    by (auto simp: chain_scan_def in_call_def split: sum.splits if_splits)
qed

section \<open>A whole contract\<close>

definition host_backend ::
    "('i, 's) iterator_ops \<Rightarrow> (string \<Rightarrow> string + 'q) \<Rightarrow> (string option \<Rightarrow> string) \<Rightarrow> ('i, 's) host \<Rightarrow> u64 \<Rightarrow> nat \<Rightarrow> ('i, 's, 'q) vm_backend" where
  "host_backend ops parse debug h c n =
     \<lparr>be_api = buildAPI (the (h_api h)), be_storage = go_db (h_store h) c (h_gasMeter h) (iter_table c n),
      be_querier = buildQuerier (h_json_err h) (the (h_querier h)), be_ops = ops, be_parse = parse, be_debug = debug\<rparr>"

lemma host_backend_simps [simp]:
  "be_api (host_backend ops parse debug h c n) = buildAPI (the (h_api h))"
  "be_storage (host_backend ops parse debug h c n) = go_db (h_store h) c (h_gasMeter h) (iter_table c n)"
  "be_querier (host_backend ops parse debug h c n) = buildQuerier (h_json_err h) (the (h_querier h))"
  "be_ops (host_backend ops parse debug h c n) = ops" "be_parse (host_backend ops parse debug h c n) = parse"
  "be_debug (host_backend ops parse debug h c n) = debug" "be_meter (host_backend ops parse debug h c n) = h_gasMeter h"
  "be_storage_update (\<lambda>_. go_db (h_store h) c (h_gasMeter h) (iter_table c m)) (host_backend ops parse debug h c n) =
    host_backend ops parse debug h c m"
  by (simp_all add: host_backend_def be_meter_def go_db_defs)

primrec go_res :: "'r go \<Rightarrow> 'r res" where
  "go_res (Return r) = Ok r"
| "go_res (Panics p) = Panic p"

lemma step_chain:
  assumes "answers m c w0 its w x" "\<And>w'. in_call c w0 its (snd x) w' \<Longrightarrow> \<exists>w''. f (fst x) w' = (r, w'') \<and> P w''"
  shows "\<exists>w''. bind m f w = (r, w'') \<and> P w''"
  using assms by (auto simp: answers_def)

lemma run_prog_chain:
  fixes prog :: "('q, 'r) vm_prog" and h :: "('i, 's) host"
  assumes "complete_host h" "c \<noteq> 0"
  shows "run_fits ops parse h prog its s \<Longrightarrow> in_call c w0 its s w \<Longrightarrow> length its \<le> 32768 \<Longrightarrow>
    chain_prog ops parse h prog its s = (r, its', s') \<Longrightarrow>
    \<exists>w'. run_prog prog (host_backend ops parse debug h c (length its)) w = (go_res r, w') \<and> in_call c w0 its' s' w'"
proof (induction prog arbitrary: its s w)
  case (VmGet key k)
  then show ?case by (auto split: prod.splits simp: get_fits_def intro!: step_chain [OF storage_answers(1)])
next
  case (VmSet key val k)
  then show ?case by (auto split: prod.splits intro!: step_chain [OF storage_answers(2)])
next
  case (VmRemove key k)
  then show ?case by (auto split: prod.splits intro!: step_chain [OF storage_answers(3)])
next
  case (VmScan start stop order k)
  obtain r1 its1 s1 where 1: "chain_scan h its start stop order s = (r1, its1, s1)" by (metis prod_cases3)
  with VmScan.prems scan_answers [of c w0 its s w start stop h order r1 its1 s1 debug] obtain w1 where
    w1: "length its1 \<le> 32768" "GoStorage_scan debug (go_db (h_store h) c (h_gasMeter h) (iter_table c (length its))) start stop order w =
      (Ok (r1, go_db (h_store h) c (h_gasMeter h) (iter_table c (length its1))), w1)" "in_call c w0 its1 s1 w1" by auto
  from VmScan.prems(1) 1 have "run_fits ops parse h (k r1) its1 s1" by simp
  with VmScan.IH [OF _ _ w1(3,1)] VmScan.prems(4) 1 w1(2) show ?case by auto
next
  case (VmNext iid k)
  then show ?case by (auto split: prod.splits intro!: step_chain [OF next_answers [OF _ assms(2)]])
next
  case (VmNextKey iid k)
  then show ?case by (auto split: prod.splits intro!: step_chain [OF key_and_value_answers(1) [OF _ assms(2)]])
next
  case (VmNextValue iid k)
  then show ?case by (auto split: prod.splits intro!: step_chain [OF key_and_value_answers(2) [OF _ assms(2)]])
next
  case (VmCanonicalize human k)
  then show ?case by (auto split: prod.splits intro!: step_chain [OF address_answers(1) [OF _ assms(1)]])
next
  case (VmHumanize canonical k)
  then show ?case by (auto split: prod.splits intro!: step_chain [OF address_answers(2) [OF _ assms(1)]])
next
  case (VmValidate input k)
  then show ?case by (auto split: prod.splits intro!: step_chain [OF address_answers(3) [OF _ assms(1)]])
next
  case (VmQuery request gas k)
  then show ?case by (auto split: prod.splits intro!: step_chain [OF query_answers])
qed auto

section \<open>A whole call\<close>

fun text_args :: "(string \<times> byte_slice) list \<Rightarrow> RustError + string list" where
  "text_args [] = Inr []"
| "text_args ((name, b) # rest) = (case bytes_arg name b of
     Inl e \<Rightarrow> Inl e
   | Inr t \<Rightarrow> (case text_args rest of Inl e \<Rightarrow> Inl e | Inr ts \<Rightarrow> Inr (t # ts)))"

text \<open>
  The call of a contract on the chain itself: the result, the iterators it has left open, the cache of the
  virtual machine and the chain.
\<close>

definition chain_call ::
    "('c, 'n, 'q, 'i, 's) cosmwasm_vm \<Rightarrow> vm_fn \<Rightarrow> byte_slice \<Rightarrow> byte_slice list \<Rightarrow> ('i, 's) host \<Rightarrow> u64 \<Rightarrow> 'c \<Rightarrow> 's
      \<Rightarrow> (RustError + (VmError + rust_vec) \<times> GasReport) \<times> 'i frame \<times> 'c \<times> 's" where
  "chain_call vm f cs args h gas cache s = (case checksum_arg cs of
     Inl e \<Rightarrow> (Inl e, [], cache, s)
   | Inr checksum \<Rightarrow> (case text_args (zip [ARG1, ARG2, ARG3] args) of
       Inl e \<Rightarrow> (Inl e, [], cache, s)
     | Inr texts \<Rightarrow> (case vm_get_instance vm checksum gas cache of
         (Panics _, cache') \<Rightarrow> (Inl RE_Panic, [], cache', s)
       | (Return (Inl e), cache') \<Rightarrow> (Inl (RustError_from_VmError e), [], cache', s)
       | (Return (Inr inst), cache') \<Rightarrow>
           (case chain_prog (vm_ops vm) (vm_parse_system_result vm) h (vm_call vm f inst texts) [] s of
              (Return (res, inst'), its, s') \<Rightarrow> (Inr (res, vm_create_gas_report vm inst'), its, cache', s')
            | (Panics _, its, s') \<Rightarrow> (Inl RE_Panic, its, cache', s')))))"

text \<open>The sizes of the arguments and of the strings of the run.\<close>

definition chain_call_fits ::
    "('c, 'n, 'q, 'i, 's) cosmwasm_vm \<Rightarrow> vm_fn \<Rightarrow> byte_slice \<Rightarrow> byte_slice list \<Rightarrow> ('i, 's) host \<Rightarrow> u64 \<Rightarrow> 'c \<Rightarrow> 's \<Rightarrow> bool" where
  "chain_call_fits vm f cs args h gas cache s \<longleftrightarrow> list_all fits (cs # args) \<and> (case checksum_arg cs of
     Inl e \<Rightarrow> True
   | Inr checksum \<Rightarrow> (case text_args (zip [ARG1, ARG2, ARG3] args) of
       Inl e \<Rightarrow> True
     | Inr texts \<Rightarrow> (case fst (vm_get_instance vm checksum gas cache) of
         Return (Inr inst) \<Rightarrow> run_fits (vm_ops vm) (vm_parse_system_result vm) h (vm_call vm f inst texts) [] s
       | _ \<Rightarrow> True)))"

lemma into_backend_host:
  "into_backend vm (buildDB (buildDBState (h_store h) c) (h_gasMeter h)) (buildAPI (the (h_api h)))
     (buildQuerier (h_json_err h) (the (h_querier h))) =
   host_backend (vm_ops vm) (vm_parse_system_result vm) (vm_debug_bound vm) h c 0"
  by (simp add: into_backend_def host_backend_def go_db_def GoStorage_new_def iter_table_def)

lemma call_instance_chain:
  fixes w :: "('c, 'i, 's) sys" and vm :: "('c, 'n, 'q, 'i, 's) cosmwasm_vm"
  assumes "complete_host h" "c \<noteq> 0" "run_fits (vm_ops vm) (vm_parse_system_result vm) h (vm_call vm f inst texts) [] s"
    "in_call c w0 [] s (sys_ffi w)" "chain_prog (vm_ops vm) (vm_parse_system_result vm) h (vm_call vm f inst texts) [] s = (r, its, s')"
  shows "\<exists>ffi. call_instance vm f inst (host_backend (vm_ops vm) (vm_parse_system_result vm) (vm_debug_bound vm) h c 0) texts w =
      ((case r of Return (res, inst') \<Rightarrow> Ok (Inr (res, vm_create_gas_report vm inst')) | Panics p \<Rightarrow> Panic p), w\<lparr>sys_ffi := ffi\<rparr>) \<and>
    in_call c w0 its s' ffi"
proof -
  from run_prog_chain [OF assms(1-4) _ assms(5), of "vm_debug_bound vm"] obtain ffi where
    "run_prog (vm_call vm f inst texts) (host_backend (vm_ops vm) (vm_parse_system_result vm) (vm_debug_bound vm) h c 0) (sys_ffi w) =
      (go_res r, ffi)" "in_call c w0 its s' ffi" by auto
  then show ?thesis by (cases r) (auto simp: call_instance_def on_ffi_def)
qed

text \<open>The body of the guarded functions, for two and for three arguments.\<close>

definition call_body ::
    "('c, 'n, 'q, 'i, 's) cosmwasm_vm \<Rightarrow> vm_fn \<Rightarrow> nat \<Rightarrow> byte_slice \<Rightarrow> byte_slice list \<Rightarrow> ('i, 's) host \<Rightarrow> u64 \<Rightarrow> u64
      \<Rightarrow> (('c, 'i, 's) sys, RustError + (VmError + rust_vec) \<times> GasReport) eff" where
  "call_body vm f p cs args h gas c =
     and_then (read_checksum (makeView cs)) (\<lambda>checksum.
     and_then (ret (text_args (zip [ARG1, ARG2, ARG3] args))) (\<lambda>texts.
     and_then (vm_method p (vm_get_instance vm checksum gas)) (\<lambda>inst.
     call_instance vm f inst (host_backend (vm_ops vm) (vm_parse_system_result vm) (vm_debug_bound vm) h c 0) texts)))"

lemma guarded_call_body:
  assumes "slice_len cs < 2 ^ 64" "\<forall>a\<in>set args. slice_len a < 2 ^ 64" "length args = 2 \<or> length args = 3"
  shows "guarded_call vm f p cs args h gas dbg c w = catch_unwind (call_body vm f p cs args h gas c) w"
  using assms
  by (auto simp: guarded_call_def guarded_def to_cache_def call_body_def length_Suc_conv numeral_2_eq_2 numeral_3_eq_3 do_call_2_args_def
      do_call_3_args_def into_backend_host catch_unwind_def and_then_def read_checksum_view read_arg_view split: sum.split)

lemma guarded_call_chain:
  fixes w :: "('c, 'i, 's) sys" and vm :: "('c, 'n, 'q, 'i, 's) cosmwasm_vm"
  assumes "complete_host h" "c \<noteq> 0" "in_call c w0 [] s (sys_ffi w)" "sys_caches w p = Some cache"
    "chain_call_fits vm f cs args h gas cache s" "length args = 2 \<or> length args = 3"
    "chain_call vm f cs args h gas cache s = (r, its, cache', s')"
  shows "\<exists>w'. guarded_call vm f p cs args h gas dbg c w = (Ok r, w') \<and> in_call c w0 its s' (sys_ffi w') \<and>
    sys_caches w' = (sys_caches w)(p \<mapsto> cache')"
proof -
  from assms(5) have sizes: "slice_len cs < 2 ^ 64" "\<forall>a\<in>set args. slice_len a < 2 ^ 64"
    by (simp_all add: chain_call_fits_def fits_def list_all_iff)
  note run = guarded_call_body [OF sizes assms(6)] call_body_def catch_unwind_def and_then_def read_checksum_view [OF sizes(1)]
    vm_method_def on_cache_def assms(4) vm_result_def
  show ?thesis
  proof (cases "checksum_arg cs")
    case (Inl e)
    with assms(3,4,7) show ?thesis by (auto simp: run chain_call_def)
  next
    case cs: (Inr checksum)
    show ?thesis
    proof (cases "text_args (zip [ARG1, ARG2, ARG3] args)")
      case (Inl e)
      with cs assms(3,4,7) show ?thesis by (auto simp: run chain_call_def)
    next
      case texts: (Inr texts)
      obtain i c1 where get: "vm_get_instance vm checksum gas cache = (i, c1)" by fastforce
      show ?thesis
      proof (cases "\<exists>inst. i = Return (Inr inst)")
        case False
        with cs texts get assms(3,4,7) show ?thesis
          by (cases i) (auto simp: run chain_call_def split: sum.splits)
      next
        case True
        then obtain inst where i: "i = Return (Inr inst)" by blast
        obtain x its1 s1 where x: "chain_prog (vm_ops vm) (vm_parse_system_result vm) h (vm_call vm f inst texts) [] s = (x, its1, s1)"
          by (metis prod_cases3)
        define w1 where "w1 = w\<lparr>sys_caches := (sys_caches w)(p \<mapsto> c1)\<rparr>"
        have w1: "in_call c w0 [] s (sys_ffi w1)" using assms(3) by (simp add: w1_def)
        have "run_fits (vm_ops vm) (vm_parse_system_result vm) h (vm_call vm f inst texts) [] s"
          using assms(5) cs texts get i by (simp add: chain_call_fits_def)
        from call_instance_chain [OF assms(1,2) this w1 x] obtain ffi where
          "call_instance vm f inst (host_backend (vm_ops vm) (vm_parse_system_result vm) (vm_debug_bound vm) h c 0) texts w1 =
            ((case x of Return (res, inst') \<Rightarrow> Ok (Inr (res, vm_create_gas_report vm inst')) | Panics p \<Rightarrow> Panic p), w1\<lparr>sys_ffi := ffi\<rparr>)"
          "in_call c w0 its1 s1 ffi" by blast
        with cs texts get i x assms(7) show ?thesis
          by (cases x) (auto simp: run chain_call_def w1_def)
      qed
    qed
  qed
qed

text \<open>A method of the virtual machine: the call, the end of the call, and what the response decodes to.\<close>

definition chain_method ::
    "('c, 'n, 'q, 'i, 's) cosmwasm_vm \<Rightarrow> vm_fn \<Rightarrow> byte_slice \<Rightarrow> byte_slice list \<Rightarrow> ('i, 's) chain \<Rightarrow> u64 \<Rightarrow> UFraction \<Rightarrow> 'r response
      \<Rightarrow> 'c \<Rightarrow> 's \<Rightarrow> 'r vm_result res \<times> 'c \<times> 's" where
  "chain_method lib f cs args ch gas cost response cache s =
     (case chain_call lib f cs args (host_of ch) gas cache s of (r, its, cache', s1) \<Rightarrow>
        (case close_all (close_iterator (vm_ops lib)) its s1 of
           (Return _, s2) \<Rightarrow> (fst (respond response ch gas cost (go_result r) ()), cache', s2)
         | (Panics q, s2) \<Rightarrow> (Panic q, cache', s2)))"

fun on_chain ::
    "('c, 'n, 'q, 'i, 's) cosmwasm_vm \<Rightarrow> nat \<Rightarrow> byte_slice \<Rightarrow> ('i, 's) chain \<Rightarrow> u64 \<Rightarrow> UFraction \<Rightarrow> 'c \<Rightarrow> ('c, 'i, 's) sys \<Rightarrow> 'r response
      \<Rightarrow> (('c, 'i, 's) sys, 'r vm_result) eff \<times> vm_fn \<times> byte_slice list \<Rightarrow> bool" where
  "on_chain lib p cs ch gas cost cache w response (m, f, args) \<longleftrightarrow> chain_call_fits lib f cs args (host_of ch) gas cache (f_env (sys_ffi w)) \<longrightarrow>
     (\<exists>w' res cache'. chain_method lib f cs args ch gas cost response cache (f_env (sys_ffi w)) = (res, cache', f_env (sys_ffi w')) \<and>
        m w = (res, w') \<and> sys_caches w' = (sys_caches w)(p \<mapsto> cache') \<and> call_done p w w')"

lemma on_chainI:
  fixes w :: "('c, 'i, 's) sys" and lib :: "('c, 'n, 'q, 'i, 's) cosmwasm_vm"
  assumes "calls_contract lib p cs ch gas cost dbg w response (m, f, args)"
    "complete_chain ch" "heap_ok (heap_of w)" "sys_caches w p = Some cache"
    "latestCallID (f_iters (sys_ffi w)) + 1 \<noteq> 0" "iteratorFrames (f_iters (sys_ffi w)) (latestCallID (f_iters (sys_ffi w)) + 1) = None"
    "length args = 2 \<or> length args = 3"
  shows "on_chain lib p cs ch gas cost cache w response (m, f, args)"
  unfolding on_chain.simps
proof
  assume sizes: "chain_call_fits lib f cs args (host_of ch) gas cache (f_env (sys_ffi w))"
  define c where "c = latestCallID (f_iters (sys_ffi w)) + 1"
  have h: "complete_host (host_of ch)" using assms(2) by (simp add: complete_host_def complete_chain_def host_of_def)
  obtain r its cache' s1 where call: "chain_call lib f cs args (host_of ch) gas cache (f_env (sys_ffi w)) = (r, its, cache', s1)"
    by (metis prod_cases4)
  have start: "in_call c (sys_ffi (started w)) [] (f_env (sys_ffi w)) (sys_ffi (started w))" "sys_caches (started w) p = Some cache"
    using assms(3,4,6) by (auto simp: in_call_def started_def startCall_def c_def fun_upd_idem intro!: iter_state.equality)
  from guarded_call_chain [OF h assms(5) start [unfolded c_def] sizes assms(7) call, of dbg] obtain w1 where
    w1: "guarded_call lib f p cs args (host_of ch) gas dbg c (started w) = (Ok r, w1)"
      "in_call c (sys_ffi (started w)) its s1 (sys_ffi w1)" "sys_caches w1 = (sys_caches (started w))(p \<mapsto> cache')"
    unfolding c_def by blast
  with assms(1) obtain e s st w' where
    run: "endCall (close_iterator (vm_ops lib)) c (f_iters (sys_ffi w1)) (f_env (sys_ffi w1)) = ((e, s), st)"
      "m w = ((case e of Return _ \<Rightarrow> fst (respond response ch gas cost (go_result r) ()) | Panics q \<Rightarrow> Panic q), w')"
      "f_env (sys_ffi w') = s" "sys_caches w' = sys_caches w1" "call_done p w w'"
    by (auto simp flip: c_def)
  have "close_all (close_iterator (vm_ops lib)) its s1 = (e, s)"
    using run(1) w1(2) by (auto simp: in_call_def endCall_def removeFrame_def split: if_splits)
  with run w1(3) call show "\<exists>w' res cache'. chain_method lib f cs args ch gas cost response cache (f_env (sys_ffi w)) = (res, cache', f_env (sys_ffi w')) \<and>
      m w = (res, w') \<and> sys_caches w' = (sys_caches w)(p \<mapsto> cache') \<and> call_done p w w'"
    by (cases e) (simp_all add: chain_method_def started_def)
qed

section \<open>Properties\<close>

text \<open>
  C2: the code between the virtual machine and the chain cannot be told apart from the chain itself.  A contract that
  runs on the Rust backend, with its calls through the FFI, the Go callbacks and the table of iterators,
  gets at every step the answers, the gas and the errors it would get on the chain directly; it ends with
  the same result or panic, in the same state of the chain and with the same iterators open.  No memory
  stays allocated and the frames of other calls are as before.
\<close>

theorem contract_on_chain:
  fixes w :: "('i, 's) ffi" and prog :: "('q, 'r) vm_prog"
  assumes "complete_host h" "c \<noteq> 0" "run_fits ops parse h prog [] (f_env w)" "heap_ok (f_heap w)" "iteratorFrames (f_iters w) c = None"
    "chain_prog ops parse h prog [] (f_env w) = (r, its, s)"
  shows "\<exists>w'. run_prog prog (host_backend ops parse debug h c 0) w = (go_res r, w') \<and> f_env w' = s \<and>
    heap_ok (f_heap w') \<and> blocks (f_heap w') = blocks (f_heap w) \<and>
    f_iters w' = (f_iters w)\<lparr>iteratorFrames := (iteratorFrames (f_iters w))(c := if its = [] then None else Some its)\<rparr>"
proof -
  have "in_call c w [] (f_env w) w" using assms(4,5) by (simp add: in_call_def fun_upd_idem)
  from run_prog_chain [OF assms(1-3) this _ assms(6), of debug] show ?thesis by (auto simp: in_call_def)
qed

text \<open>A contract that writes, scans, takes a step of the iterator and reads, on the store with one value.\<close>

definition sample_host :: "(unit, string option \<times> u64) host" where
  "sample_host = \<lparr>h_json_err = \<lambda>_. [], h_gasMeter = counter, h_store = one_value_store, h_api = Some address_book, h_querier = Some bank\<rparr>"

definition no_items :: "(unit, string option \<times> u64) iterator_ops" where
  "no_items = \<lparr>it_Valid = \<lambda>i s. (Return False, s), it_Next = \<lambda>i s. (Panics nil_deref, s), it_Key = \<lambda>i s. (Panics nil_deref, s),
     it_Value = \<lambda>i s. (Panics nil_deref, s), it_Close = \<lambda>i s. (Return None, s)\<rparr>"

definition sample_contract :: "(unit, string option BackendResult \<times> (string \<times> string) option BackendResult) vm_prog" where
  "sample_contract = VmSet ''k'' ''new'' (\<lambda>_. VmScan None None Descending (\<lambda>_. VmNext 0 (\<lambda>e. VmGet ''k'' (\<lambda>r. VmDone (r, e)))))"

lemmas sample_run = sample_defs sample_contract_def sample_host_def no_items_def chain_set_def chain_get_def chain_scan_def chain_next_def
  at_iterator_def scan_op_def metered_env_def next_env_def backend_result_def record_result_def

theorem contract_on_chain_witness:
  "\<exists>w'. run_prog sample_contract (host_backend no_items (\<lambda>_. Inl []) (\<lambda>_. []) sample_host 7 0) quiet_ffi =
      (Ok ((Inr (Some ''new''), with_externally_used 3), (Inr None, with_externally_used 0)), w') \<and>
    f_env w' = (Some ''new'', 18) \<and> blocks (f_heap w') = blocks (f_heap quiet_ffi) \<and> iteratorFrames (f_iters w') 7 = Some [Some ()]"
proof -
  have run: "chain_prog no_items (\<lambda>_. Inl []) sample_host sample_contract [] (f_env quiet_ffi) =
      (Return ((Inr (Some ''new''), with_externally_used 3), (Inr None, with_externally_used 0)), [Some ()], (Some ''new'', 18))"
    by (simp add: sample_run)
  have fit: "run_fits no_items (\<lambda>_. Inl []) sample_host sample_contract [] (f_env quiet_ffi)"
    by (simp add: sample_run at_iterator_fits_def next_fits_def get_fits_def fits_def short_def)
  have host: "complete_host sample_host" by (simp add: complete_host_def sample_host_def address_book_def)
  have "iteratorFrames (f_iters quiet_ffi) 7 = None" by (simp add: quiet_ffi_def iter_init_def)
  from contract_on_chain [OF host _ fit quiet_heap this run, of "\<lambda>_. []"] show ?thesis by auto
qed

text \<open>
  C1: so a method that calls a contract, from \<open>Instantiate\<close> to \<open>IBC2PacketSend\<close>, is a function of the cache and the
  chain: it loads the code, runs the contract on the chain, closes the iterators the contract left open and
  decodes the response.  The cache and the chain are changed by this and nothing else.
\<close>

theorem methods_on_chain:
  fixes w :: "('c, 'i, 's) sys" and lib :: "('c, 'n, 'q, 'i, 's) cosmwasm_vm"
  assumes "vm_sound lib" "complete_chain ch"
    "heap_ok (heap_of w)" "Cache_ptr (VM_cache vm) = Some p" "sys_caches w p = Some cache"
    "latestCallID (f_iters (sys_ffi w)) + 1 \<noteq> 0" "iteratorFrames (f_iters (sys_ffi w)) (latestCallID (f_iters (sys_ffi w)) + 1) = None"
  shows "list_all (on_chain lib p cs ch gas cost cache w ContractResult_response)
      (contract_methods lib vm cs envir info msg minfo rply ch gas cost) \<and>
    list_all (on_chain lib p cs ch gas cost cache w IBCBasicResult_response)
      (ibc_methods lib vm cs envir m1 m2 m3 m4 m5 m6 ch gas cost @ ibc2_methods lib vm cs envir n1 n2 n3 ch gas cost) \<and>
    list_all (on_chain lib p cs ch gas cost cache w IBCReceiveResult_response)
      (receive_methods lib vm cs envir r1 r2 ch gas cost) \<and>
    on_chain lib p cs ch gas cost cache w IBCChannelOpenResult_response
      (VM_IBCChannelOpen lib vm cs envir om ch gas cost, call_ibc_channel_open_raw,
        [text_of (Env_to_json envir), text_of (IBCChannelOpenMsg_to_json om)]) \<and>
    on_chain lib p cs ch gas cost cache w QueryResult_response
      (VM_Query lib vm cs envir msg ch gas cost, call_query_raw, [text_of (Env_to_json envir), msg])"
proof -
  have cache: "sys_caches w p \<noteq> None" using assms(5) by simp
  note calls = calls_contractI [OF assms(1-4) cache]
  show ?thesis
    unfolding VM_call_defs marshal_print contract_methods_def ibc_methods_def ibc2_methods_def receive_methods_def
      append.simps list.pred_inject
    by (intro conjI TrueI on_chainI [OF calls assms(2,3,5-7)]) (simp_all add: entry_points_def)
qed

theorem methods_on_chain_witness:
  "\<exists>w' res. VM_Execute echo_vm sample_VM (Some (replicate 32 CHR ''x''))
      \<lparr>Env_Block = \<lparr>BlockInfo_Height = 1, BlockInfo_Time = 2, BlockInfo_ChainID = ''c''\<rparr>, Env_Transaction = None,
        Env_Contract = \<lparr>ContractInfo_Address = ''a''\<rparr>\<rparr> \<lparr>MessageInfo_Sender = ''s'', MessageInfo_Funds = None\<rparr> (Some ''{}'')
      counting_chain 9 \<lparr>UFraction_Numerator = 1, UFraction_Denominator = 2\<rparr> fresh_sys = (res, w') \<and>
    f_env (sys_ffi fresh_sys) = 5 \<and> f_env (sys_ffi w') = 6 \<and> call_done 0 fresh_sys w'"
proof -
  let ?env = "\<lparr>Env_Block = \<lparr>BlockInfo_Height = 1, BlockInfo_Time = 2, BlockInfo_ChainID = ''c''\<rparr>, Env_Transaction = None,
    Env_Contract = \<lparr>ContractInfo_Address = ''a''\<rparr>\<rparr>"
  let ?info = "\<lparr>MessageInfo_Sender = ''s'', MessageInfo_Funds = None\<rparr>"
  let ?cost = "\<lparr>UFraction_Numerator = 1, UFraction_Denominator = 2\<rparr>"
  let ?cs = "Some (replicate 32 CHR ''x'')"
  let ?args = "[text_of (Env_to_json ?env), text_of (MessageInfo_to_json ?info), Some ''{}'']"
  note echo = chain_call_def checksum_arg_def Checksum_try_from_def bytes_arg_def echo_vm_def host_of_def counting_chain_def
    counting_host_def chain_set_def chain_scan_def scan_op_def metered_env_def backend_result_def
  have call: "\<exists>r. chain_call echo_vm call_execute_raw ?cs ?args (host_of counting_chain) 9 () 5 = (r, [Some ()], (), 6)"
    by (simp add: echo)
  have "fits (text_of (Env_to_json ?env))" "fits (text_of (MessageInfo_to_json ?info))"
    by (simp_all add: fits_def Env_to_json_def BlockInfo_to_json_def ContractInfo_to_json_def MessageInfo_to_json_def fld_def fld_omit_def
        json_ptr_def json_quote_def esc_ascii_def dec.simps digit_lits json_u64_def json_uint_def Uint64_MarshalJSON_def
        Array_MarshalJSON_def)
  then have fit: "chain_call_fits echo_vm call_execute_raw ?cs ?args (host_of counting_chain) 9 () 5"
    by (simp add: chain_call_fits_def echo fits_def short_def)
  have w: "f_env (sys_ffi fresh_sys) = 5" "latestCallID (f_iters (sys_ffi fresh_sys)) + 1 = 1"
    "iteratorFrames (f_iters (sys_ffi fresh_sys)) 1 = None" by (simp_all add: fresh_sys_def iter_init_def)
  have "Cache_ptr (VM_cache sample_VM) = Some 0" by (simp add: sample_VM_def echo_ok)
  from methods_on_chain [OF echo_vm_sound counting_chain_complete echo_ok(3) this echo_ok(4), unfolded w(2), OF _ w(3), of ?cs 9 ?cost ?env ?info "Some ''{}''"]
  have "on_chain echo_vm 0 ?cs counting_chain 9 ?cost () fresh_sys ContractResult_response
      (VM_Execute echo_vm sample_VM ?cs ?env ?info (Some ''{}'') counting_chain 9 ?cost, call_execute_raw, ?args)"
    by (simp add: contract_methods_def del: on_chain.simps)
  with fit call w(1) show ?thesis
    by (auto simp: chain_method_def echo_vm_def close_iterator_def split: prod.splits)
qed

end
