(* ===== verification/MemDB.thy ===== *)
theory MemDB
  imports Callbacks "HOL-Library.Char_ord" "HOL-Library.List_Lexorder"
begin

text \<open>
  The in-memory database of \<open>internal/api/testdb\<close>: \<open>memdb.go\<close> and \<open>memdb_iterator.go\<close>.  The B-tree is the
  package \<open>github.com/google/btree\<close>, which is not part of the repository: the record \<open>btree\<close> has the functions
  the code calls and \<open>btree_ok\<close> what its documentation says of them.  An iterator is a goroutine that walks
  the tree and sends the items through a channel of 64 places; its steps are the relation \<open>goroutine\<close>,
  and the database keeps of an iterator the items that are still to come.
\<close>

section \<open>Items and the B-tree\<close>

record item =
  item_key :: byte_slice
  item_value :: byte_slice

definition bytes_Compare :: "byte_slice \<Rightarrow> byte_slice \<Rightarrow> int" where
  "bytes_Compare a b = (if elems a = elems b then 0 else if elems a < elems b then -1 else 1)"

definition bytes_Equal :: "byte_slice \<Rightarrow> byte_slice \<Rightarrow> bool" where
  "bytes_Equal a b \<longleftrightarrow> elems a = elems b"

definition item_Less :: "item \<Rightarrow> item \<Rightarrow> bool" where
  "item_Less i other \<longleftrightarrow> bytes_Compare (item_key i) (item_key other) = -1"

definition newKey :: "byte_slice \<Rightarrow> item" where
  "newKey key = \<lparr>item_key = key, item_value = None\<rparr>"

definition newPair :: "byte_slice \<Rightarrow> byte_slice \<Rightarrow> item" where
  "newPair key val = \<lparr>item_key = key, item_value = val\<rparr>"

text \<open>The traversals are given by the items they hand to a visitor that never stops them.\<close>

record 't btree =
  bt_New :: "nat \<Rightarrow> 't"
  bt_Get :: "'t \<Rightarrow> item \<Rightarrow> item option"
  bt_Has :: "'t \<Rightarrow> item \<Rightarrow> bool"
  bt_Len :: "'t \<Rightarrow> nat"
  bt_ReplaceOrInsert :: "item \<Rightarrow> 't \<Rightarrow> 't"
  bt_Delete :: "item \<Rightarrow> 't \<Rightarrow> 't"
  bt_Ascend :: "'t \<Rightarrow> item list"
  bt_Descend :: "'t \<Rightarrow> item list"
  bt_AscendGreaterOrEqual :: "'t \<Rightarrow> item \<Rightarrow> item list"
  bt_AscendRange :: "'t \<Rightarrow> item \<Rightarrow> item \<Rightarrow> item list"
  bt_DescendLessOrEqual :: "'t \<Rightarrow> item \<Rightarrow> item list"

text \<open>
  The documented behaviour: a tree stands for the list \<open>L t\<close> of its items in ascending order, one of
  each class of items neither of which is less than the other.
\<close>

definition btree_ok :: "'t btree \<Rightarrow> ('t \<Rightarrow> bool) \<Rightarrow> ('t \<Rightarrow> item list) \<Rightarrow> bool" where
  "btree_ok bt ok L \<longleftrightarrow>
     (\<forall>d. ok (bt_New bt d) \<and> L (bt_New bt d) = []) \<and>
     (\<forall>t. ok t \<longrightarrow> sorted_wrt item_Less (L t) \<and>
        (\<forall>k. bt_Get bt t k = find (\<lambda>i. \<not> item_Less i k \<and> \<not> item_Less k i) (L t)) \<and>
        (\<forall>k. bt_Has bt t k \<longleftrightarrow> (\<exists>i\<in>set (L t). \<not> item_Less i k \<and> \<not> item_Less k i)) \<and>
        bt_Len bt t = length (L t) \<and>
        (\<forall>x. ok (bt_ReplaceOrInsert bt x t) \<and>
           L (bt_ReplaceOrInsert bt x t) = filter (\<lambda>i. item_Less i x) (L t) @ x # filter (item_Less x) (L t)) \<and>
        (\<forall>k. ok (bt_Delete bt k t) \<and> L (bt_Delete bt k t) = filter (\<lambda>i. item_Less i k \<or> item_Less k i) (L t)) \<and>
        bt_Ascend bt t = L t \<and> bt_Descend bt t = rev (L t) \<and>
        (\<forall>k. bt_AscendGreaterOrEqual bt t k = filter (\<lambda>i. \<not> item_Less i k) (L t)) \<and>
        (\<forall>a b. bt_AscendRange bt t a b = filter (\<lambda>i. \<not> item_Less i a \<and> item_Less i b) (L t)) \<and>
        (\<forall>k. bt_DescendLessOrEqual bt t k = rev (filter (\<lambda>i. \<not> item_Less k i) (L t))))"

section \<open>The goroutine of an iterator\<close>

definition chBufferSize :: nat where
  "chBufferSize = 64"

text \<open>What the visitor sends of the items it is handed, as long as the iterator is not cancelled.\<close>

fun visitor :: "byte_slice \<Rightarrow> byte_slice \<Rightarrow> item list \<Rightarrow> item list" where
  "visitor skipEqual abortLessThan [] = []"
| "visitor skipEqual abortLessThan (i # items) =
     (if skipEqual \<noteq> None \<and> bytes_Equal (item_key i) skipEqual then visitor None abortLessThan items
      else if abortLessThan \<noteq> None \<and> bytes_Compare (item_key i) abortLessThan = -1 then []
      else i # visitor skipEqual abortLessThan items)"

definition traverse :: "'t btree \<Rightarrow> 't \<Rightarrow> byte_slice \<Rightarrow> byte_slice \<Rightarrow> bool \<Rightarrow> item list" where
  "traverse bt t start end' reverse =
     (if start = None \<and> end' = None \<and> \<not> reverse then visitor None None (bt_Ascend bt t)
      else if start = None \<and> end' = None \<and> reverse then visitor None None (bt_Descend bt t)
      else if end' = None \<and> \<not> reverse then visitor None None (bt_AscendGreaterOrEqual bt t (newKey start))
      else if \<not> reverse then visitor None None (bt_AscendRange bt t (newKey start) (newKey end'))
      else if end' = None then visitor None start (bt_Descend bt t)
      else visitor end' start (bt_DescendLessOrEqual bt t (newKey end')))"

text \<open>
  The goroutine with its channel: the items it has still to send, the buffer of the channel, whether the
  channel is closed, whether the context is cancelled and whether the read lock is held.
\<close>

record traversal =
  tr_todo :: "item list"
  tr_buf :: "item list"
  tr_closed :: bool
  tr_cancelled :: bool
  tr_locked :: bool

definition go_traversal :: "item list \<Rightarrow> bool \<Rightarrow> traversal" where
  "go_traversal items useMtx =
     \<lparr>tr_todo = items, tr_buf = [], tr_closed = False, tr_cancelled = False, tr_locked = useMtx\<rparr>"

inductive goroutine :: "traversal \<Rightarrow> traversal \<Rightarrow> bool" where
  send: "tr_todo t = x # xs \<Longrightarrow> length (tr_buf t) < chBufferSize \<Longrightarrow>
    goroutine t (t\<lparr>tr_todo := xs, tr_buf := tr_buf t @ [x]\<rparr>)"
| give_up: "tr_todo t = x # xs \<Longrightarrow> tr_cancelled t \<Longrightarrow> goroutine t (t\<lparr>tr_todo := []\<rparr>)"
| close: "tr_todo t = [] \<Longrightarrow> \<not> tr_closed t \<Longrightarrow> goroutine t (t\<lparr>tr_closed := True\<rparr>)"
| unlock: "tr_closed t \<Longrightarrow> tr_locked t \<Longrightarrow> goroutine t (t\<lparr>tr_locked := False\<rparr>)"

inductive_cases goroutineE: "goroutine t t'"

text \<open>\<open>item, ok := <-ch\<close> where it does not wait: an item, or \<open>None\<close> when the channel is closed and empty.\<close>

definition chan_recv :: "traversal \<Rightarrow> (item option \<times> traversal) option" where
  "chan_recv t = (case tr_buf t of
     x # buf \<Rightarrow> Some (Some x, t\<lparr>tr_buf := buf\<rparr>)
   | [] \<Rightarrow> if tr_closed t then Some (None, t) else None)"

text \<open>A receive that may wait for the goroutine.\<close>

inductive receives :: "traversal \<Rightarrow> item option \<Rightarrow> traversal \<Rightarrow> bool" where
  "goroutine\<^sup>*\<^sup>* t t1 \<Longrightarrow> chan_recv t1 = Some (r, t') \<Longrightarrow> receives t r t'"

text \<open>\<open>for range i.ch\<close>: receives until the channel is closed.\<close>

inductive drains :: "traversal \<Rightarrow> traversal \<Rightarrow> bool" where
  drained: "receives t None t' \<Longrightarrow> drains t t'"
| more: "receives t (Some x) t1 \<Longrightarrow> drains t1 t' \<Longrightarrow> drains t t'"

definition traversal_ok :: "traversal \<Rightarrow> bool" where
  "traversal_ok t \<longleftrightarrow> (tr_closed t \<longrightarrow> tr_todo t = []) \<and> length (tr_buf t) \<le> chBufferSize"

definition pending :: "traversal \<Rightarrow> item list" where
  "pending t = tr_buf t @ tr_todo t"

lemma goroutine_ok: "goroutine t t' \<Longrightarrow> traversal_ok t \<Longrightarrow> traversal_ok t' \<and> tr_cancelled t' = tr_cancelled t"
  by (auto simp: traversal_ok_def elim!: goroutineE)

lemma goroutine_pending: "goroutine t t' \<Longrightarrow> \<not> tr_cancelled t \<Longrightarrow> pending t' = pending t"
  by (auto simp: pending_def elim!: goroutineE)

lemma goroutines_ok: "goroutine\<^sup>*\<^sup>* t t' \<Longrightarrow> traversal_ok t \<Longrightarrow> traversal_ok t' \<and> tr_cancelled t' = tr_cancelled t"
  by (induction rule: rtranclp_induct) (auto dest: goroutine_ok)

lemma goroutines_pending: "goroutine\<^sup>*\<^sup>* t t' \<Longrightarrow> traversal_ok t \<Longrightarrow> \<not> tr_cancelled t \<Longrightarrow> pending t' = pending t"
  by (induction rule: rtranclp_induct) (auto dest!: goroutine_pending goroutines_ok)

text \<open>The goroutine makes finitely many steps, and it can make one whenever a receive would wait.\<close>

definition steps_left :: "traversal \<Rightarrow> nat" where
  "steps_left t = length (tr_todo t) + (if tr_closed t then 0 else 1) + (if tr_locked t then 1 else 0)"

lemma goroutine_steps: "goroutine t t' \<Longrightarrow> steps_left t' < steps_left t"
  by (auto simp: steps_left_def elim!: goroutineE)

lemma goroutine_ready: "chan_recv t = None \<Longrightarrow> \<exists>t'. goroutine t t'"
proof -
  assume "chan_recv t = None"
  then have t: "tr_buf t = []" "\<not> tr_closed t" by (auto simp: chan_recv_def split: list.splits if_splits)
  show ?thesis
  proof (cases "tr_todo t")
    case Nil
    with t close [of t] show ?thesis by blast
  next
    case (Cons x xs)
    with t send [OF Cons] show ?thesis by (auto simp: chBufferSize_def)
  qed
qed

lemma receives_some: "\<exists>r t'. receives t r t'"
proof (induction "steps_left t" arbitrary: t rule: less_induct)
  case less
  show ?case
  proof (cases "chan_recv t")
    case None
    then obtain t1 where 1: "goroutine t t1" using goroutine_ready by blast
    with less goroutine_steps obtain r t' where "receives t1 r t'" by blast
    then obtain t2 where "goroutine\<^sup>*\<^sup>* t1 t2" "chan_recv t2 = Some (r, t')" by (auto simp: receives.simps)
    with 1 have "receives t r t'" by (meson receives.intros converse_rtranclp_into_rtranclp)
    then show ?thesis by blast
  next
    case (Some rt)
    then show ?thesis by (metis receives.intros rtranclp.rtrancl_refl surj_pair)
  qed
qed

lemma chan_recv_ok:
  "chan_recv t = Some (r, t') \<Longrightarrow> traversal_ok t \<Longrightarrow> traversal_ok t' \<and> tr_cancelled t' = tr_cancelled t \<and>
    (case pending t of [] \<Rightarrow> r = None \<and> pending t' = [] | x # xs \<Rightarrow> r = Some x \<and> pending t' = xs)"
  by (auto simp: chan_recv_def traversal_ok_def pending_def split: list.splits if_splits)

lemma receives_ok: "receives t r t' \<Longrightarrow> traversal_ok t \<Longrightarrow> traversal_ok t' \<and> tr_cancelled t' = tr_cancelled t"
  by (auto simp: receives.simps dest!: goroutines_ok chan_recv_ok)

text \<open>What a receive returns does not depend on the steps the goroutine made.\<close>

lemma receives_next:
  assumes "receives t r t'" "traversal_ok t" "\<not> tr_cancelled t"
  shows "case pending t of [] \<Rightarrow> r = None \<and> pending t' = [] | x # xs \<Rightarrow> r = Some x \<and> pending t' = xs"
  using assms goroutines_pending goroutines_ok chan_recv_ok by (auto simp: receives.simps) (metis (no_types, lifting))

lemma goroutine_length: "goroutine t t' \<Longrightarrow> length (pending t') \<le> length (pending t)"
  by (auto simp: pending_def elim!: goroutineE)

lemma goroutines_length: "goroutine\<^sup>*\<^sup>* t t' \<Longrightarrow> length (pending t') \<le> length (pending t)"
  by (induction rule: rtranclp_induct) (auto dest: goroutine_length)

lemma receives_length: "receives t (Some x) t' \<Longrightarrow> length (pending t') < length (pending t)"
proof -
  assume "receives t (Some x) t'"
  then obtain t1 where t1: "goroutine\<^sup>*\<^sup>* t t1" "chan_recv t1 = Some (Some x, t')" by (auto simp: receives.simps)
  from t1(2) have "length (pending t') < length (pending t1)"
    by (auto simp: chan_recv_def pending_def split: list.splits if_splits)
  with goroutines_length [OF t1(1)] show ?thesis by simp
qed

lemma drains_some: "\<exists>t'. drains t t'"
proof (induction "length (pending t)" arbitrary: t rule: less_induct)
  case less
  obtain r t1 where 1: "receives t r t1" using receives_some by blast
  show ?case
  proof (cases r)
    case None
    with 1 show ?thesis by (auto intro: drains.intros)
  next
    case (Some x)
    with 1 less receives_length obtain t' where "drains t1 t'" by blast
    with 1 Some show ?thesis by (auto intro: drains.intros)
  qed
qed

lemma chan_recv_None: "chan_recv t = Some (None, t') \<longleftrightarrow> tr_buf t = [] \<and> tr_closed t \<and> t' = t"
  by (cases "tr_buf t") (auto simp: chan_recv_def)

lemma drains_closed: "drains t t' \<Longrightarrow> tr_closed t' \<and> tr_buf t' = []"
  by (induction rule: drains.induct) (auto simp: receives.simps chan_recv_None)

text \<open>Whether the goroutine gets to release the lock when nobody receives.\<close>

lemma unlocked_closed: "goroutine\<^sup>*\<^sup>* t t' \<Longrightarrow> tr_locked t \<Longrightarrow> \<not> tr_locked t' \<Longrightarrow> tr_closed t'"
  by (induction rule: rtranclp_induct) (auto elim!: goroutineE)

lemma goroutine_finishes:
  "length (pending t) \<le> chBufferSize \<Longrightarrow> \<exists>t'. goroutine\<^sup>*\<^sup>* t t' \<and> \<not> tr_locked t'"
proof (induction "tr_todo t" arbitrary: t)
  case Nil
  obtain t1 where 1: "goroutine\<^sup>*\<^sup>* t t1" "tr_closed t1"
  proof (cases "tr_closed t")
    case False
    with close [of t] Nil that [of "t\<lparr>tr_closed := True\<rparr>"] show ?thesis by (simp add: r_into_rtranclp)
  qed (use that in blast)
  show ?case
  proof (cases "tr_locked t1")
    case True
    with unlock [of t1] 1 have "goroutine\<^sup>*\<^sup>* t (t1\<lparr>tr_locked := False\<rparr>)" by (auto intro: rtranclp.rtrancl_into_rtrancl)
    moreover have "\<not> tr_locked (t1\<lparr>tr_locked := False\<rparr>)" by simp
    ultimately show ?thesis by blast
  qed (use 1 in blast)
next
  case (Cons x xs)
  define t1 where "t1 = t\<lparr>tr_todo := xs, tr_buf := tr_buf t @ [x]\<rparr>"
  have "length (tr_buf t) < chBufferSize" using Cons(2,3) by (simp add: pending_def flip: Cons(2))
  with send [of t x xs] Cons(2) have 1: "goroutine t t1" by (simp add: t1_def)
  have "pending t1 = pending t" using Cons(2) by (simp add: t1_def pending_def flip: Cons(2))
  with Cons(1) [of t1] Cons(3) obtain t' where "goroutine\<^sup>*\<^sup>* t1 t'" "\<not> tr_locked t'" by (auto simp: t1_def)
  with 1 show ?case by (blast intro: converse_rtranclp_into_rtranclp)
qed

lemma lock_released:
  assumes "traversal_ok t" "tr_locked t" "\<not> tr_cancelled t"
  shows "(\<exists>t'. goroutine\<^sup>*\<^sup>* t t' \<and> \<not> tr_locked t') \<longleftrightarrow> length (pending t) \<le> chBufferSize"
proof
  assume "\<exists>t'. goroutine\<^sup>*\<^sup>* t t' \<and> \<not> tr_locked t'"
  then obtain t' where t': "goroutine\<^sup>*\<^sup>* t t'" "\<not> tr_locked t'" by blast
  with unlocked_closed assms(2) have "tr_closed t'" by blast
  with goroutines_ok [OF t'(1) assms(1)] have "length (pending t') \<le> chBufferSize" by (simp add: traversal_ok_def pending_def)
  with goroutines_pending [OF t'(1) assms(1,3)] show "length (pending t) \<le> chBufferSize" by simp
qed (rule goroutine_finishes)

text \<open>
  A step while an iterator is being closed: the goroutine works on, or the loop of \<open>Close\<close> takes an item from the channel.
\<close>

inductive closing :: "traversal \<Rightarrow> traversal \<Rightarrow> bool" where
  work: "goroutine t t' \<Longrightarrow> closing t t'"
| take: "chan_recv t = Some (Some x, t') \<Longrightarrow> closing t t'"

inductive_cases closingE: "closing t t'"

definition closing_left :: "traversal \<Rightarrow> nat" where
  "closing_left t = steps_left t + length (pending t)"

lemma closing_decreases: "closing t t' \<Longrightarrow> closing_left t' < closing_left t"
  by (auto simp: closing_left_def steps_left_def pending_def chan_recv_def elim!: closingE goroutineE split: list.splits if_splits)

lemma closing_steps: "(closing ^^ n) t t' \<Longrightarrow> n + closing_left t' \<le> closing_left t"
proof (induction n arbitrary: t')
  case (Suc n)
  then obtain t1 where "(closing ^^ n) t t1" "closing t1 t'" by auto
  with Suc.IH closing_decreases [of t1 t'] show ?case by fastforce
qed simp

lemma closing_stuck:
  assumes "\<nexists>t'. closing t t'"
  shows "tr_todo t = []" "tr_buf t = []" "tr_closed t" "\<not> tr_locked t"
proof -
  have none: "\<not> goroutine t t'" "chan_recv t \<noteq> Some (Some x, t')" for t' x using assms by (blast intro: closing.intros)+
  show buf: "tr_buf t = []" using none(2) by (cases "tr_buf t") (auto simp: chan_recv_def)
  show todo: "tr_todo t = []" using none(1) send [of t] buf by (cases "tr_todo t") (auto simp: chBufferSize_def)
  show closed: "tr_closed t" using none(1) close [OF todo] by blast
  show "\<not> tr_locked t" using none(1) unlock [OF closed] by blast
qed

section \<open>The database\<close>

definition errKeyEmpty :: go_error where
  "errKeyEmpty = OtherError ''key cannot be empty''"

definition errValueNil :: go_error where
  "errValueNil = OtherError ''value cannot be nil''"

definition bTreeDegree :: nat where
  "bTreeDegree = 32"

text \<open>An iterator: the current item and what its goroutine has still to deliver.\<close>

record memDBIterator =
  mi_item :: "item option"
  mi_pending :: "item list"
  mi_start :: byte_slice
  mi_end :: byte_slice
  mi_useMtx :: bool

record 't MemDB =
  db_btree :: 't
  db_iterators :: "memDBIterator list"

definition NewMemDB :: "'t btree \<Rightarrow> 't MemDB" where
  "NewMemDB bt = \<lparr>db_btree = bt_New bt bTreeDegree, db_iterators = []\<rparr>"

text \<open>
  Whether \<open>db.mtx.Lock()\<close> waits: a goroutine that holds the read lock has more to send than its channel holds.
\<close>

definition lock_waits :: "'t MemDB \<Rightarrow> bool" where
  "lock_waits db \<longleftrightarrow> (\<exists>i\<in>set (db_iterators db). mi_useMtx i \<and> length (mi_pending i) > chBufferSize)"

definition MemDB_Get :: "'t btree \<Rightarrow> 't MemDB \<Rightarrow> byte_slice \<Rightarrow> byte_slice \<times> error" where
  "MemDB_Get bt db key =
     (if slice_len key = 0 then (None, Some errKeyEmpty)
      else case bt_Get bt (db_btree db) (newKey key) of
        Some i \<Rightarrow> (item_value i, None)
      | None \<Rightarrow> (None, None))"

definition MemDB_Has :: "'t btree \<Rightarrow> 't MemDB \<Rightarrow> byte_slice \<Rightarrow> bool \<times> error" where
  "MemDB_Has bt db key =
     (if slice_len key = 0 then (False, Some errKeyEmpty)
      else (bt_Has bt (db_btree db) (newKey key), None))"

definition MemDB_set :: "'t btree \<Rightarrow> byte_slice \<Rightarrow> byte_slice \<Rightarrow> 't MemDB \<Rightarrow> 't MemDB" where
  "MemDB_set bt key val db = db\<lparr>db_btree := bt_ReplaceOrInsert bt (newPair key val) (db_btree db)\<rparr>"

text \<open>\<open>None\<close>: the call waits for a lock that nobody releases.\<close>

definition MemDB_Set :: "'t btree \<Rightarrow> byte_slice \<Rightarrow> byte_slice \<Rightarrow> 't MemDB \<Rightarrow> (error \<times> 't MemDB) option" where
  "MemDB_Set bt key val db =
     (if slice_len key = 0 then Some (Some errKeyEmpty, db)
      else if val = None then Some (Some errValueNil, db)
      else if lock_waits db then None
      else Some (None, MemDB_set bt key val db))"

definition MemDB_SetSync :: "'t btree \<Rightarrow> byte_slice \<Rightarrow> byte_slice \<Rightarrow> 't MemDB \<Rightarrow> (error \<times> 't MemDB) option" where
  "MemDB_SetSync bt key val db = MemDB_Set bt key val db"

definition MemDB_delete :: "'t btree \<Rightarrow> byte_slice \<Rightarrow> 't MemDB \<Rightarrow> 't MemDB" where
  "MemDB_delete bt key db = db\<lparr>db_btree := bt_Delete bt (newKey key) (db_btree db)\<rparr>"

definition MemDB_Delete :: "'t btree \<Rightarrow> byte_slice \<Rightarrow> 't MemDB \<Rightarrow> (error \<times> 't MemDB) option" where
  "MemDB_Delete bt key db =
     (if slice_len key = 0 then Some (Some errKeyEmpty, db)
      else if lock_waits db then None
      else Some (None, MemDB_delete bt key db))"

definition MemDB_DeleteSync :: "'t btree \<Rightarrow> byte_slice \<Rightarrow> 't MemDB \<Rightarrow> (error \<times> 't MemDB) option" where
  "MemDB_DeleteSync bt key db = MemDB_Delete bt key db"

definition MemDB_Close :: "'t MemDB \<Rightarrow> error" where
  "MemDB_Close db = None"

text \<open>The text \<open>Print\<close> writes to standard output, and what it returns.\<close>

definition MemDB_Print :: "'t btree \<Rightarrow> 't MemDB \<Rightarrow> string \<times> error" where
  "MemDB_Print bt db =
     (concat (map (\<lambda>i. ''['' @ hex_upper (elems (item_key i)) @ '']:'' @ [CHR 0x09] @ ''['' @ hex_upper (elems (item_value i)) @ '']'' @ [CHR 0x0A])
        (bt_Ascend bt (db_btree db))), None)"

definition MemDB_Stats :: "'t btree \<Rightarrow> 't MemDB \<Rightarrow> string \<rightharpoonup> string" where
  "MemDB_Stats bt db = [''database.type'' \<mapsto> ''memDB'', ''database.size'' \<mapsto> dec (bt_Len bt (db_btree db))]"

text \<open>
  Making an iterator: the tree does not change while the goroutine holds the read lock, so the
  items it sends are those of the tree at this moment.  (Without the mutex the tree must not be
  written to while the goroutine walks it.)  The result is the index of the iterator.
\<close>

definition newMemDBIteratorMtxChoice ::
    "'t btree \<Rightarrow> byte_slice \<Rightarrow> byte_slice \<Rightarrow> bool \<Rightarrow> bool \<Rightarrow> 't MemDB \<Rightarrow> nat \<times> 't MemDB" where
  "newMemDBIteratorMtxChoice bt start end' reverse useMtx db =
     (let (item, rest) = (case traverse bt (db_btree db) start end' reverse of
            [] \<Rightarrow> (None, [])
          | x # xs \<Rightarrow> (Some x, xs));
          iter = \<lparr>mi_item = item, mi_pending = rest, mi_start = start, mi_end = end', mi_useMtx = useMtx\<rparr>
      in (length (db_iterators db), db\<lparr>db_iterators := db_iterators db @ [iter]\<rparr>))"

definition newMemDBIterator :: "'t btree \<Rightarrow> byte_slice \<Rightarrow> byte_slice \<Rightarrow> bool \<Rightarrow> 't MemDB \<Rightarrow> nat \<times> 't MemDB" where
  "newMemDBIterator bt start end' reverse db = newMemDBIteratorMtxChoice bt start end' reverse True db"

definition empty_bound :: "byte_slice \<Rightarrow> bool" where
  "empty_bound b \<longleftrightarrow> b \<noteq> None \<and> slice_len b = 0"

definition MemDB_Iterator :: "'t btree \<Rightarrow> byte_slice \<Rightarrow> byte_slice \<Rightarrow> 't MemDB \<Rightarrow> (go_error + nat) \<times> 't MemDB" where
  "MemDB_Iterator bt start end' db =
     (if empty_bound start \<or> empty_bound end' then (Inl errKeyEmpty, db)
      else apfst Inr (newMemDBIterator bt start end' False db))"

definition MemDB_ReverseIterator :: "'t btree \<Rightarrow> byte_slice \<Rightarrow> byte_slice \<Rightarrow> 't MemDB \<Rightarrow> (go_error + nat) \<times> 't MemDB" where
  "MemDB_ReverseIterator bt start end' db =
     (if empty_bound start \<or> empty_bound end' then (Inl errKeyEmpty, db)
      else apfst Inr (newMemDBIterator bt start end' True db))"

definition MemDB_IteratorNoMtx :: "'t btree \<Rightarrow> byte_slice \<Rightarrow> byte_slice \<Rightarrow> 't MemDB \<Rightarrow> (go_error + nat) \<times> 't MemDB" where
  "MemDB_IteratorNoMtx bt start end' db =
     (if empty_bound start \<or> empty_bound end' then (Inl errKeyEmpty, db)
      else apfst Inr (newMemDBIteratorMtxChoice bt start end' False False db))"

definition MemDB_ReverseIteratorNoMtx :: "'t btree \<Rightarrow> byte_slice \<Rightarrow> byte_slice \<Rightarrow> 't MemDB \<Rightarrow> (go_error + nat) \<times> 't MemDB" where
  "MemDB_ReverseIteratorNoMtx bt start end' db =
     (if empty_bound start \<or> empty_bound end' then (Inl errKeyEmpty, db)
      else apfst Inr (newMemDBIteratorMtxChoice bt start end' True False db))"

section \<open>The methods of an iterator\<close>

definition memDBIterator_Valid :: "memDBIterator \<Rightarrow> bool" where
  "memDBIterator_Valid i \<longleftrightarrow> mi_item i \<noteq> None"

definition assertIsValid :: "memDBIterator \<Rightarrow> unit go" where
  "assertIsValid i = (if \<not> memDBIterator_Valid i then Panics (panic_string ''iterator is invalid'') else Return ())"

definition memDBIterator_Next :: "memDBIterator \<Rightarrow> unit go \<times> memDBIterator" where
  "memDBIterator_Next i = (case assertIsValid i of
     Panics p \<Rightarrow> (Panics p, i)
   | Return _ \<Rightarrow> (Return (), (case mi_pending i of
       x # xs \<Rightarrow> i\<lparr>mi_item := Some x, mi_pending := xs\<rparr>
     | [] \<Rightarrow> i\<lparr>mi_item := None\<rparr>)))"

definition memDBIterator_Key :: "memDBIterator \<Rightarrow> byte_slice go" where
  "memDBIterator_Key i = go_bind (assertIsValid i) (\<lambda>_. Return (item_key (the (mi_item i))))"

definition memDBIterator_Value :: "memDBIterator \<Rightarrow> byte_slice go" where
  "memDBIterator_Value i = go_bind (assertIsValid i) (\<lambda>_. Return (item_value (the (mi_item i))))"

definition memDBIterator_Close :: "memDBIterator \<Rightarrow> error \<times> memDBIterator" where
  "memDBIterator_Close i = (None, i\<lparr>mi_pending := [], mi_item := None\<rparr>)"

definition memDBIterator_Domain :: "memDBIterator \<Rightarrow> byte_slice \<times> byte_slice" where
  "memDBIterator_Domain i = (mi_start i, mi_end i)"

definition memDBIterator_Error :: "memDBIterator \<Rightarrow> error" where
  "memDBIterator_Error i = None"

section \<open>What the database holds\<close>

lemma item_Less_iff: "item_Less i j \<longleftrightarrow> elems (item_key i) < elems (item_key j)"
  by (simp add: item_Less_def bytes_Compare_def)

lemma same_class: "\<not> item_Less i j \<and> \<not> item_Less j i \<longleftrightarrow> elems (item_key i) = elems (item_key j)"
  by (auto simp: item_Less_iff)

definition pair_of :: "item \<Rightarrow> string \<times> string" where
  "pair_of i = (elems (item_key i), elems (item_value i))"

text \<open>The map a tree stands for, and the invariant: keys are not empty and values not nil.\<close>

definition contents :: "('t \<Rightarrow> item list) \<Rightarrow> 't MemDB \<Rightarrow> string \<rightharpoonup> string" where
  "contents L db = map_of (map pair_of (L (db_btree db)))"

definition db_ok :: "('t \<Rightarrow> bool) \<Rightarrow> ('t \<Rightarrow> item list) \<Rightarrow> 't MemDB \<Rightarrow> bool" where
  "db_ok ok L db \<longleftrightarrow> ok (db_btree db) \<and> (\<forall>i\<in>set (L (db_btree db)). elems (item_key i) \<noteq> [] \<and> item_value i \<noteq> None)"

lemma btree_laws:
  assumes "btree_ok bt ok L" "ok t"
  shows "sorted_wrt item_Less (L t)"
    "bt_Get bt t k = find (\<lambda>i. \<not> item_Less i k \<and> \<not> item_Less k i) (L t)"
    "bt_Has bt t k \<longleftrightarrow> (\<exists>i\<in>set (L t). \<not> item_Less i k \<and> \<not> item_Less k i)"
    "ok (bt_ReplaceOrInsert bt x t)"
    "L (bt_ReplaceOrInsert bt x t) = filter (\<lambda>i. item_Less i x) (L t) @ x # filter (item_Less x) (L t)"
    "ok (bt_Delete bt k t)" "L (bt_Delete bt k t) = filter (\<lambda>i. item_Less i k \<or> item_Less k i) (L t)"
    "bt_Ascend bt t = L t" "bt_Descend bt t = rev (L t)"
    "bt_AscendGreaterOrEqual bt t k = filter (\<lambda>i. \<not> item_Less i k) (L t)"
    "bt_AscendRange bt t a b = filter (\<lambda>i. \<not> item_Less i a \<and> item_Less i b) (L t)"
    "bt_DescendLessOrEqual bt t k = rev (filter (\<lambda>i. \<not> item_Less k i) (L t))"
    "bt_Len bt t = length (L t)"
  using assms by (simp_all add: btree_ok_def)

lemma map_of_find:
  "map_of (map pair_of xs) k = map_option (\<lambda>i. elems (item_value i)) (find (\<lambda>i. elems (item_key i) = k) xs)"
  by (induction xs) (simp_all add: pair_of_def)

lemma find_key: "find (\<lambda>i. \<not> item_Less i (newKey k) \<and> \<not> item_Less (newKey k) i) xs = find (\<lambda>i. elems (item_key i) = elems k) xs"
  by (simp add: same_class newKey_def)

lemma map_of_filter_class:
  "map_of (map pair_of (filter (\<lambda>i. item_Less i x \<or> item_Less x i) xs)) = (map_of (map pair_of xs))(elems (item_key x) := None)"
  by (induction xs) (auto simp: pair_of_def item_Less_iff fun_eq_iff)

lemma map_of_insert_class:
  "map_of (map pair_of (filter (\<lambda>i. item_Less i x) xs @ x # filter (item_Less x) xs)) =
    (map_of (map pair_of xs))(elems (item_key x) \<mapsto> elems (item_value x))"
proof (rule ext)
  fix k
  have "map_of (map pair_of (filter (\<lambda>i. item_Less i x) xs)) k = (if k < elems (item_key x) then map_of (map pair_of xs) k else None)"
    "map_of (map pair_of (filter (item_Less x) xs)) k = (if elems (item_key x) < k then map_of (map pair_of xs) k else None)"
    by (induction xs) (auto simp: pair_of_def item_Less_iff)
  then show "map_of (map pair_of (filter (\<lambda>i. item_Less i x) xs @ x # filter (item_Less x) xs)) k =
      ((map_of (map pair_of xs))(elems (item_key x) \<mapsto> elems (item_value x))) k"
    by (auto simp: map_add_def pair_of_def split: option.split)
qed

lemma MemDB_Get_contents:
  assumes "btree_ok bt ok L" "db_ok ok L db" "k \<noteq> []"
  shows "MemDB_Get bt db (Some k) = (contents L db k, None)"
proof -
  from assms(2) have t: "ok (db_btree db)" by (simp add: db_ok_def)
  have "item_value i \<noteq> None" if "find (\<lambda>i. elems (item_key i) = k) (L (db_btree db)) = Some i" for i
    using that assms(2) by (metis db_ok_def find_Some_iff nth_mem)
  then show ?thesis
    using assms(3) by (auto simp: MemDB_Get_def btree_laws(2) [OF assms(1) t] find_key contents_def map_of_find split: option.split)
qed

lemma find_Some_Bex: "find P xs \<noteq> None \<longleftrightarrow> (\<exists>x\<in>set xs. P x)"
  by (auto simp: find_None_iff)

lemma MemDB_Has_contents:
  assumes "btree_ok bt ok L" "db_ok ok L db" "k \<noteq> []"
  shows "MemDB_Has bt db (Some k) = (contents L db k \<noteq> None, None)"
proof -
  from assms(2) have t: "ok (db_btree db)" by (simp add: db_ok_def)
  have "contents L db k \<noteq> None \<longleftrightarrow> (\<exists>i\<in>set (L (db_btree db)). elems (item_key i) = k)"
    unfolding contents_def map_of_find find_Some_Bex [symmetric] by simp
  then show ?thesis
    using assms(3) by (simp add: MemDB_Has_def btree_laws(3) [OF assms(1) t] same_class newKey_def)
qed

lemma MemDB_set_contents:
  assumes "btree_ok bt ok L" "db_ok ok L db" "k \<noteq> []"
  shows "contents L (MemDB_set bt (Some k) (Some v) db) = (contents L db)(k \<mapsto> v) \<and> db_ok ok L (MemDB_set bt (Some k) (Some v) db)"
proof -
  from assms(2) have t: "ok (db_btree db)" by (simp add: db_ok_def)
  note laws = btree_laws(4,5) [OF assms(1) t]
  have t': "db_btree (MemDB_set bt (Some k) (Some v) db) = bt_ReplaceOrInsert bt (newPair (Some k) (Some v)) (db_btree db)"
    by (simp add: MemDB_set_def)
  have "contents L (MemDB_set bt (Some k) (Some v) db) = (contents L db)(k \<mapsto> v)"
    by (simp only: contents_def t' laws map_of_insert_class) (simp add: newPair_def)
  moreover have "db_ok ok L (MemDB_set bt (Some k) (Some v) db)"
    using assms(2,3) by (auto simp: MemDB_set_def laws newPair_def db_ok_def)
  ultimately show ?thesis ..
qed

lemma MemDB_delete_contents:
  assumes "btree_ok bt ok L" "db_ok ok L db"
  shows "contents L (MemDB_delete bt (Some k) db) = (contents L db)(k := None) \<and> db_ok ok L (MemDB_delete bt (Some k) db)"
proof -
  from assms(2) have t: "ok (db_btree db)" by (simp add: db_ok_def)
  note laws = btree_laws(6,7) [OF assms(1) t]
  have t': "db_btree (MemDB_delete bt (Some k) db) = bt_Delete bt (newKey (Some k)) (db_btree db)" by (simp add: MemDB_delete_def)
  have "contents L (MemDB_delete bt (Some k) db) = (contents L db)(k := None)"
    by (simp only: contents_def t' laws map_of_filter_class) (simp add: newKey_def)
  moreover have "db_ok ok L (MemDB_delete bt (Some k) db)"
    using assms(2) by (auto simp: MemDB_delete_def laws db_ok_def)
  ultimately show ?thesis ..
qed

section \<open>Ranges\<close>

definition in_range :: "byte_slice \<Rightarrow> byte_slice \<Rightarrow> item \<Rightarrow> bool" where
  "in_range start end' i \<longleftrightarrow> (start \<noteq> None \<longrightarrow> elems start \<le> elems (item_key i)) \<and>
     (end' \<noteq> None \<longrightarrow> elems (item_key i) < elems end')"

lemma visitor_all [simp]: "visitor None None items = items"
  by (induction items) simp_all

lemma visitor_abort:
  "sorted_wrt (\<lambda>i j. item_Less j i) items \<Longrightarrow> visitor None start items = filter (\<lambda>i. start \<noteq> None \<longrightarrow> elems start \<le> elems (item_key i)) items"
proof (induction items)
  case (Cons i items)
  show ?case
  proof (cases "start \<noteq> None \<and> bytes_Compare (item_key i) start = -1")
    case True
    then have "elems (item_key i) < elems start" by (auto simp: bytes_Compare_def split: if_splits)
    with Cons.prems have "\<forall>j\<in>set (i # items). elems (item_key j) < elems start" by (auto simp: item_Less_iff)
    then have "filter (\<lambda>i. elems start \<le> elems (item_key i)) (i # items) = []" by (auto simp: filter_empty_conv simp flip: not_less)
    with True show ?thesis by simp
  next
    case False
    then have "start \<noteq> None \<longrightarrow> elems start \<le> elems (item_key i)" by (auto simp: bytes_Compare_def split: if_splits)
    with False Cons show ?thesis by auto
  qed
qed simp

lemma visitor_skip_none:
  "\<forall>i\<in>set items. elems (item_key i) \<noteq> e \<Longrightarrow> visitor (Some e) start items = visitor None start items"
  by (induction items) (auto simp: bytes_Equal_def)

lemma visitor_skip:
  assumes "sorted_wrt (\<lambda>i j. item_Less j i) items" "\<forall>i\<in>set items. elems (item_key i) \<le> e"
  shows "visitor (Some e) start items = visitor None start (filter (\<lambda>i. elems (item_key i) < e) items)"
proof (cases items)
  case (Cons i rest)
  with assms(1) have less: "\<forall>j\<in>set rest. elems (item_key j) < elems (item_key i)" by (simp add: item_Less_iff)
  then have rest: "filter (\<lambda>i. elems (item_key i) < e) rest = rest"
    using assms(2) Cons by (auto simp: filter_id_conv)
  show ?thesis
  proof (cases "elems (item_key i) = e")
    case True
    with Cons rest show ?thesis by (simp add: bytes_Equal_def)
  next
    case False
    then have "\<forall>j\<in>set items. elems (item_key j) \<noteq> e" using less assms(2) Cons by auto
    with visitor_skip_none [of items e start] rest False assms(2) Cons show ?thesis by (simp add: order_le_neq_trans)
  qed
qed simp

lemma sorted_rev: "sorted_wrt item_Less xs \<Longrightarrow> sorted_wrt (\<lambda>i j. item_Less j i) (rev xs)"
  by (simp add: sorted_wrt_rev)

lemma traverse_range:
  assumes "btree_ok bt ok L" "ok t"
  shows "traverse bt t start end' reverse = (if reverse then rev else id) (filter (in_range start end') (L t))"
proof -
  note laws = btree_laws [OF assms]
  note sort = sorted_rev [OF laws(1)]
  have desc: "visitor None start (rev (L t)) = rev (filter (in_range start None) (L t))"
    using visitor_abort [OF sort, of start] by (simp add: in_range_def [abs_def] rev_filter)
  have skip: "visitor (Some e) start (rev (filter (\<lambda>i. \<not> item_Less (newKey (Some e)) i) (L t))) = rev (filter (in_range start (Some e)) (L t))" for e
  proof -
    let ?xs = "rev (filter (\<lambda>i. \<not> item_Less (newKey (Some e)) i) (L t))"
    have "sorted_wrt (\<lambda>i j. item_Less j i) ?xs" using laws(1) by (simp add: sorted_wrt_rev sorted_wrt_filter)
    moreover have "\<forall>i\<in>set ?xs. elems (item_key i) \<le> e" by (auto simp: item_Less_iff newKey_def)
    ultimately have 1: "visitor (Some e) start ?xs = visitor None start (filter (\<lambda>i. elems (item_key i) < e) ?xs)"
      by (rule visitor_skip)
    have "filter (\<lambda>i. elems (item_key i) < e) ?xs = rev (filter (\<lambda>i. elems (item_key i) < e) (L t))"
      by (auto simp: rev_filter item_Less_iff newKey_def intro!: arg_cong [where f = rev] filter_cong)
    moreover have "sorted_wrt (\<lambda>i j. item_Less j i) (rev (filter (\<lambda>i. elems (item_key i) < e) (L t)))"
      using laws(1) by (simp add: sorted_wrt_rev sorted_wrt_filter)
    ultimately show ?thesis
      using 1 visitor_abort by (auto simp: rev_filter in_range_def intro!: arg_cong [where f = rev] filter_cong)
  qed
  have none: "filter (in_range None None) xs = xs" for xs by (simp add: in_range_def)
  show ?thesis
    using desc skip
    by (cases start; cases end'; cases reverse)
      (auto simp: traverse_def laws none in_range_def item_Less_iff newKey_def intro!: filter_cong)
qed

text \<open>A tree as a sorted list: what \<open>btree_ok\<close> demands can be had.\<close>

definition list_btree :: "item list btree" where
  "list_btree =
     \<lparr>bt_New = \<lambda>_. [], bt_Get = \<lambda>t k. find (\<lambda>i. \<not> item_Less i k \<and> \<not> item_Less k i) t,
      bt_Has = \<lambda>t k. \<exists>i\<in>set t. \<not> item_Less i k \<and> \<not> item_Less k i, bt_Len = length,
      bt_ReplaceOrInsert = \<lambda>x t. filter (\<lambda>i. item_Less i x) t @ x # filter (item_Less x) t,
      bt_Delete = \<lambda>k. filter (\<lambda>i. item_Less i k \<or> item_Less k i), bt_Ascend = id, bt_Descend = rev,
      bt_AscendGreaterOrEqual = \<lambda>t k. filter (\<lambda>i. \<not> item_Less i k) t,
      bt_AscendRange = \<lambda>t a b. filter (\<lambda>i. \<not> item_Less i a \<and> item_Less i b) t,
      bt_DescendLessOrEqual = \<lambda>t k. rev (filter (\<lambda>i. \<not> item_Less k i) t)\<rparr>"

lemma list_btree_ok: "btree_ok list_btree (sorted_wrt item_Less) id"
proof -
  have "sorted_wrt item_Less (filter (\<lambda>i. item_Less i x) t @ x # filter (item_Less x) t)" if "sorted_wrt item_Less t" for x t
    using that by (auto simp: sorted_wrt_append sorted_wrt_filter item_Less_iff)
  then show ?thesis by (simp add: btree_ok_def list_btree_def sorted_wrt_filter)
qed

section \<open>Properties\<close>



text \<open>
  C13: an iterator delivers exactly the items with a key from the start up to but not including the end,
  in ascending order, and a reverse iterator in descending order; a nil bound is no bound, and an
  empty one is an error.  The other iterators and the tree are untouched.
\<close>

theorem MemDB_iterator_range:
  assumes "btree_ok bt ok L" "ok (db_btree db)"
  shows "(case (if rv then MemDB_ReverseIterator bt else MemDB_Iterator bt) start end' db of
      (Inl err, db') \<Rightarrow> (start = Some [] \<or> end' = Some []) \<and> err = errKeyEmpty \<and> db' = db
    | (Inr n, db') \<Rightarrow> start \<noteq> Some [] \<and> end' \<noteq> Some [] \<and> db_btree db' = db_btree db \<and>
        n = length (db_iterators db) \<and> take n (db_iterators db') = db_iterators db \<and> length (db_iterators db') = Suc n \<and>
        (case mi_item (db_iterators db' ! n) of None \<Rightarrow> [] | Some i \<Rightarrow> [i]) @ mi_pending (db_iterators db' ! n) =
          (if rv then rev else id) (filter (in_range start end') (L (db_btree db))))"
  using traverse_range [OF assms, of start end' rv]
  by (cases rv) (auto simp: MemDB_Iterator_def MemDB_ReverseIterator_def newMemDBIterator_def newMemDBIteratorMtxChoice_def empty_bound_def
      Let_def nth_append split: list.split)

theorem MemDB_iterator_range_witness:
  "let db = \<lparr>db_btree = map (\<lambda>k. newPair (Some k) (Some ''v'')) [''a'', ''b'', ''c'', ''d''], db_iterators = []\<rparr> in
   case MemDB_ReverseIterator list_btree (Some ''b'') (Some ''d'') db of
     (Inl err, db') \<Rightarrow> False
   | (Inr n, db') \<Rightarrow> (case mi_item (db_iterators db' ! n) of None \<Rightarrow> [] | Some i \<Rightarrow> [i]) @ mi_pending (db_iterators db' ! n) =
        [newPair (Some ''c'') (Some ''v''), newPair (Some ''b'') (Some ''v'')]"
proof -
  let ?db = "\<lparr>db_btree = map (\<lambda>k. newPair (Some k) (Some ''v'')) [''a'', ''b'', ''c'', ''d''], db_iterators = []\<rparr>"
  have less: "''a'' < ''b''" "''b'' < ''c''" "''c'' < ''d''" by code_simp+
  have "sorted_wrt item_Less (db_btree ?db)" using less by (auto simp: item_Less_iff newPair_def)
  from MemDB_iterator_range [OF list_btree_ok this, where rv = True and start = "Some ''b''" and end' = "Some ''d''"] less show ?thesis
    by (auto simp: Let_def in_range_def newPair_def split: sum.splits)
qed

text \<open>
  C14: whatever the goroutine of an iterator does in between, a receive gets the next item it has to
  deliver, or learns that there is none; it never waits for ever.  The calls \<open>Next\<close> of the iterator are
  such receives.
\<close>

theorem receive_is_next:
  assumes "traversal_ok t" "\<not> tr_cancelled t" "pending t = mi_pending i" "mi_item i \<noteq> None"
  shows "(\<exists>r t'. receives t r t') \<and>
    (\<forall>r t'. receives t r t' \<longrightarrow> fst (memDBIterator_Next i) = Return () \<and> mi_item (snd (memDBIterator_Next i)) = r \<and>
       mi_pending (snd (memDBIterator_Next i)) = pending t' \<and> traversal_ok t' \<and> \<not> tr_cancelled t')"
proof -
  have "fst (memDBIterator_Next i) = Return () \<and> mi_item (snd (memDBIterator_Next i)) = r \<and>
       mi_pending (snd (memDBIterator_Next i)) = pending t' \<and> traversal_ok t' \<and> \<not> tr_cancelled t'" if "receives t r t'" for r t'
    using receives_next [OF that assms(1,2)] receives_ok [OF that assms(1)] assms(2-4)
    by (auto simp: memDBIterator_Next_def assertIsValid_def memDBIterator_Valid_def split: list.splits)
  with receives_some show ?thesis by blast
qed

theorem receive_is_next_witness:
  "let i = \<lparr>mi_item = Some (newKey (Some ''a'')), mi_pending = [newKey (Some ''b'')], mi_start = None, mi_end = None, mi_useMtx = True\<rparr> in
   \<forall>r t'. receives (go_traversal [newKey (Some ''b'')] True) r t' \<longrightarrow> mi_item (snd (memDBIterator_Next i)) = r"
  using receive_is_next [of "go_traversal [newKey (Some ''b'')] True"
      "\<lparr>mi_item = Some (newKey (Some ''a'')), mi_pending = [newKey (Some ''b'')], mi_start = None, mi_end = None, mi_useMtx = True\<rparr>"]
  by (auto simp: Let_def go_traversal_def traversal_ok_def pending_def)

text \<open>
  C15: a write can get the lock while an iterator is open exactly when the rest of the items fits into the
  channel, 64 of them; otherwise it waits until the iterator moves on or is closed.  Closing always
  ends: draining the channel comes to its end, and then the goroutine can release the lock.
\<close>

theorem writer_and_iterator:
  assumes "traversal_ok t" "tr_locked t" "\<not> tr_cancelled t" "pending t = mi_pending i" "mi_useMtx i"
  shows "((\<exists>t'. goroutine\<^sup>*\<^sup>* t t' \<and> \<not> tr_locked t') \<longleftrightarrow> \<not> lock_waits (db\<lparr>db_iterators := [i]\<rparr>)) \<and>
    (\<exists>t'. drains (t\<lparr>tr_cancelled := True\<rparr>) t') \<and>
    (\<forall>t'. drains (t\<lparr>tr_cancelled := True\<rparr>) t' \<longrightarrow> (\<exists>t''. goroutine\<^sup>*\<^sup>* t' t'' \<and> \<not> tr_locked t''))"
proof -
  have "\<exists>t''. goroutine\<^sup>*\<^sup>* t' t'' \<and> \<not> tr_locked t''" if "drains (t\<lparr>tr_cancelled := True\<rparr>) t'" for t'
  proof (cases "tr_locked t'")
    case True
    with drains_closed [OF that] unlock [of t'] have "goroutine t' (t'\<lparr>tr_locked := False\<rparr>)" by blast
    moreover have "\<not> tr_locked (t'\<lparr>tr_locked := False\<rparr>)" by simp
    ultimately show ?thesis by blast
  qed blast
  with lock_released [OF assms(1-3)] assms(4,5) drains_some show ?thesis by (simp add: lock_waits_def not_less)
qed

theorem writer_and_iterator_witness:
  "\<exists>t'. goroutine\<^sup>*\<^sup>* (go_traversal [newKey (Some ''b'')] True) t' \<and> \<not> tr_locked t'"
  using writer_and_iterator [of "go_traversal [newKey (Some ''b'')] True"
      "\<lparr>mi_item = None, mi_pending = [newKey (Some ''b'')], mi_start = None, mi_end = None, mi_useMtx = True\<rparr>" "NewMemDB list_btree"]
  by (simp add: go_traversal_def traversal_ok_def pending_def lock_waits_def chBufferSize_def)

text \<open>
  C16: closing an iterator ends, however the goroutine and the loop that drains the channel take turns.  There is no infinite run;
  a run has at most two steps for each item that was still to be delivered and two more; and when no
  step is left the channel is drained and closed and the read lock is released.
\<close>

theorem closing_terminates:
  "wfp (\<lambda>t' t. closing t t') \<and>
   (\<forall>n t'. (closing ^^ n) t t' \<longrightarrow> n \<le> 2 * length (pending t) + 2 \<and>
     ((\<nexists>t''. closing t' t'') \<longrightarrow> chan_recv t' = Some (None, t') \<and> \<not> tr_locked t'))"
proof -
  have "wfp (\<lambda>t' t. closing t t')" by (rule wfp_if_convertible_to_nat) (rule closing_decreases)
  moreover have "n \<le> 2 * length (pending t) + 2" if "(closing ^^ n) t t'" for n t'
    using closing_steps [OF that] by (simp add: closing_left_def steps_left_def pending_def split: if_splits)
  moreover have "chan_recv t' = Some (None, t') \<and> \<not> tr_locked t'" if "\<nexists>t''. closing t' t''" for t'
    using closing_stuck [OF that] by (simp add: chan_recv_def)
  ultimately show ?thesis by blast
qed

theorem closing_terminates_witness:
  "let t = (go_traversal [newKey (Some ''b'')] True)\<lparr>tr_cancelled := True\<rparr>;
       t' = t\<lparr>tr_todo := [], tr_closed := True, tr_locked := False\<rparr>
   in (closing ^^ 4) t t' \<and> 4 \<le> 2 * length (pending t) + 2 \<and> chan_recv t' = Some (None, t') \<and> \<not> tr_locked t'"
proof -
  let ?t = "(go_traversal [newKey (Some ''b'')] True)\<lparr>tr_cancelled := True\<rparr>"
  let ?t1 = "?t\<lparr>tr_todo := [], tr_buf := [newKey (Some ''b'')]\<rparr>"
  let ?t2 = "?t\<lparr>tr_todo := []\<rparr>"
  let ?t3 = "?t\<lparr>tr_todo := [], tr_closed := True\<rparr>"
  let ?t4 = "?t\<lparr>tr_todo := [], tr_closed := True, tr_locked := False\<rparr>"
  have "closing ?t ?t1" "closing ?t1 ?t2" "closing ?t2 ?t3" "closing ?t3 ?t4"
    using work [OF send, of ?t "newKey (Some ''b'')" "[]"] work [OF close, of ?t2] work [OF unlock, of ?t3]
    by (simp_all add: go_traversal_def chBufferSize_def closing.take chan_recv_def)
  then have "(closing ^^ 4) ?t ?t4" by (auto simp: numeral_eq_Suc OO_def)
  moreover have "\<nexists>t''. closing ?t4 t''" by (auto simp: go_traversal_def chan_recv_def elim!: closingE goroutineE)
  ultimately show ?thesis using closing_terminates [of ?t] unfolding Let_def by blast
qed

end
