(* ===== verification/Mocks.thy ===== *)
theory Mocks
  imports MemDB Backend Ibc
begin

text \<open>
  The chain the tests run against, \<open>internal/api/mocks.go\<close> and \<open>mock_failure.go\<close>: sample messages, a gas
  meter, a metered store over the in-memory database, the address functions and a querier for bank
  balances.  The store's iterators meet the contract of \<open>sound_iterator\<close>.
\<close>

section \<open>Sample messages\<close>

definition MOCK_CONTRACT_ADDR :: string where
  "MOCK_CONTRACT_ADDR = ''contract''"

definition MockEnv :: Env where
  "MockEnv = (let txHash = (case hex_decode ''AABBCCDDEEFF0011AABBCCDDEEFF0011AABBCCDDEEFF0011AABBCCDDEEFF0011'' of
       Inr h \<Rightarrow> Some h | Inl _ \<Rightarrow> None) in
     \<lparr>Env_Block = \<lparr>BlockInfo_Height = 123, BlockInfo_Time = 1578939743987654321, BlockInfo_ChainID = ''foobar''\<rparr>,
      Env_Transaction = Some \<lparr>TransactionInfo_Index = 4, TransactionInfo_Hash = txHash\<rparr>,
      Env_Contract = \<lparr>ContractInfo_Address = MOCK_CONTRACT_ADDR\<rparr>\<rparr>)"

definition MockEnvBin :: byte_slice where
  "MockEnvBin = Some (json_print (Env_to_json MockEnv))"

definition MockInfo :: "string \<Rightarrow> Coin slice \<Rightarrow> MessageInfo" where
  "MockInfo sender funds = \<lparr>MessageInfo_Sender = sender, MessageInfo_Funds = funds\<rparr>"

definition MockInfoWithFunds :: "string \<Rightarrow> MessageInfo" where
  "MockInfoWithFunds sender = MockInfo sender (Some [\<lparr>Coin_Denom = ''ATOM'', Coin_Amount = ''100''\<rparr>])"

definition MockInfoBin :: "string \<Rightarrow> byte_slice" where
  "MockInfoBin sender = Some (json_print (MessageInfo_to_json (MockInfoWithFunds sender)))"

definition MockIBCChannel :: "string \<Rightarrow> string \<Rightarrow> string \<Rightarrow> IBCChannel" where
  "MockIBCChannel channelID ordering' ibcVersion =
     \<lparr>IBCChannel_Endpoint = \<lparr>IBCEndpoint_PortID = ''my_port'', IBCEndpoint_ChannelID = channelID\<rparr>,
      IBCChannel_CounterpartyEndpoint = \<lparr>IBCEndpoint_PortID = ''their_port'', IBCEndpoint_ChannelID = ''channel-7''\<rparr>,
      IBCChannel_Order = ordering', IBCChannel_Version = ibcVersion, IBCChannel_ConnectionID = ''connection-3''\<rparr>"

definition MockIBCChannelOpenInit :: "string \<Rightarrow> string \<Rightarrow> string \<Rightarrow> IBCChannelOpenMsg" where
  "MockIBCChannelOpenInit channelID ordering' ibcVersion =
     \<lparr>IBCChannelOpenMsg_OpenInit = Some \<lparr>IBCOpenInit_Channel = MockIBCChannel channelID ordering' ibcVersion\<rparr>,
      IBCChannelOpenMsg_OpenTry = None\<rparr>"

definition MockIBCChannelOpenTry :: "string \<Rightarrow> string \<Rightarrow> string \<Rightarrow> IBCChannelOpenMsg" where
  "MockIBCChannelOpenTry channelID ordering' ibcVersion =
     \<lparr>IBCChannelOpenMsg_OpenInit = None,
      IBCChannelOpenMsg_OpenTry = Some \<lparr>IBCOpenTry_Channel = MockIBCChannel channelID ordering' ibcVersion,
        IBCOpenTry_CounterpartyVersion = ibcVersion\<rparr>\<rparr>"

definition MockIBCChannelConnectAck :: "string \<Rightarrow> string \<Rightarrow> string \<Rightarrow> IBCChannelConnectMsg" where
  "MockIBCChannelConnectAck channelID ordering' ibcVersion =
     \<lparr>IBCChannelConnectMsg_OpenAck = Some \<lparr>IBCOpenAck_Channel = MockIBCChannel channelID ordering' ibcVersion,
        IBCOpenAck_CounterpartyVersion = ibcVersion\<rparr>,
      IBCChannelConnectMsg_OpenConfirm = None\<rparr>"

definition MockIBCChannelConnectConfirm :: "string \<Rightarrow> string \<Rightarrow> string \<Rightarrow> IBCChannelConnectMsg" where
  "MockIBCChannelConnectConfirm channelID ordering' ibcVersion =
     \<lparr>IBCChannelConnectMsg_OpenAck = None,
      IBCChannelConnectMsg_OpenConfirm = Some \<lparr>IBCOpenConfirm_Channel = MockIBCChannel channelID ordering' ibcVersion\<rparr>\<rparr>"

definition MockIBCChannelCloseInit :: "string \<Rightarrow> string \<Rightarrow> string \<Rightarrow> IBCChannelCloseMsg" where
  "MockIBCChannelCloseInit channelID ordering' ibcVersion =
     \<lparr>IBCChannelCloseMsg_CloseInit = Some \<lparr>IBCCloseInit_Channel = MockIBCChannel channelID ordering' ibcVersion\<rparr>,
      IBCChannelCloseMsg_CloseConfirm = None\<rparr>"

definition MockIBCChannelCloseConfirm :: "string \<Rightarrow> string \<Rightarrow> string \<Rightarrow> IBCChannelCloseMsg" where
  "MockIBCChannelCloseConfirm channelID ordering' ibcVersion =
     \<lparr>IBCChannelCloseMsg_CloseInit = None,
      IBCChannelCloseMsg_CloseConfirm = Some \<lparr>IBCCloseConfirm_Channel = MockIBCChannel channelID ordering' ibcVersion\<rparr>\<rparr>"

definition MockIBCPacket :: "string \<Rightarrow> byte_slice \<Rightarrow> IBCPacket" where
  "MockIBCPacket myChannel data =
     \<lparr>IBCPacket_Data = data,
      IBCPacket_Src = \<lparr>IBCEndpoint_PortID = ''their_port'', IBCEndpoint_ChannelID = ''channel-7''\<rparr>,
      IBCPacket_Dest = \<lparr>IBCEndpoint_PortID = ''my_port'', IBCEndpoint_ChannelID = myChannel\<rparr>,
      IBCPacket_Sequence = 15,
      IBCPacket_Timeout = IBCTimeout_zero\<lparr>IBCTimeout_Block := Some \<lparr>IBCTimeoutBlock_Revision = 1, IBCTimeoutBlock_Height = 123456\<rparr>\<rparr>\<rparr>"

definition MockIBCPacketReceive :: "string \<Rightarrow> byte_slice \<Rightarrow> IBCPacketReceiveMsg" where
  "MockIBCPacketReceive myChannel data =
     \<lparr>IBCPacketReceiveMsg_Packet = MockIBCPacket myChannel data, IBCPacketReceiveMsg_Relayer = []\<rparr>"

definition MockIBCPacketAck :: "string \<Rightarrow> byte_slice \<Rightarrow> IBCAcknowledgement \<Rightarrow> IBCPacketAckMsg" where
  "MockIBCPacketAck myChannel data ack =
     \<lparr>IBCPacketAckMsg_Acknowledgement = ack, IBCPacketAckMsg_OriginalPacket = MockIBCPacket myChannel data,
      IBCPacketAckMsg_Relayer = []\<rparr>"

definition MockIBCPacketTimeout :: "string \<Rightarrow> byte_slice \<Rightarrow> IBCPacketTimeoutMsg" where
  "MockIBCPacketTimeout myChannel data =
     \<lparr>IBCPacketTimeoutMsg_Packet = MockIBCPacket myChannel data, IBCPacketTimeoutMsg_Relayer = []\<rparr>"

section \<open>The gas meter\<close>

record mockGasMeter =
  gm_limit :: u64
  gm_consumed :: u64

definition NewMockGasMeter :: "u64 \<Rightarrow> mockGasMeter" where
  "NewMockGasMeter limit = \<lparr>gm_limit = limit, gm_consumed = 0\<rparr>"

definition mockGasMeter_GasConsumed :: "mockGasMeter \<Rightarrow> u64" where
  "mockGasMeter_GasConsumed g = gm_consumed g"

definition mockGasMeter_Limit :: "mockGasMeter \<Rightarrow> u64" where
  "mockGasMeter_Limit g = gm_limit g"

definition addUint64Overflow :: "u64 \<Rightarrow> u64 \<Rightarrow> u64 \<times> bool" where
  "addUint64Overflow a b = (if 18446744073709551615 - a < b then (0, True) else (a + b, False))"

text \<open>The panics \<open>ErrorOutOfGas{descriptor}\<close> and \<open>ErrorGasOverflow{descriptor}\<close>, as \<open>%v\<close> prints them.\<close>

definition ErrorOutOfGas :: "string \<Rightarrow> panic_value" where
  "ErrorOutOfGas descriptor = PanicValue ''ErrorOutOfGas'' (''{'' @ descriptor @ ''}'')"

definition ErrorGasOverflow :: "string \<Rightarrow> panic_value" where
  "ErrorGasOverflow descriptor = PanicValue ''ErrorGasOverflow'' (''{'' @ descriptor @ ''}'')"

definition ConsumeGas :: "u64 \<Rightarrow> string \<Rightarrow> mockGasMeter \<Rightarrow> unit go \<times> mockGasMeter" where
  "ConsumeGas amount descriptor g =
     (let (consumed, overflow) = addUint64Overflow (gm_consumed g) amount;
          g = g\<lparr>gm_consumed := consumed\<rparr>
      in if overflow then (Panics (ErrorGasOverflow descriptor), g)
         else if gm_consumed g > gm_limit g then (Panics (ErrorOutOfGas descriptor), g)
         else (Return (), g))"

section \<open>The store\<close>

definition GetPrice :: u64 where
  "GetPrice = 99000"

definition SetPrice :: u64 where
  "SetPrice = 187000"

definition RemovePrice :: u64 where
  "RemovePrice = 142000"

definition RangePrice :: u64 where
  "RangePrice = 261000"

record 't Lookup =
  lk_db :: "'t MemDB"
  lk_meter :: mockGasMeter

definition NewLookup :: "'t btree \<Rightarrow> mockGasMeter \<Rightarrow> 't Lookup" where
  "NewLookup bt meter = \<lparr>lk_db = NewMemDB bt, lk_meter = meter\<rparr>"

definition Lookup_SetGasMeter :: "mockGasMeter \<Rightarrow> 't Lookup \<Rightarrow> 't Lookup" where
  "Lookup_SetGasMeter meter l = l\<lparr>lk_meter := meter\<rparr>"

text \<open>
  \<open>panic(err)\<close> with an error of \<open>errors.New\<close>: a pointer, so its type has no name.  The errors of the
  database are of this kind.
\<close>

definition panic_err :: "go_error \<Rightarrow> panic_value" where
  "panic_err err = PanicValue [] (case error_text err of Return t \<Rightarrow> t | Panics p \<Rightarrow> [])"

text \<open>\<open>l.meter.ConsumeGas\<close>, and what follows when it returns.\<close>

definition charge :: "u64 \<Rightarrow> string \<Rightarrow> 't Lookup \<Rightarrow> unit go \<times> 't Lookup" where
  "charge amount descriptor l = (case ConsumeGas amount descriptor (lk_meter l) of (r, m) \<Rightarrow> (r, l\<lparr>lk_meter := m\<rparr>))"

definition Lookup_Get :: "'t btree \<Rightarrow> byte_slice \<Rightarrow> 't Lookup \<Rightarrow> byte_slice go \<times> 't Lookup" where
  "Lookup_Get bt key l = (case charge GetPrice ''get'' l of
     (Panics p, l) \<Rightarrow> (Panics p, l)
   | (Return _, l) \<Rightarrow> (case MemDB_Get bt (lk_db l) key of
       (v, Some err) \<Rightarrow> (Panics (panic_err err), l)
     | (v, None) \<Rightarrow> (Return v, l)))"

text \<open>\<open>None\<close>: the call waits for the lock of the database for ever.\<close>

definition Lookup_Set :: "'t btree \<Rightarrow> byte_slice \<Rightarrow> byte_slice \<Rightarrow> 't Lookup \<Rightarrow> (unit go \<times> 't Lookup) option" where
  "Lookup_Set bt key val l = (case charge SetPrice ''set'' l of
     (Panics p, l) \<Rightarrow> Some (Panics p, l)
   | (Return _, l) \<Rightarrow> (case MemDB_Set bt key val (lk_db l) of
       None \<Rightarrow> None
     | Some (Some err, db) \<Rightarrow> Some (Panics (panic_err err), l\<lparr>lk_db := db\<rparr>)
     | Some (None, db) \<Rightarrow> Some (Return (), l\<lparr>lk_db := db\<rparr>)))"

definition Lookup_Delete :: "'t btree \<Rightarrow> byte_slice \<Rightarrow> 't Lookup \<Rightarrow> (unit go \<times> 't Lookup) option" where
  "Lookup_Delete bt key l = (case charge RemovePrice ''remove'' l of
     (Panics p, l) \<Rightarrow> Some (Panics p, l)
   | (Return _, l) \<Rightarrow> (case MemDB_Delete bt key (lk_db l) of
       None \<Rightarrow> None
     | Some (Some err, db) \<Rightarrow> Some (Panics (panic_err err), l\<lparr>lk_db := db\<rparr>)
     | Some (None, db) \<Rightarrow> Some (Return (), l\<lparr>lk_db := db\<rparr>)))"

definition Lookup_Iterator :: "'t btree \<Rightarrow> byte_slice \<Rightarrow> byte_slice \<Rightarrow> 't Lookup \<Rightarrow> nat option go \<times> 't Lookup" where
  "Lookup_Iterator bt start end' l = (case charge RangePrice ''range'' l of
     (Panics p, l) \<Rightarrow> (Panics p, l)
   | (Return _, l) \<Rightarrow> (case MemDB_Iterator bt start end' (lk_db l) of
       (Inl err, db) \<Rightarrow> (Panics (panic_err err), l\<lparr>lk_db := db\<rparr>)
     | (Inr iter, db) \<Rightarrow> (Return (Some iter), l\<lparr>lk_db := db\<rparr>)))"

definition Lookup_ReverseIterator :: "'t btree \<Rightarrow> byte_slice \<Rightarrow> byte_slice \<Rightarrow> 't Lookup \<Rightarrow> nat option go \<times> 't Lookup" where
  "Lookup_ReverseIterator bt start end' l = (case charge RangePrice ''range'' l of
     (Panics p, l) \<Rightarrow> (Panics p, l)
   | (Return _, l) \<Rightarrow> (case MemDB_ReverseIterator bt start end' (lk_db l) of
       (Inl err, db) \<Rightarrow> (Panics (panic_err err), l\<lparr>lk_db := db\<rparr>)
     | (Inr iter, db) \<Rightarrow> (Return (Some iter), l\<lparr>lk_db := db\<rparr>)))"

text \<open>
  \<open>WithGasMeter\<close> returns a second \<open>Lookup\<close> on the same database, through the same pointer, with a meter of its own.  The
  stores that came from one by this method are this database and the list of their meters; a method called on the
  \<open>n\<close>-th of them works on the database and on the \<open>n\<close>-th meter.
\<close>

record 't lookups =
  lks_db :: "'t MemDB"
  lks_meters :: "mockGasMeter list"

definition lookup_at :: "nat \<Rightarrow> 't lookups \<Rightarrow> 't Lookup" where
  "lookup_at n ls = \<lparr>lk_db = lks_db ls, lk_meter = lks_meters ls ! n\<rparr>"

definition lookup_put :: "nat \<Rightarrow> 't Lookup \<Rightarrow> 't lookups \<Rightarrow> 't lookups" where
  "lookup_put n l ls = \<lparr>lks_db = lk_db l, lks_meters = (lks_meters ls)[n := lk_meter l]\<rparr>"

definition Lookup_WithGasMeter :: "mockGasMeter \<Rightarrow> 't lookups \<Rightarrow> nat \<times> 't lookups" where
  "Lookup_WithGasMeter meter ls = (length (lks_meters ls), ls\<lparr>lks_meters := lks_meters ls @ [meter]\<rparr>)"

text \<open>
  The methods of the store's iterators, which the database keeps in a list.  An index that was never
  handed out reads as a closed iterator.
\<close>

definition iterator_at :: "'t Lookup \<Rightarrow> nat \<Rightarrow> memDBIterator" where
  "iterator_at l n = (if n < length (db_iterators (lk_db l)) then db_iterators (lk_db l) ! n
     else \<lparr>mi_item = None, mi_pending = [], mi_start = None, mi_end = None, mi_useMtx = False\<rparr>)"

definition set_iterator :: "nat \<Rightarrow> memDBIterator \<Rightarrow> 't Lookup \<Rightarrow> 't Lookup" where
  "set_iterator n i l = l\<lparr>lk_db := (lk_db l)\<lparr>db_iterators := (db_iterators (lk_db l))[n := i]\<rparr>\<rparr>"

definition lookup_iterators :: "(nat, 't Lookup) iterator_ops" where
  "lookup_iterators =
     \<lparr>it_Valid = \<lambda>n l. (Return (memDBIterator_Valid (iterator_at l n)), l),
      it_Next = \<lambda>n l. (case memDBIterator_Next (iterator_at l n) of (r, i) \<Rightarrow> (r, set_iterator n i l)),
      it_Key = \<lambda>n l. (memDBIterator_Key (iterator_at l n), l),
      it_Value = \<lambda>n l. (memDBIterator_Value (iterator_at l n), l),
      it_Close = \<lambda>n l. (case memDBIterator_Close (iterator_at l n) of (e, i) \<Rightarrow> (Return e, set_iterator n i l))\<rparr>"

definition lookup_gas :: "'t Lookup gas_meter" where
  "lookup_gas l = (Return (mockGasMeter_GasConsumed (lk_meter l)), l)"

text \<open>A \<open>KVStore\<close> whose methods are those of the \<open>Lookup\<close>, where they return.\<close>

definition is_Lookup :: "'t btree \<Rightarrow> (nat, 't Lookup) kvstore \<Rightarrow> bool" where
  "is_Lookup bt kv \<longleftrightarrow> kv_Get kv = Lookup_Get bt \<and> kv_Iterator kv = Lookup_Iterator bt \<and>
     kv_ReverseIterator kv = Lookup_ReverseIterator bt \<and>
     (\<forall>k v l x. Lookup_Set bt k v l = Some x \<longrightarrow> kv_Set kv k v l = x) \<and>
     (\<forall>k l x. Lookup_Delete bt k l = Some x \<longrightarrow> kv_Delete kv k l = x)"

section \<open>Addresses\<close>

definition CanonicalLength :: nat where
  "CanonicalLength = 32"

definition CostCanonical :: u64 where
  "CostCanonical = 440"

definition CostHuman :: u64 where
  "CostHuman = 550"

definition MockCanonicalizeAddress :: "string \<Rightarrow> byte_slice \<times> u64 \<times> error" where
  "MockCanonicalizeAddress human =
     (if length human > CanonicalLength then (None, 0, Some (OtherError ''human encoding too long''))
      else (Some (human @ replicate (CanonicalLength - length human) (CHR 0x00)), CostCanonical, None))"

text \<open>The loop that looks for the first zero byte.\<close>

fun first_zero :: "nat \<Rightarrow> string \<Rightarrow> nat" where
  "first_zero i [] = CanonicalLength"
| "first_zero i (v # vs) = (if v = CHR 0x00 then i else first_zero (Suc i) vs)"

definition MockHumanizeAddress :: "byte_slice \<Rightarrow> string \<times> u64 \<times> error" where
  "MockHumanizeAddress canon =
     (if slice_len canon \<noteq> CanonicalLength then ([], 0, Some (OtherError ''wrong canonical length''))
      else (take (first_zero 0 (elems canon)) (elems canon), CostHuman, None))"

text \<open>
  \<open>strings.ToLower\<close> and \<open>strings.ToUpper\<close>: byte by byte for ASCII, otherwise rune by rune with the tables of
  package \<open>unicode\<close>, which are the argument.
\<close>

definition strings_ToLower :: "(nat \<Rightarrow> nat) \<Rightarrow> string \<Rightarrow> string" where
  "strings_ToLower unicode_ToLower s =
     (if ascii s then map (\<lambda>c. if 65 \<le> ord c \<and> ord c \<le> 90 then byte_of (ord c + 32) else c) s
      else concat (map (\<lambda>(r, _). encode_rune (unicode_ToLower r)) (runes s)))"

definition strings_ToUpper :: "(nat \<Rightarrow> nat) \<Rightarrow> string \<Rightarrow> string" where
  "strings_ToUpper unicode_ToUpper s =
     (if ascii s then map (\<lambda>c. if 97 \<le> ord c \<and> ord c \<le> 122 then byte_of (ord c - 32) else c) s
      else concat (map (\<lambda>(r, _). encode_rune (unicode_ToUpper r)) (runes s)))"

definition MockValidateAddress :: "(nat \<Rightarrow> nat) \<Rightarrow> string \<Rightarrow> u64 \<times> error" where
  "MockValidateAddress unicode_ToLower input =
     (let (canonicalized, gasCostCanonicalize, err) = MockCanonicalizeAddress input;
          gasCost = 0 + gasCostCanonicalize
      in if err \<noteq> None then (gasCost, err)
         else let (humanized, gasCostHumanize, err) = MockHumanizeAddress canonicalized;
                  gasCost = gasCost + gasCostHumanize
              in if err \<noteq> None then (gasCost, err)
                 else if humanized \<noteq> strings_ToLower unicode_ToLower input
                 then (gasCost, Some (OtherError ''address validation failed''))
                 else (gasCost, None))"

definition NewMockAPI :: "(nat \<Rightarrow> nat) \<Rightarrow> 's GoAPI" where
  "NewMockAPI unicode_ToLower =
     \<lparr>HumanizeAddress = Some (\<lambda>canon s. (Return (MockHumanizeAddress canon), s)),
      CanonicalizeAddress = Some (\<lambda>human s. (Return (MockCanonicalizeAddress human), s)),
      ValidateAddress = Some (\<lambda>input s. (Return (MockValidateAddress unicode_ToLower input), s))\<rparr>"

definition MockFailureCanonicalizeAddress :: "string \<Rightarrow> byte_slice \<times> u64 \<times> error" where
  "MockFailureCanonicalizeAddress human = (None, 0, Some (OtherError ''mock failure - canonical_address''))"

definition MockFailureHumanizeAddress :: "byte_slice \<Rightarrow> string \<times> u64 \<times> error" where
  "MockFailureHumanizeAddress canon = ([], 0, Some (OtherError ''mock failure - human_address''))"

definition MockFailureValidateAddress :: "string \<Rightarrow> u64 \<times> error" where
  "MockFailureValidateAddress human = (0, Some (OtherError ''mock failure - validate_address''))"

definition NewMockFailureAPI :: "'s GoAPI" where
  "NewMockFailureAPI =
     \<lparr>HumanizeAddress = Some (\<lambda>canon s. (Return (MockFailureHumanizeAddress canon), s)),
      CanonicalizeAddress = Some (\<lambda>human s. (Return (MockFailureCanonicalizeAddress human), s)),
      ValidateAddress = Some (\<lambda>human s. (Return (MockFailureValidateAddress human), s))\<rparr>"

section \<open>The querier\<close>

type_synonym CustomQuerier = "json \<Rightarrow> byte_slice \<times> error"

record BankQuerier =
  BankQuerier_Balances :: "string \<rightharpoonup> Coin slice"

definition NewBankQuerier :: "(string \<rightharpoonup> Coin slice) \<Rightarrow> BankQuerier" where
  "NewBankQuerier balances = \<lparr>BankQuerier_Balances = \<lambda>k. map_option (\<lambda>v. Some (elems v)) (balances k)\<rparr>"

text \<open>\<open>q.Balances[k]\<close>: nil for a key that is not there.\<close>

definition balances_of :: "BankQuerier \<Rightarrow> string \<Rightarrow> Coin slice" where
  "balances_of q k = (case BankQuerier_Balances q k of Some v \<Rightarrow> v | None \<Rightarrow> None)"

text \<open>The loop over the coins: the last one of the denomination wins.\<close>

fun pick_coin :: "string \<Rightarrow> Coin list \<Rightarrow> Coin \<Rightarrow> Coin" where
  "pick_coin denom [] coin = coin"
| "pick_coin denom (c # cs) coin = pick_coin denom cs (if Coin_Denom c = denom then c else coin)"

definition BankQuerier_Query :: "BankQuerier \<Rightarrow> BankQuery \<Rightarrow> byte_slice \<times> error" where
  "BankQuerier_Query q request = (case BankQuery_Balance request of
     Some b \<Rightarrow> (let denom = BalanceQuery_Denom b;
         coin = pick_coin denom (elems (balances_of q (BalanceQuery_Address b))) (NewCoin 0 denom)
       in (Some (json_print (BalanceResponse_to_json \<lparr>BalanceResponse_Amount = coin\<rparr>)), None))
   | None \<Rightarrow> (case BankQuery_AllBalances request of
       Some b \<Rightarrow> (Some (json_print (AllBalancesResponse_to_json
           \<lparr>AllBalancesResponse_Amount = balances_of q (AllBalancesQuery_Address b)\<rparr>)), None)
     | None \<Rightarrow> (None, Some (UnsupportedRequestVal \<lparr>UnsupportedRequest_Kind = ''Empty BankQuery''\<rparr>))))"

definition NoCustom_Query :: CustomQuerier where
  "NoCustom_Query request = (None, Some (UnsupportedRequestVal \<lparr>UnsupportedRequest_Kind = ''custom''\<rparr>))"

record CapitalizedQuery =
  CapitalizedQuery_Text :: string

record CustomQuery =
  CustomQuery_Ping :: "unit option"
  CustomQuery_Capitalized :: "CapitalizedQuery option"

record CustomResponse =
  CustomResponse_Msg :: string

definition CapitalizedQuery_to_json :: "CapitalizedQuery \<Rightarrow> json" where
  "CapitalizedQuery_to_json x = JObj (fld ''text'' (JStr (CapitalizedQuery_Text x)))"

definition CapitalizedQuery_decode :: "CapitalizedQuery decoder" where
  "CapitalizedQuery_decode = dec_struct (dec_field ''text'' dec_string CapitalizedQuery_Text CapitalizedQuery_Text_update)"

definition CustomQuery_to_json :: "CustomQuery \<Rightarrow> json" where
  "CustomQuery_to_json x = JObj (
     fld_omit ''ping'' (CustomQuery_Ping x = None) (json_ptr (\<lambda>_. JObj []) (CustomQuery_Ping x)) @
     fld_omit ''capitalized'' (CustomQuery_Capitalized x = None) (json_ptr CapitalizedQuery_to_json (CustomQuery_Capitalized x)))"

definition CustomQuery_decode :: "CustomQuery decoder" where
  "CustomQuery_decode = dec_struct (
     dec_field ''ping'' (dec_ptr () (dec_struct [])) CustomQuery_Ping CustomQuery_Ping_update @
     dec_field ''capitalized'' (dec_ptr \<lparr>CapitalizedQuery_Text = []\<rparr> CapitalizedQuery_decode)
       CustomQuery_Capitalized CustomQuery_Capitalized_update)"

definition CustomResponse_to_json :: "CustomResponse \<Rightarrow> json" where
  "CustomResponse_to_json x = JObj (fld ''msg'' (JStr (CustomResponse_Msg x)))"

definition ReflectCustom_Query :: "(nat \<Rightarrow> nat) \<Rightarrow> (json_error \<Rightarrow> string) \<Rightarrow> json \<Rightarrow> (byte_slice \<times> error) go" where
  "ReflectCustom_Query unicode_ToUpper json_err request =
     (case run_decoder CustomQuery_decode request \<lparr>CustomQuery_Ping = None, CustomQuery_Capitalized = None\<rparr> of
        Panics p \<Rightarrow> Panics p
      | Return (Inl err) \<Rightarrow> Return (None, Some (OtherError (json_err err)))
      | Return (Inr query) \<Rightarrow> Return (case CustomQuery_Ping query of
          Some _ \<Rightarrow> (Some (json_print (CustomResponse_to_json \<lparr>CustomResponse_Msg = ''PONG''\<rparr>)), None)
        | None \<Rightarrow> (case CustomQuery_Capitalized query of
            Some q \<Rightarrow> (Some (json_print (CustomResponse_to_json
              \<lparr>CustomResponse_Msg = strings_ToUpper unicode_ToUpper (CapitalizedQuery_Text q)\<rparr>)), None)
          | None \<Rightarrow> (None, Some (OtherError ''unsupported query'')))))"

record MockQuerier =
  MockQuerier_Bank :: BankQuerier
  MockQuerier_Custom :: CustomQuerier
  MockQuerier_usedGas :: u64

definition DefaultQuerier :: "string \<Rightarrow> Coin slice \<Rightarrow> MockQuerier" where
  "DefaultQuerier contractAddr coins =
     \<lparr>MockQuerier_Bank = NewBankQuerier [contractAddr \<mapsto> coins], MockQuerier_Custom = NoCustom_Query, MockQuerier_usedGas = 0\<rparr>"

definition MockQuerier_Query :: "QueryRequest \<Rightarrow> u64 \<Rightarrow> MockQuerier \<Rightarrow> (byte_slice \<times> error) \<times> MockQuerier" where
  "MockQuerier_Query request gasLimit q =
     (let marshaled = json_print (QueryRequest_to_json request);
          q = q\<lparr>MockQuerier_usedGas := MockQuerier_usedGas q + of_nat (length marshaled)\<rparr>
      in case QueryRequest_Bank request of
           Some b \<Rightarrow> (BankQuerier_Query (MockQuerier_Bank q) b, q)
         | None \<Rightarrow> (case QueryRequest_Custom request of
             Some c \<Rightarrow> (MockQuerier_Custom q c, q)
           | None \<Rightarrow>
             if QueryRequest_Staking request \<noteq> None then ((None, Some (UnsupportedRequestVal \<lparr>UnsupportedRequest_Kind = ''staking''\<rparr>)), q)
             else if QueryRequest_Wasm request \<noteq> None then ((None, Some (UnsupportedRequestVal \<lparr>UnsupportedRequest_Kind = ''wasm''\<rparr>)), q)
             else ((None, Some (UnknownVal Unknown)), q)))"

definition MockQuerier_GasConsumed :: "MockQuerier \<Rightarrow> u64" where
  "MockQuerier_GasConsumed q = MockQuerier_usedGas q"

text \<open>The querier as the \<open>types.Querier\<close> of a chain whose state holds it.\<close>

definition mock_querier :: "MockQuerier querier" where
  "mock_querier =
     \<lparr>Query = \<lambda>request gasLimit q. (case MockQuerier_Query request gasLimit q of (r, q') \<Rightarrow> (Return r, q')),
      QuerierGasConsumed = \<lambda>q. (Return (MockQuerier_GasConsumed q), q)\<rparr>"

section \<open>The store's iterators keep the contract\<close>

definition items_of :: "memDBIterator \<Rightarrow> item list" where
  "items_of i = (case mi_item i of None \<Rightarrow> [] | Some x \<Rightarrow> x # mi_pending i)"

definition remaining_items :: "'t Lookup \<Rightarrow> nat \<Rightarrow> (string \<times> string) list" where
  "remaining_items l n = map pair_of (items_of (iterator_at l n))"

text \<open>Keys and values of what is still to come are not nil, and an iterator past its end has nothing left.\<close>

definition iterators_ok :: "'t Lookup \<Rightarrow> bool" where
  "iterators_ok l \<longleftrightarrow> (\<forall>i\<in>set (db_iterators (lk_db l)).
     \<forall>x\<in>set (items_of i). item_key x \<noteq> None \<and> item_value x \<noteq> None)"

lemma iterator_at_ok: "iterators_ok l \<Longrightarrow> x \<in> set (items_of (iterator_at l n)) \<Longrightarrow> item_key x \<noteq> None \<and> item_value x \<noteq> None"
  by (auto simp: iterators_ok_def iterator_at_def items_of_def split: if_splits) (metis nth_mem)+

lemma remaining_Cons:
  assumes "iterators_ok l" "remaining_items l n = (k, v) # r"
  obtains x where "mi_item (iterator_at l n) = Some x" "item_key x = Some k" "item_value x = Some v"
    "map pair_of (mi_pending (iterator_at l n)) = r" "n < length (db_iterators (lk_db l))"
proof -
  from assms(2) obtain x where x: "mi_item (iterator_at l n) = Some x" "pair_of x = (k, v)"
      "map pair_of (mi_pending (iterator_at l n)) = r"
    by (auto simp: remaining_items_def items_of_def split: option.splits)
  then have "x \<in> set (items_of (iterator_at l n))" by (simp add: items_of_def)
  with iterator_at_ok [OF assms(1)] have "item_key x \<noteq> None" "item_value x \<noteq> None" by blast+
  with x(2) have "item_key x = Some k" "item_value x = Some v" by (auto simp: pair_of_def)
  moreover have "n < length (db_iterators (lk_db l))" using x(1) by (auto simp: iterator_at_def split: if_splits)
  ultimately show thesis using that x by blast
qed

lemma iterator_at_set:
  "n < length (db_iterators (lk_db l)) \<Longrightarrow> iterator_at (set_iterator n i l) m = (if m = n then i else iterator_at l m)"
  by (auto simp: iterator_at_def set_iterator_def)

lemma iterators_ok_set:
  assumes "iterators_ok l" "\<forall>x\<in>set (items_of i). item_key x \<noteq> None \<and> item_value x \<noteq> None"
  shows "iterators_ok (set_iterator n i l)"
  using assms set_update_subset_insert [of "db_iterators (lk_db l)" n i] by (auto simp: iterators_ok_def set_iterator_def)

interpretation lookup_iter: sound_iterator lookup_iterators lookup_gas remaining_items iterators_ok
proof
  fix l :: "'a Lookup" and n
  assume "iterators_ok l"
  show "it_Valid lookup_iterators n l = (Return (remaining_items l n \<noteq> []), l)"
    by (simp add: lookup_iterators_def memDBIterator_Valid_def remaining_items_def items_of_def split: option.split)
next
  fix l :: "'a Lookup" and n k v r
  assume ok: "iterators_ok l" and r: "remaining_items l n = (k, v) # r"
  from remaining_Cons [OF this] obtain x where x: "mi_item (iterator_at l n) = Some x" "item_key x = Some k" "item_value x = Some v"
    "map pair_of (mi_pending (iterator_at l n)) = r" "n < length (db_iterators (lk_db l))" by blast
  then have valid: "assertIsValid (iterator_at l n) = Return ()" by (simp add: assertIsValid_def memDBIterator_Valid_def)
  with x show "it_Key lookup_iterators n l = (Return (Some k), l)" "it_Value lookup_iterators n l = (Return (Some v), l)"
    by (simp_all add: lookup_iterators_def memDBIterator_Key_def memDBIterator_Value_def)
  define i where "i = snd (memDBIterator_Next (iterator_at l n))"
  have i: "items_of i = mi_pending (iterator_at l n)" "memDBIterator_Next (iterator_at l n) = (Return (), i)"
    using valid by (auto simp: i_def memDBIterator_Next_def items_of_def split: list.split)
  have "\<forall>x\<in>set (items_of i). item_key x \<noteq> None \<and> item_value x \<noteq> None"
    using iterator_at_ok [OF ok, of _ n] x(1) i(1) by (auto simp: items_of_def)
  with ok have "iterators_ok (set_iterator n i l)" by (rule iterators_ok_set)
  moreover have "it_Next lookup_iterators n l = (Return (), set_iterator n i l)" by (simp add: lookup_iterators_def i)
  ultimately show "\<exists>l'. it_Next lookup_iterators n l = (Return (), l') \<and> iterators_ok l' \<and> remaining_items l' n = r \<and>
      (\<forall>m. m \<noteq> n \<longrightarrow> remaining_items l' m = remaining_items l m)"
    using x(4,5) i(1) by (auto simp: remaining_items_def iterator_at_set)
qed (simp add: lookup_gas_def)

section \<open>What the store does\<close>

lemma addUint64Overflow_exact:
  "addUint64Overflow a b = (if unat a + unat b < 2 ^ 64 then (a + b, False) else (0, True))"
proof -
  have le: "a \<le> 18446744073709551615"
    using unsigned_less [of a, where 'a = nat] by (simp add: word_le_nat_alt)
  have "unat (18446744073709551615 - a) = 18446744073709551615 - unat a" by (simp add: unat_sub [OF le])
  with le show ?thesis by (auto simp: addUint64Overflow_def word_less_nat_alt word_le_nat_alt)
qed

lemma unat_add_fits: "unat a + unat b < 2 ^ 64 \<Longrightarrow> unat (a + b) = unat a + unat (b :: u64)"
  by (simp add: unat_add_lem [THEN iffD1])

text \<open>The meter never wraps: the three outcomes by the exact sum.\<close>

lemma ConsumeGas_cases:
  "ConsumeGas amount d g =
    (if unat (gm_consumed g) + unat amount \<le> unat (gm_limit g) then (Return (), g\<lparr>gm_consumed := gm_consumed g + amount\<rparr>)
     else if unat (gm_consumed g) + unat amount < 2 ^ 64
     then (Panics (ErrorOutOfGas d), g\<lparr>gm_consumed := gm_consumed g + amount\<rparr>)
     else (Panics (ErrorGasOverflow d), g\<lparr>gm_consumed := 0\<rparr>))"
  using unsigned_less [of "gm_limit g", where 'a = nat]
  by (auto simp: ConsumeGas_def addUint64Overflow_exact word_less_nat_alt Let_def unat_add_fits)

text \<open>The invariant of a store: of its database and of its iterators.\<close>

definition lookup_ok :: "('t \<Rightarrow> bool) \<Rightarrow> ('t \<Rightarrow> item list) \<Rightarrow> 't Lookup \<Rightarrow> bool" where
  "lookup_ok ok L l \<longleftrightarrow> db_ok ok L (lk_db l) \<and> iterators_ok l"

definition affords :: "'t Lookup \<Rightarrow> u64 \<Rightarrow> bool" where
  "affords l amount \<longleftrightarrow> unat (gm_consumed (lk_meter l)) + unat amount \<le> unat (gm_limit (lk_meter l))"

definition spend :: "u64 \<Rightarrow> 't Lookup \<Rightarrow> 't Lookup" where
  "spend amount l = l\<lparr>lk_meter := (lk_meter l)\<lparr>gm_consumed := gm_consumed (lk_meter l) + amount\<rparr>\<rparr>"

lemma charge_affords: "affords l amount \<Longrightarrow> charge amount d l = (Return (), spend amount l)"
  by (simp add: charge_def ConsumeGas_cases affords_def spend_def)

lemma spend_simps [simp]: "lk_db (spend amount l) = lk_db l" "remaining_items (spend amount l) = remaining_items l"
  "lookup_ok ok L (spend amount l) = lookup_ok ok L l" "gm_consumed (lk_meter (spend amount l)) = gm_consumed (lk_meter l) + amount"
  "gm_limit (lk_meter (spend amount l)) = gm_limit (lk_meter l)"
  by (simp_all add: spend_def remaining_items_def iterator_at_def lookup_ok_def iterators_ok_def fun_eq_iff)

lemma Lookup_Get_run:
  assumes "btree_ok bt ok L" "lookup_ok ok L l" "k \<noteq> []" "affords l GetPrice"
  shows "Lookup_Get bt (Some k) l = (Return (contents L (lk_db l) k), spend GetPrice l)"
  using assms MemDB_Get_contents [OF assms(1) _ assms(3), of "lk_db l"] by (simp add: Lookup_Get_def charge_affords lookup_ok_def)

lemma Lookup_Set_run:
  assumes "btree_ok bt ok L" "lookup_ok ok L l" "k \<noteq> []" "affords l SetPrice" "\<not> lock_waits (lk_db l)"
  shows "\<exists>l'. Lookup_Set bt (Some k) (Some v) l = Some (Return (), l') \<and> lookup_ok ok L l' \<and>
    contents L (lk_db l') = (contents L (lk_db l))(k \<mapsto> v) \<and> lk_meter l' = lk_meter (spend SetPrice l) \<and>
    db_iterators (lk_db l') = db_iterators (lk_db l)"
  using assms MemDB_set_contents [OF assms(1) _ assms(3), of "lk_db l" v]
  by (simp add: Lookup_Set_def charge_affords lookup_ok_def MemDB_Set_def iterators_ok_def MemDB_set_def)

text \<open>What is written through one \<open>Lookup\<close> is read through another one on the same database; each pays on its own meter.\<close>

lemma WithGasMeter_shares:
  assumes "btree_ok bt ok L" "Lookup_WithGasMeter meter ls = (m, ls1)" "n < length (lks_meters ls)" "lookup_ok ok L (lookup_at n ls)"
    "k \<noteq> []" "affords (lookup_at n ls) SetPrice" "\<not> lock_waits (lks_db ls)" "affords (lookup_at m ls1) GetPrice"
  shows "\<exists>l. Lookup_Set bt (Some k) (Some v) (lookup_at n ls1) = Some (Return (), l) \<and>
    lk_meter l = lk_meter (spend SetPrice (lookup_at n ls)) \<and>
    Lookup_Get bt (Some k) (lookup_at m (lookup_put n l ls1)) =
      (Return (Some v), spend GetPrice (lookup_at m (lookup_put n l ls1))) \<and>
    lk_meter (lookup_at m (lookup_put n l ls1)) = meter"
proof -
  from assms(2,3) have n: "lookup_at n ls1 = lookup_at n ls" "m \<noteq> n" "lks_meters ls1 ! m = meter"
    by (auto simp: Lookup_WithGasMeter_def lookup_at_def nth_append)
  from Lookup_Set_run [OF assms(1,4-6), of v] assms(7)
  obtain l where l: "Lookup_Set bt (Some k) (Some v) (lookup_at n ls) = Some (Return (), l)" "lookup_ok ok L l"
    "contents L (lk_db l) k = Some v" "lk_meter l = lk_meter (spend SetPrice (lookup_at n ls))"
    by (auto simp: lookup_at_def)
  let ?m = "lookup_at m (lookup_put n l ls1)"
  have m: "lk_db ?m = lk_db l" "lk_meter ?m = meter" using n by (simp_all add: lookup_at_def lookup_put_def)
  have "lookup_ok ok L ?m" "affords ?m GetPrice"
    using l(2) m assms(8) n(3) by (simp_all add: lookup_ok_def iterators_ok_def affords_def lookup_at_def)
  from Lookup_Get_run [OF assms(1) this(1) assms(5) this(2)] l m n show ?thesis by simp
qed

text \<open>An iterator of the store starts with the pairs of the range, in order.\<close>

definition range_pairs :: "('t \<Rightarrow> item list) \<Rightarrow> bool \<Rightarrow> byte_slice \<Rightarrow> byte_slice \<Rightarrow> 't Lookup \<Rightarrow> (string \<times> string) list" where
  "range_pairs L reverse start end' l =
     map pair_of ((if reverse then rev else id) (filter (in_range start end') (L (db_btree (lk_db l)))))"

lemma newMemDBIterator_run:
  assumes "btree_ok bt ok L" "lookup_ok ok L l" "newMemDBIterator bt start end' reverse (lk_db l) = (n, db)"
  shows "lookup_ok ok L (l\<lparr>lk_db := db\<rparr>) \<and> db_btree db = db_btree (lk_db l) \<and>
    remaining_items (l\<lparr>lk_db := db\<rparr>) n = range_pairs L reverse start end' l \<and> n = length (db_iterators (lk_db l)) \<and>
    (\<forall>m. m \<noteq> n \<longrightarrow> remaining_items (l\<lparr>lk_db := db\<rparr>) m = remaining_items l m)"
proof -
  have t: "ok (db_btree (lk_db l))" using assms(2) by (simp add: lookup_ok_def db_ok_def)
  define xs where "xs = traverse bt (db_btree (lk_db l)) start end' reverse"
  note xs = traverse_range [OF assms(1) t, of start end' reverse, folded xs_def]
  define i where "i = \<lparr>mi_item = (case xs of [] \<Rightarrow> None | x # _ \<Rightarrow> Some x), mi_pending = tl xs, mi_start = start, mi_end = end',
    mi_useMtx = True\<rparr>"
  have db: "n = length (db_iterators (lk_db l))" "db = (lk_db l)\<lparr>db_iterators := db_iterators (lk_db l) @ [i]\<rparr>"
    using assms(3) by (auto simp: newMemDBIterator_def newMemDBIteratorMtxChoice_def i_def Let_def xs_def [symmetric] split: list.splits)
  have i: "items_of i = xs" by (simp add: items_of_def i_def split: list.split)
  have "item_key x \<noteq> None \<and> item_value x \<noteq> None" if "x \<in> set (L (db_btree (lk_db l)))" for x
    using assms(2) that by (cases "item_key x") (auto simp: lookup_ok_def db_ok_def)
  then have "\<forall>x\<in>set (items_of i). item_key x \<noteq> None \<and> item_value x \<noteq> None" unfolding i xs by (simp split: if_split)
  with assms(2) have "lookup_ok ok L (l\<lparr>lk_db := db\<rparr>)" by (auto simp: lookup_ok_def db iterators_ok_def db_ok_def)
  moreover have "remaining_items (l\<lparr>lk_db := db\<rparr>) n = range_pairs L reverse start end' l"
    by (simp add: remaining_items_def iterator_at_def db i range_pairs_def xs)
  ultimately show ?thesis by (auto simp: db remaining_items_def iterator_at_def nth_append)
qed

text \<open>The coin a balance query reports: the last one of the denomination, or none of it.\<close>

lemma pick_coin_last:
  "pick_coin denom cs coin = (case find (\<lambda>c. Coin_Denom c = denom) (rev cs) of Some c \<Rightarrow> c | None \<Rightarrow> coin)"
proof (induction cs arbitrary: coin)
  case (Cons c cs)
  have "find P (xs @ [c]) = (case find P xs of Some x \<Rightarrow> Some x | None \<Rightarrow> if P c then Some c else None)" for P and xs :: "Coin list"
    by (induction xs) auto
  with Cons show ?case by (simp split: option.split)
qed simp

section \<open>Properties\<close>

text \<open>A sequence of charges, up to the first that panics.\<close>

fun ConsumeAll :: "(u64 \<times> string) list \<Rightarrow> mockGasMeter \<Rightarrow> unit go \<times> mockGasMeter" where
  "ConsumeAll [] g = (Return (), g)"
| "ConsumeAll ((amount, d) # charges) g = (case ConsumeGas amount d g of
     (Panics p, g') \<Rightarrow> (Panics p, g')
   | (Return _, g') \<Rightarrow> ConsumeAll charges g')"

text \<open>
  C39: the meter counts exactly.  Any sequence of charges goes through if and only if the sum of all of them, as
  a number without bound, stays within the limit, and then the meter shows that sum; otherwise one of
  them panics, with out of gas or with an overflow of the counter.
\<close>

theorem gas_meter_exact:
  assumes "gm_consumed g \<le> gm_limit g"
  shows "case ConsumeAll charges g of
      (Return _, g') \<Rightarrow> unat (gm_consumed g') = unat (gm_consumed g) + sum_list (map (unat \<circ> fst) charges) \<and>
        gm_consumed g' \<le> gm_limit g \<and> gm_limit g' = gm_limit g
    | (Panics p, g') \<Rightarrow> unat (gm_limit g) < unat (gm_consumed g) + sum_list (map (unat \<circ> fst) charges) \<and>
        (\<exists>d\<in>set (map snd charges). p = ErrorOutOfGas d \<or> p = ErrorGasOverflow d)"
  using assms
proof (induction charges arbitrary: g)
  case (Cons c charges)
  obtain amount d where c: "c = (amount, d)" by fastforce
  show ?case
  proof (cases "unat (gm_consumed g) + unat amount \<le> unat (gm_limit g)")
    case True
    define g' where "g' = g\<lparr>gm_consumed := gm_consumed g + amount\<rparr>"
    have "unat (gm_consumed g) + unat amount < 2 ^ 64" using True unsigned_less [of "gm_limit g", where 'a = nat] by simp
    then have sum: "unat (gm_consumed g') = unat (gm_consumed g) + unat amount" by (simp add: g'_def unat_add_fits)
    with True have le: "gm_consumed g' \<le> gm_limit g'" by (simp add: word_le_nat_alt g'_def)
    have "ConsumeAll (c # charges) g = ConsumeAll charges g'" using True by (simp add: c ConsumeGas_cases g'_def)
    then show ?thesis using Cons.IH [OF le] sum by (auto simp: c g'_def split: prod.splits go.splits)
  qed (auto simp: c ConsumeGas_cases)
qed simp

theorem gas_meter_exact_witness:
  "case ConsumeAll [(GetPrice, ''get''), (SetPrice, ''set'')] (NewMockGasMeter 200000) of
      (Return _, g') \<Rightarrow> False
    | (Panics p, g') \<Rightarrow> \<exists>d\<in>{''get'', ''set''}. p = ErrorOutOfGas d \<or> p = ErrorGasOverflow d"
proof -
  have "gm_consumed (NewMockGasMeter 200000) \<le> gm_limit (NewMockGasMeter 200000)" by (simp add: NewMockGasMeter_def)
  from gas_meter_exact [OF this, of "[(GetPrice, ''get''), (SetPrice, ''set'')]"] show ?thesis
    by (auto simp: NewMockGasMeter_def GetPrice_def SetPrice_def word_le_nat_alt split: prod.splits go.splits)
qed

text \<open>The loop of \<open>MockHumanizeAddress\<close>.\<close>

lemma first_zero_ge: "i + length c \<le> CanonicalLength \<Longrightarrow> i \<le> first_zero i c"
proof (induction c arbitrary: i)
  case (Cons v c)
  from Cons.IH [of "Suc i"] Cons.prems show ?case by auto
qed simp

lemma take_first_zero:
  "i + length c = CanonicalLength \<Longrightarrow> take (first_zero i c - i) c = takeWhile (\<lambda>v. v \<noteq> CHR 0x00) c"
proof (induction c arbitrary: i)
  case (Cons v c)
  with first_zero_ge [of "Suc i" c] show ?case by (auto simp: take_Cons' Suc_le_eq simp flip: diff_Suc_eq_diff_pred)
qed simp

lemma takeWhile_zeros: "takeWhile (\<lambda>v. v \<noteq> CHR 0x00) (h @ replicate n (CHR 0x00)) = takeWhile (\<lambda>v. v \<noteq> CHR 0x00) h"
  by (induction h) (cases n, auto)+

lemma Humanize_Canonicalize:
  assumes "length h \<le> CanonicalLength"
  shows "MockHumanizeAddress (fst (MockCanonicalizeAddress h)) = (takeWhile (\<lambda>v. v \<noteq> CHR 0x00) h, CostHuman, None)"
proof -
  let ?c = "h @ replicate (CanonicalLength - length h) (CHR 0x00)"
  have "take (first_zero 0 ?c) ?c = takeWhile (\<lambda>v. v \<noteq> CHR 0x00) h"
    using take_first_zero [of 0 ?c] assms by (simp add: takeWhile_zeros)
  with assms show ?thesis by (simp add: MockCanonicalizeAddress_def MockHumanizeAddress_def)
qed

lemma takeWhile_lower:
  assumes "\<And>c. f c = c \<longleftrightarrow> Q c"
  shows "takeWhile P h = map f h \<longleftrightarrow> (\<forall>c\<in>set h. P c \<and> Q c)"
proof
  assume eq: "takeWhile P h = map f h"
  then have "length (takeWhile P h) = length h" by simp
  then have "takeWhile P h = h" by (metis append_Nil2 append_eq_append_conv takeWhile_dropWhile_id)
  with eq assms show "\<forall>c\<in>set h. P c \<and> Q c" by (metis map_eq_conv map_ident takeWhile_eq_all_conv)
next
  assume all: "\<forall>c\<in>set h. P c \<and> Q c"
  then have "takeWhile P h = h" by (simp add: takeWhile_eq_all_conv)
  with all assms show "takeWhile P h = map f h" by (simp add: map_idI)
qed

lemma lower_id: "(if 65 \<le> ord c \<and> ord c \<le> 90 then byte_of (ord c + 32) else c) = c \<longleftrightarrow> \<not> (65 \<le> ord c \<and> ord c \<le> 90)"
proof -
  have "ord (byte_of (ord c + 32)) = ord c + 32" if "ord c \<le> 90" using that by simp
  then show ?thesis by (metis add_eq_self_zero zero_neq_numeral)
qed

text \<open>
  C40: the mock addresses.  A human address of at most 32 bytes without a zero byte is recovered from its
  canonical form, which has 32 bytes, and a longer one is refused; every canonical address whose
  bytes are all zero from the first zero on is recovered from its human form.  An ASCII address is
  valid if and only if it has at most 32 bytes, none of them zero or a capital letter.
\<close>

theorem mock_addresses_roundtrip:
  "(if length h \<le> 32 then \<exists>c. MockCanonicalizeAddress h = (Some c, 440, None) \<and> length c = 32 \<and>
        (CHR 0x00 \<notin> set h \<longrightarrow> MockHumanizeAddress (Some c) = (h, 550, None))
      else MockCanonicalizeAddress h = (None, 0, Some (OtherError ''human encoding too long''))) \<and>
   (length p \<le> 32 \<and> CHR 0x00 \<notin> set p \<longrightarrow>
      fst (MockCanonicalizeAddress (fst (MockHumanizeAddress (Some (p @ replicate (32 - length p) (CHR 0x00)))))) =
        Some (p @ replicate (32 - length p) (CHR 0x00))) \<and>
   (ascii a \<longrightarrow> (snd (MockValidateAddress unicode_ToLower a) = None \<longleftrightarrow>
      length a \<le> 32 \<and> (\<forall>c\<in>set a. c \<noteq> CHR 0x00 \<and> \<not> (65 \<le> ord c \<and> ord c \<le> 90))))"
proof (intro conjI impI)
  have whole: "takeWhile (\<lambda>v. v \<noteq> CHR 0x00) s = s" if "CHR 0x00 \<notin> set s" for s
    using that by (auto simp: takeWhile_eq_all_conv)
  show "if length h \<le> 32 then \<exists>c. MockCanonicalizeAddress h = (Some c, 440, None) \<and> length c = 32 \<and>
        (CHR 0x00 \<notin> set h \<longrightarrow> MockHumanizeAddress (Some c) = (h, 550, None))
      else MockCanonicalizeAddress h = (None, 0, Some (OtherError ''human encoding too long''))"
    using Humanize_Canonicalize [of h] whole [of h]
    by (auto simp: MockCanonicalizeAddress_def CanonicalLength_def CostCanonical_def CostHuman_def)
  show "fst (MockCanonicalizeAddress (fst (MockHumanizeAddress (Some (p @ replicate (32 - length p) (CHR 0x00)))))) =
        Some (p @ replicate (32 - length p) (CHR 0x00))" if "length p \<le> 32 \<and> CHR 0x00 \<notin> set p"
    using that Humanize_Canonicalize [of p] whole [of p] by (simp add: MockCanonicalizeAddress_def CanonicalLength_def)
  show "snd (MockValidateAddress unicode_ToLower a) = None \<longleftrightarrow>
      length a \<le> 32 \<and> (\<forall>c\<in>set a. c \<noteq> CHR 0x00 \<and> \<not> (65 \<le> ord c \<and> ord c \<le> 90))" if "ascii a"
    using that Humanize_Canonicalize [of a] takeWhile_lower [OF lower_id, of "\<lambda>v. v \<noteq> CHR 0x00" a]
    by (cases "length a \<le> 32") (auto simp: MockValidateAddress_def MockCanonicalizeAddress_def CanonicalLength_def strings_ToLower_def Let_def)
qed

theorem mock_addresses_roundtrip_witness:
  "(\<exists>c. MockCanonicalizeAddress ''foobar'' = (Some c, 440, None) \<and> length c = 32 \<and> MockHumanizeAddress (Some c) = (''foobar'', 550, None)) \<and>
   snd (MockValidateAddress id ''Foobar'') \<noteq> None"
  using mock_addresses_roundtrip [of "''foobar''" "[]" "''Foobar''" id] by auto

end
