(* ===== verification/Demo.thy ===== *)
theory Demo
  imports Vm
begin

text \<open>
  The version of the library (\<open>libwasmvm/src/version.rs\<close>, \<open>internal/api/version.go\<close>, \<open>lib.go\<close> with the two build
  variants \<open>version_cgo.go\<close> and \<open>version_no_cgo.go\<close>) and the demo program \<open>cmd/demo/main.go\<close>.
\<close>

section \<open>The version\<close>

text \<open>
  The version comes from the build.  \<open>version_str\<close> returns a pointer; what it leads to stands for it.
  The function leaves \<open>errno\<close> at zero.
\<close>

definition VERSION :: "string \<Rightarrow> string" where
  "VERSION pkg_version = pkg_version @ [CHR 0x00]"

definition version_str :: "string \<Rightarrow> string \<times> 32 word" where
  "version_str pkg_version = (VERSION pkg_version, 0)"

text \<open>\<open>C.GoString\<close> copies up to the first zero byte; there must be one.\<close>

fun C_GoString :: "string \<Rightarrow> string option" where
  "C_GoString [] = None"
| "C_GoString (c # cs) = (if c = CHR 0x00 then Some [] else map_option ((#) c) (C_GoString cs))"

definition api_LibwasmvmVersion :: "string \<Rightarrow> ('w, string \<times> error) eff" where
  "api_LibwasmvmVersion pkg_version w = (case version_str pkg_version of (version_ptr, errno) \<Rightarrow>
     if errno \<noteq> 0 then (Ok ([], Some (errno_error errno)), w)
     else (case C_GoString version_ptr of
       None \<Rightarrow> (Undefined, w)
     | Some version_copy \<Rightarrow> (Ok (version_copy, None), w)))"

text \<open>The two variants of the build.\<close>

definition libwasmvmVersionImpl_cgo :: "string \<Rightarrow> ('w, string \<times> error) eff" where
  "libwasmvmVersionImpl_cgo pkg_version = api_LibwasmvmVersion pkg_version"

definition libwasmvmVersionImpl_no_cgo :: "('w, string \<times> error) eff" where
  "libwasmvmVersionImpl_no_cgo = ret ([], Some (OtherError ''libwasmvm unavailable since cgo is disabled''))"

definition LibwasmvmVersion :: "bool \<Rightarrow> string \<Rightarrow> ('w, string \<times> error) eff" where
  "LibwasmvmVersion cgo pkg_version = (if cgo then libwasmvmVersionImpl_cgo pkg_version else libwasmvmVersionImpl_no_cgo)"

section \<open>The demo program\<close>

definition PRINT_DEBUG :: bool where "PRINT_DEBUG = True"
definition MEMORY_LIMIT :: u32 where "MEMORY_LIMIT = 32"
definition CACHE_SIZE :: u32 where "CACHE_SIZE = 100"
definition SUPPORTED_CAPABILITIES :: "string slice" where "SUPPORTED_CAPABILITIES = Some [''staking'']"

text \<open>What the program is given: its arguments, the files and whether the directory can be made.\<close>

record demo_world =
  dw_Args :: "string list"
  dw_ReadFile :: "string \<Rightarrow> go_error + string"
  dw_MkdirAll :: "string \<Rightarrow> error"

text \<open>The state of the library and what was written to standard output.\<close>

type_synonym ('c, 'i, 's) demo_state = "('c, 'i, 's) sys \<times> string"

definition on_sys :: "(('c, 'i, 's) sys, 'a) eff \<Rightarrow> (('c, 'i, 's) demo_state, 'a) eff" where
  "on_sys m w = (case m (fst w) of (r, w') \<Rightarrow> (r, (w', snd w)))"

definition Printf :: "string \<Rightarrow> (('c, 'i, 's) demo_state, unit) eff" where
  "Printf text w = (Ok (), (fst w, snd w @ text))"

definition newline :: string where
  "newline = [CHR 0x0A]"

text \<open>\<open>panic(err)\<close>.  Nothing recovers it, so the type of the error is left out.\<close>

definition panic_with :: "go_error \<Rightarrow> ('w, 'a) eff" where
  "panic_with err = panic (PanicValue [] (case error_text err of Return t \<Rightarrow> t | Panics _ \<Rightarrow> []))"

text \<open>
  The verb \<open>%X\<close> writes the bytes of a string as upper case hexadecimal digits.  Of an operand with a method \<open>String\<close>,
  as a \<open>Checksum\<close> has, it is the string this method returns.
\<close>

definition format_X :: "string \<Rightarrow> string" where
  "format_X s = hex_upper s"

definition demo_main ::
    "('c, 'n, 'q, 'i, 's) cosmwasm_vm \<Rightarrow> os \<Rightarrow> bool \<Rightarrow> string \<Rightarrow> demo_world \<Rightarrow> (('c, 'i, 's) demo_state, unit) eff" where
  "demo_main lib os cgo pkg_version d = (case dw_Args d of
     _ # file # _ \<Rightarrow>
       if file = ''version'' then
         bind (LibwasmvmVersion cgo pkg_version) (\<lambda>(libwasmvmVersion, err). case err of
           Some e \<Rightarrow> panic_with e
         | None \<Rightarrow> Printf (''libwasmvm: '' @ libwasmvmVersion @ newline))
       else
         bind (Printf (''Running '' @ file @ ''...'' @ newline)) (\<lambda>_.
         case dw_ReadFile d file of
           Inl e \<Rightarrow> panic_with e
         | Inr bz \<Rightarrow>
             bind (Printf (''Loaded!'' @ newline)) (\<lambda>_.
             case dw_MkdirAll d ''tmp'' of
               Some e \<Rightarrow> panic_with e
             | None \<Rightarrow>
                 bind (on_sys (NewVM lib os ''tmp'' SUPPORTED_CAPABILITIES MEMORY_LIMIT PRINT_DEBUG CACHE_SIZE)) (\<lambda>r.
                 case r of
                   Inl e \<Rightarrow> panic_with e
                 | Inr vm \<Rightarrow>
                     bind (on_sys (VM_StoreCode lib vm (Some bz) (- 1))) (\<lambda>(checksum, _, err).
                     case err of
                       Some e \<Rightarrow> panic_with e
                     | None \<Rightarrow>
                         bind (Printf (''Stored code with checksum: '' @ format_X (Checksum_String checksum) @ newline)) (\<lambda>_.
                         bind (on_sys (VM_Cleanup vm)) (\<lambda>_. Printf (''finished'' @ newline)))))))
   | args \<Rightarrow> panic (PanicValue ''boundsError'' (''index out of range [1] with length '' @ dec (length args))))"

lemma C_GoString_VERSION: "CHR 0x00 \<notin> set v \<Longrightarrow> C_GoString (VERSION v) = Some v"
  unfolding VERSION_def by (induction v) auto

definition demo_config :: VMConfig where
  "demo_config = \<lparr>VMConfig_WasmLimits = WasmLimits_zero,
     VMConfig_Cache = \<lparr>CacheOptions_BaseDir = ''tmp'', CacheOptions_AvailableCapabilities = SUPPORTED_CAPABILITIES,
       CacheOptions_MemoryCacheSizeBytes = NewSizeMebi CACHE_SIZE, CacheOptions_InstanceMemoryLimitBytes = NewSizeMebi MEMORY_LIMIT\<rparr>\<rparr>"

lemma demo_config_short: "length (json_print (VMConfig_to_json demo_config)) < 2 ^ 64"
  by (simp add: demo_config_def WasmLimits_zero_def VMConfig_to_json_def WasmLimits_to_json_def CacheOptions_to_json_def fld_def fld_omit_def
      json_slice_def json_quote_def esc_ascii_def Size_MarshalJSON_def json_u32_def json_uint_def dec.simps digit_lits
      SUPPORTED_CAPABILITIES_def CACHE_SIZE_def MEMORY_LIMIT_def NewSizeMebi_def)

lemma NewVM_demo:
  "NewVM lib os ''tmp'' SUPPORTED_CAPABILITIES MEMORY_LIMIT PRINT_DEBUG CACHE_SIZE = NewVMWithConfig lib os demo_config PRINT_DEBUG"
  by (simp add: NewVM_def demo_config_def)

lemma demo_NewVM:
  assumes "lock = os_lock_file os ''tmp''" "os_MkdirAll os ''tmp''" "os_OpenFile os lock" "os_WriteString os lock" "lock \<notin> sys_locks w"
    "vm_new_with_config lib (json_print (VMConfig_to_json demo_config)) = Return (Inr (Inr c))"
  shows "NewVM lib os ''tmp'' SUPPORTED_CAPABILITIES MEMORY_LIMIT PRINT_DEBUG CACHE_SIZE w =
    (Ok (Inr \<lparr>VM_cache = \<lparr>Cache_ptr = Some (sys_next w), Cache_lockfile = lock\<rparr>, VM_printDebug = PRINT_DEBUG\<rparr>),
     w\<lparr>sys_locks := insert lock (sys_locks w), sys_caches := (sys_caches w)(sys_next w \<mapsto> c), sys_next := Suc (sys_next w)\<rparr>)"
proof -
  have dir: "CacheOptions_BaseDir (VMConfig_Cache demo_config) = ''tmp''" by (simp add: demo_config_def)
  show ?thesis
    using InitCache_opens [of os demo_config lock w lib c] assms demo_config_short
    by (simp add: NewVM_demo NewVMWithConfig_def bind_def dir ret_def)
qed

lemma VM_StoreCode_unlimited:
  "VM_StoreCode lib vm code (- 1) = bind (api_StoreCode lib (VM_cache vm) code True) (\<lambda>(checksum, err). ret (checksum, compileCost code, err))"
  using word_order.extremum [of "compileCost code"] by (simp add: VM_StoreCode_def Let_def not_le [symmetric])

lemma demo_version:
  assumes "dw_Args d = prog # ''version'' # rest" "CHR 0x00 \<notin> set pkg_version"
  shows "demo_main lib os True pkg_version d (w, out) = (Ok (), (w, out @ ''libwasmvm: '' @ pkg_version @ newline))"
    and "demo_main lib os False pkg_version d (w, out) =
      (Panic (PanicValue [] ''libwasmvm unavailable since cgo is disabled''), (w, out))"
  using assms(1) C_GoString_VERSION [OF assms(2)]
  by (simp_all add: demo_main_def LibwasmvmVersion_def libwasmvmVersionImpl_cgo_def libwasmvmVersionImpl_no_cgo_def bind_def
      api_LibwasmvmVersion_def version_str_def Printf_def ret_def panic_with_def panic_def)

text \<open>
  C22: the demo program, called with the name of a file, stores the code of the file and leaves nothing behind:
  the lock of its directory is free again, the cache is gone and all memory is freed.  What it prints as the checksum are
  128 digits: the hexadecimal form of the hexadecimal form.
\<close>

theorem demo_stores_code:
  fixes w :: "('c, 'i, 's) sys" and lib :: "('c, 'n, 'q, 'i, 's) cosmwasm_vm"
  assumes "dw_Args d = prog # file # rest" "file \<noteq> ''version''" "dw_ReadFile d file = Inr wasm" "dw_MkdirAll d ''tmp'' = None"
    and "lock = os_lock_file os ''tmp''" "os_MkdirAll os ''tmp''" "os_OpenFile os lock" "os_WriteString os lock" "lock \<notin> sys_locks w"
    and "vm_new_with_config lib (json_print (VMConfig_to_json demo_config)) = Return (Inr (Inr c))"
    and "heap_ok (heap_of w)" "sys_caches w (sys_next w) = None" "length wasm < 2 ^ 64"
    and "vm_store_code lib wasm True True c = (Return (Inr cs), c')" "length cs = 32"
  shows "\<exists>w'. demo_main lib os cgo pkg_version d (w, out) = (Ok (), (w', out @ ''Running '' @ file @ ''...'' @ newline @
      ''Loaded!'' @ newline @ ''Stored code with checksum: '' @ hex_upper (hex_encode cs) @ newline @ ''finished'' @ newline)) \<and>
    length (hex_upper (hex_encode cs)) = 128 \<and> sys_locks w' = sys_locks w \<and> sys_caches w' = sys_caches w \<and>
    blocks (heap_of w') = blocks (heap_of w) \<and> heap_ok (heap_of w')"
proof -
  let ?p = "sys_next w" and ?cache = "\<lparr>Cache_ptr = Some (sys_next w), Cache_lockfile = lock\<rparr>"
  let ?w1 = "w\<lparr>sys_locks := insert lock (sys_locks w), sys_caches := (sys_caches w)(?p \<mapsto> c), sys_next := Suc ?p\<rparr>"
  from api_StoreCode_run [of ?w1 ?cache ?p c wasm lib cs c'] assms(11,13-15)
  obtain h where h: "api_StoreCode lib ?cache (Some wasm) True ?w1 = (Ok (Some cs, None), with_cache ?w1 ?p c' h)"
    "blocks h = blocks (heap_of w)" "heap_ok h" by auto
  let ?w2 = "with_cache ?w1 ?p c' h"
  have "ReleaseCache ?cache ?w2 = (Ok (), ?w2\<lparr>sys_caches := (sys_caches w)(?p := None), sys_locks := sys_locks w\<rparr>)"
    using assms(9) by (simp add: ReleaseCache_def bind_def release_cache_def)
  moreover have "(sys_caches w)(?p := None) = sys_caches w" using assms(12) by auto
  ultimately show ?thesis
    using demo_NewVM [OF assms(5-10)] h assms(1-4,15)
    by (simp add: demo_main_def bind_def on_sys_def Printf_def VM_StoreCode_unlimited ret_def Checksum_String_def format_X_def
        VM_Cleanup_def hex_upper_def length_hex_encode)
qed

theorem demo_stores_code_witness:
  "\<exists>w'. demo_main echo_vm \<lparr>os_lock_file = \<lambda>d. d @ ''/exclusive.lock'', os_MkdirAll = \<lambda>_. True, os_OpenFile = \<lambda>_. True,
       os_WriteString = \<lambda>_. True\<rparr> True ''3.0.2'' \<lparr>dw_Args = [''demo'', ''a.wasm''], dw_ReadFile = \<lambda>_. Inr ''wasm'', dw_MkdirAll = \<lambda>_. None\<rparr>
       (fresh_sys, []) =
      (Ok (), (w', ''Running '' @ ''a.wasm'' @ ''...'' @ newline @ ''Loaded!'' @ newline @
        ''Stored code with checksum: '' @ hex_upper (hex_encode (replicate 32 CHR ''x'')) @ newline @ ''finished'' @ newline)) \<and>
    sys_locks w' = {''dir/exclusive.lock''}"
  (is "\<exists>w'. demo_main _ ?os _ _ ?d _ = _ \<and> _")
  using demo_stores_code [of ?d "''demo''" "''a.wasm''" "[]" "''wasm''" "''tmp/exclusive.lock''" ?os fresh_sys echo_vm "()"
      "replicate 32 CHR ''x''" "()" True "''3.0.2''" "[]"] echo_ok(3)
  by (auto simp: fresh_sys_def echo_vm_def)

end
