(* ===== verification/Spec2Isabelle.thy ===== *)
theory Spec2Isabelle
  imports JsonSize CosmosMsg TypesSpec Libwasmvm Api BackendSpec Vm Transparency MemDB Mocks Demo
begin

text \<open>
  A verification development of wasmvm, the Go interface to the CosmWasm virtual machine.

  \<^bold>\<open>The program.\<close>  A chain written in Go calls the methods of \<open>VM\<close> (\<open>src/lib_libwasmvm.go\<close>).  They encode
  their arguments as JSON and call package \<open>api\<close> (\<open>src/internal/api/lib.go\<close>), which calls the C functions
  that \<open>libwasmvm\<close> exports (\<open>src/libwasmvm/src/calls.rs\<close>, \<open>cache.rs\<close>).  These run a contract in the crate
  \<open>cosmwasm-vm\<close>.  While it runs, the contract reads and writes the chain through the Rust backend
  (\<open>storage.rs\<close>, \<open>iterator.rs\<close>, \<open>api.rs\<close>, \<open>querier.rs\<close>), which calls back into Go
  (\<open>src/internal/api/callbacks.go\<close>).  Iterators the chain opens meanwhile are kept in frames, one per
  call (\<open>iterator.go\<close>); bytes cross the boundary as views and unmanaged vectors (\<open>memory.go\<close>,
  \<open>memory.rs\<close>).  The data of requests and answers is package \<open>types\<close>.  The tests bring a chain of
  their own (\<open>mocks.go\<close>, \<open>testdb\<close>).

  \<^bold>\<open>The theories.\<close>
  \<^item> \<open>Prelude\<close>, \<open>GoStd\<close>: bytes, slices, words, panics; UTF-8, decimal, hex, base64.
  \<^item> \<open>GoJson\<close>, \<open>JsonParse\<close>, \<open>GoUnmarshal\<close>: \<open>encoding/json\<close> as a printer, a parser and decoders.  The
    locale \<open>json_codec\<close> is the contract of a type with JSON in both directions; it is interpreted for
    every type the code reads.
  \<^item> \<open>TypesGo\<close>, \<open>Ibc\<close>, \<open>MsgTypes\<close>, \<open>CosmosMsg\<close>, \<open>SystemError\<close>, \<open>Queries\<close>: package \<open>types\<close>, a struct
    \<open>T\<close> as a record \<open>T\<close> with fields \<open>T_Field\<close>, its encoder \<open>T_to_json\<close> and its decoder \<open>T_decode\<close>, a method
    \<open>M\<close> as \<open>T_M\<close>.  \<open>TypesSpec\<close> has the properties of checksums, renamed fields and errors.
  \<^item> \<open>JsonSize\<close>: \<open>json_size.go\<close>, the prediction of the length of a JSON text, against the text; the Go
    interface is the locale \<open>expected_json_size\<close>.
  \<^item> \<open>IteratorFrames\<close>: \<open>iterator.go\<close> as operations on one record and a relation \<open>reachable\<close>; the locale
    \<open>iterator_registry\<close> is what the callbacks rely on.
  \<^item> \<open>Memory\<close>: views and unmanaged vectors on an explicit heap, in which a double free or a use after free
    is \<open>None\<close>; the locale \<open>owned_transfer\<close> is the contract of a vector that changes sides, interpreted
    for both directions.
  \<^item> \<open>Callbacks\<close>, \<open>Backend\<close>: the two sides of a callback, with every check, metering, recovery and
    conversion.  The locale \<open>sound_iterator\<close> is the contract of a chain's iterator.  \<open>Ownership\<close> is a
    logic of what is allocated; \<open>BackendSpec\<close> has the refinement of the chain's interfaces.
  \<^item> \<open>Libwasmvm\<close>, \<open>Api\<close>, \<open>Vm\<close>: the exported functions, package \<open>api\<close> and the public methods, each on
    top of the one before.  \<open>Transparency\<close> has a reference semantics: a contract that runs directly on
    the interfaces of the chain, with nothing of the boundary (\<open>chain_prog\<close>), and the methods over it.
  \<^item> \<open>MemDB\<close>, \<open>Mocks\<close>: the in-memory database with its iterator goroutines and the chain of the tests;
    \<open>Mocks\<close> interprets \<open>sound_iterator\<close> on the iterators of its store.
  \<^item> \<open>Demo\<close>: the version of the library (\<open>version.rs\<close>, \<open>version.go\<close>, \<open>version_cgo.go\<close>, \<open>version_no_cgo.go\<close>) and the
    program \<open>cmd/demo/main.go\<close>, over the state \<open>sys\<close> and its output.

  \<^bold>\<open>State and effects.\<close>  A Go method that may panic returns \<open>'a go\<close>; an effect on the boundary is
  \<open>('w, 'a) eff\<close>, which ends in a value, a panic or undefined behaviour.  The chain is a type variable
  \<open>'s\<close> with its methods as records of functions, so the theorems hold for every chain.  The state \<open>ffi\<close>
  has the chain, the iterator frames, the heap and the out parameters of a callback; \<open>sys\<close> adds the
  caches and locks.

  \<^bold>\<open>What is shown.\<close>
  \<^item> Across all layers: a public method calls the contract function of its name with the JSON of its
    arguments and returns what the answer decodes to (\<open>Vm\<close>, \<open>Api\<close>); a contract, whatever it does, leaves
    nothing allocated and no foreign frame changed (\<open>Libwasmvm\<close>, \<open>Ownership\<close>); storage, address and
    query functions of the backend refine those of the chain (\<open>BackendSpec\<close>).  Put together, the boundary
    is transparent: a whole run of a contract through the FFI has the result, and leaves the chain and the iterators
    in the state, of the same contract run directly on the chain, and so have the public methods
    (\<open>Transparency\<close>), as long as the values that cross keep the bounds below.  This theory puts the
    test chain behind the backend: a value written is read back, a scan yields exactly its range, a
    balance is found.
  \<^item> Components: frames are private to their call and IDs stay valid until it ends (\<open>IteratorFrames\<close>);
    bytes are unchanged by a crossing (\<open>Memory\<close>); predicted JSON lengths are exact where the text is
    valid UTF-8 without line separators (\<open>JsonSize\<close>); messages come back from their JSON
    (\<open>TypesSpec\<close>); gas is charged exactly (\<open>Vm\<close>, \<open>Mocks\<close>); the database is a map, its iterators deliver
    the range whatever the scheduling, closing one always ends, and it is shown when a writer has to wait
    (\<open>MemDB\<close>); the demo program leaves no lock, cache or memory behind (\<open>Demo\<close>).

  \<^bold>\<open>Arguments.\<close>  The crate \<open>cosmwasm-vm\<close> is the record \<open>cosmwasm_vm\<close>; \<open>vm_sound\<close> says that its results fit into
  memory.  The package \<open>google/btree\<close> is the record
  \<open>btree\<close>; \<open>btree_ok\<close> is its documentation, and \<open>list_btree\<close> meets it.  SHA-256, the case tables of
  package \<open>unicode\<close>, the texts of JSON errors and the parsing of a query answer by the crate are
  functions that stand as arguments.

  \<^bold>\<open>Bounds.\<close>  \<open>json_parse\<close> gives its parser twice the length of the text plus two as fuel, and
  \<open>parse_fuel\<close> in \<open>JsonParse\<close> shows that more changes nothing.  \<open>collect\<close> reads an iterator for at most \<open>n\<close> steps;
  the theorems ask for one step more than there are pairs.  Lengths below \<open>2 ^ 31\<close> are the range of the
  C \<open>int\<close> that \<open>C.GoBytes\<close> takes, and \<open>2 ^ 64\<close> that of a \<open>usize\<close>.

  \<^bold>\<open>Not modelled.\<close>  The garbage collector, with \<open>runtime.KeepAlive\<close> and \<open>runtime.Pinner\<close>, since a view is the
  bytes it shows; sharing of a slice's array between two slices, so that a \<open>json.RawMessage\<close> is its
  document and the database does not see a caller change a key it passed; output on standard
  error and debug printing; a callback of the chain that enters the virtual machine again; iterators without
  the mutex during a write, which the code leaves to the caller; the linker settings, which are build tags and flags
  without code; the C trampolines of \<open>callbacks_cgo.go\<close>, which pass their arguments on unchanged and where the
  tables of callbacks name the Go functions directly; the finaliser that closes a file nobody closed; and the
  test functions inside \<open>mocks.go\<close>.
\<close>

section \<open>The test chain behind the Rust backend\<close>

lemma metered_Lookup_Get:
  assumes "btree_ok bt ok L" "lookup_ok ok L l" "k \<noteq> []" "affords l GetPrice"
  shows "metered_env lookup_gas (Lookup_Get bt (Some k)) l = (Inr (contents L (lk_db l) k, GetPrice), spend GetPrice l)"
  by (simp add: metered_env_def lookup_gas_def Lookup_Get_run [OF assms] mockGasMeter_GasConsumed_def)

lemma metered_Lookup_Set:
  assumes "btree_ok bt ok L" "lookup_ok ok L l" "k \<noteq> []" "affords l SetPrice" "\<not> lock_waits (lk_db l)" "is_Lookup bt kv"
  shows "\<exists>l'. metered_env lookup_gas (kv_Set kv (Some k) (Some v)) l = (Inr ((), SetPrice), l') \<and> lookup_ok ok L l' \<and>
    contents L (lk_db l') = (contents L (lk_db l))(k \<mapsto> v) \<and> lk_meter l' = lk_meter (spend SetPrice l)"
proof -
  from Lookup_Set_run [OF assms(1-5), of v] obtain l' where
    l': "Lookup_Set bt (Some k) (Some v) l = Some (Return (), l')" "lookup_ok ok L l'"
      "contents L (lk_db l') = (contents L (lk_db l))(k \<mapsto> v)" "lk_meter l' = lk_meter (spend SetPrice l)" by blast
  with assms(6) have "kv_Set kv (Some k) (Some v) l = (Return (), l')" by (simp add: is_Lookup_def)
  with l' show ?thesis by (auto simp: metered_env_def lookup_gas_def mockGasMeter_GasConsumed_def)
qed

lemma metered_scan:
  assumes "btree_ok bt ok L" "lookup_ok ok L l" "start \<noteq> Some []" "stop \<noteq> Some []" "affords l RangePrice" "is_Lookup bt kv"
  shows "\<exists>l' n. metered_env lookup_gas (scan_op kv order start stop) l = (Inr (Some n, RangePrice), l') \<and> lookup_ok ok L l' \<and>
    remaining_items l' n = range_pairs L (order = Descending) start stop l \<and> db_btree (lk_db l') = db_btree (lk_db l) \<and>
    lk_meter l' = lk_meter (spend RangePrice l) \<and> (\<forall>m. m \<noteq> n \<longrightarrow> remaining_items l' m = remaining_items l m)"
proof -
  obtain n db where n: "newMemDBIterator bt start stop (order = Descending) (lk_db (spend RangePrice l)) = (n, db)" by fastforce
  let ?l = "(spend RangePrice l)\<lparr>lk_db := db\<rparr>"
  have "\<not> empty_bound start" "\<not> empty_bound stop" using assms(3,4) by (cases start; cases stop; auto simp: empty_bound_def)+
  with n have "scan_op kv order start stop l = (Return (Some n), ?l)"
    using assms(5,6) by (cases order) (simp_all add: scan_op_def is_Lookup_def Lookup_Iterator_def Lookup_ReverseIterator_def
        charge_affords MemDB_Iterator_def MemDB_ReverseIterator_def)
  then have "metered_env lookup_gas (scan_op kv order start stop) l = (Inr (Some n, RangePrice), ?l)"
    by (simp add: metered_env_def lookup_gas_def mockGasMeter_GasConsumed_def)
  with newMemDBIterator_run [OF assms(1) _ n] assms(2) show ?thesis by (auto simp: range_pairs_def)
qed

text \<open>A fresh test chain, and a store that has the methods of the \<open>Lookup\<close>.\<close>

definition test_chain :: "(nat, item list Lookup) ffi" where
  "test_chain = \<lparr>f_env = NewLookup list_btree (NewMockGasMeter 1000000), f_iters = iter_init, f_heap = empty_heap,
     f_usedGas = None, f_out = None, f_out2 = None, f_errOut = None, f_iter = None\<rparr>"

definition test_store :: "(nat, item list Lookup) kvstore" where
  "test_store = \<lparr>kv_Get = Lookup_Get list_btree,
     kv_Set = \<lambda>k v l. (case Lookup_Set list_btree k v l of Some x \<Rightarrow> x | None \<Rightarrow> (Panics (panic_string ''deadlock''), l)),
     kv_Delete = \<lambda>k l. (case Lookup_Delete list_btree k l of Some x \<Rightarrow> x | None \<Rightarrow> (Panics (panic_string ''deadlock''), l)),
     kv_Iterator = Lookup_Iterator list_btree, kv_ReverseIterator = Lookup_ReverseIterator list_btree\<rparr>"

lemma test_chain_ok:
  "is_Lookup list_btree test_store" "lookup_ok (sorted_wrt item_Less) id (f_env test_chain)" "heap_ok (f_heap test_chain)"
  "\<not> lock_waits (lk_db (f_env test_chain))" "affords (f_env test_chain) (SetPrice + GetPrice)" "affords (f_env test_chain) RangePrice"
  by (simp_all add: is_Lookup_def test_store_def lookup_ok_def db_ok_def iterators_ok_def test_chain_def NewLookup_def NewMemDB_def
      list_btree_def lock_waits_def heap_ok_def empty_heap_def affords_def NewMockGasMeter_def SetPrice_def GetPrice_def RangePrice_def)

definition pair_chain :: "(nat, item list Lookup) ffi" where
  "pair_chain = test_chain\<lparr>f_env := (f_env test_chain)\<lparr>lk_db :=
     \<lparr>db_btree = [newPair (Some ''a'') (Some ''1''), newPair (Some ''b'') (Some ''2'')], db_iterators = []\<rparr>\<rparr>\<rparr>"

text \<open>
  C3: a contract that writes a value reads it back.  With the test chain behind it, a write through the Rust
  storage, the FFI, the Go callbacks and the metered store ends in the database, at that key only;
  the read that follows finds the value there.  Each reports exactly its price as gas, and no memory
  is left behind at the boundary.
\<close>

theorem storage_write_read:
  fixes w :: "(nat, 't Lookup) ffi"
  assumes "btree_ok bt ok L" "is_Lookup bt kv" "lookup_ok ok L (f_env w)" "heap_ok (f_heap w)"
    "key \<noteq> []" "length key < 2 ^ 31" "length val < 2 ^ 31"
    "affords (f_env w) (SetPrice + GetPrice)" "\<not> lock_waits (lk_db (f_env w))"
  shows "\<exists>w1 w2. GoStorage_set (go_db kv c lookup_gas its) key val w = (Ok (Inr (), with_externally_used 187000), w1) \<and>
    GoStorage_get (go_db kv c lookup_gas its) key w1 = (Ok (Inr (Some val), with_externally_used 99000), w2) \<and>
    contents L (lk_db (f_env w2)) = (contents L (lk_db (f_env w)))(key \<mapsto> val) \<and> lookup_ok ok L (f_env w2) \<and>
    blocks (f_heap w2) = blocks (f_heap w) \<and> f_iters w2 = f_iters w"
proof -
  have short: "short (Some key)" "short (Some val)" using assms(6,7) by (simp_all add: short_def)
  have gas: "affords (f_env w) SetPrice" using assms(8) by (simp add: affords_def SetPrice_def GetPrice_def)
  from metered_Lookup_Set [OF assms(1,3,5) gas assms(9,2), of val] obtain l1 where
    l1: "metered_env lookup_gas (kv_Set kv (Some key) (Some val)) (f_env w) = (Inr ((), SetPrice), l1)" "lookup_ok ok L l1"
      "contents L (lk_db l1) = (contents L (lk_db (f_env w)))(key \<mapsto> val)" "lk_meter l1 = lk_meter (spend SetPrice (f_env w))" by blast
  from GoStorage_set_run [OF short, of kv c lookup_gas its w] l1(1) obtain w1 where
    w1: "GoStorage_set (go_db kv c lookup_gas its) key val w = (Ok (Inr (), with_externally_used 187000), w1)"
      "f_env w1 = l1" "f_iters w1 = f_iters w" "f_heap w1 = f_heap w" by (auto simp: backend_result_def SetPrice_def)
  have "unat (gm_consumed (lk_meter (f_env w)) + SetPrice) = unat (gm_consumed (lk_meter (f_env w))) + unat SetPrice"
    using gas unsigned_less [of "gm_limit (lk_meter (f_env w))", where 'a = nat] by (intro unat_add_fits) (simp add: affords_def)
  then have gas': "affords (f_env w1) GetPrice"
    using assms(8) by (simp add: affords_def w1 l1 SetPrice_def GetPrice_def)
  have get: "metered_env lookup_gas (kv_Get kv (Some key)) (f_env w1) = (Inr (Some val, GetPrice), spend GetPrice (f_env w1))"
    using metered_Lookup_Get [OF assms(1) _ assms(5) gas'] assms(2) l1 w1(2) by (simp add: is_Lookup_def)
  from GoStorage_get_run [OF short(1), of w1 lookup_gas kv c its] get assms(4,7) w1(4) obtain w2 where
    w2: "GoStorage_get (go_db kv c lookup_gas its) key w1 = (Ok (Inr (Some val), with_externally_used 99000), w2)"
      "f_env w2 = spend GetPrice (f_env w1)" "f_iters w2 = f_iters w1" "blocks (f_heap w2) = blocks (f_heap w1)"
    by (auto simp: backend_result_def GetPrice_def)
  with w1 l1 show ?thesis by auto
qed

theorem storage_write_read_witness:
  "\<exists>w1 w2. GoStorage_set (go_db test_store 7 lookup_gas []) ''k'' ''v'' test_chain = (Ok (Inr (), with_externally_used 187000), w1) \<and>
    GoStorage_get (go_db test_store 7 lookup_gas []) ''k'' w1 = (Ok (Inr (Some ''v''), with_externally_used 99000), w2)"
  using storage_write_read [OF list_btree_ok test_chain_ok(1-3) _ _ _ test_chain_ok(5,4), of "''k''" "''v''" 7 "[]"] by auto

text \<open>
  C4: a range scan delivers the range.  A scan of the test chain registers an iterator under the call, and
  reading it to its end through the FFI yields exactly the pairs of the database with a key from the start
  up to but not including the stop, ascending or descending as asked, and then the end.  The scan
  costs its price and the tree is unchanged.
\<close>

theorem storage_scan_range:
  fixes w :: "(nat, 't Lookup) ffi"
  assumes "btree_ok bt ok L" "is_Lookup bt kv" "lookup_ok ok L (f_env w)" "heap_ok (f_heap w)"
    "short start" "short stop" "start \<noteq> Some []" "stop \<noteq> Some []" "affords (f_env w) RangePrice"
    "c \<noteq> 0" "length its < 2 ^ 32" "length (frame_of (f_iters w) c) < frameLenLimit"
    "\<forall>(k, v)\<in>set (range_pairs L (order = Descending) start stop (f_env w)). length k < 2 ^ 64 \<and> length v < 2 ^ 64"
    "length (range_pairs L (order = Descending) start stop (f_env w)) < n"
  shows "\<exists>st w1 gi w2. GoStorage_scan debug (go_db kv c lookup_gas its) start stop order w =
      (Ok ((Inr (of_nat (length its)), with_externally_used 261000), st), w1) \<and>
    map_of (gs_iterators st) (of_nat (length its)) = Some gi \<and>
    collect lookup_iterators lookup_gas n gi w1 = (range_pairs L (order = Descending) start stop (f_env w), True, w2) \<and>
    db_btree (lk_db (f_env w1)) = db_btree (lk_db (f_env w)) \<and> blocks (f_heap w2) = blocks (f_heap w)"
proof -
  from metered_scan [OF assms(1,3,7-9,2), of order] obtain l' m where
    l': "metered_env lookup_gas (scan_op kv order start stop) (f_env w) = (Inr (Some m, RangePrice), l')" "lookup_ok ok L l'"
      "remaining_items l' m = range_pairs L (order = Descending) start stop (f_env w)" "db_btree (lk_db l') = db_btree (lk_db (f_env w))"
    by blast
  have "frameLenLimit \<le> 2147483647" by (simp add: frameLenLimit_def)
  then obtain i st where store: "storeIterator c (Some m) frameLenLimit (f_iters w) = ((i, None), st)"
    using assms(12) by (cases rule: storeIterator_cases [of _ "f_iters w" c "Some m"]) auto
  let ?gi = "\<lparr>gi_gas_meter = True, gi_reference = \<lparr>call_id = c, iterator_id = i\<rparr>, gi_vtable = True\<rparr>"
  from GoStorage_scan_stored [OF assms(5,6,11) l'(1) store, of debug] obtain w1 where
    w1: "GoStorage_scan debug (go_db kv c lookup_gas its) start stop order w =
        (Ok ((Inr (of_nat (length its)), with_externally_used 261000), go_db kv c lookup_gas (AList.update (of_nat (length its)) ?gi its)), w1)"
      "f_env w1 = l'" "f_iters w1 = st" "f_heap w1 = f_heap w" by (auto simp: RangePrice_def)
  have "iterators_ok (f_env w1)" "heap_ok (f_heap w1)" using l'(2) w1(2,4) assms(4) by (simp_all add: lookup_ok_def)
  moreover have "retrieveIterator c i (f_iters w1) = Some m" using registry.retrieve_stored [OF store] w1(3) by simp
  ultimately obtain w2 where w2: "collect lookup_iterators lookup_gas n ?gi w1 = (remaining_items (f_env w1) m, True, w2)"
      "blocks (f_heap w2) = blocks (f_heap w1)"
    using lookup_iter.collect_remaining [of w1 c i m ?gi n] assms(10,13,14) l'(3) w1(2) by auto
  with w1 l'(3,4) show ?thesis by (auto simp: go_db_def update_conv)
qed

theorem storage_scan_range_witness:
  "\<exists>st w1 gi w2. GoStorage_scan (\<lambda>_. []) (go_db test_store 7 lookup_gas []) (Some ''b'') None Ascending pair_chain =
      (Ok ((Inr 0, with_externally_used 261000), st), w1) \<and> map_of (gs_iterators st) 0 = Some gi \<and>
    collect lookup_iterators lookup_gas 5 gi w1 = ([(''b'', ''2'')], True, w2)"
proof -
  have less: "''a'' < ''b''" by code_simp
  have ok: "lookup_ok (sorted_wrt item_Less) id (f_env pair_chain)" "heap_ok (f_heap pair_chain)" "affords (f_env pair_chain) RangePrice"
    using test_chain_ok(3,6) less
    by (auto simp: pair_chain_def lookup_ok_def db_ok_def iterators_ok_def affords_def item_Less_iff newPair_def)
  have frame: "length (frame_of (f_iters pair_chain) 7) < frameLenLimit"
    by (simp add: pair_chain_def test_chain_def iter_init_def frameLenLimit_def)
  have range: "range_pairs id (Ascending = Descending) (Some ''b'') None (f_env pair_chain) = [(''b'', ''2'')]"
    using less by (auto simp: range_pairs_def pair_chain_def in_range_def newPair_def pair_of_def)
  have "short (Some ''b'')" "short None" by (simp_all add: short_def)
  from storage_scan_range [OF list_btree_ok test_chain_ok(1) ok(1,2) this _ _ ok(3) _ _ frame, of "[]" Ascending 5 "\<lambda>_. []"]
  show ?thesis unfolding range by auto
qed

definition balance_query :: "string \<Rightarrow> string \<Rightarrow> QueryRequest" where
  "balance_query addr denom = QueryRequest_zero\<lparr>QueryRequest_Bank := Some (BankQuery_zero\<lparr>BankQuery_Balance :=
     Some \<lparr>BalanceQuery_Address = addr, BalanceQuery_Denom = denom\<rparr>\<rparr>)\<rparr>"

lemma balance_query_json:
  "QueryRequest_to_json (balance_query addr denom) =
     JObj [(''bank'', JObj [(''balance'', JObj [(''address'', JStr addr), (''denom'', JStr denom)])])]"
  by (simp add: balance_query_def QueryRequest_zero_def QueryRequest_to_json_def BankQuery_zero_def BankQuery_to_json_def
      BalanceQuery_to_json_def fld_def fld_omit_def json_ptr_def)

text \<open>What the account holds of a denomination, and the answer that says so.\<close>

definition balance_in :: "string \<Rightarrow> Coin slice \<Rightarrow> string \<Rightarrow> string \<Rightarrow> Coin" where
  "balance_in owner coins addr denom =
     (case find (\<lambda>c. Coin_Denom c = denom) (rev (if addr = owner then elems coins else [])) of
        Some c \<Rightarrow> c
      | None \<Rightarrow> \<lparr>Coin_Denom = denom, Coin_Amount = ''0''\<rparr>)"

definition balance_answer :: "Coin \<Rightarrow> QuerierResult" where
  "balance_answer coin = \<lparr>QuerierResult_Ok = Some \<lparr>QueryResult_Ok = Some (json_print (BalanceResponse_to_json \<lparr>BalanceResponse_Amount = coin\<rparr>)),
      QueryResult_Err = []\<rparr>, QuerierResult_Err = None\<rparr>"

lemma DefaultQuerier_balance:
  "MockQuerier_Query (balance_query addr denom) gas (DefaultQuerier owner coins) =
    ((Some (json_print (BalanceResponse_to_json \<lparr>BalanceResponse_Amount = balance_in owner coins addr denom\<rparr>)), None),
     (DefaultQuerier owner coins)\<lparr>MockQuerier_usedGas := of_nat (length (json_print (QueryRequest_to_json (balance_query addr denom))))\<rparr>)"
proof -
  have "pick_coin denom (elems (balances_of (MockQuerier_Bank (DefaultQuerier owner coins)) addr)) (NewCoin 0 denom) =
      balance_in owner coins addr denom"
    by (simp add: pick_coin_last balance_in_def DefaultQuerier_def NewBankQuerier_def balances_of_def NewCoin_def dec.simps digit_lits)
  then show ?thesis
    by (simp add: MockQuerier_Query_def BankQuerier_Query_def Let_def balance_query_def BankQuery_zero_def DefaultQuerier_def)
qed

text \<open>
  C10: a contract that asks the test chain for a balance gets it.  The request written as JSON reaches the
  bank module of the default querier; the answer is the last coin of the denomination in the
  account, or zero of it when the account or the denomination is missing, and the gas charged is the
  length of the request.
\<close>

theorem bank_balance_end_to_end:
  fixes w :: "('i, MockQuerier) ffi"
  assumes "heap_ok (f_heap w)" "f_env w = DefaultQuerier owner coins" "utf8_valid addr" "utf8_valid denom"
    "length (json_print (QueryRequest_to_json (balance_query addr denom))) < 2 ^ 31"
    "length (json_print (QuerierResult_to_json (balance_answer (balance_in owner coins addr denom)))) < 2 ^ 64"
  shows "\<exists>w'. query_raw parse (buildQuerier je mock_querier) (json_print (QueryRequest_to_json (balance_query addr denom))) gas w =
      (Ok (query_result parse (Inr (balance_answer (balance_in owner coins addr denom),
        of_nat (length (json_print (QueryRequest_to_json (balance_query addr denom))))))), w') \<and>
    blocks (f_heap w') = blocks (f_heap w)"
proof -
  let ?request = "json_print (QueryRequest_to_json (balance_query addr denom))"
  have wf: "wf_json (QueryRequest_to_json (balance_query addr denom))"
    "json_depth (QueryRequest_to_json (balance_query addr denom)) \<le> maxNestingDepth"
    using assms(3,4) by (simp_all add: balance_query_json maxNestingDepth_def)
  have norm: "QueryRequest_norm (balance_query addr denom) = balance_query addr denom"
    by (simp add: QueryRequest_norm_def balance_query_def QueryRequest_zero_def)
  have "RustQuery je mock_querier (Some ?request) gas (f_env w) = (Return (balance_answer (balance_in owner coins addr denom)),
      (f_env w)\<lparr>MockQuerier_usedGas := of_nat (length ?request)\<rparr>)"
    using QueryRequest_codec.unmarshal_print [OF _ wf] DefaultQuerier_balance
    by (simp add: RustQuery_def norm mock_querier_def ToQuerierResult_def balance_answer_def assms(2))
  then have "metered_env (QuerierGasConsumed mock_querier) (RustQuery je mock_querier (Some ?request) gas) (f_env w) =
      (Inr (balance_answer (balance_in owner coins addr denom), of_nat (length ?request)),
       (f_env w)\<lparr>MockQuerier_usedGas := of_nat (length ?request)\<rparr>)"
    by (simp add: metered_env_def mock_querier_def MockQuerier_GasConsumed_def assms(2) DefaultQuerier_def)
  moreover have "short (Some ?request)" using assms(5) by (simp add: short_def)
  ultimately show ?thesis using query_raw_run [OF _ assms(1), of ?request mock_querier je gas] assms(6) by fastforce
qed

definition bank_chain :: "(unit, MockQuerier) ffi" where
  "bank_chain = \<lparr>f_env = DefaultQuerier ''me'' (Some [\<lparr>Coin_Denom = ''ATOM'', Coin_Amount = ''5''\<rparr>]), f_iters = iter_init,
     f_heap = empty_heap, f_usedGas = None, f_out = None, f_out2 = None, f_errOut = None, f_iter = None\<rparr>"

theorem bank_balance_end_to_end_witness:
  "\<exists>w'. query_raw (\<lambda>t. Inr t) (buildQuerier (\<lambda>_. []) mock_querier) (json_print (QueryRequest_to_json (balance_query ''me'' ''ATOM''))) 9 bank_chain =
      (Ok (query_result (\<lambda>t. Inr t) (Inr (balance_answer \<lparr>Coin_Denom = ''ATOM'', Coin_Amount = ''5''\<rparr>, 52))), w') \<and>
    blocks (f_heap w') = blocks (f_heap bank_chain)"
proof -
  have coin: "balance_in ''me'' (Some [\<lparr>Coin_Denom = ''ATOM'', Coin_Amount = ''5''\<rparr>]) ''me'' ''ATOM'' = \<lparr>Coin_Denom = ''ATOM'', Coin_Amount = ''5''\<rparr>"
    by (simp add: balance_in_def)
  have len: "length (json_print (QueryRequest_to_json (balance_query ''me'' ''ATOM''))) = 52"
    by (simp add: balance_query_json json_quote_def esc_ascii_def)
  have "length (json_print (QuerierResult_to_json (balance_answer \<lparr>Coin_Denom = ''ATOM'', Coin_Amount = ''5''\<rparr>))) < 2 ^ 64"
    by (simp add: balance_answer_def QuerierResult_to_json_def fld_def fld_omit_def json_ptr_def QueryResult_MarshalJSON_def queryResultImpl_to_json_def
        json_bytes_def json_quote_def esc_ascii_def b64_char_def BalanceResponse_to_json_def Coin_to_json_def)
  moreover have "heap_ok (f_heap bank_chain)" by (simp add: bank_chain_def heap_ok_def empty_heap_def)
  ultimately show ?thesis
    using bank_balance_end_to_end [of bank_chain "''me''" "Some [\<lparr>Coin_Denom = ''ATOM'', Coin_Amount = ''5''\<rparr>]" "''me''" "''ATOM''"
        "\<lambda>t. Inr t" "\<lambda>_. []" 9]
    unfolding coin len by (simp add: bank_chain_def)
qed

end
